(* ===== verification/Kuke_Prelude.thy ===== *)
theory Kuke_Prelude
  imports Main "HOL-Library.Word" "HOL-Library.Sublist"
begin

text \<open>
  The vocabulary shared by the component theories: Go slices, maps and pointers, formatted
  messages, the error sentinels of \<^verbatim>\<open>internal/errdefs/errdefs.go\<close> the modelled code returns,
  64-bit wrap-around, \<^verbatim>\<open>strings.TrimSpace\<close> on UTF-8 bytes and decimal printing.
\<close>

named_theorems go_defs \<open>definitions of the Go data model that proofs unfold\<close>

section \<open>Slices, maps and pointers\<close>

text \<open>
  A Go slice is \<open>None\<close> when it is nil; a nil and an empty slice have the same elements. A Go map
  is an association list with distinct keys, in the order one iteration visits it; a missing key
  reads back as the zero value. A pointer whose identity the code compares carries its address.
\<close>

type_synonym 'a slice = "'a list option"

definition elems :: "'a slice \<Rightarrow> 'a list" where
  "elems s = (case s of None \<Rightarrow> [] | Some xs \<Rightarrow> xs)"

lemma elems_simps [simp]: "elems None = []" "elems (Some xs) = xs"
  by (simp_all add: elems_def)

type_synonym ('k, 'v) gomap = "('k \<times> 'v) list"

definition gomap_ok :: "('k, 'v) gomap \<Rightarrow> bool" where
  "gomap_ok m \<longleftrightarrow> distinct (map fst m)"

definition map_get :: "'v \<Rightarrow> ('k, 'v) gomap \<Rightarrow> 'k \<Rightarrow> 'v" where
  "map_get zero m k = (case map_of m k of None \<Rightarrow> zero | Some v \<Rightarrow> v)"

definition map_put :: "'k \<Rightarrow> 'v \<Rightarrow> ('k, 'v) gomap \<Rightarrow> ('k, 'v) gomap" where
  "map_put k v m = (if k \<in> fst ` set m then map (\<lambda>(k', v'). (k', if k' = k then v else v')) m
                    else m @ [(k, v)])"

lemma map_of_map_put [simp]: "map_of (map_put k v m) = (map_of m)(k \<mapsto> v)"
proof (cases "k \<in> fst ` set m")
  case True
  have "map_of (map (\<lambda>(k', v'). (k', if k' = k then v else v')) m) =
      (\<lambda>x. if x = k then map_option (\<lambda>_. v) (map_of m k) else map_of m x)"
    by (induction m) (auto simp: fun_eq_iff)
  moreover obtain v' where "map_of m k = Some v'"
    using True by (metis map_of_eq_None_iff not_None_eq)
  ultimately show ?thesis
    using True by (simp add: map_put_def fun_eq_iff)
next
  case False
  then have "map_of m k = None"
    by (simp add: map_of_eq_None_iff)
  then show ?thesis
    using False by (auto simp: map_put_def fun_eq_iff map_add_def split: option.splits)
qed

lemma keys_map_put: "fst ` set (map_put k v m) = insert k (fst ` set m)"
  by (auto simp: map_put_def image_iff split: if_splits; force)

lemma gomap_ok_map_put [intro]: "gomap_ok m \<Longrightarrow> gomap_ok (map_put k v m)"
  by (auto simp: gomap_ok_def map_put_def comp_def case_prod_beta)

lemma map_get_map_put [simp]: "map_get z (map_put k v m) k' = (if k' = k then v else map_get z m k')"
  by (simp add: map_get_def)

datatype 'a goptr = NilPtr | Ptr (addr: nat) (deref: 'a)

fun ptr_eq :: "'a goptr \<Rightarrow> 'a goptr \<Rightarrow> bool" where
  "ptr_eq NilPtr NilPtr = True"
| "ptr_eq (Ptr a _) (Ptr b _) = (a = b)"
| "ptr_eq _ _ = False"

fun ptr_val :: "'a goptr \<Rightarrow> 'a option" where
  "ptr_val NilPtr = None"
| "ptr_val (Ptr _ v) = Some v"

lemma ptr_eq_refl [simp]: "ptr_eq p p"
  by (cases p) simp_all

section \<open>Messages and errors\<close>

text \<open>
  \<^verbatim>\<open>fmt.Sprintf\<close> calls are kept as their format string and arguments; no modelled branch reads
  a rendered message.
\<close>

datatype fmtarg = QStr string | VBool bool | DInt int

datatype message = Msg string | Sprintf string "fmtarg list"

datatype goerror =
    ErrInvalidSubnetCIDR
  | ErrSubnetStateCorrupt
  | ErrSubnetExhausted
  | ErrConfig
  | ErrIO
  | ErrSpaceNameRequired
  | ErrStackNameRequired
  | ErrCellIDRequired
  | ErrContainerIDRequired
  | ErrRealmNameRequired
  | ErrInvalidRealmName
  | ErrInvalidName
  | ErrNameEmpty
  | ErrKindRequired
  | ErrCellNameCollision
  | ErrCellNotFound
  | ErrConnectContainerd
  | ErrGetRealm
  | ErrTaskNotFound
  | ErrContainerNotFound
  | ErrStaleResource
  | ErrMissingMetadataFile
  | ErrWriteMetadata
  | ErrConversionFailed
  | ErrDecode
  | ErrCellSpecHashDrift
  | ErrUnknownLabel
  | ErrOutOfRange
  | ErrExpectedStringOrInt
  | ErrExpectedScalar
  | ErrAtoi
  | ErrEgressInvalidDefault
  | ErrEgressRuleTargetRequired
  | ErrEgressRuleTargetConflict
  | ErrEgressInvalidCIDR
  | ErrEgressInvalidHost
  | ErrEgressInvalidPort
  | ErrKillCell
  | ErrDeleteCell
  | ErrRestartContainer
  | ErrMultipleRootContainers
  | ErrRootContainerMismatch
  | ErrVolumeKindUnknown
  | ErrVolumeTmpfsSourceForbidden
  | ErrVolumeRefSourceExclusive
  | ErrVolumeRefSourceMissing
  | ErrVolumeSourceNotName
  | ErrVolumeCoordUnsafe
  | ErrVolumeTargetRequired
  | ErrVolumeTargetNotAbsolute
  | ErrVolumeRefNameRequired
  | ErrVolumeRefRealmRequired
  | ErrVolumeRefScopeIncomplete
  | ErrNamed string
  | ErrMsg message
  | Wrapped goerror goerror

text \<open>
  The sentinels of the file system (\<^verbatim>\<open>os.ErrNotExist\<close> and its neighbours) and of the stores kept
  in files are told apart by their names.
\<close>

abbreviation ErrNotExist :: goerror where "ErrNotExist \<equiv> ErrNamed ''ErrNotExist''"
abbreviation ErrNotDir :: goerror where "ErrNotDir \<equiv> ErrNamed ''ENOTDIR''"
abbreviation ErrIsDir :: goerror where "ErrIsDir \<equiv> ErrNamed ''EISDIR''"
abbreviation ErrNotEmpty :: goerror where "ErrNotEmpty \<equiv> ErrNamed ''ENOTEMPTY''"
abbreviation ErrExist :: goerror where "ErrExist \<equiv> ErrNamed ''ErrExist''"

text \<open>\<^verbatim>\<open>fmt.Errorf\<close> with \<^verbatim>\<open>%w\<close> keeps the wrapped errors, which \<^verbatim>\<open>errors.Is\<close> searches.\<close>

fun errors_Is :: "goerror \<Rightarrow> goerror \<Rightarrow> bool" where
  "errors_Is (Wrapped a b) t \<longleftrightarrow> Wrapped a b = t \<or> errors_Is a t \<or> errors_Is b t"
| "errors_Is e t \<longleftrightarrow> e = t"

definition errorfw :: "string \<Rightarrow> fmtarg list \<Rightarrow> goerror \<Rightarrow> goerror" where
  "errorfw fmt args e = Wrapped (ErrMsg (Sprintf fmt args)) e"

definition errorf :: "string \<Rightarrow> fmtarg list \<Rightarrow> goerror" where
  "errorf fmt args = ErrMsg (Sprintf fmt args)"

type_synonym 'a result = "goerror + 'a"

definition rbind :: "'a result \<Rightarrow> ('a \<Rightarrow> 'b result) \<Rightarrow> 'b result" where
  "rbind r f = (case r of Inl e \<Rightarrow> Inl e | Inr x \<Rightarrow> f x)"

lemma rbind_simps [simp]: "rbind (Inl e) f = Inl e" "rbind (Inr x) f = f x"
  by (simp_all add: rbind_def)

lemma rbind_eq_Inr: "rbind r f = Inr y \<longleftrightarrow> (\<exists>x. r = Inr x \<and> f x = Inr y)"
  by (cases r) simp_all

definition map_err :: "(goerror \<Rightarrow> goerror) \<Rightarrow> 'a result \<Rightarrow> 'a result" where
  "map_err f r = (case r of Inl e \<Rightarrow> Inl (f e) | Inr x \<Rightarrow> Inr x)"

lemma map_err_simps [simp]: "map_err f (Inl e) = Inl (f e)" "map_err f (Inr x) = Inr x"
  by (simp_all add: map_err_def)

lemma map_err_eq_Inr [simp]: "map_err f r = Inr x \<longleftrightarrow> r = Inr x"
  by (cases r) simp_all

text \<open>A loop that validates each element and returns the first error.\<close>

fun first_error :: "('a \<Rightarrow> unit result) \<Rightarrow> 'a list \<Rightarrow> unit result" where
  "first_error f [] = Inr ()"
| "first_error f (x # xs) = rbind (f x) (\<lambda>_. first_error f xs)"

lemma first_error_ok: "first_error f xs = Inr () \<longleftrightarrow> list_all (\<lambda>x. f x = Inr ()) xs"
  by (induction xs) (auto simp: rbind_eq_Inr)

lemma first_error_eq_Inr: "first_error f xs = Inr u \<longleftrightarrow> list_all (\<lambda>x. f x = Inr ()) xs"
  using first_error_ok[of f xs] by (cases u) simp

definition when_ok :: "bool \<Rightarrow> goerror \<Rightarrow> unit result" where
  "when_ok c e = (if c then Inr () else Inl e)"

lemma when_ok_iff [simp]: "when_ok c e = Inr u \<longleftrightarrow> c"
  by (simp add: when_ok_def)

text \<open>A conditional update: \<^verbatim>\<open>if c { ... }\<close> over the state a handler threads.\<close>

definition guarded :: "bool \<Rightarrow> ('s \<Rightarrow> 's) \<Rightarrow> 's \<Rightarrow> 's" where
  "guarded c f s = (if c then f s else s)"

lemma guarded_simps [simp]: "guarded True f s = f s" "guarded False f s = s"
  by (simp_all add: guarded_def)

fun run_steps :: "('s \<Rightarrow> 's) list \<Rightarrow> 's \<Rightarrow> 's" where
  "run_steps [] s = s"
| "run_steps (f # fs) s = run_steps fs (f s)"

lemma run_steps_append [simp]: "run_steps (fs @ gs) s = run_steps gs (run_steps fs s)"
  by (induction fs arbitrary: s) simp_all

lemma run_steps_invariant:
  assumes "\<And>f s. f \<in> set fs \<Longrightarrow> P s \<Longrightarrow> P (f s)" and "P s"
  shows "P (run_steps fs s)"
  using assms by (induction fs arbitrary: s) auto

section \<open>Sixty-four-bit integers and time\<close>

text \<open>\<^verbatim>\<open>int64\<close> arithmetic wraps; \<^verbatim>\<open>time.Duration\<close> is an \<^verbatim>\<open>int64\<close> of nanoseconds.\<close>

definition wrap64 :: "int \<Rightarrow> int" where
  "wrap64 x = (x + 2 ^ 63) mod 2 ^ 64 - 2 ^ 63"

lemma wrap64_id: "- (2 ^ 63) \<le> x \<Longrightarrow> x < 2 ^ 63 \<Longrightarrow> wrap64 x = x"
  by (simp add: wrap64_def)

lemma wrap64_range: "- (2 ^ 63) \<le> wrap64 x \<and> wrap64 x < 2 ^ 63"
  by (simp add: wrap64_def)

text \<open>
  A \<^verbatim>\<open>time.Time\<close> is its distance in nanoseconds from the zero time, which \<^verbatim>\<open>IsZero\<close> tests;
  \<^verbatim>\<open>Sub\<close> saturates at the bounds of a duration.
\<close>

type_synonym gotime = int

definition IsZero :: "gotime \<Rightarrow> bool" where
  "IsZero t \<longleftrightarrow> t = 0"

definition time_Sub :: "gotime \<Rightarrow> gotime \<Rightarrow> int" where
  "time_Sub t u = max (- (2 ^ 63)) (min (2 ^ 63 - 1) (t - u))"

definition time_Second :: int where
  "time_Second = 1000000000"

section \<open>strings.TrimSpace\<close>

text \<open>
  The white-space runes of \<^verbatim>\<open>unicode.IsSpace\<close> in UTF-8. A valid encoding at the start (at the
  end) of a byte string is what decoding its first (last) rune returns.
\<close>

definition space_runes :: "string list" where
  "space_runes =
    [[CHR 0x09], [CHR 0x0A], [CHR 0x0B], [CHR 0x0C], [CHR 0x0D], [CHR 0x20],
     [CHR 0xC2, CHR 0x85], [CHR 0xC2, CHR 0xA0], [CHR 0xE1, CHR 0x9A, CHR 0x80],
     [CHR 0xE2, CHR 0x80, CHR 0x80], [CHR 0xE2, CHR 0x80, CHR 0x81],
     [CHR 0xE2, CHR 0x80, CHR 0x82], [CHR 0xE2, CHR 0x80, CHR 0x83],
     [CHR 0xE2, CHR 0x80, CHR 0x84], [CHR 0xE2, CHR 0x80, CHR 0x85],
     [CHR 0xE2, CHR 0x80, CHR 0x86], [CHR 0xE2, CHR 0x80, CHR 0x87],
     [CHR 0xE2, CHR 0x80, CHR 0x88], [CHR 0xE2, CHR 0x80, CHR 0x89],
     [CHR 0xE2, CHR 0x80, CHR 0x8A], [CHR 0xE2, CHR 0x80, CHR 0xA8],
     [CHR 0xE2, CHR 0x80, CHR 0xA9], [CHR 0xE2, CHR 0x80, CHR 0xAF],
     [CHR 0xE2, CHR 0x81, CHR 0x9F], [CHR 0xE3, CHR 0x80, CHR 0x80]]"

function strip_runes :: "string list \<Rightarrow> string \<Rightarrow> string" where
  "strip_runes rs s =
     (case find (\<lambda>p. p \<noteq> [] \<and> prefix p s) rs of
        None \<Rightarrow> s
      | Some p \<Rightarrow> strip_runes rs (drop (length p) s))"
  by pat_completeness auto
termination
  by (relation "measure (\<lambda>(rs, s). length s)")
    (auto simp: find_Some_iff dest: prefix_length_le intro!: diff_less)

declare strip_runes.simps [simp del]

definition TrimSpace :: "string \<Rightarrow> string" where
  "TrimSpace s = rev (strip_runes (map rev space_runes) (rev (strip_runes space_runes s)))"

definition unpadded :: "string list \<Rightarrow> string \<Rightarrow> bool" where
  "unpadded rs s \<longleftrightarrow> (\<forall>p \<in> set rs. p \<noteq> [] \<longrightarrow> \<not> prefix p s)"

lemma strip_runes_unpadded [simp]: "unpadded rs (strip_runes rs s)"
proof (induction rs s rule: strip_runes.induct)
  case (1 rs s)
  show ?case
    by (subst strip_runes.simps)
      (auto split: option.splits simp: find_None_iff dest: 1 simp: unpadded_def)
qed

lemma strip_runes_id: "unpadded rs s \<Longrightarrow> strip_runes rs s = s"
  by (subst strip_runes.simps) (auto split: option.splits simp: unpadded_def find_Some_iff)

lemma strip_runes_suffix: "suffix (strip_runes rs s) s"
proof (induction rs s rule: strip_runes.induct)
  case (1 rs s)
  show ?case
    by (subst strip_runes.simps)
      (auto split: option.splits dest!: 1 intro: suffix_order.trans suffix_drop)
qed

lemma unpadded_prefix: "unpadded rs s \<Longrightarrow> prefix t s \<Longrightarrow> unpadded rs t"
  by (auto simp: unpadded_def intro: prefix_order.trans)

lemma TrimSpace_idem [simp]: "TrimSpace (TrimSpace s) = TrimSpace s"
proof -
  let ?l = "strip_runes space_runes s"
  let ?r = "strip_runes (map rev space_runes) (rev ?l)"
  have "prefix (rev ?r) ?l"
    using strip_runes_suffix[of "map rev space_runes" "rev ?l"]
    by (simp add: suffix_to_prefix)
  then have "unpadded space_runes (rev ?r)"
    by (rule unpadded_prefix[rotated]) simp
  then show ?thesis
    by (simp add: TrimSpace_def strip_runes_id)
qed

lemma set_strip_runes: "set (strip_runes rs s) \<subseteq> set s"
  by (rule set_mono_suffix[OF strip_runes_suffix])

lemma set_TrimSpace: "set (TrimSpace s) \<subseteq> set s"
  using set_strip_runes[of "map rev space_runes" "rev (strip_runes space_runes s)"]
    set_strip_runes[of space_runes s] by (auto simp: TrimSpace_def)

section \<open>Decimal printing\<close>

text \<open>The digits \<^verbatim>\<open>fmt\<close> and \<^verbatim>\<open>strconv.Itoa\<close> print for a non-negative integer.\<close>

definition digit_char :: "nat \<Rightarrow> char" where
  "digit_char d = ''0123456789'' ! d"

fun show_nat :: "nat \<Rightarrow> string" where
  "show_nat n = (if n < 10 then [digit_char n] else show_nat (n div 10) @ [digit_char (n mod 10)])"

declare show_nat.simps [simp del]

definition char_digit :: "char \<Rightarrow> nat option" where
  "char_digit c = (let n = of_char c :: nat in if 48 \<le> n \<and> n \<le> 57 then Some (n - 48) else None)"

lemma char_digit_digit_char [simp]:
  assumes "d < 10"
  shows "char_digit (digit_char d) = Some d"
proof -
  have "d \<in> {0, 1, 2, 3, 4, 5, 6, 7, 8, 9}"
    using assms by auto
  then show ?thesis
    by (auto simp: char_digit_def digit_char_def)
qed

definition is_digit :: "char \<Rightarrow> bool" where
  "is_digit c \<longleftrightarrow> char_digit c \<noteq> None"

lemma is_digit_digit_char [simp]: "d < 10 \<Longrightarrow> is_digit (digit_char d)"
  by (simp add: is_digit_def)

definition digits_value :: "string \<Rightarrow> nat" where
  "digits_value s = foldl (\<lambda>n c. 10 * n + (case char_digit c of None \<Rightarrow> 0 | Some d \<Rightarrow> d)) 0 s"

lemma digits_value_snoc: "digits_value (s @ [c]) =
    10 * digits_value s + (case char_digit c of None \<Rightarrow> 0 | Some d \<Rightarrow> d)"
  by (simp add: digits_value_def)

lemma show_nat_digits: "c \<in> set (show_nat n) \<Longrightarrow> is_digit c"
proof (induction n rule: show_nat.induct)
  case (1 n)
  then show ?case
    by (cases "n < 10") (auto simp: show_nat.simps[of n])
qed

lemma digits_value_show_nat [simp]: "digits_value (show_nat n) = n"
proof (induction n rule: show_nat.induct)
  case (1 n)
  show ?case
  proof (cases "n < 10")
    case True
    then show ?thesis
      by (simp add: show_nat.simps[of n] digits_value_def)
  next
    case False
    then show ?thesis
      using 1 by (simp add: show_nat.simps[of n] digits_value_snoc)
  qed
qed

lemma show_nat_inject [simp]: "show_nat m = show_nat n \<longleftrightarrow> m = n"
  by (metis digits_value_show_nat)

lemma show_nat_nonempty [simp]: "show_nat n \<noteq> []"
  by (subst show_nat.simps) simp

definition all_digits :: "string \<Rightarrow> bool" where
  "all_digits s \<longleftrightarrow> s \<noteq> [] \<and> list_all is_digit s"

lemma all_digits_show_nat [simp]: "all_digits (show_nat n)"
  using show_nat_digits by (auto simp: all_digits_def list_all_iff)

lemma hd_show_nat: "0 < n \<Longrightarrow> hd (show_nat n) \<noteq> CHR ''0''"
proof (induction n rule: show_nat.induct)
  case (1 n)
  show ?case
  proof (cases "n < 10")
    case True
    have "digit_char n \<noteq> CHR ''0''"
    proof
      assume "digit_char n = CHR ''0''"
      then have "char_digit (digit_char n) = Some 0"
        by (simp add: char_digit_def)
      with True "1.prems" show False
        by simp
    qed
    with True show ?thesis
      by (simp add: show_nat.simps[of n])
  next
    case False
    then show ?thesis
      using "1.IH" by (simp add: show_nat.simps[of n] hd_append)
  qed
qed

lemma length_show_nat_0 [simp]: "show_nat 0 = ''0''"
  by (simp add: show_nat.simps digit_char_def)

section \<open>Splitting and joining\<close>

text \<open>\<^verbatim>\<open>strings.Split\<close> on a one-byte separator.\<close>

fun split_on :: "char \<Rightarrow> string \<Rightarrow> string list" where
  "split_on c [] = [[]]"
| "split_on c (x # xs) =
     (if x = c then [] # split_on c xs
      else case split_on c xs of [] \<Rightarrow> [[x]] | y # ys \<Rightarrow> (x # y) # ys)"

lemma split_on_nonempty [simp]: "split_on c s \<noteq> []"
  by (induction s) (auto split: list.splits)

lemma split_on_none: "c \<notin> set s \<Longrightarrow> split_on c s = [s]"
  by (induction s) auto

lemma split_on_append: "c \<notin> set s \<Longrightarrow> split_on c (s @ c # t) = s # split_on c t"
  by (induction s) auto

lemma separated_inject:
  assumes "x @ c # xs = y @ c # ys" and "c \<notin> set x" and "c \<notin> set y"
  shows "x = y \<and> xs = ys"
  using assms
proof (induction x arbitrary: y)
  case Nil
  then show ?case by (cases y) auto
next
  case (Cons a x)
  then show ?case by (cases y) auto
qed

lemma TrimSpace_digit_ends:
  assumes "s \<noteq> []" "is_digit (hd s)" "is_digit (last s)"
  shows "TrimSpace s = s"
proof -
  have no: "\<forall>p \<in> set space_runes. \<not> is_digit (hd p) \<and> \<not> is_digit (last p)"
    by code_simp
  have "unpadded space_runes s"
    using no assms(2) by (auto simp: unpadded_def prefix_def hd_append)
  moreover have "unpadded (map rev space_runes) (rev s)"
    using no assms(1,3) by (auto simp: unpadded_def prefix_def rev_eq_append_conv last_append)
  ultimately show ?thesis
    by (simp add: TrimSpace_def strip_runes_id)
qed

end
