(* ===== verification/Subnet.thy ===== *)
theory Subnet
  imports Kuke_Prelude
begin

unbundle bit_operations_syntax

text \<open>
  The per-space subnet allocator, \<^verbatim>\<open>internal/cni/subnet.go\<close>. Addresses are 32-bit words; the
  metadata tree below \<^verbatim>\<open>dataRoot\<close> is an explicit directory tree, so the scan of \<^verbatim>\<open>network.json\<close>
  files, missing and unreadable directories, corrupt files and torn writes are branches of the
  model. Realm and space names are single path components.
\<close>

section \<open>Addresses\<close>

type_synonym ip4 = "8 word \<times> 8 word \<times> 8 word \<times> 8 word"

fun ipToUint32 :: "ip4 \<Rightarrow> 32 word" where
  "ipToUint32 (a, b, c, d) =
     push_bit 24 (ucast a) OR push_bit 16 (ucast b) OR push_bit 8 (ucast c) OR ucast d"

definition uint32ToIP :: "32 word \<Rightarrow> ip4" where
  "uint32ToIP v = (ucast (drop_bit 24 v), ucast (drop_bit 16 v), ucast (drop_bit 8 v), ucast v)"

fun ip_String :: "ip4 \<Rightarrow> string" where
  "ip_String (a, b, c, d) =
     show_nat (unat a) @ ''.'' @ show_nat (unat b) @ ''.'' @ show_nat (unat c) @ ''.'' @
     show_nat (unat d)"

text \<open>
  \<^verbatim>\<open>net.ParseCIDR\<close> on IPv4: four decimal octets without leading zeros, a slash, a prefix length of
  at most 32; the host bits are cleared. Any other input makes the constructor fail: a malformed
  string is an error, and an IPv6 network either has no \<^verbatim>\<open>To4\<close> form or a prefix of at least 96.
\<close>

definition clear_low :: "nat \<Rightarrow> 32 word \<Rightarrow> 32 word" where
  "clear_low k v = push_bit k (drop_bit k v)"

definition parse_octet :: "string \<Rightarrow> 8 word option" where
  "parse_octet s =
     (if all_digits s \<and> (length s = 1 \<or> hd s \<noteq> CHR ''0'') \<and> digits_value s \<le> 255
      then Some (word_of_nat (digits_value s)) else None)"

definition parse_ip4 :: "string \<Rightarrow> ip4 option" where
  "parse_ip4 s =
     (case split_on CHR ''.'' s of
        [a, b, c, d] \<Rightarrow>
          (case (parse_octet a, parse_octet b, parse_octet c, parse_octet d) of
             (Some a, Some b, Some c, Some d) \<Rightarrow> Some (a, b, c, d)
           | _ \<Rightarrow> None)
      | _ \<Rightarrow> None)"

definition ParseCIDR4 :: "string \<Rightarrow> (32 word \<times> nat) option" where
  "ParseCIDR4 s =
     (let addr = takeWhile (\<lambda>c. c \<noteq> CHR ''/'') s; rest = dropWhile (\<lambda>c. c \<noteq> CHR ''/'') s in
      case rest of
        [] \<Rightarrow> None
      | _ # m \<Rightarrow>
          (case parse_ip4 addr of
             None \<Rightarrow> None
           | Some ip \<Rightarrow>
               if all_digits m \<and> digits_value m \<le> 32
               then Some (clear_low (32 - digits_value m) (ipToUint32 ip), digits_value m)
               else None))"

section \<open>The allocator\<close>

definition DefaultSubnetParentCIDR :: string where
  "DefaultSubnetParentCIDR = ''10.88.0.0/16''"

definition DefaultSubnetPrefixLen :: int where
  "DefaultSubnetPrefixLen = 24"

definition ipv4Bits :: int where
  "ipv4Bits = 32"

record SubnetAllocator =
  sa_parentCIDR :: string
  sa_prefixLen :: int
  sa_parsedNet :: "32 word"
  sa_parentSize :: nat
  sa_parentBits :: int
  sa_subnetSpan :: "32 word"

definition NewSubnetAllocator :: "string \<Rightarrow> int \<Rightarrow> SubnetAllocator result" where
  "NewSubnetAllocator parentCIDR prefixLen =
     (case ParseCIDR4 parentCIDR of
        None \<Rightarrow> Inl ErrInvalidSubnetCIDR
      | Some (net, bits) \<Rightarrow>
          let parentBits = int bits in
          if prefixLen \<le> parentBits \<or> prefixLen > ipv4Bits then Inl ErrInvalidSubnetCIDR
          else
            let span = push_bit (nat (ipv4Bits - prefixLen)) 1 :: 32 word;
                totalSubnets = push_bit (nat (prefixLen - parentBits)) 1 :: 32 word
            in Inr \<lparr>sa_parentCIDR = parentCIDR, sa_prefixLen = prefixLen, sa_parsedNet = net,
                    sa_parentSize = unat totalSubnets, sa_parentBits = parentBits,
                    sa_subnetSpan = span\<rparr>)"

text \<open>
  \<^verbatim>\<open>configuredSubnetParentCIDR\<close> is process-global state: the configured value is passed in and the
  new one returned.
\<close>

definition ConfigureSubnetParentCIDR :: "string \<Rightarrow> string \<Rightarrow> string result" where
  "ConfigureSubnetParentCIDR configured cidr =
     (let cidr = TrimSpace cidr in
      if cidr = '''' then Inr configured
      else rbind (NewSubnetAllocator cidr DefaultSubnetPrefixLen) (\<lambda>_. Inr cidr))"

text \<open>\<open>None\<close> is the panic of \<^verbatim>\<open>NewDefaultSubnetAllocator\<close>.\<close>

definition NewDefaultSubnetAllocator :: "string \<Rightarrow> SubnetAllocator option" where
  "NewDefaultSubnetAllocator configured =
     (case NewSubnetAllocator configured DefaultSubnetPrefixLen of Inl _ \<Rightarrow> None | Inr a \<Rightarrow> Some a)"

section \<open>The metadata tree\<close>

text \<open>
  The content of a \<^verbatim>\<open>network.json\<close>: not readable, not valid JSON, or a decoded
  \<^verbatim>\<open>SubnetState\<close> (version and subnet).
\<close>

datatype state_file = Unreadable | BadJSON | SubnetState string string

datatype space_entry = SpaceNonDir | SpaceDir "state_file option"

datatype realm_entry = RealmNonDir | RealmUnreadable | RealmDir "(string \<times> space_entry) list"

datatype data_root = RootMissing | RootUnreadable | RootDir "(string \<times> realm_entry) list"

definition read_file :: "state_file option \<Rightarrow> string result" where
  "read_file f =
     (case f of
        None \<Rightarrow> Inr ''''
      | Some Unreadable \<Rightarrow> Inl ErrIO
      | Some BadJSON \<Rightarrow> Inl ErrSubnetStateCorrupt
      | Some (SubnetState v cidr) \<Rightarrow>
          if TrimSpace cidr = '''' then Inl ErrSubnetStateCorrupt else Inr cidr)"

definition read_space :: "(string \<times> space_entry) list \<Rightarrow> string \<Rightarrow> string result" where
  "read_space ss space =
     (case map_of ss space of
        None \<Rightarrow> Inr ''''
      | Some SpaceNonDir \<Rightarrow> Inl ErrIO
      | Some (SpaceDir f) \<Rightarrow> read_file f)"

definition readState :: "data_root \<Rightarrow> string \<Rightarrow> string \<Rightarrow> string result" where
  "readState t realm space =
     (case t of
        RootMissing \<Rightarrow> Inr ''''
      | RootUnreadable \<Rightarrow> Inl ErrIO
      | RootDir rs \<Rightarrow>
          (case map_of rs realm of
             None \<Rightarrow> Inr ''''
           | Some RealmNonDir \<Rightarrow> Inl ErrIO
           | Some RealmUnreadable \<Rightarrow> Inl ErrIO
           | Some (RealmDir ss) \<Rightarrow> read_space ss space))"

definition LoadAssigned :: "data_root \<Rightarrow> string \<Rightarrow> string \<Rightarrow> string result" where
  "LoadAssigned t realm space = readState t realm space"

fun used_in_spaces :: "(string \<times> space_entry) list \<Rightarrow> string list" where
  "used_in_spaces [] = []"
| "used_in_spaces ((_, SpaceNonDir) # ss) = used_in_spaces ss"
| "used_in_spaces ((_, SpaceDir f) # ss) =
     (case read_file f of
        Inl _ \<Rightarrow> used_in_spaces ss
      | Inr subnet \<Rightarrow> if subnet = '''' then used_in_spaces ss else subnet # used_in_spaces ss)"

fun used_in_realms :: "(string \<times> realm_entry) list \<Rightarrow> string list result" where
  "used_in_realms [] = Inr []"
| "used_in_realms ((_, RealmNonDir) # rs) = used_in_realms rs"
| "used_in_realms ((_, RealmUnreadable) # rs) = Inl ErrIO"
| "used_in_realms ((_, RealmDir ss) # rs) =
     rbind (used_in_realms rs) (\<lambda>us. Inr (used_in_spaces ss @ us))"

definition usedSubnetsLocked :: "data_root \<Rightarrow> string list result" where
  "usedSubnetsLocked t =
     (case t of
        RootMissing \<Rightarrow> Inr []
      | RootUnreadable \<Rightarrow> Inl ErrIO
      | RootDir rs \<Rightarrow> used_in_realms rs)"

definition chunk_addr :: "SubnetAllocator \<Rightarrow> nat \<Rightarrow> 32 word" where
  "chunk_addr a i = sa_parsedNet a + word_of_nat i * sa_subnetSpan a"

definition chunk_cidr :: "SubnetAllocator \<Rightarrow> nat \<Rightarrow> string" where
  "chunk_cidr a i =
     ip_String (uint32ToIP (chunk_addr a i)) @ ''/'' @ show_nat (nat (sa_prefixLen a))"

fun first_free_from :: "SubnetAllocator \<Rightarrow> string list \<Rightarrow> nat \<Rightarrow> nat \<Rightarrow> string result" where
  "first_free_from a used i 0 = Inl ErrSubnetExhausted"
| "first_free_from a used i (Suc n) =
     (if chunk_cidr a i \<in> set used then first_free_from a used (Suc i) n
      else Inr (chunk_cidr a i))"

definition firstFreeLocked :: "SubnetAllocator \<Rightarrow> string list \<Rightarrow> string result" where
  "firstFreeLocked a used = first_free_from a used 0 (sa_parentSize a)"

text \<open>
  \<^verbatim>\<open>writeSubnetState\<close> creates the directories and writes the file in place. Its outcome is the
  operating system's: success, a failing \<^verbatim>\<open>MkdirAll\<close>, a failing open, or a write that fails half
  way and leaves a file that does not decode.
\<close>

datatype write_outcome = WriteOk | MkdirFails | OpenFails | WriteTorn

definition put_file :: "data_root \<Rightarrow> string \<Rightarrow> string \<Rightarrow> (state_file option \<Rightarrow> state_file option)
    \<Rightarrow> data_root option" where
  "put_file t realm space upd =
     (let rs = (case t of RootDir rs \<Rightarrow> rs | _ \<Rightarrow> []);
          realm_dir = (case map_of rs realm of
             None \<Rightarrow> Some [] | Some (RealmDir ss) \<Rightarrow> Some ss | _ \<Rightarrow> None)
      in if t = RootUnreadable then None
         else case realm_dir of
             None \<Rightarrow> None
           | Some ss \<Rightarrow>
               (case map_of ss space of
                  Some SpaceNonDir \<Rightarrow> None
                | e \<Rightarrow>
                    let old = (case e of Some (SpaceDir f) \<Rightarrow> f | _ \<Rightarrow> None)
                    in Some (RootDir (map_put realm
                         (RealmDir (map_put space (SpaceDir (upd old)) ss)) rs))))"

definition SubnetStateVersion :: string where
  "SubnetStateVersion = ''v1''"

definition writeSubnetState ::
  "write_outcome \<Rightarrow> data_root \<Rightarrow> string \<Rightarrow> string \<Rightarrow> string \<Rightarrow> unit result \<times> data_root" where
  "writeSubnetState out t realm space subnet =
     (let put = put_file t realm space in
      case out of
        MkdirFails \<Rightarrow> (Inl ErrIO, t)
      | OpenFails \<Rightarrow> (case put id of None \<Rightarrow> (Inl ErrIO, t) | Some t' \<Rightarrow> (Inl ErrIO, t'))
      | WriteTorn \<Rightarrow>
          (case put (\<lambda>_. Some BadJSON) of None \<Rightarrow> (Inl ErrIO, t) | Some t' \<Rightarrow> (Inl ErrIO, t'))
      | WriteOk \<Rightarrow>
          (case put (\<lambda>_. Some (SubnetState SubnetStateVersion subnet)) of
             None \<Rightarrow> (Inl ErrIO, t) | Some t' \<Rightarrow> (Inr (), t')))"

definition Allocate :: "SubnetAllocator \<Rightarrow> write_outcome \<Rightarrow> data_root \<Rightarrow> string \<Rightarrow> string
    \<Rightarrow> string result \<times> data_root" where
  "Allocate a out t realm space =
     (if TrimSpace realm = '''' then (Inl ErrConfig, t)
      else if TrimSpace space = '''' then (Inl ErrConfig, t)
      else case readState t realm space of
          Inl e \<Rightarrow> (Inl e, t)
        | Inr existing \<Rightarrow>
            if existing \<noteq> '''' then (Inr existing, t)
            else case usedSubnetsLocked t of
                Inl e \<Rightarrow> (Inl e, t)
              | Inr used \<Rightarrow>
                  (case firstFreeLocked a used of
                     Inl e \<Rightarrow> (Inl e, t)
                   | Inr free \<Rightarrow>
                       (case writeSubnetState out t realm space free of
                          (Inl e, t') \<Rightarrow> (Inl e, t')
                        | (Inr _, t') \<Rightarrow> (Inr free, t'))))"

text \<open>
  \<^verbatim>\<open>Release\<close> unlinks the file; \<open>ok\<close> is whether the operating system lets it. A missing file is
  success, a path through something that is not a directory is an error.
\<close>

definition Release :: "bool \<Rightarrow> data_root \<Rightarrow> string \<Rightarrow> string \<Rightarrow> unit result \<times> data_root" where
  "Release ok t realm space =
     (if TrimSpace realm = '''' \<or> TrimSpace space = '''' then (Inr (), t)
      else case t of
          RootMissing \<Rightarrow> (Inr (), t)
        | RootUnreadable \<Rightarrow> (Inl ErrIO, t)
        | RootDir rs \<Rightarrow>
            (case map_of rs realm of
               None \<Rightarrow> (Inr (), t)
             | Some (RealmDir ss) \<Rightarrow>
                 (case map_of ss space of
                    None \<Rightarrow> (Inr (), t)
                  | Some SpaceNonDir \<Rightarrow> (Inl ErrIO, t)
                  | Some (SpaceDir None) \<Rightarrow> (Inr (), t)
                  | Some (SpaceDir (Some f)) \<Rightarrow>
                      if ok then (Inr (), RootDir (map_put realm
                        (RealmDir (map_put space (SpaceDir None) ss)) rs))
                      else (Inl ErrIO, t))
             | Some _ \<Rightarrow> (Inl ErrIO, t)))"

section \<open>Addresses round trip\<close>

lemma ipToUint32_uint32ToIP [simp]: "ipToUint32 (uint32ToIP v) = v"
  unfolding uint32ToIP_def ipToUint32.simps
proof (rule bit_word_eqI)
  fix n :: nat
  assume "n < LENGTH(32)"
  then consider "n < 8" | "8 \<le> n" "n < 16" | "16 \<le> n" "n < 24" | "24 \<le> n" "n < 32"
    by fastforce
  then show "bit (push_bit 24 (ucast (ucast (drop_bit 24 v) :: 8 word)) OR
      push_bit 16 (ucast (ucast (drop_bit 16 v) :: 8 word)) OR
      push_bit 8 (ucast (ucast (drop_bit 8 v) :: 8 word)) OR
      (ucast (ucast v :: 8 word) :: 32 word)) n = bit v n"
    by cases (auto simp: bit_simps)
qed

lemma unat_less_32: "unat (v :: 32 word) < 2 ^ 32"
  using unsigned_less[of v] by simp

lemma unat_push_bit_mod: "unat (push_bit k (w :: 32 word)) = unat w * 2 ^ k mod 2 ^ 32"
proof -
  have "push_bit k w = w * word_of_nat (2 ^ k)"
    by (simp add: push_bit_eq_mult)
  then show ?thesis
    by (simp only: unat_word_ariths unat_of_nat mod_mult_right_eq) (simp add: mod_mult_right_eq)
qed

lemma unat_clear_low:
  assumes "k \<le> 32"
  shows "unat (clear_low k v) = unat v div 2 ^ k * 2 ^ k"
proof -
  have "unat v div 2 ^ k * 2 ^ k \<le> unat v"
    by simp
  also have "unat v < 2 ^ 32"
    by (rule unat_less_32)
  finally have less: "unat v div 2 ^ k * 2 ^ k < 2 ^ 32" .
  have "unat (clear_low k v) = (unat v div 2 ^ k * 2 ^ k) mod 2 ^ 32"
    by (simp only: clear_low_def unat_push_bit_mod unat_drop_bit_eq) (simp only: drop_bit_eq_div)
  with less show ?thesis
    by simp
qed

lemma unat_push_bit_1: "unat (push_bit k 1 :: 32 word) = (if k < 32 then 2 ^ k else 0)"
proof (cases "k < 32")
  case False
  then have "(2::nat) ^ 32 dvd 2 ^ k"
    by (intro le_imp_power_dvd) simp
  with False show ?thesis
    by (simp only: unat_push_bit_mod unsigned_1 mult_1 if_False dvd_imp_mod_0)
next
  case True
  then have "(2::nat) ^ k < 2 ^ 32"
    by (intro power_strict_increasing) simp_all
  with True show ?thesis
    by (simp only: unat_push_bit_mod unsigned_1 mult_1 if_True mod_less)
qed

lemma clear_low_id_iff: "k \<le> 32 \<Longrightarrow> clear_low k w = w \<longleftrightarrow> 2 ^ k dvd unat w"
  unfolding word_unat_eq_iff by (simp add: unat_clear_low dvd_eq_mod_eq_0) (metis dvd_div_mult_self dvd_triv_right mod_eq_0_iff_dvd)

lemma clear_low_idem: "k \<le> 32 \<Longrightarrow> clear_low k (clear_low k w) = clear_low k w"
  by (simp add: clear_low_id_iff unat_clear_low)
lemma uint32ToIP_ipToUint32 [simp]: "uint32ToIP (ipToUint32 ip) = ip"
proof (cases ip)
  case (fields a b c d)
  show ?thesis
    unfolding fields uint32ToIP_def ipToUint32.simps prod.inject
    by (intro conjI; rule bit_word_eqI) (auto simp: bit_simps dest: bit_imp_le_length)
qed
lemma parse_octet_show: "parse_octet (show_nat (unat (a :: 8 word))) = Some a"
proof -
  have "unat a < 2 ^ LENGTH(8)"
    by (rule unsigned_less)
  then have "unat a \<le> 255"
    by simp
  moreover have "length (show_nat (unat a)) = 1 \<or> hd (show_nat (unat a)) \<noteq> CHR ''0''"
    by (cases "unat a = 0") (simp_all add: hd_show_nat)
  ultimately show ?thesis
    by (simp add: parse_octet_def)
qed

lemma no_separator: "\<not> is_digit c \<Longrightarrow> c \<notin> set (show_nat n)"
  using show_nat_digits by blast

lemma not_digits [simp]: "\<not> is_digit CHR ''.''" "\<not> is_digit CHR ''/''"
  by (simp_all add: is_digit_def char_digit_def)

lemma parse_ip4_ip_String [simp]: "parse_ip4 (ip_String ip) = Some ip"
proof (cases ip)
  case (fields a b c d)
  then show ?thesis
    by (simp add: parse_ip4_def split_on_append split_on_none no_separator parse_octet_show)
qed

lemma slash_ip_String: "CHR ''/'' \<notin> set (ip_String ip)"
  by (cases ip) (simp add: no_separator)

lemma ParseCIDR4_print:
  assumes "n \<le> 32"
  shows "ParseCIDR4 (ip_String ip @ ''/'' @ show_nat n) = Some (clear_low (32 - n) (ipToUint32 ip), n)"
proof -
  have "takeWhile (\<lambda>c. c \<noteq> CHR ''/'') (ip_String ip @ CHR ''/'' # show_nat n) = ip_String ip"
    "dropWhile (\<lambda>c. c \<noteq> CHR ''/'') (ip_String ip @ CHR ''/'' # show_nat n) = CHR ''/'' # show_nat n"
    using slash_ip_String[of ip] by (auto simp: takeWhile_append dropWhile_append)
  with assms show ?thesis
    by (simp add: ParseCIDR4_def)
qed
section \<open>Chunks of the parent network\<close>

definition sa_ok :: "SubnetAllocator \<Rightarrow> bool" where
  "sa_ok a \<longleftrightarrow> 0 \<le> sa_parentBits a \<and> sa_parentBits a < sa_prefixLen a \<and> sa_prefixLen a \<le> 32
    \<and> 2 ^ nat (32 - sa_parentBits a) dvd unat (sa_parsedNet a)
    \<and> sa_subnetSpan a = push_bit (nat (32 - sa_prefixLen a)) 1
    \<and> sa_parentSize a = unat (push_bit (nat (sa_prefixLen a - sa_parentBits a)) 1 :: 32 word)"

lemma ParseCIDR4_Some: "ParseCIDR4 s = Some (w, n) \<Longrightarrow> n \<le> 32 \<and> 2 ^ (32 - n) dvd unat w"
  by (auto simp: ParseCIDR4_def Let_def unat_clear_low split: list.splits option.splits if_splits)

lemma NewSubnetAllocator_Inr:
  assumes "NewSubnetAllocator parent plen = Inr a"
  shows "sa_ok a \<and> sa_prefixLen a = plen \<and> sa_parentCIDR a = parent
    \<and> ParseCIDR4 parent = Some (sa_parsedNet a, nat (sa_parentBits a))"
proof -
  obtain w n where p: "ParseCIDR4 parent = Some (w, n)"
    using assms by (auto simp: NewSubnetAllocator_def split: option.splits)
  then have "n \<le> 32 \<and> 2 ^ (32 - n) dvd unat w"
    by (rule ParseCIDR4_Some)
  moreover have "nat (32 - int n) = 32 - n"
    by simp
  ultimately show ?thesis
    using assms p by (auto simp: NewSubnetAllocator_def sa_ok_def Let_def ipv4Bits_def split: if_splits)
qed

lemma parentSize_eq:
  assumes "sa_ok a"
  shows "sa_parentSize a =
    (if sa_parentBits a = 0 \<and> sa_prefixLen a = 32 then 0
     else 2 ^ nat (sa_prefixLen a - sa_parentBits a))"
proof -
  have "sa_parentSize a = (if nat (sa_prefixLen a - sa_parentBits a) < 32
      then 2 ^ nat (sa_prefixLen a - sa_parentBits a) else 0)"
    using assms unfolding sa_ok_def by (simp only: unat_push_bit_1)
  moreover have "nat (sa_prefixLen a - sa_parentBits a) < 32
      \<longleftrightarrow> \<not> (sa_parentBits a = 0 \<and> sa_prefixLen a = 32)"
    using assms unfolding sa_ok_def by arith
  ultimately show ?thesis
    by simp
qed

lemma unat_chunk_addr:
  assumes "sa_ok a" and "i < sa_parentSize a"
  shows "unat (chunk_addr a i) = unat (sa_parsedNet a) + i * 2 ^ nat (32 - sa_prefixLen a)"
    and "unat (sa_parsedNet a) + i * 2 ^ nat (32 - sa_prefixLen a)
      < unat (sa_parsedNet a) + 2 ^ nat (32 - sa_parentBits a)"
proof -
  define k where "k = nat (32 - sa_prefixLen a)"
  define m where "m = nat (sa_prefixLen a - sa_parentBits a)"
  define h where "h = nat (32 - sa_parentBits a)"
  define N where "N = unat (sa_parsedNet a)"
  have km: "k + m = h" "h \<le> 32" "k < 32" and dv: "2 ^ h dvd N"
    using assms(1) by (auto simp: sa_ok_def k_def m_def h_def N_def)
  have "sa_parentSize a \<le> 2 ^ m"
    using parentSize_eq[OF assms(1)] by (simp add: m_def)
  then have "i < 2 ^ m"
    using assms(2) by simp
  then have lt: "i * 2 ^ k < 2 ^ h"
    by (simp add: km(1)[symmetric] power_add mult.commute)
  obtain q where q: "N = 2 ^ h * q"
    using dv by blast
  have "N < 2 ^ 32"
    unfolding N_def by (rule unat_less_32)
  then have "2 ^ h * q < 2 ^ h * 2 ^ (32 - h)"
    using km(2) q by (simp flip: power_add)
  then have "q + 1 \<le> 2 ^ (32 - h)"
    by simp
  then have "2 ^ h * (q + 1) \<le> 2 ^ h * 2 ^ (32 - h)"
    by (intro mult_le_mono2)
  then have fits: "N + 2 ^ h \<le> 2 ^ 32"
    using km(2) q by (simp add: algebra_simps flip: power_add)
  have "sa_subnetSpan a = push_bit k 1"
    using assms(1) by (simp only: sa_ok_def k_def)
  then have span: "unat (sa_subnetSpan a) = 2 ^ k"
    using km(3) by (simp only: unat_push_bit_1 if_True)
  have "unat (word_of_nat i * sa_subnetSpan a) = i * 2 ^ k"
    using lt fits span by (simp add: unat_word_ariths unat_of_nat mod_mult_left_eq)
  then have "unat (chunk_addr a i) = N + i * 2 ^ k"
    using lt fits by (simp add: chunk_addr_def unat_word_ariths N_def)
  then show "unat (chunk_addr a i) = unat (sa_parsedNet a) + i * 2 ^ nat (32 - sa_prefixLen a)"
    by (simp add: N_def k_def)
  show "unat (sa_parsedNet a) + i * 2 ^ nat (32 - sa_prefixLen a)
      < unat (sa_parsedNet a) + 2 ^ nat (32 - sa_parentBits a)"
    using lt by (simp add: k_def h_def)
qed

lemma chunk_addr_aligned:
  assumes "sa_ok a" and "i < sa_parentSize a"
  shows "clear_low (nat (32 - sa_prefixLen a)) (chunk_addr a i) = chunk_addr a i"
proof -
  let ?k = "nat (32 - sa_prefixLen a)" and ?h = "nat (32 - sa_parentBits a)"
  have le: "?k \<le> ?h" "?k \<le> 32"
    using assms(1) by (auto simp: sa_ok_def)
  then have "(2::nat) ^ ?k dvd 2 ^ ?h"
    by (intro le_imp_power_dvd)
  then have "2 ^ ?k dvd unat (sa_parsedNet a)"
    using assms(1) by (meson dvd_trans sa_ok_def)
  then have "2 ^ ?k dvd unat (chunk_addr a i)"
    unfolding unat_chunk_addr(1)[OF assms] by (rule dvd_add) (rule dvd_triv_right)
  then show ?thesis
    unfolding clear_low_id_iff[OF le(2)] .
qed

lemma chunk_addr_inject:
  assumes "sa_ok a" "i < sa_parentSize a" "j < sa_parentSize a" "chunk_addr a i = chunk_addr a j"
  shows "i = j"
proof -
  have "i * 2 ^ nat (32 - sa_prefixLen a) = j * 2 ^ nat (32 - sa_prefixLen a)"
    using unat_chunk_addr(1)[OF assms(1,2)] unat_chunk_addr(1)[OF assms(1,3)] assms(4)
    by (metis add_left_cancel)
  then show ?thesis
    by (rule mult_right_cancel[THEN iffD1, rotated]) simp
qed

text \<open>The canonical spelling of a network: what \<^verbatim>\<open>fmt.Sprintf("%s/%d")\<close> prints for it.\<close>

definition canonical_cidr :: "nat \<Rightarrow> 32 word \<Rightarrow> string \<Rightarrow> bool" where
  "canonical_cidr plen w s \<longleftrightarrow> plen \<le> 32 \<and> clear_low (32 - plen) w = w
    \<and> s = ip_String (uint32ToIP w) @ ''/'' @ show_nat plen"

definition cidr_addrs :: "string \<Rightarrow> 32 word set" where
  "cidr_addrs s = (case ParseCIDR4 s of None \<Rightarrow> {} | Some (w, n) \<Rightarrow> {v. clear_low (32 - n) v = w})"

lemma canonical_cidr_parse: "canonical_cidr plen w s \<Longrightarrow> ParseCIDR4 s = Some (w, plen)"
  using ParseCIDR4_print[of plen "uint32ToIP w"] by (simp add: canonical_cidr_def)

lemma chunk_cidr_canonical:
  assumes "sa_ok a" and "i < sa_parentSize a"
  shows "canonical_cidr (nat (sa_prefixLen a)) (chunk_addr a i) (chunk_cidr a i)"
proof -
  have "32 - nat (sa_prefixLen a) = nat (32 - sa_prefixLen a)" "nat (sa_prefixLen a) \<le> 32"
    using assms(1) by (auto simp: sa_ok_def)
  then show ?thesis
    using chunk_addr_aligned[OF assms] by (simp add: canonical_cidr_def chunk_cidr_def)
qed

lemma canonical_disjoint:
  assumes "canonical_cidr plen w s" "canonical_cidr plen w' s'" "s \<noteq> s'"
  shows "cidr_addrs s \<inter> cidr_addrs s' = {}"
proof -
  have "w \<noteq> w'"
    using assms by (auto simp: canonical_cidr_def)
  then show ?thesis
    using assms(1,2)[THEN canonical_cidr_parse] by (auto simp: cidr_addrs_def)
qed


lemma first_free_from_Inr:
  assumes "first_free_from a used i n = Inr c"
  shows "\<exists>j. i \<le> j \<and> j < i + n \<and> c = chunk_cidr a j \<and> c \<notin> set used
    \<and> (\<forall>l. i \<le> l \<and> l < j \<longrightarrow> chunk_cidr a l \<in> set used)"
  using assms
proof (induction n arbitrary: i)
  case 0
  then show ?case by simp
next
  case (Suc n)
  show ?case
  proof (cases "chunk_cidr a i \<in> set used")
    case True
    with Suc.prems obtain j where "Suc i \<le> j" "j < Suc i + n" "c = chunk_cidr a j" "c \<notin> set used"
      "\<forall>l. Suc i \<le> l \<and> l < j \<longrightarrow> chunk_cidr a l \<in> set used"
      using Suc.IH[of "Suc i"] by auto
    with True show ?thesis
      by (intro exI[of _ j]) (use le_eq_less_or_eq Suc_le_eq in auto)
  next
    case False
    with Suc.prems show ?thesis
      by (intro exI[of _ i]) auto
  qed
qed

lemma first_free_from_Inl:
  "first_free_from a used i n = Inl e \<Longrightarrow>
    e = ErrSubnetExhausted \<and> (\<forall>j. i \<le> j \<and> j < i + n \<longrightarrow> chunk_cidr a j \<in> set used)"
proof (induction n arbitrary: i)
  case 0
  then show ?case by auto
next
  case (Suc n)
  then have "chunk_cidr a i \<in> set used" "first_free_from a used (Suc i) n = Inl e"
    by (auto split: if_splits)
  with Suc.IH[of "Suc i"] show ?case
    by (metis Suc_leI add_Suc_shift le_eq_less_or_eq)
qed

section \<open>Subnet assignments of a metadata tree\<close>

text \<open>
  What \<open>Allocate\<close> relies on: the scan of used subnets sees every assignment that can be read
  back, and a write is read back at its own key and nowhere else.
\<close>

locale subnet_store =
  fixes read_at :: "'t \<Rightarrow> 'k \<Rightarrow> string result"
    and used_in :: "'t \<Rightarrow> string list result"
    and write_at :: "'t \<Rightarrow> 'k \<Rightarrow> string \<Rightarrow> 't option"
  assumes used_covers:
      "used_in t = Inr us \<Longrightarrow> read_at t k = Inr c \<Longrightarrow> c \<noteq> '''' \<Longrightarrow> c \<in> set us"
    and read_write:
      "write_at t k c = Some t' \<Longrightarrow> TrimSpace c \<noteq> ''''
        \<Longrightarrow> read_at t' k' = (if k' = k then Inr c else read_at t k')"
begin

lemma fresh_write_injective:
  assumes inj: "\<And>k1 k2 c. read_at t k1 = Inr c \<Longrightarrow> read_at t k2 = Inr c \<Longrightarrow> c \<noteq> '''' \<Longrightarrow> k1 = k2"
    and "used_in t = Inr us" "free \<notin> set us" "TrimSpace free \<noteq> ''''" "write_at t k free = Some t'"
    and "read_at t' k1 = Inr c" "read_at t' k2 = Inr c" "c \<noteq> ''''"
  shows "k1 = k2"
  using assms used_covers[OF assms(2)] by (auto simp: read_write split: if_splits)

lemma fresh_write_pred:
  assumes "\<And>k c. read_at t k = Inr c \<Longrightarrow> c \<noteq> '''' \<Longrightarrow> P c"
    and "P free" "TrimSpace free \<noteq> ''''" "write_at t k free = Some t'"
    and "read_at t' k1 = Inr c" "c \<noteq> ''''"
  shows "P c"
  using assms by (auto simp: read_write split: if_splits)

end

definition read_at_tree :: "data_root \<Rightarrow> string \<times> string \<Rightarrow> string result" where
  "read_at_tree t k = readState t (fst k) (snd k)"

definition write_at_tree :: "data_root \<Rightarrow> string \<times> string \<Rightarrow> string \<Rightarrow> data_root option" where
  "write_at_tree t k c =
    (case writeSubnetState WriteOk t (fst k) (snd k) c of (Inl _, _) \<Rightarrow> None | (Inr _, t') \<Rightarrow> Some t')"

lemma readState_put_file:
  assumes "put_file t r s upd = Some t'"
  shows "\<exists>old. read_file old = readState t r s \<and>
    readState t' r' s' = (if r' = r \<and> s' = s then read_file (upd old) else readState t r' s')"
proof (cases t)
  case RootMissing
  with assms show ?thesis
    by (intro exI[of _ None])
       (auto simp: put_file_def readState_def read_space_def read_file_def map_of_map_put)
next
  case RootUnreadable
  with assms show ?thesis
    by (simp add: put_file_def)
next
  case (RootDir rs)
  define ss where "ss = (case map_of rs r of Some (RealmDir ss) \<Rightarrow> ss | _ \<Rightarrow> [])"
  define old where "old = (case map_of ss s of Some (SpaceDir f) \<Rightarrow> f | _ \<Rightarrow> None)"
  have t': "t' = RootDir (map_put r (RealmDir (map_put s (SpaceDir (upd old)) ss)) rs)"
    and rr: "readState t r x = read_space ss x" and oo: "read_file old = read_space ss s" for x
    using assms RootDir
    by (auto simp: put_file_def readState_def read_space_def ss_def old_def Let_def read_file_def
        split: option.splits realm_entry.splits space_entry.splits)
  have "readState t' r' s' = (if r' = r \<and> s' = s then read_file (upd old) else readState t r' s')"
    using rr[of s'] unfolding t' RootDir
    by (auto simp: readState_def map_of_map_put read_space_def)
  then show ?thesis
    using oo rr by auto
qed

lemma used_in_spaces_covers:
  "read_space ss s = Inr c \<Longrightarrow> c \<noteq> '''' \<Longrightarrow> c \<in> set (used_in_spaces ss)"
  by (induction ss rule: used_in_spaces.induct)
     (auto simp: read_space_def split: if_splits sum.splits)

lemma used_in_realms_covers:
  "used_in_realms rs = Inr us \<Longrightarrow> readState (RootDir rs) r s = Inr c \<Longrightarrow> c \<noteq> '''' \<Longrightarrow> c \<in> set us"
  by (induction rs arbitrary: us rule: used_in_realms.induct)
     (auto simp: readState_def rbind_eq_Inr used_in_spaces_covers split: if_splits sum.splits)

interpretation tree_store: subnet_store read_at_tree usedSubnetsLocked write_at_tree
proof
  fix t us k c
  assume "usedSubnetsLocked t = Inr us" "read_at_tree t k = Inr c" "c \<noteq> ''''"
  then show "c \<in> set us"
    by (cases t) (auto simp: usedSubnetsLocked_def read_at_tree_def used_in_realms_covers readState_def)
next
  fix t k c t' k'
  assume w: "write_at_tree t k c = Some t'" and ne: "TrimSpace c \<noteq> ''''"
  have put: "put_file t (fst k) (snd k) (\<lambda>_. Some (SubnetState SubnetStateVersion c)) = Some t'"
    using w by (auto simp: write_at_tree_def writeSubnetState_def split: option.splits)
  show "read_at_tree t' k' = (if k' = k then Inr c else read_at_tree t k')"
    using ne readState_put_file[OF put, of "fst k'" "snd k'"]
    by (auto simp: read_at_tree_def read_file_def prod_eq_iff)
qed

section \<open>Reachable metadata trees\<close>

definition no_new_assignment :: "data_root \<Rightarrow> data_root \<Rightarrow> bool" where
  "no_new_assignment t t' \<longleftrightarrow>
    (\<forall>k c. read_at_tree t' k = Inr c \<longrightarrow> c \<noteq> '''' \<longrightarrow> read_at_tree t k = Inr c)"

text \<open>
  One step of the daemon on the tree: an allocation with any parent network but one prefix
  length, a release, or a change by the rest of the daemon, which makes and removes directories
  but never writes a \<^verbatim>\<open>network.json\<close>.
\<close>

inductive subnet_step :: "int \<Rightarrow> data_root \<Rightarrow> data_root \<Rightarrow> bool" for plen where
  alloc: "NewSubnetAllocator parent plen = Inr a \<Longrightarrow> Allocate a out t realm space = (res, t')
    \<Longrightarrow> subnet_step plen t t'"
| release: "Release ok t realm space = (res, t') \<Longrightarrow> subnet_step plen t t'"
| env: "no_new_assignment t t' \<Longrightarrow> subnet_step plen t t'"

inductive subnet_reachable :: "int \<Rightarrow> data_root \<Rightarrow> bool" for plen where
  init: "subnet_reachable plen RootMissing"
| step: "subnet_reachable plen t \<Longrightarrow> subnet_step plen t t' \<Longrightarrow> subnet_reachable plen t'"

definition subnets_ok :: "int \<Rightarrow> data_root \<Rightarrow> bool" where
  "subnets_ok plen t \<longleftrightarrow>
    (\<forall>k1 k2 c. read_at_tree t k1 = Inr c \<longrightarrow> read_at_tree t k2 = Inr c \<longrightarrow> c \<noteq> '''' \<longrightarrow> k1 = k2)
    \<and> (\<forall>k c. read_at_tree t k = Inr c \<longrightarrow> c \<noteq> '''' \<longrightarrow> (\<exists>w. canonical_cidr (nat plen) w c))"

lemma no_new_assignment_refl [simp]: "no_new_assignment t t"
  by (simp add: no_new_assignment_def)

lemma no_new_assignment_ok: "no_new_assignment t t' \<Longrightarrow> subnets_ok plen t \<Longrightarrow> subnets_ok plen t'"
  unfolding no_new_assignment_def subnets_ok_def by blast

lemma put_file_no_new:
  assumes "put_file t r s upd = Some t'"
    and "\<And>old. read_file (upd old) = read_file old \<or> (\<exists>e. read_file (upd old) = Inl e)
      \<or> read_file (upd old) = Inr ''''"
  shows "no_new_assignment t t'"
proof -
  have "readState t r' s' = Inr c" if "readState t' r' s' = Inr c" "c \<noteq> ''''" for r' s' c
  proof -
    obtain old where "read_file old = readState t r s"
      "readState t' r' s' = (if r' = r \<and> s' = s then read_file (upd old) else readState t r' s')"
      using readState_put_file[OF assms(1)] by blast
    with that assms(2)[of old] show ?thesis
      by (auto split: if_splits)
  qed
  then show ?thesis
    by (simp add: no_new_assignment_def read_at_tree_def)
qed

lemma Release_eq_put:
  assumes "Release ok t r s = (res, t')"
  shows "t' = t \<or> put_file t r s (\<lambda>_. None) = Some t'"
  using assms
  by (auto simp: Release_def put_file_def Let_def
      split: if_splits data_root.splits option.splits realm_entry.splits space_entry.splits)

lemma Release_no_new:
  assumes "Release ok t r s = (res, t')"
  shows "no_new_assignment t t'"
  using Release_eq_put[OF assms] by (auto intro: put_file_no_new simp: read_file_def)

lemma Allocate_cases:
  assumes "Allocate a out t r s = (res, t')"
  obtains (kept) "no_new_assignment t t'"
      "case res of Inl e \<Rightarrow> True | Inr c \<Rightarrow> t' = t \<and> c \<noteq> '''' \<and> readState t r s = Inr c"
  | (fresh) us i where "usedSubnetsLocked t = Inr us" "readState t r s = Inr ''''"
      "i < sa_parentSize a" "chunk_cidr a i \<notin> set us" "\<forall>l<i. chunk_cidr a l \<in> set us"
      "write_at_tree t (r, s) (chunk_cidr a i) = Some t'" "res = Inr (chunk_cidr a i)"
proof (cases "TrimSpace r \<noteq> '''' \<and> TrimSpace s \<noteq> '''' \<and> (\<exists>us free. readState t r s = Inr ''''
    \<and> usedSubnetsLocked t = Inr us \<and> firstFreeLocked a us = Inr free)")
  case False
  then have "no_new_assignment t t'"
    "case res of Inl e \<Rightarrow> True | Inr c \<Rightarrow> t' = t \<and> c \<noteq> '''' \<and> readState t r s = Inr c"
    using assms by (auto simp: Allocate_def split: sum.splits if_splits)
  then show ?thesis by (rule kept)
next
  case True
  then obtain us free where u: "readState t r s = Inr ''''" "usedSubnetsLocked t = Inr us"
    "firstFreeLocked a us = Inr free" by blast
  have w: "(case writeSubnetState out t r s free of
      (Inl e, t') \<Rightarrow> (Inl e, t') | (Inr _, t') \<Rightarrow> (Inr free, t')) = (res, t')"
    using assms True u by (simp add: Allocate_def)
  show ?thesis
  proof (cases res)
    case (Inl e)
    have "no_new_assignment t t'"
      using w Inl
      by (auto simp: writeSubnetState_def Let_def read_file_def
          intro: put_file_no_new split: write_outcome.splits option.splits)
    with Inl show ?thesis by (intro kept) auto
  next
    case (Inr c)
    have "out = WriteOk" "c = free" "write_at_tree t (r, s) free = Some t'"
      using w Inr by (auto simp: writeSubnetState_def write_at_tree_def Let_def
          split: write_outcome.splits option.splits)
    then show ?thesis
      using first_free_from_Inr[of a us 0 "sa_parentSize a" free] u Inr
      by (auto simp: firstFreeLocked_def intro: fresh)
  qed
qed

lemma canonical_trim:
  assumes "canonical_cidr plen w s"
  shows "TrimSpace s = s" "s \<noteq> ''''"
proof -
  obtain a b c d where "uint32ToIP w = (a, b, c, d)"
    by (cases "uint32ToIP w") auto
  with assms have s: "s = show_nat (unat a) @ ''.'' @ show_nat (unat b) @ ''.'' @
      show_nat (unat c) @ ''.'' @ show_nat (unat d) @ ''/'' @ show_nat plen"
    by (simp add: canonical_cidr_def)
  then show "s \<noteq> ''''" by simp
  have "is_digit (hd s)" "is_digit (last s)"
    unfolding s using show_nat_digits[of _ "unat a"] show_nat_digits[of _ plen]
    by (simp_all add: show_nat_nonempty)
  with \<open>s \<noteq> ''''\<close> show "TrimSpace s = s"
    by (intro TrimSpace_digit_ends)
qed

lemma Allocate_keeps_ok:
  assumes "sa_ok a" "Allocate a out t r s = (res, t')" "subnets_ok (sa_prefixLen a) t"
  shows "subnets_ok (sa_prefixLen a) t'"
  using assms(2)
proof (cases rule: Allocate_cases)
  case kept
  then show ?thesis using assms(3) no_new_assignment_ok by blast
next
  case (fresh us i)
  have can: "canonical_cidr (nat (sa_prefixLen a)) (chunk_addr a i) (chunk_cidr a i)"
    using assms(1) fresh(3) by (rule chunk_cidr_canonical)
  then have tr: "TrimSpace (chunk_cidr a i) \<noteq> ''''"
    using canonical_trim by metis
  show ?thesis
    unfolding subnets_ok_def
  proof (intro conjI allI impI)
    fix k1 k2 c
    assume "read_at_tree t' k1 = Inr c" "read_at_tree t' k2 = Inr c" "c \<noteq> ''''"
    then show "k1 = k2"
      using tree_store.fresh_write_injective[OF _ fresh(1,4) tr fresh(6)] assms(3)
      unfolding subnets_ok_def by metis
  next
    fix k c
    assume "read_at_tree t' k = Inr c" "c \<noteq> ''''"
    then show "\<exists>w. canonical_cidr (nat (sa_prefixLen a)) w c"
      using tree_store.fresh_write_pred[where P = "\<lambda>c. \<exists>w. canonical_cidr (nat (sa_prefixLen a)) w c",
          OF _ _ tr fresh(6)] assms(3) can
      unfolding subnets_ok_def by metis
  qed
qed

lemma subnet_step_ok: "subnet_step plen t t' \<Longrightarrow> subnets_ok plen t \<Longrightarrow> subnets_ok plen t'"
proof (induction rule: subnet_step.induct)
  case (alloc parent a out t realm space res t')
  then show ?case
    using NewSubnetAllocator_Inr[OF alloc(1)] Allocate_keeps_ok by blast
qed (auto dest: Release_no_new no_new_assignment_ok)

lemma subnet_reachable_ok: "subnet_reachable plen t \<Longrightarrow> subnets_ok plen t"
proof (induction rule: subnet_reachable.induct)
  case init
  show ?case
    by (simp add: subnets_ok_def read_at_tree_def readState_def)
qed (rule subnet_step_ok)

section \<open>A worked tree\<close>

text \<open>The default allocator and the tree after it served two spaces, evaluated.\<close>

definition demo_alloc :: SubnetAllocator where
  "demo_alloc = \<lparr>sa_parentCIDR = ''10.88.0.0/16'', sa_prefixLen = 24, sa_parsedNet = 0x0A580000,
     sa_parentSize = 256, sa_parentBits = 16, sa_subnetSpan = 256\<rparr>"

definition demo_tree1 :: data_root where
  "demo_tree1 = RootDir [(''r'', RealmDir [(''a'', SpaceDir (Some (SubnetState ''v1'' ''10.88.0.0/24'')))])]"

definition demo_tree2 :: data_root where
  "demo_tree2 = RootDir [(''r'', RealmDir
     [(''a'', SpaceDir (Some (SubnetState ''v1'' ''10.88.0.0/24''))),
      (''b'', SpaceDir (Some (SubnetState ''v1'' ''10.88.1.0/24'')))])]"

lemma demo_parse: "ParseCIDR4 ''10.88.0.0/16'' = Some (0x0A580000, 16)"
  by code_simp

lemma demo_new: "NewSubnetAllocator ''10.88.0.0/16'' 24 = Inr demo_alloc"
  by (simp add: NewSubnetAllocator_def demo_parse demo_alloc_def ipv4Bits_def)

lemma demo_ips: "uint32ToIP 0x0A580000 = (10, 88, 0, 0)" "uint32ToIP 0x0A580100 = (10, 88, 1, 0)"
  by code_simp+

lemma demo_chunks: "chunk_cidr demo_alloc 0 = ''10.88.0.0/24''" "chunk_cidr demo_alloc (Suc 0) = ''10.88.1.0/24''"
  by (simp_all add: chunk_cidr_def chunk_addr_def demo_alloc_def demo_ips show_nat.simps digit_char_def)

lemma first_free_from_pos:
  "0 < n \<Longrightarrow> first_free_from a used i n =
    (if chunk_cidr a i \<in> set used then first_free_from a used (Suc i) (n - 1) else Inr (chunk_cidr a i))"
  by (cases n) auto

lemma demo_first:
  "firstFreeLocked demo_alloc [] = Inr ''10.88.0.0/24''"
  "firstFreeLocked demo_alloc [''10.88.0.0/24''] = Inr ''10.88.1.0/24''"
proof -
  have size: "sa_parentSize demo_alloc = 256"
    by (simp add: demo_alloc_def)
  show "firstFreeLocked demo_alloc [] = Inr ''10.88.0.0/24''"
    "firstFreeLocked demo_alloc [''10.88.0.0/24''] = Inr ''10.88.1.0/24''"
    by (simp_all add: firstFreeLocked_def size first_free_from_pos demo_chunks)
qed

lemma demo_trim: "TrimSpace ''r'' = ''r''" "TrimSpace ''a'' = ''a''" "TrimSpace ''b'' = ''b''"
  "TrimSpace ''10.88.0.0/24'' = ''10.88.0.0/24''" "TrimSpace ''10.88.1.0/24'' = ''10.88.1.0/24''"
  by code_simp+

lemmas demo_defs = demo_trim demo_first Allocate_def readState_def
  usedSubnetsLocked_def writeSubnetState_def put_file_def SubnetStateVersion_def map_put_def
  read_space_def read_file_def demo_tree1_def demo_tree2_def LoadAssigned_def

lemma demo_allocate1: "Allocate demo_alloc WriteOk RootMissing ''r'' ''a'' = (Inr ''10.88.0.0/24'', demo_tree1)"
  by (simp add: demo_defs)

lemma demo_allocate2: "Allocate demo_alloc WriteOk demo_tree1 ''r'' ''b'' = (Inr ''10.88.1.0/24'', demo_tree2)"
  by (simp add: demo_defs)

lemma demo_loads: "LoadAssigned demo_tree2 ''r'' ''a'' = Inr ''10.88.0.0/24''"
  "LoadAssigned demo_tree2 ''r'' ''b'' = Inr ''10.88.1.0/24''"
  by (simp_all add: demo_defs)

lemma demo_reachable: "subnet_reachable 24 demo_tree2"
  using subnet_reachable.init subnet_step.alloc[OF demo_new demo_allocate1]
    subnet_step.alloc[OF demo_new demo_allocate2] by (blast intro: subnet_reachable.step)

section \<open>Properties of the allocator\<close>

lemma ParseCIDR4_empty [simp]: "ParseCIDR4 '''' = None"
  by code_simp

lemma cidr_addrs_empty [simp]: "cidr_addrs '''' = {}"
  by (simp add: cidr_addrs_def)

text \<open>
  C1. In every metadata tree the daemon can reach by allocations (with whatever parent network is
  configured at the time), releases and directory changes, two different spaces never hold
  subnets that share an address, across all realms.
\<close>
theorem spaces_get_disjoint_subnets:
  assumes "subnet_reachable plen t"
    and "(r1, s1) \<noteq> (r2, s2)"
    and "LoadAssigned t r1 s1 = Inr c1" and "LoadAssigned t r2 s2 = Inr c2"
  shows "cidr_addrs c1 \<inter> cidr_addrs c2 = {}"
proof (cases "c1 = '''' \<or> c2 = ''''")
  case True
  then show ?thesis by auto
next
  case False
  have "subnets_ok plen t"
    using assms(1) by (rule subnet_reachable_ok)
  moreover have "read_at_tree t (r1, s1) = Inr c1" "read_at_tree t (r2, s2) = Inr c2"
    using assms(3,4) by (simp_all add: read_at_tree_def LoadAssigned_def)
  ultimately obtain w1 w2 where "canonical_cidr (nat plen) w1 c1" "canonical_cidr (nat plen) w2 c2" "c1 \<noteq> c2"
    using False assms(2) unfolding subnets_ok_def by metis
  then show ?thesis
    by (rule canonical_disjoint)
qed

theorem spaces_get_disjoint_subnets_witness:
  "subnet_reachable 24 demo_tree2 \<and> LoadAssigned demo_tree2 ''r'' ''a'' = Inr ''10.88.0.0/24''
    \<and> LoadAssigned demo_tree2 ''r'' ''b'' = Inr ''10.88.1.0/24''
    \<and> cidr_addrs ''10.88.0.0/24'' \<inter> cidr_addrs ''10.88.1.0/24'' = {}"
  using spaces_get_disjoint_subnets[OF demo_reachable _ demo_loads] demo_reachable demo_loads by simp

lemma readState_after_write:
  assumes "write_at_tree t (r, s) c = Some t'" "TrimSpace c \<noteq> ''''"
  shows "readState t' r' s' = (if r' = r \<and> s' = s then Inr c else readState t r' s')"
  using tree_store.read_write[OF assms, of "(r', s')"] by (simp add: read_at_tree_def)

lemma Allocate_existing:
  assumes "TrimSpace r \<noteq> ''''" "TrimSpace s \<noteq> ''''" "readState t r s = Inr c" "c \<noteq> ''''"
  shows "Allocate a out t r s = (Inr c, t)"
  using assms by (simp add: Allocate_def)

lemma Allocate_Inr_names:
  "Allocate a out t r s = (Inr c, t') \<Longrightarrow> TrimSpace r \<noteq> '''' \<and> TrimSpace s \<noteq> ''''"
  by (auto simp: Allocate_def split: if_splits)

text \<open>
  C2. A successful \<open>Allocate\<close> returns what the space's state file now holds, changes no other
  space's assignment, is idempotent (a later call with any allocator returns the same subnet and
  writes nothing), and for a space without a subnet picks the lowest chunk of the parent that no
  readable state file uses.
\<close>
theorem Allocate_correct:
  assumes "NewSubnetAllocator parent plen = Inr a"
    and "Allocate a out t realm space = (Inr c, t')"
  shows "LoadAssigned t' realm space = Inr c \<and> c \<noteq> ''''
    \<and> (\<forall>r s. (r, s) \<noteq> (realm, space) \<longrightarrow> LoadAssigned t' r s = LoadAssigned t r s)
    \<and> (\<forall>a' out'. Allocate a' out' t' realm space = (Inr c, t'))
    \<and> (LoadAssigned t realm space = Inr '''' \<longrightarrow>
        (\<exists>us. usedSubnetsLocked t = Inr us \<and> (\<exists>i < sa_parentSize a. c = chunk_cidr a i
          \<and> c \<notin> set us \<and> (\<forall>l<i. chunk_cidr a l \<in> set us))))"
  using assms(2)
proof (cases rule: Allocate_cases)
  case kept
  then show ?thesis
    using Allocate_existing Allocate_Inr_names[OF assms(2)] by (auto simp: LoadAssigned_def)
next
  case (fresh us i)
  have "sa_ok a"
    using NewSubnetAllocator_Inr[OF assms(1)] by blast
  then have "TrimSpace c = c" "c \<noteq> ''''"
    using canonical_trim chunk_cidr_canonical[of a i] fresh by auto
  then show ?thesis
    using fresh readState_after_write[of t realm space c t'] Allocate_existing
      Allocate_Inr_names[OF assms(2)]
    by (auto simp: LoadAssigned_def)
qed

theorem Allocate_correct_witness:
  "Allocate demo_alloc WriteOk demo_tree1 ''r'' ''b'' = (Inr ''10.88.1.0/24'', demo_tree2)
    \<and> LoadAssigned demo_tree1 ''r'' ''b'' = Inr ''''
    \<and> LoadAssigned demo_tree2 ''r'' ''a'' = LoadAssigned demo_tree1 ''r'' ''a''
    \<and> Allocate demo_alloc MkdirFails demo_tree2 ''r'' ''b'' = (Inr ''10.88.1.0/24'', demo_tree2)"
  using Allocate_correct[OF demo_new demo_allocate2] demo_allocate2 by (auto simp: demo_defs)

lemma clear_low_eq_iff: "k \<le> 32 \<Longrightarrow> clear_low k v = w \<longleftrightarrow> unat v div 2 ^ k * 2 ^ k = unat w"
  unfolding word_unat_eq_iff by (simp add: unat_clear_low)

lemma cidr_addrs_chunk:
  assumes "sa_ok a" "i < sa_parentSize a"
  shows "cidr_addrs (chunk_cidr a i) = {v. unat v div 2 ^ nat (32 - sa_prefixLen a) * 2 ^ nat (32 - sa_prefixLen a)
    = unat (sa_parsedNet a) + i * 2 ^ nat (32 - sa_prefixLen a)}"
proof -
  have "32 - nat (sa_prefixLen a) = nat (32 - sa_prefixLen a)" "nat (32 - sa_prefixLen a) \<le> 32"
    using assms(1) by (auto simp: sa_ok_def)
  moreover have "ParseCIDR4 (chunk_cidr a i) = Some (chunk_addr a i, nat (sa_prefixLen a))"
    using canonical_cidr_parse[OF chunk_cidr_canonical[OF assms]] .
  ultimately show ?thesis
    by (simp only: cidr_addrs_def option.case prod.case clear_low_eq_iff unat_chunk_addr(1)[OF assms])
qed

lemma quotient_block:
  fixes x q M :: nat
  assumes "0 < M"
  shows "(\<exists>i<M. x = q * M + i) \<longleftrightarrow> x div M = q"
proof
  assume "x div M = q"
  then have "x = q * M + x mod M" "x mod M < M"
    using assms by (auto simp: div_mult_mod_eq)
  then show "\<exists>i<M. x = q * M + i" by blast
next
  assume "\<exists>i<M. x = q * M + i"
  then show "x div M = q" by auto
qed

lemma chunks_cover:
  assumes "NewSubnetAllocator parent plen = Inr a" and "0 < sa_parentSize a"
  shows "(\<Union>i\<in>{..<(sa_parentSize a)}. cidr_addrs (chunk_cidr a i)) = cidr_addrs parent"
proof -
  define k where "k = nat (32 - sa_prefixLen a)"
  define m where "m = nat (sa_prefixLen a - sa_parentBits a)"
  define h where "h = nat (32 - sa_parentBits a)"
  have ok: "sa_ok a" and parse: "ParseCIDR4 parent = Some (sa_parsedNet a, nat (sa_parentBits a))"
    using NewSubnetAllocator_Inr[OF assms(1)] by auto
  have h: "h = k + m" "h \<le> 32" "32 - nat (sa_parentBits a) = h"
    using ok by (auto simp: sa_ok_def k_def m_def h_def)
  have size: "sa_parentSize a = 2 ^ m"
    using parentSize_eq[OF ok] assms(2) by (auto simp: m_def split: if_splits)
  have "2 ^ h dvd unat (sa_parsedNet a)"
    using ok by (simp only: sa_ok_def h_def)
  then obtain q where q: "unat (sa_parsedNet a) = q * 2 ^ h"
    by (metis dvdE mult.commute)
  have q': "unat (sa_parsedNet a) = q * 2 ^ m * 2 ^ k"
    by (simp add: q h(1) power_add algebra_simps)
  have "v \<in> (\<Union>i\<in>{..<(sa_parentSize a)}. cidr_addrs (chunk_cidr a i)) \<longleftrightarrow> v \<in> cidr_addrs parent" for v
  proof -
    have "v \<in> (\<Union>i\<in>{..<(sa_parentSize a)}. cidr_addrs (chunk_cidr a i))
      \<longleftrightarrow> (\<exists>i<2 ^ m. unat v div 2 ^ k * 2 ^ k = (q * 2 ^ m + i) * 2 ^ k)"
      by (auto simp: cidr_addrs_chunk[OF ok] size q' k_def add_mult_distrib)
    also have "\<dots> \<longleftrightarrow> (\<exists>i<2 ^ m. unat v div 2 ^ k = q * 2 ^ m + i)"
      by simp
    also have "\<dots> \<longleftrightarrow> unat v div 2 ^ k div 2 ^ m = q"
      by (intro quotient_block) simp
    also have "\<dots> \<longleftrightarrow> unat v div 2 ^ h * 2 ^ h = q * 2 ^ h"
      by (simp add: h(1) power_add div_mult2_eq)
    also have "\<dots> \<longleftrightarrow> v \<in> cidr_addrs parent"
      by (simp only: cidr_addrs_def parse option.case prod.case h(3) clear_low_eq_iff[OF h(2)] q mem_Collect_eq)
    finally show ?thesis .
  qed
  then show ?thesis by blast
qed

lemma chunk_cidr_inject:
  assumes "sa_ok a" "i < sa_parentSize a" "j < sa_parentSize a" "chunk_cidr a i = chunk_cidr a j"
  shows "i = j"
  using canonical_cidr_parse[OF chunk_cidr_canonical[OF assms(1,2)]]
    canonical_cidr_parse[OF chunk_cidr_canonical[OF assms(1,3)]] assms(4)
  by (intro chunk_addr_inject[OF assms(1-3)]) simp

text \<open>
  C3. The candidate chunks of an allocator partition its parent network: there are
  $2^{plen - bits}$ of them, together they are exactly the parent's addresses, and no two overlap.
  The 32-bit arithmetic never wraps, the one exception being a /0 parent cut into /32 subnets.
\<close>
theorem chunks_partition_parent:
  assumes "NewSubnetAllocator parent plen = Inr a"
    and "\<not> (sa_parentBits a = 0 \<and> plen = 32)"
  shows "sa_parentSize a = 2 ^ nat (plen - sa_parentBits a)
    \<and> (\<Union>i\<in>{..<(sa_parentSize a)}. cidr_addrs (chunk_cidr a i)) = cidr_addrs parent
    \<and> (\<forall>i< sa_parentSize a. \<forall>j< sa_parentSize a.
         i \<noteq> j \<longrightarrow> cidr_addrs (chunk_cidr a i) \<inter> cidr_addrs (chunk_cidr a j) = {})"
proof -
  have ok: "sa_ok a" and pl: "sa_prefixLen a = plen"
    using NewSubnetAllocator_Inr[OF assms(1)] by auto
  have size: "sa_parentSize a = 2 ^ nat (plen - sa_parentBits a)"
    using parentSize_eq[OF ok] assms(2) pl by auto
  moreover have "cidr_addrs (chunk_cidr a i) \<inter> cidr_addrs (chunk_cidr a j) = {}"
    if "i < sa_parentSize a" "j < sa_parentSize a" "i \<noteq> j" for i j
    using that chunk_cidr_inject[OF ok that(1,2)]
    by (intro canonical_disjoint[OF chunk_cidr_canonical chunk_cidr_canonical] ok) auto
  ultimately show ?thesis
    using chunks_cover[OF assms(1)] by auto
qed

theorem chunks_partition_parent_witness:
  "NewSubnetAllocator ''10.88.0.0/16'' 24 = Inr demo_alloc \<and> sa_parentSize demo_alloc = 256
    \<and> (\<Union>i\<in>{..<(sa_parentSize demo_alloc)}. cidr_addrs (chunk_cidr demo_alloc i)) = cidr_addrs ''10.88.0.0/16''"
  using chunks_partition_parent[OF demo_new] demo_new by (simp add: demo_alloc_def)

lemma put_file_succeeds:
  "readState t r s = Inr c \<Longrightarrow> \<exists>t'. put_file t r s upd = Some t'"
  by (auto simp: readState_def read_space_def put_file_def Let_def
      split: data_root.splits option.splits realm_entry.splits space_entry.splits)

lemma unused_chunk:
  assumes "sa_ok a" "card (set us) < sa_parentSize a"
  shows "\<exists>i< sa_parentSize a. chunk_cidr a i \<notin> set us"
proof (rule ccontr)
  assume "\<not> ?thesis"
  then have "chunk_cidr a ` {..<(sa_parentSize a)} \<subseteq> set us"
    by auto
  moreover have "inj_on (chunk_cidr a) {..<(sa_parentSize a)}"
    using chunk_cidr_inject[OF assms(1)] by (auto simp: inj_on_def)
  ultimately have "sa_parentSize a \<le> card (set us)"
    by (metis card_image card_lessThan card_mono List.finite_set)
  with assms(2) show False by simp
qed

lemma Allocate_free_case:
  assumes "TrimSpace r \<noteq> ''''" "TrimSpace s \<noteq> ''''" "readState t r s = Inr ''''"
    "usedSubnetsLocked t = Inr us"
  shows "fst (Allocate a WriteOk t r s) = firstFreeLocked a us"
proof -
  obtain t' where "put_file t r s upd = Some (t' upd)" for upd
    using put_file_succeeds[OF assms(3)] by metis
  then show ?thesis
    using assms by (auto simp: Allocate_def writeSubnetState_def split: sum.splits)
qed



lemma Release_Inr:
  assumes "TrimSpace r \<noteq> ''''" "TrimSpace s \<noteq> ''''" "Release ok t r s = (Inr (), t')"
  shows "t' = t \<and> readState t r s = Inr '''' \<or> put_file t r s (\<lambda>_. None) = Some t'"
  using assms
  by (auto simp: Release_def put_file_def Let_def readState_def read_space_def read_file_def
      split: if_splits data_root.splits option.splits realm_entry.splits space_entry.splits)

text \<open>
  C5. After a successful \<open>Release\<close> the space has no subnet, whatever its state file held before (a
  corrupt file included), and every other space keeps its assignment.
\<close>
theorem Release_frees:
  assumes "TrimSpace realm \<noteq> ''''" and "TrimSpace space \<noteq> ''''"
    and "Release ok t realm space = (Inr (), t')"
  shows "LoadAssigned t' realm space = Inr ''''
    \<and> (\<forall>r s. (r, s) \<noteq> (realm, space) \<longrightarrow> LoadAssigned t' r s = LoadAssigned t r s)"
proof (cases "t' = t \<and> readState t realm space = Inr ''''")
  case True
  then show ?thesis by (simp add: LoadAssigned_def)
next
  case False
  then have "put_file t realm space (\<lambda>_. None) = Some t'"
    using Release_Inr[OF assms] by blast
  from readState_put_file[OF this] show ?thesis
    by (auto simp: LoadAssigned_def read_file_def)
qed

theorem Release_frees_witness:
  "\<exists>t'. Release True demo_tree2 ''r'' ''a'' = (Inr (), t') \<and> LoadAssigned t' ''r'' ''a'' = Inr ''''
    \<and> LoadAssigned t' ''r'' ''b'' = Inr ''10.88.1.0/24''"
proof -
  obtain t' where r: "Release True demo_tree2 ''r'' ''a'' = (Inr (), t')"
    by (simp add: Release_def demo_defs)
  show ?thesis
    using Release_frees[OF _ _ r] r demo_loads by (auto simp: demo_trim)
qed

text \<open>
  The exception of the partition lemma: the count $2^{32}$ of /32 subnets in a /0 parent does not
  fit the 32-bit shift, so the allocator is accepted with no chunk at all and always exhausted.
\<close>

lemma whole_space_allocator_exhausted:
  "\<exists>a. NewSubnetAllocator ''0.0.0.0/0'' 32 = Inr a \<and> sa_parentSize a = 0
    \<and> fst (Allocate a WriteOk RootMissing ''r'' ''a'') = Inl ErrSubnetExhausted"
proof -
  have "ParseCIDR4 ''0.0.0.0/0'' = Some (0, 0)"
    by code_simp
  then show ?thesis
    by (simp add: NewSubnetAllocator_def ipv4Bits_def unat_push_bit_1 Allocate_def demo_trim readState_def
        usedSubnetsLocked_def firstFreeLocked_def)
qed

end
