(* ===== verification/State_Labels.thy ===== *)
theory State_Labels
  imports Kuke_Prelude
begin

text \<open>
  The wire encoding of the five state enums, \<^verbatim>\<open>pkg/api/model/v1beta1/state_marshal.go\<close> with the
  \<^verbatim>\<open>String\<close> methods of \<^verbatim>\<open>realm.go\<close>, \<^verbatim>\<open>space.go\<close>, \<^verbatim>\<open>stack.go\<close>, \<^verbatim>\<open>cell.go\<close> and
  \<^verbatim>\<open>container.go\<close>. A state is a Go \<^verbatim>\<open>int\<close>, so values outside the declared constants exist and
  are covered. The contract of one enum is the locale \<open>state_enum\<close>, interpreted five times.
\<close>

section \<open>The constants\<close>

abbreviation (input) extRealmStatePending :: int where "extRealmStatePending \<equiv> 0"
abbreviation (input) extRealmStateCreating :: int where "extRealmStateCreating \<equiv> 1"
abbreviation (input) extRealmStateReady :: int where "extRealmStateReady \<equiv> 2"
abbreviation (input) extRealmStateDeleting :: int where "extRealmStateDeleting \<equiv> 3"
abbreviation (input) extRealmStateFailed :: int where "extRealmStateFailed \<equiv> 4"
abbreviation (input) extRealmStateUnknown :: int where "extRealmStateUnknown \<equiv> 5"

abbreviation (input) extSpaceStatePending :: int where "extSpaceStatePending \<equiv> 0"
abbreviation (input) extSpaceStateReady :: int where "extSpaceStateReady \<equiv> 1"
abbreviation (input) extSpaceStateFailed :: int where "extSpaceStateFailed \<equiv> 2"
abbreviation (input) extSpaceStateUnknown :: int where "extSpaceStateUnknown \<equiv> 3"

abbreviation (input) extStackStatePending :: int where "extStackStatePending \<equiv> 0"
abbreviation (input) extStackStateReady :: int where "extStackStateReady \<equiv> 1"
abbreviation (input) extStackStateFailed :: int where "extStackStateFailed \<equiv> 2"
abbreviation (input) extStackStateUnknown :: int where "extStackStateUnknown \<equiv> 3"

abbreviation (input) extCellStatePending :: int where "extCellStatePending \<equiv> 0"
abbreviation (input) extCellStateReady :: int where "extCellStateReady \<equiv> 1"
abbreviation (input) extCellStateStopped :: int where "extCellStateStopped \<equiv> 2"
abbreviation (input) extCellStateFailed :: int where "extCellStateFailed \<equiv> 3"
abbreviation (input) extCellStateUnknown :: int where "extCellStateUnknown \<equiv> 4"
abbreviation (input) extCellStateExited :: int where "extCellStateExited \<equiv> 5"
abbreviation (input) extCellStateError :: int where "extCellStateError \<equiv> 6"
abbreviation (input) extCellStateDegraded :: int where "extCellStateDegraded \<equiv> 7"

abbreviation (input) extContainerStatePending :: int where "extContainerStatePending \<equiv> 0"
abbreviation (input) extContainerStateReady :: int where "extContainerStateReady \<equiv> 1"
abbreviation (input) extContainerStateStopped :: int where "extContainerStateStopped \<equiv> 2"
abbreviation (input) extContainerStatePaused :: int where "extContainerStatePaused \<equiv> 3"
abbreviation (input) extContainerStatePausing :: int where "extContainerStatePausing \<equiv> 4"
abbreviation (input) extContainerStateFailed :: int where "extContainerStateFailed \<equiv> 5"
abbreviation (input) extContainerStateUnknown :: int where "extContainerStateUnknown \<equiv> 6"
abbreviation (input) extContainerStateNotCreated :: int where "extContainerStateNotCreated \<equiv> 7"
abbreviation (input) extContainerStateExited :: int where "extContainerStateExited \<equiv> 8"
abbreviation (input) extContainerStateError :: int where "extContainerStateError \<equiv> 9"

definition StatePendingStr :: string where "StatePendingStr = ''Pending''"
definition StateReadyStr :: string where "StateReadyStr = ''Ready''"
definition StateStoppedStr :: string where "StateStoppedStr = ''Stopped''"
definition StatePausedStr :: string where "StatePausedStr = ''Paused''"
definition StatePausingStr :: string where "StatePausingStr = ''Pausing''"
definition StateFailedStr :: string where "StateFailedStr = ''Failed''"
definition StateUnknownStr :: string where "StateUnknownStr = ''Unknown''"
definition StateCreatingStr :: string where "StateCreatingStr = ''Creating''"
definition StateDeletingStr :: string where "StateDeletingStr = ''Deleting''"
definition StateNotCreatedStr :: string where "StateNotCreatedStr = ''NotCreated''"
definition StateExitedStr :: string where "StateExitedStr = ''Exited''"
definition StateErrorStr :: string where "StateErrorStr = ''Error''"
definition StateDegradedStr :: string where "StateDegradedStr = ''Degraded''"

lemmas state_str_defs =
  StatePendingStr_def StateReadyStr_def StateStoppedStr_def StatePausedStr_def StatePausingStr_def
  StateFailedStr_def StateUnknownStr_def StateCreatingStr_def StateDeletingStr_def
  StateNotCreatedStr_def StateExitedStr_def StateErrorStr_def StateDegradedStr_def

section \<open>Labels\<close>

definition RealmState_String :: "int \<Rightarrow> string" where
  "RealmState_String s =
     (if s = extRealmStatePending then StatePendingStr
      else if s = extRealmStateCreating then StateCreatingStr
      else if s = extRealmStateReady then StateReadyStr
      else if s = extRealmStateDeleting then StateDeletingStr
      else if s = extRealmStateFailed then StateFailedStr
      else if s = extRealmStateUnknown then StateUnknownStr
      else StateUnknownStr)"

definition SpaceState_String :: "int \<Rightarrow> string" where
  "SpaceState_String s =
     (if s = extSpaceStatePending then StatePendingStr
      else if s = extSpaceStateReady then StateReadyStr
      else if s = extSpaceStateFailed then StateFailedStr
      else if s = extSpaceStateUnknown then StateUnknownStr
      else StateUnknownStr)"

definition StackState_String :: "int \<Rightarrow> string" where
  "StackState_String s =
     (if s = extStackStatePending then StatePendingStr
      else if s = extStackStateReady then StateReadyStr
      else if s = extStackStateFailed then StateFailedStr
      else if s = extStackStateUnknown then StateUnknownStr
      else StateUnknownStr)"

definition CellState_String :: "int \<Rightarrow> string" where
  "CellState_String s =
     (if s = extCellStatePending then StatePendingStr
      else if s = extCellStateReady then StateReadyStr
      else if s = extCellStateStopped then StateStoppedStr
      else if s = extCellStateFailed then StateFailedStr
      else if s = extCellStateUnknown then StateUnknownStr
      else if s = extCellStateExited then StateExitedStr
      else if s = extCellStateError then StateErrorStr
      else if s = extCellStateDegraded then StateDegradedStr
      else StateUnknownStr)"

definition ContainerState_String :: "int \<Rightarrow> string" where
  "ContainerState_String s =
     (if s = extContainerStatePending then StatePendingStr
      else if s = extContainerStateReady then StateReadyStr
      else if s = extContainerStateStopped then StateStoppedStr
      else if s = extContainerStatePaused then StatePausedStr
      else if s = extContainerStatePausing then StatePausingStr
      else if s = extContainerStateFailed then StateFailedStr
      else if s = extContainerStateUnknown then StateUnknownStr
      else if s = extContainerStateNotCreated then StateNotCreatedStr
      else if s = extContainerStateExited then StateExitedStr
      else if s = extContainerStateError then StateErrorStr
      else StateUnknownStr)"

section \<open>Parsing a label, assigning an int\<close>

definition parseRealmState :: "string \<Rightarrow> int result" where
  "parseRealmState l =
     (if l = StatePendingStr then Inr extRealmStatePending
      else if l = StateCreatingStr then Inr extRealmStateCreating
      else if l = StateReadyStr then Inr extRealmStateReady
      else if l = StateDeletingStr then Inr extRealmStateDeleting
      else if l = StateFailedStr then Inr extRealmStateFailed
      else if l = StateUnknownStr then Inr extRealmStateUnknown
      else Inl ErrUnknownLabel)"

definition parseSpaceState :: "string \<Rightarrow> int result" where
  "parseSpaceState l =
     (if l = StatePendingStr then Inr extSpaceStatePending
      else if l = StateReadyStr then Inr extSpaceStateReady
      else if l = StateFailedStr then Inr extSpaceStateFailed
      else if l = StateUnknownStr then Inr extSpaceStateUnknown
      else Inl ErrUnknownLabel)"

definition parseStackState :: "string \<Rightarrow> int result" where
  "parseStackState l =
     (if l = StatePendingStr then Inr extStackStatePending
      else if l = StateReadyStr then Inr extStackStateReady
      else if l = StateFailedStr then Inr extStackStateFailed
      else if l = StateUnknownStr then Inr extStackStateUnknown
      else Inl ErrUnknownLabel)"

definition parseCellState :: "string \<Rightarrow> int result" where
  "parseCellState l =
     (if l = StatePendingStr then Inr extCellStatePending
      else if l = StateReadyStr then Inr extCellStateReady
      else if l = StateStoppedStr then Inr extCellStateStopped
      else if l = StateFailedStr then Inr extCellStateFailed
      else if l = StateUnknownStr then Inr extCellStateUnknown
      else if l = StateExitedStr then Inr extCellStateExited
      else if l = StateErrorStr then Inr extCellStateError
      else if l = StateDegradedStr then Inr extCellStateDegraded
      else Inl ErrUnknownLabel)"

definition parseContainerState :: "string \<Rightarrow> int result" where
  "parseContainerState l =
     (if l = StatePendingStr then Inr extContainerStatePending
      else if l = StateReadyStr then Inr extContainerStateReady
      else if l = StateStoppedStr then Inr extContainerStateStopped
      else if l = StatePausedStr then Inr extContainerStatePaused
      else if l = StatePausingStr then Inr extContainerStatePausing
      else if l = StateFailedStr then Inr extContainerStateFailed
      else if l = StateUnknownStr then Inr extContainerStateUnknown
      else if l = StateNotCreatedStr then Inr extContainerStateNotCreated
      else if l = StateExitedStr then Inr extContainerStateExited
      else if l = StateErrorStr then Inr extContainerStateError
      else Inl ErrUnknownLabel)"

definition assignRealmStateInt :: "int \<Rightarrow> int result" where
  "assignRealmStateInt i =
     (if i < extRealmStatePending \<or> i > extRealmStateUnknown then Inl ErrOutOfRange else Inr i)"

definition assignSpaceStateInt :: "int \<Rightarrow> int result" where
  "assignSpaceStateInt i =
     (if i < extSpaceStatePending \<or> i > extSpaceStateUnknown then Inl ErrOutOfRange else Inr i)"

definition assignStackStateInt :: "int \<Rightarrow> int result" where
  "assignStackStateInt i =
     (if i < extStackStatePending \<or> i > extStackStateUnknown then Inl ErrOutOfRange else Inr i)"

definition assignCellStateInt :: "int \<Rightarrow> int result" where
  "assignCellStateInt i =
     (if i < extCellStatePending \<or> i > extCellStateDegraded then Inl ErrOutOfRange else Inr i)"

definition assignContainerStateInt :: "int \<Rightarrow> int result" where
  "assignContainerStateInt i =
     (if i < extContainerStatePending \<or> i > extContainerStateError then Inl ErrOutOfRange
      else Inr i)"

section \<open>JSON and YAML\<close>

text \<open>
  A JSON value as \<^verbatim>\<open>json.Unmarshal\<close> sees it when decoding into a string or an int: null leaves the
  empty string, an integer literal must fit an int. A YAML node is a scalar with its resolved tag
  or not a scalar; \<^verbatim>\<open>strconv.Atoi\<close> accepts an optional sign and decimal digits within an int.
\<close>

datatype json_value = JNull | JString string | JInteger int | JOther

datatype yaml_node = YScalar string string | YCollection

definition fits_int :: "int \<Rightarrow> bool" where
  "fits_int i \<longleftrightarrow> - (2 ^ 63) \<le> i \<and> i < 2 ^ 63"

fun json_string :: "json_value \<Rightarrow> string option" where
  "json_string JNull = Some ''''"
| "json_string (JString s) = Some s"
| "json_string _ = None"

fun json_int :: "json_value \<Rightarrow> int option" where
  "json_int JNull = Some 0"
| "json_int (JInteger i) = (if fits_int i then Some i else None)"
| "json_int _ = None"

definition Atoi :: "string \<Rightarrow> int result" where
  "Atoi s =
     (let neg = (case s of c # _ \<Rightarrow> c = CHR ''-'' | [] \<Rightarrow> False);
          ds = (case s of c # cs \<Rightarrow> if c = CHR ''-'' \<or> c = CHR ''+'' then cs else s | [] \<Rightarrow> s);
          v = (if neg then - int (digits_value ds) else int (digits_value ds))
      in if all_digits ds \<and> fits_int v then Inr v else Inl ErrAtoi)"

definition yamlIntTag :: string where
  "yamlIntTag = ''!!int''"

definition unmarshalJSON_with ::
  "(string \<Rightarrow> int result) \<Rightarrow> (int \<Rightarrow> int result) \<Rightarrow> json_value \<Rightarrow> int result" where
  "unmarshalJSON_with parse assign v =
     (case json_string v of
        Some str \<Rightarrow> parse str
      | None \<Rightarrow> (case json_int v of None \<Rightarrow> Inl ErrExpectedStringOrInt | Some i \<Rightarrow> assign i))"

definition unmarshalYAML_with ::
  "(string \<Rightarrow> int result) \<Rightarrow> (int \<Rightarrow> int result) \<Rightarrow> yaml_node \<Rightarrow> int result" where
  "unmarshalYAML_with parse assign node =
     (case node of
        YCollection \<Rightarrow> Inl ErrExpectedScalar
      | YScalar tag val \<Rightarrow>
          if tag = yamlIntTag then rbind (Atoi val) assign else parse val)"

definition RealmState_MarshalJSON :: "int \<Rightarrow> json_value" where
  "RealmState_MarshalJSON s = JString (RealmState_String s)"
definition SpaceState_MarshalJSON :: "int \<Rightarrow> json_value" where
  "SpaceState_MarshalJSON s = JString (SpaceState_String s)"
definition StackState_MarshalJSON :: "int \<Rightarrow> json_value" where
  "StackState_MarshalJSON s = JString (StackState_String s)"
definition CellState_MarshalJSON :: "int \<Rightarrow> json_value" where
  "CellState_MarshalJSON s = JString (CellState_String s)"
definition ContainerState_MarshalJSON :: "int \<Rightarrow> json_value" where
  "ContainerState_MarshalJSON s = JString (ContainerState_String s)"

text \<open>\<^verbatim>\<open>MarshalYAML\<close> returns the label; the encoder emits it as a string scalar.\<close>

definition RealmState_MarshalYAML :: "int \<Rightarrow> yaml_node" where
  "RealmState_MarshalYAML s = YScalar ''!!str'' (RealmState_String s)"
definition SpaceState_MarshalYAML :: "int \<Rightarrow> yaml_node" where
  "SpaceState_MarshalYAML s = YScalar ''!!str'' (SpaceState_String s)"
definition StackState_MarshalYAML :: "int \<Rightarrow> yaml_node" where
  "StackState_MarshalYAML s = YScalar ''!!str'' (StackState_String s)"
definition CellState_MarshalYAML :: "int \<Rightarrow> yaml_node" where
  "CellState_MarshalYAML s = YScalar ''!!str'' (CellState_String s)"
definition ContainerState_MarshalYAML :: "int \<Rightarrow> yaml_node" where
  "ContainerState_MarshalYAML s = YScalar ''!!str'' (ContainerState_String s)"

definition RealmState_UnmarshalJSON :: "json_value \<Rightarrow> int result" where
  "RealmState_UnmarshalJSON = unmarshalJSON_with parseRealmState assignRealmStateInt"
definition SpaceState_UnmarshalJSON :: "json_value \<Rightarrow> int result" where
  "SpaceState_UnmarshalJSON = unmarshalJSON_with parseSpaceState assignSpaceStateInt"
definition StackState_UnmarshalJSON :: "json_value \<Rightarrow> int result" where
  "StackState_UnmarshalJSON = unmarshalJSON_with parseStackState assignStackStateInt"
definition CellState_UnmarshalJSON :: "json_value \<Rightarrow> int result" where
  "CellState_UnmarshalJSON = unmarshalJSON_with parseCellState assignCellStateInt"
definition ContainerState_UnmarshalJSON :: "json_value \<Rightarrow> int result" where
  "ContainerState_UnmarshalJSON = unmarshalJSON_with parseContainerState assignContainerStateInt"

definition RealmState_UnmarshalYAML :: "yaml_node \<Rightarrow> int result" where
  "RealmState_UnmarshalYAML = unmarshalYAML_with parseRealmState assignRealmStateInt"
definition SpaceState_UnmarshalYAML :: "yaml_node \<Rightarrow> int result" where
  "SpaceState_UnmarshalYAML = unmarshalYAML_with parseSpaceState assignSpaceStateInt"
definition StackState_UnmarshalYAML :: "yaml_node \<Rightarrow> int result" where
  "StackState_UnmarshalYAML = unmarshalYAML_with parseStackState assignStackStateInt"
definition CellState_UnmarshalYAML :: "yaml_node \<Rightarrow> int result" where
  "CellState_UnmarshalYAML = unmarshalYAML_with parseCellState assignCellStateInt"
definition ContainerState_UnmarshalYAML :: "yaml_node \<Rightarrow> int result" where
  "ContainerState_UnmarshalYAML = unmarshalYAML_with parseContainerState assignContainerStateInt"

section \<open>The contract of one enum\<close>

locale state_enum =
  fixes str :: "int \<Rightarrow> string" and parse :: "string \<Rightarrow> int result"
    and assign :: "int \<Rightarrow> int result" and top :: int
  assumes parse_str: "0 \<le> s \<Longrightarrow> s \<le> top \<Longrightarrow> parse (str s) = Inr s"
    and parse_sound: "parse l = Inr s \<Longrightarrow> 0 \<le> s \<and> s \<le> top \<and> str s = l"
    and str_other: "\<not> (0 \<le> s \<and> s \<le> top) \<Longrightarrow> str s = StateUnknownStr"
    and assign_iff: "assign i = (if 0 \<le> i \<and> i \<le> top then Inr i else Inl ErrOutOfRange)"
begin

lemma str_inject: "0 \<le> s \<Longrightarrow> s \<le> top \<Longrightarrow> 0 \<le> t \<Longrightarrow> t \<le> top \<Longrightarrow> str s = str t \<Longrightarrow> s = t"
  by (metis parse_str sum.inject(2))

lemma json_roundtrip:
  "0 \<le> s \<Longrightarrow> s \<le> top \<Longrightarrow> unmarshalJSON_with parse assign (JString (str s)) = Inr s"
  by (simp add: unmarshalJSON_with_def parse_str)

lemma yaml_roundtrip:
  "0 \<le> s \<Longrightarrow> s \<le> top \<Longrightarrow> unmarshalYAML_with parse assign (YScalar ''!!str'' (str s)) = Inr s"
  by (simp add: unmarshalYAML_with_def parse_str yamlIntTag_def)

lemma json_sound:
  assumes "unmarshalJSON_with parse assign v = Inr s"
  shows "0 \<le> s \<and> s \<le> top \<and> (v = JString (str s) \<or> v = JInteger s)
    \<or> v = JNull \<and> parse '''' = Inr s"
proof (cases v)
  case (JString l)
  then show ?thesis
    using assms parse_sound[of l s] by (simp add: unmarshalJSON_with_def)
next
  case (JInteger i)
  then show ?thesis
    using assms by (auto simp: unmarshalJSON_with_def assign_iff split: if_splits)
qed (use assms in \<open>simp_all add: unmarshalJSON_with_def\<close>)

lemma yaml_sound:
  assumes "unmarshalYAML_with parse assign n = Inr s"
  shows "0 \<le> s \<and> s \<le> top"
  using assms parse_sound
  by (auto simp: unmarshalYAML_with_def rbind_eq_Inr assign_iff
      split: yaml_node.splits if_splits)

lemma json_legacy_int:
  "unmarshalJSON_with parse assign (JInteger i) =
    (if 0 \<le> i \<and> i \<le> top then Inr i
     else if fits_int i then Inl ErrOutOfRange else Inl ErrExpectedStringOrInt)"
  if "top < 2 ^ 63"
  using that by (auto simp: unmarshalJSON_with_def assign_iff fits_int_def)

end

lemma int_le_cases:
  fixes s :: int
  assumes "0 \<le> s" "s \<le> 9"
  shows "s \<in> {0, 1, 2, 3, 4, 5, 6, 7, 8, 9}"
proof -
  have "s \<in> set [0..9]"
    using assms by simp
  moreover have "[0..9::int] = [0, 1, 2, 3, 4, 5, 6, 7, 8, 9]"
    by code_simp
  ultimately show ?thesis
    by (simp only: list.set)
qed

interpretation realm_enum: state_enum RealmState_String parseRealmState assignRealmStateInt 5
proof unfold_locales
  show "parseRealmState (RealmState_String s) = Inr s" if "0 \<le> s" "s \<le> 5" for s
    using int_le_cases[of s] that by (auto simp: parseRealmState_def RealmState_String_def state_str_defs)
qed (auto simp: parseRealmState_def RealmState_String_def assignRealmStateInt_def state_str_defs
    split: if_splits)

interpretation space_enum: state_enum SpaceState_String parseSpaceState assignSpaceStateInt 3
proof unfold_locales
  show "parseSpaceState (SpaceState_String s) = Inr s" if "0 \<le> s" "s \<le> 3" for s
    using int_le_cases[of s] that by (auto simp: parseSpaceState_def SpaceState_String_def state_str_defs)
qed (auto simp: parseSpaceState_def SpaceState_String_def assignSpaceStateInt_def state_str_defs
    split: if_splits)

interpretation stack_enum: state_enum StackState_String parseStackState assignStackStateInt 3
proof unfold_locales
  show "parseStackState (StackState_String s) = Inr s" if "0 \<le> s" "s \<le> 3" for s
    using int_le_cases[of s] that by (auto simp: parseStackState_def StackState_String_def state_str_defs)
qed (auto simp: parseStackState_def StackState_String_def assignStackStateInt_def state_str_defs
    split: if_splits)

interpretation cell_enum: state_enum CellState_String parseCellState assignCellStateInt 7
proof unfold_locales
  show "parseCellState (CellState_String s) = Inr s" if "0 \<le> s" "s \<le> 7" for s
    using int_le_cases[of s] that by (auto simp: parseCellState_def CellState_String_def state_str_defs)
qed (auto simp: parseCellState_def CellState_String_def assignCellStateInt_def state_str_defs
    split: if_splits)

interpretation container_enum:
  state_enum ContainerState_String parseContainerState assignContainerStateInt 9
proof unfold_locales
  show "parseContainerState (ContainerState_String s) = Inr s" if "0 \<le> s" "s \<le> 9" for s
    using int_le_cases[of s] that
    by (auto simp: parseContainerState_def ContainerState_String_def state_str_defs)
qed (auto simp: parseContainerState_def ContainerState_String_def assignContainerStateInt_def
    state_str_defs split: if_splits)

section \<open>Properties of the state labels\<close>

lemmas state_codec_defs =
  RealmState_MarshalJSON_def SpaceState_MarshalJSON_def StackState_MarshalJSON_def
  CellState_MarshalJSON_def ContainerState_MarshalJSON_def
  RealmState_MarshalYAML_def SpaceState_MarshalYAML_def StackState_MarshalYAML_def
  CellState_MarshalYAML_def ContainerState_MarshalYAML_def
  RealmState_UnmarshalJSON_def SpaceState_UnmarshalJSON_def StackState_UnmarshalJSON_def
  CellState_UnmarshalJSON_def ContainerState_UnmarshalJSON_def
  RealmState_UnmarshalYAML_def SpaceState_UnmarshalYAML_def StackState_UnmarshalYAML_def
  CellState_UnmarshalYAML_def ContainerState_UnmarshalYAML_def

text \<open>
  C9. Every state of the five resource kinds survives being written to metadata and read back, in
  JSON and in YAML.
\<close>
theorem state_label_roundtrip:
  assumes "0 \<le> s"
  shows "(s \<le> 5 \<longrightarrow> RealmState_UnmarshalJSON (RealmState_MarshalJSON s) = Inr s
      \<and> RealmState_UnmarshalYAML (RealmState_MarshalYAML s) = Inr s)
    \<and> (s \<le> 3 \<longrightarrow> SpaceState_UnmarshalJSON (SpaceState_MarshalJSON s) = Inr s
      \<and> SpaceState_UnmarshalYAML (SpaceState_MarshalYAML s) = Inr s
      \<and> StackState_UnmarshalJSON (StackState_MarshalJSON s) = Inr s
      \<and> StackState_UnmarshalYAML (StackState_MarshalYAML s) = Inr s)
    \<and> (s \<le> 7 \<longrightarrow> CellState_UnmarshalJSON (CellState_MarshalJSON s) = Inr s
      \<and> CellState_UnmarshalYAML (CellState_MarshalYAML s) = Inr s)
    \<and> (s \<le> 9 \<longrightarrow> ContainerState_UnmarshalJSON (ContainerState_MarshalJSON s) = Inr s
      \<and> ContainerState_UnmarshalYAML (ContainerState_MarshalYAML s) = Inr s)"
  using assms unfolding state_codec_defs
  by (intro conjI impI realm_enum.json_roundtrip realm_enum.yaml_roundtrip
      space_enum.json_roundtrip space_enum.yaml_roundtrip stack_enum.json_roundtrip
      stack_enum.yaml_roundtrip cell_enum.json_roundtrip cell_enum.yaml_roundtrip
      container_enum.json_roundtrip container_enum.yaml_roundtrip)

theorem state_label_roundtrip_witness:
  "CellState_MarshalJSON 7 = JString ''Degraded'' \<and> CellState_UnmarshalJSON (JString ''Degraded'') = Inr 7"
  using state_label_roundtrip[of 7]
  by (simp add: CellState_MarshalJSON_def CellState_String_def StateDegradedStr_def)

text \<open>
  C10. Reading a cell state accepts exactly the eight labels and the legacy integers 0 to 7: any
  value that decodes is a state of the enum, and it is the one the label or the integer names.
\<close>
theorem CellState_UnmarshalJSON_iff:
  "CellState_UnmarshalJSON v = Inr s \<longleftrightarrow>
    0 \<le> s \<and> s \<le> 7 \<and> (v = JString (CellState_String s) \<or> v = JInteger s)"
proof
  assume "CellState_UnmarshalJSON v = Inr s"
  moreover have "parseCellState '''' \<noteq> Inr s"
    by (simp add: parseCellState_def state_str_defs)
  ultimately show "0 \<le> s \<and> s \<le> 7 \<and> (v = JString (CellState_String s) \<or> v = JInteger s)"
    using cell_enum.json_sound[of v s] by (auto simp: CellState_UnmarshalJSON_def)
next
  assume "0 \<le> s \<and> s \<le> 7 \<and> (v = JString (CellState_String s) \<or> v = JInteger s)"
  then show "CellState_UnmarshalJSON v = Inr s"
    using cell_enum.json_roundtrip[of s] cell_enum.json_legacy_int[of s]
    by (auto simp: CellState_UnmarshalJSON_def)
qed

end
