(* ===== verification/Naming.thy ===== *)
theory Naming
  imports Kuke_Prelude
begin

unbundle bit_operations_syntax

text \<open>
  Names and the identifiers derived from them: \<^verbatim>\<open>internal/util/naming\<close> (containerd IDs, network
  names, validation, cell-name allocation), \<^verbatim>\<open>internal/cni/config.go\<close> (bridge names) and the lock
  key of \<^verbatim>\<open>internal/controller/runner/cell_lock.go\<close>.
\<close>

section \<open>Validation\<close>

definition name_chars_ok :: "string \<Rightarrow> bool" where
  "name_chars_ok s \<longleftrightarrow> CHR ''_'' \<notin> set s \<and> CHR ''/'' \<notin> set s"

definition ValidateHierarchyName :: "string \<Rightarrow> string \<Rightarrow> unit result" where
  "ValidateHierarchyName kind name =
     (if TrimSpace kind = '''' then Inl ErrKindRequired
      else let trimmed = TrimSpace name in
        if trimmed = '''' then Inl ErrInvalidName
        else if \<not> name_chars_ok trimmed then Inl ErrInvalidName
        else Inr ())"

definition ValidateRealmName :: "string \<Rightarrow> unit result" where
  "ValidateRealmName name =
     (let trimmed = TrimSpace name in
        if trimmed = '''' then Inl ErrRealmNameRequired
        else if \<not> name_chars_ok trimmed then Inl ErrInvalidRealmName
        else Inr ())"

section \<open>Identifiers\<close>

definition BuildSpaceNetworkName :: "string \<Rightarrow> string \<Rightarrow> string result" where
  "BuildSpaceNetworkName realmName spaceName =
     (let spaceName = TrimSpace spaceName in
      if spaceName = '''' then Inl ErrSpaceNameRequired
      else let realmName = TrimSpace realmName in
        if realmName = '''' then Inl ErrRealmNameRequired
        else Inr (realmName @ ''-'' @ spaceName))"

definition BuildRootContainerdID :: "string \<Rightarrow> string \<Rightarrow> string \<Rightarrow> string result" where
  "BuildRootContainerdID spaceName stackName cellName =
     (let spaceName = TrimSpace spaceName; stackName = TrimSpace stackName;
          cellName = TrimSpace cellName
      in if spaceName = '''' then Inl ErrNameEmpty
         else if stackName = '''' then Inl ErrNameEmpty
         else if cellName = '''' then Inl ErrNameEmpty
         else Inr (spaceName @ ''_'' @ stackName @ ''_'' @ cellName @ ''_root''))"

definition BuildContainerdID :: "string \<Rightarrow> string \<Rightarrow> string \<Rightarrow> string \<Rightarrow> string result" where
  "BuildContainerdID spaceName stackName cellName containerName =
     (let spaceName = TrimSpace spaceName; stackName = TrimSpace stackName;
          cellName = TrimSpace cellName; containerName = TrimSpace containerName
      in if spaceName = '''' then Inl ErrNameEmpty
         else if stackName = '''' then Inl ErrNameEmpty
         else if cellName = '''' then Inl ErrNameEmpty
         else if containerName = '''' then Inl ErrNameEmpty
         else Inr (spaceName @ ''_'' @ stackName @ ''_'' @ cellName @ ''_'' @ containerName))"

text \<open>The identity tuple joined by NUL bytes that \<^verbatim>\<open>cellLockKey\<close> builds.\<close>

definition cellLockKey :: "string \<Rightarrow> string \<Rightarrow> string \<Rightarrow> string \<Rightarrow> string" where
  "cellLockKey realmName spaceName stackName name =
     TrimSpace realmName @ CHR 0x00 # TrimSpace spaceName @ CHR 0x00 #
     TrimSpace stackName @ CHR 0x00 # TrimSpace name"

section \<open>FNV-1a and the bridge name\<close>

definition fnv_offset :: "32 word" where "fnv_offset = 2166136261"
definition fnv_prime :: "32 word" where "fnv_prime = 16777619"

definition fnv32a :: "string \<Rightarrow> 32 word" where
  "fnv32a s = foldl (\<lambda>h c. (h XOR word_of_nat (of_char c)) * fnv_prime) fnv_offset s"

definition hex_char :: "nat \<Rightarrow> char" where
  "hex_char d = ''0123456789abcdef'' ! d"

definition hex8 :: "32 word \<Rightarrow> string" where
  "hex8 w = map (\<lambda>i. hex_char (unat (drop_bit (i * 4) w AND 0xf))) [7, 6, 5, 4, 3, 2, 1, 0]"

definition hashBridgeName :: "32 word \<Rightarrow> string" where
  "hashBridgeName w = ''k-'' @ hex8 w"

definition SafeBridgeName :: "string \<Rightarrow> string" where
  "SafeBridgeName name = (if name = '''' then '''' else hashBridgeName (fnv32a name))"

section \<open>Generated cell names\<close>

text \<open>
  The random suffixes come from \<^verbatim>\<open>crypto/rand\<close>: \<open>draw i\<close> is the result of the \<open>i\<close>-th call of
  \<^verbatim>\<open>RandomHexSuffix\<close>. The collision probe \<open>exists\<close> is the caller's; \<open>None\<close> is a nil function.
\<close>

definition MaxCellNameAllocAttempts :: nat where
  "MaxCellNameAllocAttempts = 64"

definition GenerateCellName :: "string result \<Rightarrow> string \<Rightarrow> string result" where
  "GenerateCellName drawn pfx = rbind drawn (\<lambda>s. Inr (TrimSpace pfx @ ''-'' @ s))"

fun alloc_loop :: "nat \<Rightarrow> nat \<Rightarrow> (nat \<Rightarrow> string result) \<Rightarrow> string
    \<Rightarrow> (string \<Rightarrow> bool result) option \<Rightarrow> string result" where
  "alloc_loop 0 i draw pfx ex = Inl ErrCellNameCollision"
| "alloc_loop (Suc n) i draw pfx ex =
     rbind (GenerateCellName (draw i) pfx) (\<lambda>candidate.
       case ex of
         None \<Rightarrow> Inr candidate
       | Some probe \<Rightarrow> rbind (probe candidate) (\<lambda>taken.
           if \<not> taken then Inr candidate else alloc_loop n (Suc i) draw pfx ex))"

definition AllocCellName :: "string \<Rightarrow> string \<Rightarrow> (nat \<Rightarrow> string result)
    \<Rightarrow> (string \<Rightarrow> bool result) option \<Rightarrow> string result" where
  "AllocCellName explicit pfx draw ex =
     (let e = TrimSpace explicit in
      if e \<noteq> '''' then Inr e else alloc_loop MaxCellNameAllocAttempts 0 draw pfx ex)"

section \<open>Facts\<close>

lemma ValidateHierarchyName_Inr:
  "ValidateHierarchyName kind name = Inr () \<Longrightarrow>
    TrimSpace name \<noteq> '''' \<and> CHR ''_'' \<notin> set (TrimSpace name)"
  by (auto simp: ValidateHierarchyName_def name_chars_ok_def Let_def split: if_splits)

lemma BuildContainerdID_valid:
  assumes "TrimSpace a \<noteq> ''''" "TrimSpace b \<noteq> ''''" "TrimSpace c \<noteq> ''''" "TrimSpace d \<noteq> ''''"
  shows "BuildContainerdID a b c d =
    Inr (TrimSpace a @ ''_'' @ TrimSpace b @ ''_'' @ TrimSpace c @ ''_'' @ TrimSpace d)"
  using assms by (simp add: BuildContainerdID_def Let_def)

lemma joined4_inject:
  assumes "a @ x # b @ x # c @ x # d = a' @ x # b' @ x # c' @ x # d'"
    and "x \<notin> set a" "x \<notin> set b" "x \<notin> set c" "x \<notin> set a'" "x \<notin> set b'" "x \<notin> set c'"
  shows "a = a' \<and> b = b' \<and> c = c' \<and> d = d'"
  using assms by (metis separated_inject)

lemma length_hex8 [simp]: "length (hex8 w) = 8"
  by (simp add: hex8_def)

section \<open>Properties of names\<close>

text \<open>
  C6. Containerd IDs identify their container: for space, stack and cell names that pass
  validation, two ID requests give the same ID only for the same (trimmed) names, and the root
  container's ID of a cell is a container's ID exactly for the container name "root" of that cell.
\<close>
theorem containerd_ids_injective:
  assumes "ValidateHierarchyName k1 sp = Inr ()" "ValidateHierarchyName k2 st = Inr ()"
    "ValidateHierarchyName k3 ce = Inr ()" "ValidateHierarchyName k4 sp' = Inr ()"
    "ValidateHierarchyName k5 st' = Inr ()" "ValidateHierarchyName k6 ce' = Inr ()"
  shows "(BuildContainerdID sp st ce co = Inr i \<and> BuildContainerdID sp' st' ce' co' = Inr i \<longrightarrow>
      TrimSpace sp = TrimSpace sp' \<and> TrimSpace st = TrimSpace st' \<and> TrimSpace ce = TrimSpace ce'
      \<and> TrimSpace co = TrimSpace co')
    \<and> (BuildRootContainerdID sp st ce = Inr i \<and> BuildContainerdID sp' st' ce' co' = Inr i \<longrightarrow>
      TrimSpace sp = TrimSpace sp' \<and> TrimSpace st = TrimSpace st' \<and> TrimSpace ce = TrimSpace ce'
      \<and> TrimSpace co' = ''root'')"
proof -
  have ids: "BuildContainerdID a b c d = Inr x \<Longrightarrow>
      x = TrimSpace a @ ''_'' @ TrimSpace b @ ''_'' @ TrimSpace c @ ''_'' @ TrimSpace d"
    "BuildRootContainerdID a b c = Inr x \<Longrightarrow>
      x = TrimSpace a @ ''_'' @ TrimSpace b @ ''_'' @ TrimSpace c @ ''_'' @ ''root''" for a b c d x
    by (auto simp: BuildContainerdID_def BuildRootContainerdID_def Let_def split: if_splits)
  have inj: "TrimSpace sp = TrimSpace sp' \<and> TrimSpace st = TrimSpace st' \<and> TrimSpace ce = TrimSpace ce' \<and> d = d'"
    if "TrimSpace sp @ ''_'' @ TrimSpace st @ ''_'' @ TrimSpace ce @ ''_'' @ d
      = TrimSpace sp' @ ''_'' @ TrimSpace st' @ ''_'' @ TrimSpace ce' @ ''_'' @ d'" for d d'
    using that assms[THEN ValidateHierarchyName_Inr]
      joined4_inject[of "TrimSpace sp" "CHR ''_''" "TrimSpace st" "TrimSpace ce" d
        "TrimSpace sp'" "TrimSpace st'" "TrimSpace ce'" d']
    by simp
  have child: "TrimSpace sp = TrimSpace sp' \<and> TrimSpace st = TrimSpace st' \<and> TrimSpace ce = TrimSpace ce'
      \<and> TrimSpace co = TrimSpace co'"
    if "BuildContainerdID sp st ce co = Inr i" "BuildContainerdID sp' st' ce' co' = Inr i"
    using that[THEN ids(1)] by (intro inj) metis
  have root: "TrimSpace sp = TrimSpace sp' \<and> TrimSpace st = TrimSpace st' \<and> TrimSpace ce = TrimSpace ce'
      \<and> ''root'' = TrimSpace co'"
    if "BuildRootContainerdID sp st ce = Inr i" "BuildContainerdID sp' st' ce' co' = Inr i"
    using that(1)[THEN ids(2)] that(2)[THEN ids(1)] by (intro inj) metis
  show ?thesis
    using child root by metis
qed

lemma demo_names:
  "ValidateHierarchyName ''space'' '' web '' = Inr ()" "ValidateHierarchyName ''stack'' ''main'' = Inr ()"
  "ValidateHierarchyName ''cell'' ''c-1'' = Inr ()"
  "BuildContainerdID '' web '' ''main'' ''c-1'' ''app'' = Inr ''web_main_c-1_app''"
  "BuildContainerdID ''web'' ''main'' ''c-1'' ''app'' = Inr ''web_main_c-1_app''"
  "ValidateHierarchyName ''space'' ''web'' = Inr ()"
  by code_simp+

theorem containerd_ids_injective_witness:
  "BuildContainerdID '' web '' ''main'' ''c-1'' ''app'' = Inr ''web_main_c-1_app''
    \<and> BuildContainerdID ''web'' ''main'' ''c-1'' ''app'' = Inr ''web_main_c-1_app''
    \<and> TrimSpace '' web '' = TrimSpace ''web''"
  using containerd_ids_injective[OF demo_names(1,2,3) demo_names(6) demo_names(2,3),
      of "''app''" "''web_main_c-1_app''" "''app''"] demo_names(4,5) by simp

lemma alloc_loop_filter:
  assumes "\<And>j. draw j = Inr (sfx j)" and "\<And>j. probe (TrimSpace pfx @ ''-'' @ sfx j) = Inr (taken j)"
  shows "alloc_loop n i draw pfx (Some probe) =
    (case filter (\<lambda>j. \<not> taken j) [i..<i + n] of
       [] \<Rightarrow> Inl ErrCellNameCollision
     | j # _ \<Rightarrow> Inr (TrimSpace pfx @ ''-'' @ sfx j))"
proof (induction n arbitrary: i)
  case (Suc n)
  have "[i..<i + Suc n] = i # [Suc i..<Suc i + n]"
    by (simp add: upt_conv_Cons del: upt_Suc)
  then show ?case
    using assms(1)[of i] assms(2)[of i] Suc.IH[of "Suc i"]
    by (simp add: GenerateCellName_def del: upt_Suc)
qed simp

text \<open>
  C7. Cell-name allocation, for a random source that answers: an explicit name is used verbatim;
  otherwise the first free candidate among the first 64 draws is returned, and when all 64 are
  taken the result is the collision error, so a name that is already in use is never returned.
\<close>
theorem AllocCellName_first_free:
  assumes "\<And>j. draw j = Inr (sfx j)" and "\<And>j. probe (TrimSpace pfx @ ''-'' @ sfx j) = Inr (taken j)"
  shows "AllocCellName explicit pfx draw (Some probe) =
    (if TrimSpace explicit \<noteq> '''' then Inr (TrimSpace explicit)
     else case filter (\<lambda>j. \<not> taken j) [0..<64] of
        [] \<Rightarrow> Inl ErrCellNameCollision
      | j # _ \<Rightarrow> Inr (TrimSpace pfx @ ''-'' @ sfx j))"
  using alloc_loop_filter[of draw sfx probe pfx taken 64 0] assms
  by (simp add: AllocCellName_def MaxCellNameAllocAttempts_def Let_def del: upt_Suc)

theorem AllocCellName_first_free_witness:
  "AllocCellName '' '' ''web'' (\<lambda>j. Inr (if j = 0 then ''0a'' else ''1b''))
    (Some (\<lambda>n. Inr (n = ''web-0a''))) = Inr ''web-1b''"
proof -
  have up: "[0..<64] = 0 # 1 # [2..<64::nat]"
    by (simp add: upt_conv_Cons del: upt_Suc)
  have trim: "TrimSpace '' '' = ''''" "TrimSpace ''web'' = ''web''"
    by code_simp+
  show ?thesis
    using AllocCellName_first_free[of "\<lambda>j. Inr (if j = 0 then ''0a'' else ''1b'')"
        "\<lambda>j. if j = 0 then ''0a'' else ''1b''" "\<lambda>n. Inr (n = ''web-0a'')" "''web''" "\<lambda>j. j = 0" "'' ''"]
    by (simp add: up trim del: upt_Suc)
qed


text \<open>
  The network name joins realm and space with a dash that valid names may contain, so two spaces
  of different realms can share a network name and with it the bridge.
\<close>
lemma network_name_collision:
  "ValidateRealmName ''a-b'' = Inr () \<and> ValidateRealmName ''a'' = Inr ()
    \<and> ValidateHierarchyName ''space'' ''c'' = Inr () \<and> ValidateHierarchyName ''space'' ''b-c'' = Inr ()
    \<and> BuildSpaceNetworkName ''a-b'' ''c'' = BuildSpaceNetworkName ''a'' ''b-c''"
  by code_simp

end
