(* ===== verification/Model_Hub.thy ===== *)
theory Model_Hub
  imports Kuke_Prelude
begin

text \<open>
  The internal object model of \<^verbatim>\<open>internal/modelhub\<close>: realms, spaces, stacks, cells and containers,
  with the source's field names behind a short prefix, the enums in their declaration order, the
  helper \<^verbatim>\<open>ContainerTty.IsEmpty\<close>, and the secret and volume carriers.
\<close>

section \<open>Enums\<close>

datatype RealmState =
    RealmStatePending | RealmStateCreating | RealmStateReady | RealmStateDeleting
  | RealmStateFailed | RealmStateUnknown

datatype SpaceState =
    SpaceStatePending | SpaceStateCreating | SpaceStateReady | SpaceStateDeleting
  | SpaceStateFailed | SpaceStateUnknown

datatype StackState =
    StackStatePending | StackStateReady | StackStateFailed | StackStateUnknown

datatype CellState =
    CellStatePending | CellStateReady | CellStateStopped | CellStateFailed | CellStateUnknown
  | CellStateExited | CellStateError | CellStateDegraded

datatype ContainerState =
    ContainerStatePending | ContainerStateReady | ContainerStateStopped | ContainerStatePaused
  | ContainerStatePausing | ContainerStateFailed | ContainerStateUnknown
  | ContainerStateNotCreated | ContainerStateExited | ContainerStateError

section \<open>Containers\<close>

record ContainerCapabilities =
  cap_Drop :: "string slice"
  cap_Add :: "string slice"

record ContainerTmpfsMount =
  tm_Path :: string
  tm_SizeBytes :: int
  tm_Options :: "string slice"

record ContainerResources =
  res_MemoryLimitBytes :: "int option"
  res_CPUShares :: "int option"
  res_PidsLimit :: "int option"

record ContainerSecretRef =
  sr_Name :: string
  sr_Realm :: string
  sr_Space :: string
  sr_Stack :: string
  sr_Cell :: string

record ContainerSecret =
  sec_Name :: string
  sec_FromFile :: string
  sec_FromEnv :: string
  sec_SecretRef :: "ContainerSecretRef option"
  sec_MountPath :: string

record VolumeRef =
  vr_Name :: string
  vr_Realm :: string
  vr_Space :: string
  vr_Stack :: string

text \<open>
  \<^verbatim>\<open>VolumeMount\<close> values are compared with the built-in \<^verbatim>\<open>!=\<close>, which compares the \<^verbatim>\<open>VolumeRef\<close>
  pointer by identity, so that field keeps its address.
\<close>

record VolumeMount =
  vm_Kind :: string
  vm_Source :: string
  vm_Target :: string
  vm_VolumeRef :: "VolumeRef goptr"
  vm_ReadOnly :: bool
  vm_SizeBytes :: int
  vm_Mode :: "32 word"
  vm_Ensure :: bool

record ContainerRepo =
  repo_Name :: string
  repo_Target :: string
  repo_Branch :: string
  repo_Ref :: string
  repo_URL :: string
  repo_Required :: bool

record GitIdentity =
  gi_Name :: string
  gi_Email :: string

record ContainerGit =
  git_Author :: "GitIdentity option"
  git_Committer :: "GitIdentity option"
  git_SigningKey :: string
  git_Sign :: "string slice"
  git_AllowedSigners :: string

record TtyStage =
  ts_Script :: string
  ts_RunOn :: string

record ContainerTty =
  tty_Prompt :: string
  tty_OnInit :: "TtyStage slice"
  tty_LogFile :: string
  tty_LogLevel :: string

record ContainerSpec =
  cs_ID :: string
  cs_ContainerdID :: string
  cs_RealmName :: string
  cs_SpaceName :: string
  cs_StackName :: string
  cs_CellName :: string
  cs_Root :: bool
  cs_Image :: string
  cs_Command :: string
  cs_Args :: "string slice"
  cs_WorkingDir :: string
  cs_Env :: "string slice"
  cs_Ports :: "string slice"
  cs_Volumes :: "VolumeMount slice"
  cs_Networks :: "string slice"
  cs_NetworksAliases :: "string slice"
  cs_Privileged :: bool
  cs_HostNetwork :: bool
  cs_HostPID :: bool
  cs_HostCgroup :: bool
  cs_NestedCgroupRuntime :: bool
  cs_User :: string
  cs_ReadOnlyRootFilesystem :: bool
  cs_Capabilities :: "ContainerCapabilities option"
  cs_SecurityOpts :: "string slice"
  cs_Devices :: "string slice"
  cs_Tmpfs :: "ContainerTmpfsMount slice"
  cs_Resources :: "ContainerResources option"
  cs_Secrets :: "ContainerSecret slice"
  cs_Repos :: "ContainerRepo slice"
  cs_Git :: "ContainerGit option"
  cs_CNIConfigPath :: string
  cs_RestartPolicy :: string
  cs_RestartBackoffSeconds :: "int option"
  cs_RestartMaxRetries :: "int option"
  cs_Attachable :: bool
  cs_Tty :: "ContainerTty option"
  cs_CellCgroupPath :: string
  cs_EtcHostsPath :: string
  cs_EtcHostnamePath :: string

record RepoStatus =
  rs_Name :: string
  rs_Target :: string
  rs_State :: string
  rs_Commit :: string
  rs_Error :: string

record StageStatus =
  ss_Index :: int
  ss_State :: string
  ss_Error :: string
  ss_Hash :: string

record ContainerStatus =
  st_Name :: string
  st_ID :: string
  st_CreatedAt :: gotime
  st_State :: ContainerState
  st_RestartCount :: int
  st_RestartTime :: gotime
  st_StartTime :: gotime
  st_FinishTime :: gotime
  st_ExitCode :: int
  st_ExitSignal :: string
  st_Repos :: "RepoStatus slice"
  st_Stages :: "StageStatus slice"

record ContainerMetadata =
  cm_Name :: string
  cm_Labels :: "(string, string) gomap"

record Container =
  c_Metadata :: ContainerMetadata
  c_Spec :: ContainerSpec
  c_Status :: ContainerStatus

definition RestartPolicyAlways :: string where
  "RestartPolicyAlways = ''always''"

definition RestartPolicyOnFailure :: string where
  "RestartPolicyOnFailure = ''on-failure''"

definition RestartPolicyNever :: string where
  "RestartPolicyNever = ''never''"

lemmas restart_policy_defs [go_defs] =
  RestartPolicyAlways_def RestartPolicyOnFailure_def RestartPolicyNever_def

definition ContainerTty_IsEmpty :: "ContainerTty option \<Rightarrow> bool" where
  "ContainerTty_IsEmpty t =
     (case t of
        None \<Rightarrow> True
      | Some t \<Rightarrow>
          if tty_Prompt t \<noteq> '''' then False
          else if tty_LogFile t \<noteq> '''' then False
          else if tty_LogLevel t \<noteq> '''' then False
          else list_all (\<lambda>s. \<not> (ts_Script s \<noteq> '''' \<or> ts_RunOn s \<noteq> '''')) (elems (tty_OnInit t)))"

section \<open>Cells\<close>

record CellMetadata =
  ceM_Name :: string
  ceM_Labels :: "(string, string) gomap"
  ceM_Annotations :: "(string, string) gomap"
  ceM_Generation :: int

record CellTty =
  ct_Default :: string

record CellBindingRef =
  cbr_Name :: string
  cbr_Realm :: string
  cbr_Space :: string
  cbr_Stack :: string

record CellProvenance =
  cp_BindingKind :: string
  cp_BindingRef :: CellBindingRef
  cp_Params :: "(string, string) gomap option"
  cp_EnvOverrides :: "string slice"

record CellSpec =
  ceS_ID :: string
  ceS_RealmName :: string
  ceS_SpaceName :: string
  ceS_StackName :: string
  ceS_RootContainerID :: string
  ceS_Tty :: "CellTty option"
  ceS_Containers :: "ContainerSpec list"
  ceS_AutoDelete :: bool
  ceS_NestedCgroupRuntime :: bool
  ceS_RuntimeEnv :: "string slice"
  ceS_Provenance :: "CellProvenance option"
  ceS_IgnoreDiskPressure :: bool

record CellNetworkStatus =
  cn_BridgeName :: string

record CellStatus =
  ceT_State :: CellState
  ceT_CgroupPath :: string
  ceT_SubtreeControllers :: "string slice"
  ceT_Network :: CellNetworkStatus
  ceT_Containers :: "ContainerStatus list"
  ceT_ReadyObserved :: bool
  ceT_CreatedAt :: gotime
  ceT_UpdatedAt :: gotime
  ceT_ReadyAt :: gotime
  ceT_Reason :: string
  ceT_Message :: message
  ceT_CgroupReady :: bool
  ceT_ObservedGeneration :: int
  ceT_OutOfSync :: bool
  ceT_OutOfSyncReason :: string
  ceT_OutOfSyncError :: string

record Cell =
  ce_Metadata :: CellMetadata
  ce_Spec :: CellSpec
  ce_Status :: CellStatus

section \<open>Realms, spaces and stacks\<close>

record RegistryCredentials =
  rc_Username :: string
  rc_Password :: string
  rc_ServerAddress :: string

record RealmMetadata =
  reM_Name :: string
  reM_Labels :: "(string, string) gomap"
  reM_Generation :: int

record RealmSpec =
  reS_Namespace :: string
  reS_RegistryCredentials :: "RegistryCredentials slice"

record RealmStatus =
  reT_State :: RealmState
  reT_CgroupPath :: string
  reT_SubtreeControllers :: "string slice"
  reT_CreatedAt :: gotime
  reT_UpdatedAt :: gotime
  reT_ReadyAt :: gotime
  reT_Reason :: string
  reT_Message :: string
  reT_CgroupReady :: bool
  reT_ContainerdNamespaceReady :: bool
  reT_ObservedGeneration :: int

record Realm =
  re_Metadata :: RealmMetadata
  re_Spec :: RealmSpec
  re_Status :: RealmStatus

record EgressAllowRule =
  ear_Host :: string
  ear_CIDR :: string
  ear_Ports :: "int slice"

record EgressPolicy =
  ep_Default :: string
  ep_Allow :: "EgressAllowRule slice"

record SpaceNetwork =
  sn_Egress :: "EgressPolicy option"

record SpaceContainerDefaults =
  scd_User :: string
  scd_ReadOnlyRootFilesystem :: "bool option"
  scd_Capabilities :: "ContainerCapabilities option"
  scd_SecurityOpts :: "string slice"
  scd_Tmpfs :: "ContainerTmpfsMount slice"
  scd_Resources :: "ContainerResources option"

record SpaceDefaults =
  sd_Container :: "SpaceContainerDefaults option"

record SpaceMetadata =
  spM_Name :: string
  spM_Labels :: "(string, string) gomap"
  spM_Generation :: int

record SpaceSpec =
  spS_RealmName :: string
  spS_CNIConfigPath :: string
  spS_Network :: "SpaceNetwork option"
  spS_Defaults :: "SpaceDefaults option"

record SpaceStatus =
  spT_State :: SpaceState
  spT_CgroupPath :: string
  spT_SubtreeControllers :: "string slice"
  spT_CreatedAt :: gotime
  spT_UpdatedAt :: gotime
  spT_ReadyAt :: gotime
  spT_Reason :: string
  spT_Message :: string
  spT_CgroupReady :: bool
  spT_ObservedGeneration :: int

record Space =
  sp_Metadata :: SpaceMetadata
  sp_Spec :: SpaceSpec
  sp_Status :: SpaceStatus

record StackMetadata =
  skM_Name :: string
  skM_Labels :: "(string, string) gomap"
  skM_Generation :: int

record StackSpec =
  skS_ID :: string
  skS_RealmName :: string
  skS_SpaceName :: string

record StackStatus =
  skT_State :: StackState
  skT_CgroupPath :: string
  skT_SubtreeControllers :: "string slice"
  skT_CreatedAt :: gotime
  skT_UpdatedAt :: gotime
  skT_ReadyAt :: gotime
  skT_Reason :: string
  skT_Message :: string
  skT_CgroupReady :: bool
  skT_ObservedGeneration :: int

record Stack =
  sk_Metadata :: StackMetadata
  sk_Spec :: StackSpec
  sk_Status :: StackStatus

section \<open>Secrets and volumes\<close>

record SecretMetadata =
  scM_Name :: string
  scM_Realm :: string
  scM_Space :: string
  scM_Stack :: string
  scM_Cell :: string

record SecretSpec =
  scS_Data :: string

record Secret =
  sc_Metadata :: SecretMetadata
  sc_Spec :: SecretSpec

record VolumeMetadata =
  voM_Name :: string
  voM_Realm :: string
  voM_Space :: string
  voM_Stack :: string

record VolumeSpec =
  voS_ReclaimPolicy :: string

record Volume =
  vo_Metadata :: VolumeMetadata
  vo_Spec :: VolumeSpec

section \<open>Zero values\<close>

text \<open>The zero values of the structs, the starting point of a Go literal that sets some fields.\<close>

definition zeroContainerSpec :: ContainerSpec where
  "zeroContainerSpec = \<lparr>cs_ID = '''', cs_ContainerdID = '''', cs_RealmName = '''', cs_SpaceName = '''',
     cs_StackName = '''', cs_CellName = '''', cs_Root = False, cs_Image = '''', cs_Command = '''',
     cs_Args = None, cs_WorkingDir = '''', cs_Env = None, cs_Ports = None, cs_Volumes = None,
     cs_Networks = None, cs_NetworksAliases = None, cs_Privileged = False, cs_HostNetwork = False,
     cs_HostPID = False, cs_HostCgroup = False, cs_NestedCgroupRuntime = False, cs_User = '''',
     cs_ReadOnlyRootFilesystem = False, cs_Capabilities = None, cs_SecurityOpts = None,
     cs_Devices = None, cs_Tmpfs = None, cs_Resources = None, cs_Secrets = None, cs_Repos = None,
     cs_Git = None, cs_CNIConfigPath = '''', cs_RestartPolicy = '''', cs_RestartBackoffSeconds = None,
     cs_RestartMaxRetries = None, cs_Attachable = False, cs_Tty = None, cs_CellCgroupPath = '''',
     cs_EtcHostsPath = '''', cs_EtcHostnamePath = ''''\<rparr>"

definition zeroContainerStatus :: ContainerStatus where
  "zeroContainerStatus = \<lparr>st_Name = '''', st_ID = '''', st_CreatedAt = 0,
     st_State = ContainerStatePending, st_RestartCount = 0, st_RestartTime = 0, st_StartTime = 0,
     st_FinishTime = 0, st_ExitCode = 0, st_ExitSignal = '''', st_Repos = None, st_Stages = None\<rparr>"

definition zeroCellStatus :: CellStatus where
  "zeroCellStatus = \<lparr>ceT_State = CellStatePending, ceT_CgroupPath = '''', ceT_SubtreeControllers = None,
     ceT_Network = \<lparr>cn_BridgeName = ''''\<rparr>, ceT_Containers = [], ceT_ReadyObserved = False,
     ceT_CreatedAt = 0, ceT_UpdatedAt = 0, ceT_ReadyAt = 0, ceT_Reason = '''', ceT_Message = Msg '''',
     ceT_CgroupReady = False, ceT_ObservedGeneration = 0, ceT_OutOfSync = False,
     ceT_OutOfSyncReason = '''', ceT_OutOfSyncError = ''''\<rparr>"

definition zeroCell :: Cell where
  "zeroCell = \<lparr>ce_Metadata = \<lparr>ceM_Name = '''', ceM_Labels = [], ceM_Annotations = [], ceM_Generation = 0\<rparr>,
     ce_Spec = \<lparr>ceS_ID = '''', ceS_RealmName = '''', ceS_SpaceName = '''', ceS_StackName = '''',
       ceS_RootContainerID = '''', ceS_Tty = None, ceS_Containers = [], ceS_AutoDelete = False,
       ceS_NestedCgroupRuntime = False, ceS_RuntimeEnv = None, ceS_Provenance = None,
       ceS_IgnoreDiskPressure = False\<rparr>,
     ce_Status = zeroCellStatus\<rparr>"

end
