(* ===== verification/Apply_Diff.thy ===== *)
theory Apply_Diff
  imports Model_Hub "HOL-Library.Multiset"
begin

text \<open>
  \<^verbatim>\<open>internal/controller/apply/diff.go\<close>: the comparison of a desired resource with the stored one that
  decides whether an apply updates in place, recreates, or does nothing. The comparators come
  first, then the per-kind diffs, then what each of them decides: every comparator is equality of
  a normal form, every result is well formed, and the verdict is read off the fields that differ.
\<close>

section \<open>Results\<close>

datatype ChangeType = ChangeTypeNone | ChangeTypeAdditive | ChangeTypeCompatible | ChangeTypeBreaking

record DiffResult =
  dr_HasChanges :: bool
  dr_ChangeType :: ChangeType
  dr_ChangedFields :: "string list"
  dr_BreakingChanges :: "string list"
  dr_Details :: "(string, message) gomap"

record ContainerDiff =
  cdf_Name :: string
  cdf_Action :: string
  cdf_ChangedFields :: "string list"
  cdf_BreakingChanges :: "string list"
  cdf_Details :: "(string, message) gomap"

record CellDiffResult =
  cdr_Diff :: DiffResult
  cdr_RootContainerChanged :: bool
  cdr_RootContainerDetails :: "(string, message) gomap"
  cdr_Containers :: "ContainerDiff list"
  cdr_Orphans :: "string list"

definition emptyDiff :: DiffResult where
  "emptyDiff = \<lparr>dr_HasChanges = False, dr_ChangeType = ChangeTypeNone, dr_ChangedFields = [],
     dr_BreakingChanges = [], dr_Details = []\<rparr>"

definition emptyCellDiff :: CellDiffResult where
  "emptyCellDiff = \<lparr>cdr_Diff = emptyDiff, cdr_RootContainerChanged = False,
     cdr_RootContainerDetails = [], cdr_Containers = [], cdr_Orphans = []\<rparr>"

definition labelsChangedMsg :: message where
  "labelsChangedMsg = Msg ''labels changed''"

text \<open>The two ways an inline branch records a field: as breaking, or as compatible.\<close>

definition markBreaking :: "string \<Rightarrow> message \<Rightarrow> DiffResult \<Rightarrow> DiffResult" where
  "markBreaking field detail r =
     r\<lparr>dr_HasChanges := True, dr_ChangeType := ChangeTypeBreaking,
       dr_BreakingChanges := dr_BreakingChanges r @ [field],
       dr_Details := map_put field detail (dr_Details r)\<rparr>"

definition markCompatible :: "string \<Rightarrow> message \<Rightarrow> DiffResult \<Rightarrow> DiffResult" where
  "markCompatible field detail r =
     r\<lparr>dr_HasChanges := True,
       dr_ChangeType := (if dr_ChangeType r = ChangeTypeNone then ChangeTypeCompatible
                         else dr_ChangeType r),
       dr_ChangedFields := dr_ChangedFields r @ [field],
       dr_Details := map_put field detail (dr_Details r)\<rparr>"

definition recordSpecFieldChange ::
  "bool \<Rightarrow> bool \<Rightarrow> string \<Rightarrow> message \<Rightarrow> DiffResult \<Rightarrow> DiffResult" where
  "recordSpecFieldChange rootContainer breakingOnRoot field detail r =
     (if rootContainer \<and> breakingOnRoot then markBreaking field detail r
      else markCompatible field detail r)"

section \<open>Comparators\<close>

fun all_pairs_equal :: "('a \<Rightarrow> 'a \<Rightarrow> bool) \<Rightarrow> 'a list \<Rightarrow> 'a list \<Rightarrow> bool" where
  "all_pairs_equal eq (x # xs) (y # ys) = (if \<not> eq x y then False else all_pairs_equal eq xs ys)"
| "all_pairs_equal eq _ _ = True"

definition same_length_and :: "('a \<Rightarrow> 'a \<Rightarrow> bool) \<Rightarrow> 'a slice \<Rightarrow> 'a slice \<Rightarrow> bool" where
  "same_length_and eq a b =
     (if length (elems a) \<noteq> length (elems b) then False else all_pairs_equal eq (elems a) (elems b))"

definition slicesEqual :: "string slice \<Rightarrow> string slice \<Rightarrow> bool" where
  "slicesEqual = same_length_and (=)"

definition mapsEqual :: "(string, string) gomap \<Rightarrow> (string, string) gomap \<Rightarrow> bool" where
  "mapsEqual a b =
     (if length a \<noteq> length b then False else list_all (\<lambda>(k, v). map_get '''' b k = v) a)"

definition filterManagedLabels :: "(string, string) gomap \<Rightarrow> (string, string) gomap" where
  "filterManagedLabels m = (if m = [] then m else filter (\<lambda>(k, v). \<not> suffix ''.kukeon.io'' k) m)"

definition userLabelsEqual :: "(string, string) gomap \<Rightarrow> (string, string) gomap \<Rightarrow> bool" where
  "userLabelsEqual desired actual = mapsEqual (filterManagedLabels desired) (filterManagedLabels actual)"

definition cellTtyEqual :: "CellTty option \<Rightarrow> CellTty option \<Rightarrow> bool" where
  "cellTtyEqual a b =
     (case (a, b) of
        (None, None) \<Rightarrow> True
      | (None, Some b) \<Rightarrow> ct_Default b = ''''
      | (Some a, None) \<Rightarrow> ct_Default a = ''''
      | (Some a, Some b) \<Rightarrow> ct_Default a = ct_Default b)"

definition capabilitiesDrop :: "ContainerCapabilities option \<Rightarrow> string slice" where
  "capabilitiesDrop c = (case c of None \<Rightarrow> None | Some c \<Rightarrow> cap_Drop c)"

definition capabilitiesAdd :: "ContainerCapabilities option \<Rightarrow> string slice" where
  "capabilitiesAdd c = (case c of None \<Rightarrow> None | Some c \<Rightarrow> cap_Add c)"

definition capabilitiesEqual ::
  "ContainerCapabilities option \<Rightarrow> ContainerCapabilities option \<Rightarrow> bool" where
  "capabilitiesEqual a b =
     (case (a, b) of
        (None, None) \<Rightarrow> True
      | (Some a, Some b) \<Rightarrow> slicesEqual (cap_Drop a) (cap_Drop b) \<and> slicesEqual (cap_Add a) (cap_Add b)
      | _ \<Rightarrow> length (elems (capabilitiesDrop a)) + length (elems (capabilitiesAdd a)) = 0
          \<and> length (elems (capabilitiesDrop b)) + length (elems (capabilitiesAdd b)) = 0)"

definition tmpfsEqual :: "ContainerTmpfsMount slice \<Rightarrow> ContainerTmpfsMount slice \<Rightarrow> bool" where
  "tmpfsEqual = same_length_and (\<lambda>x y.
     \<not> (tm_Path x \<noteq> tm_Path y \<or> tm_SizeBytes x \<noteq> tm_SizeBytes y)
     \<and> slicesEqual (tm_Options x) (tm_Options y))"

definition int64PtrEqual :: "int option \<Rightarrow> int option \<Rightarrow> bool" where
  "int64PtrEqual a b =
     (case (a, b) of (None, None) \<Rightarrow> True | (Some a, Some b) \<Rightarrow> a = b | _ \<Rightarrow> False)"

definition boolPtrEqual :: "bool option \<Rightarrow> bool option \<Rightarrow> bool" where
  "boolPtrEqual a b =
     (case (a, b) of (None, None) \<Rightarrow> True | (Some a, Some b) \<Rightarrow> a = b | _ \<Rightarrow> False)"

definition resourcesAreZero :: "ContainerResources option \<Rightarrow> bool" where
  "resourcesAreZero r =
     (case r of
        None \<Rightarrow> True
      | Some r \<Rightarrow> res_MemoryLimitBytes r = None \<and> res_CPUShares r = None \<and> res_PidsLimit r = None)"

definition resourcesEqual :: "ContainerResources option \<Rightarrow> ContainerResources option \<Rightarrow> bool" where
  "resourcesEqual a b =
     (case (a, b) of
        (None, None) \<Rightarrow> True
      | (Some a, Some b) \<Rightarrow>
          int64PtrEqual (res_MemoryLimitBytes a) (res_MemoryLimitBytes b)
          \<and> int64PtrEqual (res_CPUShares a) (res_CPUShares b)
          \<and> int64PtrEqual (res_PidsLimit a) (res_PidsLimit b)
      | _ \<Rightarrow> resourcesAreZero a \<and> resourcesAreZero b)"

definition ttyEqual :: "ContainerTty option \<Rightarrow> ContainerTty option \<Rightarrow> bool" where
  "ttyEqual a b =
     (if ContainerTty_IsEmpty a \<and> ContainerTty_IsEmpty b then True
      else case (a, b) of
          (Some a, Some b) \<Rightarrow>
            if tty_Prompt a \<noteq> tty_Prompt b \<or> tty_LogFile a \<noteq> tty_LogFile b
              \<or> tty_LogLevel a \<noteq> tty_LogLevel b then False
            else same_length_and (=) (tty_OnInit a) (tty_OnInit b)
        | _ \<Rightarrow> False)"

definition gitIdentityIsZero :: "GitIdentity option \<Rightarrow> bool" where
  "gitIdentityIsZero i = (case i of None \<Rightarrow> True | Some i \<Rightarrow> gi_Name i = '''' \<and> gi_Email i = '''')"

definition gitIdentityEqual :: "GitIdentity option \<Rightarrow> GitIdentity option \<Rightarrow> bool" where
  "gitIdentityEqual a b =
     (if gitIdentityIsZero a \<and> gitIdentityIsZero b then True
      else case (a, b) of (Some a, Some b) \<Rightarrow> a = b | _ \<Rightarrow> False)"

definition gitIsZero :: "ContainerGit option \<Rightarrow> bool" where
  "gitIsZero g =
     (case g of
        None \<Rightarrow> True
      | Some g \<Rightarrow> gitIdentityIsZero (git_Author g) \<and> gitIdentityIsZero (git_Committer g)
          \<and> git_SigningKey g = '''' \<and> git_AllowedSigners g = '''' \<and> length (elems (git_Sign g)) = 0)"

definition gitEqual :: "ContainerGit option \<Rightarrow> ContainerGit option \<Rightarrow> bool" where
  "gitEqual a b =
     (if gitIsZero a \<and> gitIsZero b then True
      else case (a, b) of
          (Some a, Some b) \<Rightarrow>
            gitIdentityEqual (git_Author a) (git_Author b)
            \<and> gitIdentityEqual (git_Committer a) (git_Committer b)
            \<and> git_SigningKey a = git_SigningKey b
            \<and> git_AllowedSigners a = git_AllowedSigners b
            \<and> slicesEqual (git_Sign a) (git_Sign b)
        | _ \<Rightarrow> False)"

text \<open>The built-in \<^verbatim>\<open>!=\<close> on \<^verbatim>\<open>VolumeMount\<close>: the pointer field is compared by identity.\<close>

definition volume_mount_eq :: "VolumeMount \<Rightarrow> VolumeMount \<Rightarrow> bool" where
  "volume_mount_eq x y \<longleftrightarrow>
     vm_Kind x = vm_Kind y \<and> vm_Source x = vm_Source y \<and> vm_Target x = vm_Target y
     \<and> ptr_eq (vm_VolumeRef x) (vm_VolumeRef y) \<and> vm_ReadOnly x = vm_ReadOnly y
     \<and> vm_SizeBytes x = vm_SizeBytes y \<and> vm_Mode x = vm_Mode y \<and> vm_Ensure x = vm_Ensure y"

definition volumeMountsEqual :: "VolumeMount slice \<Rightarrow> VolumeMount slice \<Rightarrow> bool" where
  "volumeMountsEqual = same_length_and volume_mount_eq"

definition reposEqual :: "ContainerRepo slice \<Rightarrow> ContainerRepo slice \<Rightarrow> bool" where
  "reposEqual = same_length_and (=)"

definition secretRefEqual :: "ContainerSecretRef option \<Rightarrow> ContainerSecretRef option \<Rightarrow> bool" where
  "secretRefEqual a b =
     (case (a, b) of (None, None) \<Rightarrow> True | (Some a, Some b) \<Rightarrow> a = b | _ \<Rightarrow> False)"

definition secretsEqual :: "ContainerSecret slice \<Rightarrow> ContainerSecret slice \<Rightarrow> bool" where
  "secretsEqual = same_length_and (\<lambda>x y.
     \<not> (sec_Name x \<noteq> sec_Name y \<or> sec_FromFile x \<noteq> sec_FromFile y \<or> sec_FromEnv x \<noteq> sec_FromEnv y
        \<or> sec_MountPath x \<noteq> sec_MountPath y \<or> \<not> secretRefEqual (sec_SecretRef x) (sec_SecretRef y)))"

definition registryCredentialsEqual :: "RegistryCredentials slice \<Rightarrow> RegistryCredentials slice \<Rightarrow> bool" where
  "registryCredentialsEqual = same_length_and (\<lambda>x y.
     \<not> (rc_Username x \<noteq> rc_Username y \<or> rc_Password x \<noteq> rc_Password y
        \<or> rc_ServerAddress x \<noteq> rc_ServerAddress y))"

definition spaceDefaultsContainer :: "SpaceDefaults option \<Rightarrow> SpaceContainerDefaults option" where
  "spaceDefaultsContainer d = (case d of None \<Rightarrow> None | Some d \<Rightarrow> sd_Container d)"

definition spaceContainerDefaultsIsZero :: "SpaceContainerDefaults option \<Rightarrow> bool" where
  "spaceContainerDefaultsIsZero c =
     (case c of
        None \<Rightarrow> True
      | Some c \<Rightarrow> scd_User c = '''' \<and> scd_ReadOnlyRootFilesystem c = None
          \<and> scd_Capabilities c = None \<and> length (elems (scd_SecurityOpts c)) = 0
          \<and> length (elems (scd_Tmpfs c)) = 0 \<and> scd_Resources c = None)"

definition spaceDefaultsEqual :: "SpaceDefaults option \<Rightarrow> SpaceDefaults option \<Rightarrow> bool" where
  "spaceDefaultsEqual a b =
     (let ac = spaceDefaultsContainer a; bc = spaceDefaultsContainer b in
      case (ac, bc) of
        (None, None) \<Rightarrow> True
      | (Some x, Some y) \<Rightarrow>
          scd_User x = scd_User y
          \<and> boolPtrEqual (scd_ReadOnlyRootFilesystem x) (scd_ReadOnlyRootFilesystem y)
          \<and> capabilitiesEqual (scd_Capabilities x) (scd_Capabilities y)
          \<and> slicesEqual (scd_SecurityOpts x) (scd_SecurityOpts y)
          \<and> tmpfsEqual (scd_Tmpfs x) (scd_Tmpfs y)
          \<and> resourcesEqual (scd_Resources x) (scd_Resources y)
      | _ \<Rightarrow> spaceContainerDefaultsIsZero ac \<and> spaceContainerDefaultsIsZero bc)"

definition findRootContainer :: "ContainerSpec list \<Rightarrow> ContainerSpec option" where
  "findRootContainer cs = find cs_Root cs"

definition isBreakingChange :: "ChangeType \<Rightarrow> bool" where
  "isBreakingChange t \<longleftrightarrow> t = ChangeTypeBreaking"

section \<open>Realm, space and stack\<close>

definition nameChanged :: "string \<Rightarrow> string \<Rightarrow> DiffResult \<Rightarrow> DiffResult" where
  "nameChanged act des = markBreaking ''metadata.name''
     (Sprintf ''name changed from %q to %q (breaking)'' [QStr act, QStr des])"

definition DiffRealm :: "Realm \<Rightarrow> Realm \<Rightarrow> DiffResult" where
  "DiffRealm desired actual =
     (let dm = re_Metadata desired; am = re_Metadata actual;
          ds = re_Spec desired; as = re_Spec actual
      in if reM_Name dm \<noteq> reM_Name am then nameChanged (reM_Name am) (reM_Name dm) emptyDiff
         else if reS_Namespace ds \<noteq> '''' \<and> reS_Namespace ds \<noteq> reS_Namespace as then
           markBreaking ''spec.namespace''
             (Sprintf ''namespace changed from %q to %q (breaking)''
               [QStr (reS_Namespace as), QStr (reS_Namespace ds)]) emptyDiff
         else run_steps
           [guarded (\<not> mapsEqual (reM_Labels dm) (reM_Labels am))
              (markCompatible ''metadata.labels'' labelsChangedMsg),
            guarded (\<not> registryCredentialsEqual (reS_RegistryCredentials ds) (reS_RegistryCredentials as))
              (markCompatible ''spec.registryCredentials'' (Msg ''registry credentials changed''))]
           emptyDiff)"

definition DiffSpace :: "Space \<Rightarrow> Space \<Rightarrow> DiffResult" where
  "DiffSpace desired actual =
     (let dm = sp_Metadata desired; am = sp_Metadata actual;
          ds = sp_Spec desired; as = sp_Spec actual
      in if spM_Name dm \<noteq> spM_Name am then nameChanged (spM_Name am) (spM_Name dm) emptyDiff
         else if spS_RealmName ds \<noteq> spS_RealmName as then
           markBreaking ''spec.realmName''
             (Sprintf ''realm changed from %q to %q (breaking)''
               [QStr (spS_RealmName as), QStr (spS_RealmName ds)]) emptyDiff
         else if spS_CNIConfigPath ds \<noteq> '''' \<and> spS_CNIConfigPath ds \<noteq> spS_CNIConfigPath as then
           markBreaking ''spec.cniConfigPath''
             (Sprintf ''CNI config path changed from %q to %q (breaking - requires network recreation)''
               [QStr (spS_CNIConfigPath as), QStr (spS_CNIConfigPath ds)]) emptyDiff
         else run_steps
           [guarded (\<not> mapsEqual (spM_Labels dm) (spM_Labels am))
              (markCompatible ''metadata.labels'' labelsChangedMsg),
            guarded (\<not> spaceDefaultsEqual (spS_Defaults ds) (spS_Defaults as))
              (markCompatible ''spec.defaults.container'' (Msg ''container defaults changed''))]
           emptyDiff)"

definition DiffStack :: "Stack \<Rightarrow> Stack \<Rightarrow> DiffResult" where
  "DiffStack desired actual =
     (let dm = sk_Metadata desired; am = sk_Metadata actual;
          ds = sk_Spec desired; as = sk_Spec actual
      in if skM_Name dm \<noteq> skM_Name am then nameChanged (skM_Name am) (skM_Name dm) emptyDiff
         else if skS_RealmName ds \<noteq> skS_RealmName as then
           markBreaking ''spec.realmName''
             (Sprintf ''realm changed from %q to %q (breaking)''
               [QStr (skS_RealmName as), QStr (skS_RealmName ds)]) emptyDiff
         else if skS_SpaceName ds \<noteq> skS_SpaceName as then
           markBreaking ''spec.spaceName''
             (Sprintf ''space changed from %q to %q (breaking)''
               [QStr (skS_SpaceName as), QStr (skS_SpaceName ds)]) emptyDiff
         else run_steps
           [guarded (\<not> mapsEqual (skM_Labels dm) (skM_Labels am))
              (markCompatible ''metadata.labels'' labelsChangedMsg),
            guarded (skS_ID ds \<noteq> '''' \<and> skS_ID ds \<noteq> skS_ID as)
              (markCompatible ''spec.id''
                (Sprintf ''ID changed from %q to %q'' [QStr (skS_ID as), QStr (skS_ID ds)]))]
           emptyDiff)"

section \<open>Container specs\<close>

definition spec_steps_process :: "ContainerSpec \<Rightarrow> ContainerSpec \<Rightarrow> bool \<Rightarrow> (DiffResult \<Rightarrow> DiffResult) list" where
  "spec_steps_process d a root =
     [guarded (cs_Image d \<noteq> cs_Image a)
        (recordSpecFieldChange root True ''image''
          (Sprintf ''image changed from %q to %q'' [QStr (cs_Image a), QStr (cs_Image d)])),
      guarded (cs_Command d \<noteq> cs_Command a)
        (recordSpecFieldChange root True ''command''
          (Sprintf ''command changed from %q to %q'' [QStr (cs_Command a), QStr (cs_Command d)])),
      guarded (\<not> slicesEqual (cs_Args d) (cs_Args a))
        (recordSpecFieldChange root True ''args'' (Msg ''args changed'')),
      guarded (\<not> slicesEqual (cs_Env d) (cs_Env a))
        (recordSpecFieldChange root False ''env'' (Msg ''environment variables changed'')),
      guarded (\<not> slicesEqual (cs_Ports d) (cs_Ports a))
        (recordSpecFieldChange root False ''ports'' (Msg ''ports changed'')),
      guarded (\<not> volumeMountsEqual (cs_Volumes d) (cs_Volumes a))
        (recordSpecFieldChange root True ''volumes'' (Msg ''volumes changed''))]"

definition spec_steps_security :: "ContainerSpec \<Rightarrow> ContainerSpec \<Rightarrow> bool \<Rightarrow> (DiffResult \<Rightarrow> DiffResult) list" where
  "spec_steps_security d a root =
     [guarded (cs_Privileged d \<noteq> cs_Privileged a)
        (recordSpecFieldChange root True ''privileged''
          (Sprintf ''privileged changed from %v to %v'' [VBool (cs_Privileged a), VBool (cs_Privileged d)])),
      guarded (cs_User d \<noteq> cs_User a)
        (recordSpecFieldChange root True ''user''
          (Sprintf ''user changed from %q to %q'' [QStr (cs_User a), QStr (cs_User d)])),
      guarded (cs_ReadOnlyRootFilesystem d \<noteq> cs_ReadOnlyRootFilesystem a)
        (recordSpecFieldChange root True ''readOnlyRootFilesystem''
          (Sprintf ''readOnlyRootFilesystem changed from %v to %v''
            [VBool (cs_ReadOnlyRootFilesystem a), VBool (cs_ReadOnlyRootFilesystem d)])),
      guarded (\<not> capabilitiesEqual (cs_Capabilities d) (cs_Capabilities a))
        (recordSpecFieldChange root True ''capabilities'' (Msg ''capabilities changed'')),
      guarded (\<not> slicesEqual (cs_SecurityOpts d) (cs_SecurityOpts a))
        (recordSpecFieldChange root True ''securityOpts'' (Msg ''securityOpts changed'')),
      guarded (\<not> slicesEqual (cs_Devices d) (cs_Devices a))
        (recordSpecFieldChange root True ''devices'' (Msg ''devices changed'')),
      guarded (\<not> tmpfsEqual (cs_Tmpfs d) (cs_Tmpfs a))
        (recordSpecFieldChange root True ''tmpfs'' (Msg ''tmpfs mounts changed'')),
      guarded (\<not> resourcesEqual (cs_Resources d) (cs_Resources a))
        (recordSpecFieldChange root True ''resources'' (Msg ''resource limits changed'')),
      guarded (\<not> secretsEqual (cs_Secrets d) (cs_Secrets a))
        (recordSpecFieldChange root True ''secrets'' (Msg ''secrets changed'')),
      guarded (\<not> reposEqual (cs_Repos d) (cs_Repos a))
        (recordSpecFieldChange root False ''repos'' (Msg ''repos changed'')),
      guarded (cs_WorkingDir d \<noteq> cs_WorkingDir a)
        (recordSpecFieldChange root True ''workingDir''
          (Sprintf ''workingDir changed from %q to %q'' [QStr (cs_WorkingDir a), QStr (cs_WorkingDir d)]))]"

definition spec_steps_namespaces :: "ContainerSpec \<Rightarrow> ContainerSpec \<Rightarrow> (DiffResult \<Rightarrow> DiffResult) list" where
  "spec_steps_namespaces d a =
     [guarded (\<not> slicesEqual (cs_Networks d) (cs_Networks a))
        (markCompatible ''networks'' (Msg ''networks changed'')),
      guarded (\<not> slicesEqual (cs_NetworksAliases d) (cs_NetworksAliases a))
        (markCompatible ''networksAliases'' (Msg ''networksAliases changed'')),
      guarded (cs_HostNetwork d \<noteq> cs_HostNetwork a)
        (markBreaking ''hostNetwork''
          (Sprintf ''hostNetwork changed from %v to %v (breaking)''
            [VBool (cs_HostNetwork a), VBool (cs_HostNetwork d)])),
      guarded (cs_HostPID d \<noteq> cs_HostPID a)
        (markBreaking ''hostPID''
          (Sprintf ''hostPID changed from %v to %v (breaking)'' [VBool (cs_HostPID a), VBool (cs_HostPID d)])),
      guarded (cs_HostCgroup d \<noteq> cs_HostCgroup a)
        (markBreaking ''hostCgroup''
          (Sprintf ''hostCgroup changed from %v to %v (breaking)''
            [VBool (cs_HostCgroup a), VBool (cs_HostCgroup d)]))]"

definition spec_steps_lifecycle :: "ContainerSpec \<Rightarrow> ContainerSpec \<Rightarrow> (DiffResult \<Rightarrow> DiffResult) list" where
  "spec_steps_lifecycle d a =
     [guarded (cs_CNIConfigPath d \<noteq> '''' \<and> cs_CNIConfigPath d \<noteq> cs_CNIConfigPath a)
        (markCompatible ''cniConfigPath''
          (Sprintf ''cniConfigPath changed from %q to %q''
            [QStr (cs_CNIConfigPath a), QStr (cs_CNIConfigPath d)])),
      guarded (cs_RestartPolicy d \<noteq> cs_RestartPolicy a)
        (markCompatible ''restartPolicy''
          (Sprintf ''restartPolicy changed from %q to %q''
            [QStr (cs_RestartPolicy a), QStr (cs_RestartPolicy d)])),
      guarded (cs_Attachable d \<noteq> cs_Attachable a)
        (markCompatible ''attachable''
          (Sprintf ''attachable changed from %v to %v'' [VBool (cs_Attachable a), VBool (cs_Attachable d)])),
      guarded (\<not> ttyEqual (cs_Tty d) (cs_Tty a)) (markCompatible ''tty'' (Msg ''tty changed'')),
      guarded (\<not> gitEqual (cs_Git d) (cs_Git a)) (markCompatible ''git'' (Msg ''git identity changed''))]"

definition diffContainerSpec :: "ContainerSpec \<Rightarrow> ContainerSpec \<Rightarrow> bool \<Rightarrow> DiffResult" where
  "diffContainerSpec desired actual rootContainer =
     run_steps (spec_steps_process desired actual rootContainer
       @ spec_steps_security desired actual rootContainer
       @ spec_steps_namespaces desired actual @ spec_steps_lifecycle desired actual) emptyDiff"

text \<open>Taking over the change type of a nested diff.\<close>

definition adoptChangeType :: "ChangeType \<Rightarrow> DiffResult \<Rightarrow> DiffResult" where
  "adoptChangeType t r =
     (if t = ChangeTypeBreaking then r\<lparr>dr_ChangeType := ChangeTypeBreaking\<rparr>
      else if dr_ChangeType r = ChangeTypeNone then r\<lparr>dr_ChangeType := t\<rparr>
      else r)"

definition put_all :: "('k, 'v) gomap \<Rightarrow> ('k, 'v) gomap \<Rightarrow> ('k, 'v) gomap" where
  "put_all src dst = foldl (\<lambda>m (k, v). map_put k v m) dst src"

definition DiffContainer :: "Container \<Rightarrow> Container \<Rightarrow> DiffResult" where
  "DiffContainer desired actual =
     (let dm = c_Metadata desired; am = c_Metadata actual;
          ds = c_Spec desired; as = c_Spec actual
      in if cm_Name dm \<noteq> cm_Name am then nameChanged (cm_Name am) (cm_Name dm) emptyDiff
         else if cs_RealmName ds \<noteq> cs_RealmName as \<or> cs_SpaceName ds \<noteq> cs_SpaceName as
           \<or> cs_StackName ds \<noteq> cs_StackName as \<or> cs_CellName ds \<noteq> cs_CellName as then
           markBreaking ''spec.parent'' (Msg ''parent resource changed (breaking)'') emptyDiff
         else
           let result = guarded (\<not> mapsEqual (cm_Labels dm) (cm_Labels am))
                 (markCompatible ''metadata.labels'' labelsChangedMsg) emptyDiff;
               specDiff = diffContainerSpec ds as (cs_Root ds)
           in if dr_HasChanges specDiff then
                (adoptChangeType (dr_ChangeType specDiff) (result\<lparr>dr_HasChanges := True\<rparr>))
                  \<lparr>dr_ChangedFields := dr_ChangedFields result @ dr_ChangedFields specDiff,
                   dr_BreakingChanges := dr_BreakingChanges result @ dr_BreakingChanges specDiff,
                   dr_Details := put_all (dr_Details specDiff) (dr_Details result)\<rparr>
              else result)"

section \<open>Cells\<close>

definition on_diff :: "(DiffResult \<Rightarrow> DiffResult) \<Rightarrow> CellDiffResult \<Rightarrow> CellDiffResult" where
  "on_diff f r = r\<lparr>cdr_Diff := f (cdr_Diff r)\<rparr>"

definition diffCellFields :: "Cell \<Rightarrow> Cell \<Rightarrow> DiffResult \<Rightarrow> DiffResult" where
  "diffCellFields desired actual =
     (let dm = ce_Metadata desired; am = ce_Metadata actual;
          ds = ce_Spec desired; as = ce_Spec actual
      in run_steps
       [guarded (\<not> userLabelsEqual (ceM_Labels dm) (ceM_Labels am))
          (markCompatible ''metadata.labels'' labelsChangedMsg),
        guarded (\<not> cellTtyEqual (ceS_Tty ds) (ceS_Tty as))
          (markCompatible ''spec.tty'' (Msg ''tty default changed'')),
        guarded (ceS_AutoDelete ds \<noteq> ceS_AutoDelete as)
          (markCompatible ''spec.autoDelete''
            (Sprintf ''autoDelete changed from %v to %v'' [VBool (ceS_AutoDelete as), VBool (ceS_AutoDelete ds)])),
        guarded (ceS_NestedCgroupRuntime ds \<noteq> ceS_NestedCgroupRuntime as)
          (markBreaking ''spec.nestedCgroupRuntime''
            (Sprintf ''nestedCgroupRuntime changed from %v to %v (breaking)''
              [VBool (ceS_NestedCgroupRuntime as), VBool (ceS_NestedCgroupRuntime ds)]))])"

definition diffCellRoot :: "ContainerSpec list \<Rightarrow> ContainerSpec list \<Rightarrow> CellDiffResult \<Rightarrow> CellDiffResult" where
  "diffCellRoot desired actual r =
     (case (findRootContainer desired, findRootContainer actual) of
        (Some d, Some a) \<Rightarrow>
          let rootDiff = diffContainerSpec d a True in
          if dr_HasChanges rootDiff then
            (on_diff (\<lambda>x. (adoptChangeType (dr_ChangeType rootDiff) (x\<lparr>dr_HasChanges := True\<rparr>))
               \<lparr>dr_BreakingChanges := dr_BreakingChanges x
                  @ map (\<lambda>f. ''rootContainer.'' @ f) (dr_BreakingChanges rootDiff),
                dr_ChangedFields := dr_ChangedFields x
                  @ map (\<lambda>f. ''rootContainer.'' @ f) (dr_ChangedFields rootDiff)\<rparr>) r)
             \<lparr>cdr_RootContainerChanged := True,
              cdr_RootContainerDetails := put_all (dr_Details rootDiff) (cdr_RootContainerDetails r)\<rparr>
          else r
      | (Some d, None) \<Rightarrow>
          (on_diff (\<lambda>x. x\<lparr>dr_HasChanges := True, dr_ChangeType := ChangeTypeBreaking,
              dr_BreakingChanges := dr_BreakingChanges x @ [''spec.rootContainer'']\<rparr>) r)
           \<lparr>cdr_RootContainerChanged := True,
            cdr_RootContainerDetails := map_put ''rootContainer'' (Msg ''root container added'')
              (cdr_RootContainerDetails r)\<rparr>
      | (None, _) \<Rightarrow> r)"

definition containersByID :: "ContainerSpec list \<Rightarrow> (string, ContainerSpec) gomap" where
  "containersByID cs =
     foldl (\<lambda>m c. if \<not> cs_Root c \<and> cs_ID c \<noteq> '''' then map_put (cs_ID c) c m else m) [] cs"

definition diffCellChild :: "(string, ContainerSpec) gomap \<Rightarrow> string \<times> ContainerSpec
    \<Rightarrow> CellDiffResult \<Rightarrow> CellDiffResult" where
  "diffCellChild actualContainers entry r =
     (case entry of (cid, desiredContainer) \<Rightarrow>
        (case map_of actualContainers cid of
           None \<Rightarrow>
             (on_diff (\<lambda>x. x\<lparr>dr_HasChanges := True,
                dr_ChangeType := (if dr_ChangeType x = ChangeTypeNone then ChangeTypeAdditive
                                  else dr_ChangeType x)\<rparr>) r)
              \<lparr>cdr_Containers := cdr_Containers r
                 @ [\<lparr>cdf_Name = cid, cdf_Action = ''add'', cdf_ChangedFields = [],
                     cdf_BreakingChanges = [], cdf_Details = []\<rparr>]\<rparr>
         | Some actualContainer \<Rightarrow>
             let containerDiff = diffContainerSpec desiredContainer actualContainer False in
             if dr_HasChanges containerDiff then
               (on_diff (\<lambda>x. (adoptChangeType (dr_ChangeType containerDiff) (x\<lparr>dr_HasChanges := True\<rparr>))
                  \<lparr>dr_BreakingChanges := dr_BreakingChanges x
                     @ (if dr_ChangeType containerDiff = ChangeTypeBreaking
                        then map (\<lambda>f. ''containers['' @ cid @ ''].'' @ f) (dr_BreakingChanges containerDiff)
                        else [])\<rparr>) r)
                \<lparr>cdr_Containers := cdr_Containers r
                   @ [\<lparr>cdf_Name = cid, cdf_Action = ''update'',
                       cdf_ChangedFields = dr_ChangedFields containerDiff,
                       cdf_BreakingChanges = dr_BreakingChanges containerDiff,
                       cdf_Details = dr_Details containerDiff\<rparr>]\<rparr>
             else r))"

definition diffCellOrphan :: "(string, ContainerSpec) gomap \<Rightarrow> string \<times> ContainerSpec
    \<Rightarrow> CellDiffResult \<Rightarrow> CellDiffResult" where
  "diffCellOrphan desiredContainers entry r =
     (if map_of desiredContainers (fst entry) = None then
        (on_diff (\<lambda>x. x\<lparr>dr_HasChanges := True,
           dr_ChangeType := (if dr_ChangeType x = ChangeTypeNone then ChangeTypeAdditive
                             else dr_ChangeType x)\<rparr>) r)
         \<lparr>cdr_Orphans := cdr_Orphans r @ [fst entry]\<rparr>
      else r)"

text \<open>
  Go visits a map in an unspecified order: \<open>iterD\<close> and \<open>iterA\<close> are the orders in which the two
  loops visit the desired and the actual containers.
\<close>

type_synonym visit = "(string, ContainerSpec) gomap \<Rightarrow> (string, ContainerSpec) gomap"

definition DiffCell :: "visit \<Rightarrow> visit \<Rightarrow> Cell \<Rightarrow> Cell \<Rightarrow> CellDiffResult" where
  "DiffCell iterD iterA desired actual =
     (let dm = ce_Metadata desired; am = ce_Metadata actual;
          ds = ce_Spec desired; as = ce_Spec actual
      in if ceM_Name dm \<noteq> ceM_Name am then
           on_diff (nameChanged (ceM_Name am) (ceM_Name dm)) emptyCellDiff
         else if ceS_RealmName ds \<noteq> ceS_RealmName as then
           on_diff (markBreaking ''spec.realmName''
             (Sprintf ''realm changed from %q to %q (breaking)''
               [QStr (ceS_RealmName as), QStr (ceS_RealmName ds)])) emptyCellDiff
         else if ceS_SpaceName ds \<noteq> ceS_SpaceName as then
           on_diff (markBreaking ''spec.spaceName''
             (Sprintf ''space changed from %q to %q (breaking)''
               [QStr (ceS_SpaceName as), QStr (ceS_SpaceName ds)])) emptyCellDiff
         else if ceS_StackName ds \<noteq> ceS_StackName as then
           on_diff (markBreaking ''spec.stackName''
             (Sprintf ''stack changed from %q to %q (breaking)''
               [QStr (ceS_StackName as), QStr (ceS_StackName ds)])) emptyCellDiff
         else
           let desiredContainers = containersByID (ceS_Containers ds);
               actualContainers = containersByID (ceS_Containers as)
           in run_steps
             ([on_diff (diffCellFields desired actual),
               diffCellRoot (ceS_Containers ds) (ceS_Containers as)]
              @ map (diffCellChild actualContainers) (iterD desiredContainers)
              @ map (diffCellOrphan desiredContainers) (iterA actualContainers)) emptyCellDiff)"

section \<open>Comparators as equality of normal forms\<close>

lemma all_pairs_equal_iff:
  "length xs = length ys \<Longrightarrow> all_pairs_equal eq xs ys \<longleftrightarrow> list_all2 eq xs ys"
  by (induction eq xs ys rule: all_pairs_equal.induct) auto

lemma same_length_and_iff: "same_length_and eq a b \<longleftrightarrow> list_all2 eq (elems a) (elems b)"
  by (auto simp: same_length_and_def all_pairs_equal_iff list_all2_lengthD)

lemma list_all2_map_eq: "list_all2 (\<lambda>x y. f x = f y) xs ys \<longleftrightarrow> map f xs = map f ys"
  by (auto simp: list_all2_conv_all_nth list_eq_iff_nth_eq)

lemma slicesEqual_iff [simp]: "slicesEqual a b \<longleftrightarrow> elems a = elems b"
  by (simp add: slicesEqual_def same_length_and_iff list_all2_eq[symmetric])

lemma reposEqual_iff [simp]: "reposEqual a b \<longleftrightarrow> elems a = elems b"
  by (simp add: reposEqual_def same_length_and_iff list_all2_eq[symmetric])

definition cap_view :: "ContainerCapabilities option \<Rightarrow> string list \<times> string list" where
  "cap_view c = (elems (capabilitiesDrop c), elems (capabilitiesAdd c))"

lemma capabilitiesEqual_iff [simp]: "capabilitiesEqual a b \<longleftrightarrow> cap_view a = cap_view b"
  by (auto simp: capabilitiesEqual_def cap_view_def capabilitiesDrop_def capabilitiesAdd_def
      split: option.splits)

definition tm_view :: "ContainerTmpfsMount \<Rightarrow> string \<times> int \<times> string list" where
  "tm_view t = (tm_Path t, tm_SizeBytes t, elems (tm_Options t))"

lemma tmpfsEqual_iff [simp]: "tmpfsEqual a b \<longleftrightarrow> map tm_view (elems a) = map tm_view (elems b)"
proof -
  have "(\<lambda>(x :: ContainerTmpfsMount) y. \<not> (tm_Path x \<noteq> tm_Path y \<or> tm_SizeBytes x \<noteq> tm_SizeBytes y)
      \<and> slicesEqual (tm_Options x) (tm_Options y)) = (\<lambda>x y. tm_view x = tm_view y)"
    by (auto simp: fun_eq_iff tm_view_def)
  then show ?thesis
    by (simp add: tmpfsEqual_def same_length_and_iff list_all2_map_eq)
qed

lemma int64PtrEqual_iff [simp]: "int64PtrEqual a b \<longleftrightarrow> a = b"
  by (auto simp: int64PtrEqual_def split: option.splits)

lemma boolPtrEqual_iff [simp]: "boolPtrEqual a b \<longleftrightarrow> a = b"
  by (auto simp: boolPtrEqual_def split: option.splits)

definition res_view :: "ContainerResources option \<Rightarrow> int option \<times> int option \<times> int option" where
  "res_view r = (case r of None \<Rightarrow> (None, None, None)
     | Some r \<Rightarrow> (res_MemoryLimitBytes r, res_CPUShares r, res_PidsLimit r))"

lemma resourcesEqual_iff [simp]: "resourcesEqual a b \<longleftrightarrow> res_view a = res_view b"
  by (auto simp: resourcesEqual_def res_view_def resourcesAreZero_def split: option.splits)

definition tty_view :: "ContainerTty option \<Rightarrow> (string \<times> TtyStage list \<times> string \<times> string) option" where
  "tty_view t = (if ContainerTty_IsEmpty t then None
     else map_option (\<lambda>t. (tty_Prompt t, elems (tty_OnInit t), tty_LogFile t, tty_LogLevel t)) t)"

lemma ttyEqual_iff [simp]: "ttyEqual a b \<longleftrightarrow> tty_view a = tty_view b"
proof (cases "a = None \<or> b = None")
  case True
  then show ?thesis
    by (cases a; cases b) (auto simp: ttyEqual_def tty_view_def ContainerTty_IsEmpty_def)
next
  case False
  then obtain x y where xy: "a = Some x" "b = Some y" by auto
  have eq: "ContainerTty_IsEmpty a = ContainerTty_IsEmpty b" if "tty_Prompt x = tty_Prompt y"
    "tty_LogFile x = tty_LogFile y" "tty_LogLevel x = tty_LogLevel y" "elems (tty_OnInit x) = elems (tty_OnInit y)"
    using that by (simp add: xy ContainerTty_IsEmpty_def)
  show ?thesis
    using eq unfolding xy
    by (auto simp: ttyEqual_def tty_view_def same_length_and_iff list_all2_eq[symmetric])
qed

definition gi_view :: "GitIdentity option \<Rightarrow> GitIdentity option" where
  "gi_view i = (if gitIdentityIsZero i then None else i)"

lemma gitIdentityEqual_iff: "gitIdentityEqual a b \<longleftrightarrow> gi_view a = gi_view b"
  by (auto simp: gitIdentityEqual_def gi_view_def gitIdentityIsZero_def split: option.splits if_splits)

definition git_view ::
  "ContainerGit option \<Rightarrow> GitIdentity option \<times> GitIdentity option \<times> string \<times> string \<times> string list" where
  "git_view g = (case g of None \<Rightarrow> (None, None, '''', '''', [])
     | Some g \<Rightarrow> (gi_view (git_Author g), gi_view (git_Committer g), git_SigningKey g,
         git_AllowedSigners g, elems (git_Sign g)))"

lemma gi_view_None: "gi_view i = None \<longleftrightarrow> gitIdentityIsZero i"
  by (auto simp: gi_view_def gitIdentityIsZero_def split: option.splits)

lemma gitIsZero_iff: "gitIsZero g \<longleftrightarrow> git_view g = (None, None, '''', '''', [])"
  by (auto simp: gitIsZero_def git_view_def gi_view_None split: option.splits)

lemma gitEqual_iff [simp]: "gitEqual a b \<longleftrightarrow> git_view a = git_view b"
proof (cases "gitIsZero a \<and> gitIsZero b")
  case True
  then show ?thesis by (simp add: gitEqual_def gitIsZero_iff)
next
  case False
  show ?thesis
  proof (cases "a = None \<or> b = None")
    case True
    then have "git_view a \<noteq> git_view b"
      using False by (auto simp: gitIsZero_iff) (auto simp: git_view_def)
    with True False show ?thesis
      by (auto simp: gitEqual_def split: option.splits)
  next
    case False
    then obtain x y where "a = Some x" "b = Some y" by auto
    with \<open>\<not> (gitIsZero a \<and> gitIsZero b)\<close> show ?thesis
      by (auto simp: gitEqual_def gitIdentityEqual_iff git_view_def)
  qed
qed

lemma secretRefEqual_iff [simp]: "secretRefEqual a b \<longleftrightarrow> a = b"
  by (auto simp: secretRefEqual_def split: option.splits)

lemma secretsEqual_iff [simp]: "secretsEqual a b \<longleftrightarrow> elems a = elems b"
proof -
  have "(\<lambda>(x :: ContainerSecret) y. \<not> (sec_Name x \<noteq> sec_Name y \<or> sec_FromFile x \<noteq> sec_FromFile y \<or> sec_FromEnv x \<noteq> sec_FromEnv y
        \<or> sec_MountPath x \<noteq> sec_MountPath y \<or> \<not> secretRefEqual (sec_SecretRef x) (sec_SecretRef y)))
      = (=)"
    by (auto simp: fun_eq_iff intro: ContainerSecret.equality)
  then show ?thesis
    by (simp add: secretsEqual_def same_length_and_iff list_all2_eq[symmetric])
qed

lemma registryCredentialsEqual_iff [simp]: "registryCredentialsEqual a b \<longleftrightarrow> elems a = elems b"
proof -
  have "(\<lambda>(x :: RegistryCredentials) y. \<not> (rc_Username x \<noteq> rc_Username y \<or> rc_Password x \<noteq> rc_Password y
        \<or> rc_ServerAddress x \<noteq> rc_ServerAddress y)) = (=)"
    by (auto simp: fun_eq_iff intro: RegistryCredentials.equality)
  then show ?thesis
    by (simp add: registryCredentialsEqual_def same_length_and_iff list_all2_eq[symmetric])
qed

definition ctty_view :: "CellTty option \<Rightarrow> string" where
  "ctty_view t = (case t of None \<Rightarrow> '''' | Some t \<Rightarrow> ct_Default t)"

lemma cellTtyEqual_iff [simp]: "cellTtyEqual a b \<longleftrightarrow> ctty_view a = ctty_view b"
  by (auto simp: cellTtyEqual_def ctty_view_def split: option.splits)

lemma volume_mount_eq_refl [simp]: "volume_mount_eq x x"
  by (simp add: volume_mount_eq_def)

lemma volumeMountsEqual_refl [simp]: "volumeMountsEqual a a"
  by (simp add: volumeMountsEqual_def same_length_and_iff list_all2_same)

lemma spaceDefaultsEqual_refl [simp]: "spaceDefaultsEqual a a"
  by (auto simp: spaceDefaultsEqual_def Let_def split: option.splits)

text \<open>
  Labels: equality of maps, as long as no desired label is empty. A missing key reads back as the
  empty string, so an empty desired value matches a missing one.
\<close>

lemma gomap_card: "gomap_ok m \<Longrightarrow> card (dom (map_of m)) = length m"
  by (simp add: gomap_ok_def dom_map_of_conv_image_fst distinct_card flip: set_map)

lemma mapsEqual_same:
  assumes "gomap_ok a" "gomap_ok b" "map_of a = map_of b"
  shows "mapsEqual a b"
proof -
  have "length a = length b"
    using assms gomap_card by metis
  moreover have "map_get '''' b k = v" if "(k, v) \<in> set a" for k v
    using that assms by (simp add: map_get_def gomap_ok_def flip: assms(3))
  ultimately show ?thesis
    by (auto simp: mapsEqual_def list_all_iff)
qed

lemma mapsEqual_iff:
  assumes "gomap_ok a" "gomap_ok b" "'''' \<notin> snd ` set a"
  shows "mapsEqual a b \<longleftrightarrow> map_of a = map_of b"
proof
  assume eq: "mapsEqual a b"
  have sub: "map_of b k = Some v" if "map_of a k = Some v" for k v
  proof -
    have "(k, v) \<in> set a"
      using that by (rule map_of_SomeD)
    then have "map_get '''' b k = v" "v \<noteq> ''''"
      using eq assms(3) by (auto simp: mapsEqual_def list_all_iff image_iff split: if_splits)
    then show ?thesis
      by (auto simp: map_get_def split: option.splits)
  qed
  have "length a = length b"
    using eq by (simp add: mapsEqual_def split: if_splits)
  then have "dom (map_of a) = dom (map_of b)"
    using sub gomap_card[OF assms(1)] gomap_card[OF assms(2)]
    by (intro card_subset_eq) (auto simp: finite_dom_map_of)
  then show "map_of a = map_of b"
    using sub by (intro map_le_antisym) (force simp: map_le_def dom_def)+
next
  assume "map_of a = map_of b"
  then show "mapsEqual a b"
    by (rule mapsEqual_same[OF assms(1,2)])
qed

lemma mapsEqual_refl: "gomap_ok a \<Longrightarrow> mapsEqual a a"
  by (simp add: mapsEqual_same)

lemma gomap_ok_filterManagedLabels: "gomap_ok m \<Longrightarrow> gomap_ok (filterManagedLabels m)"
  by (simp add: gomap_ok_def filterManagedLabels_def distinct_map_filter)

section \<open>What a list of field checks records\<close>

text \<open>
  One field check as data: whether the field differs, whether the difference is breaking, the field
  and the detail. A diff is the fold of such checks, and its result is read off the list.
\<close>

type_synonym check = "bool \<times> bool \<times> string \<times> message"

definition field_step :: "check \<Rightarrow> DiffResult \<Rightarrow> DiffResult" where
  "field_step e = (case e of (changed, breaking, field, detail) \<Rightarrow>
     guarded changed (if breaking then markBreaking field detail else markCompatible field detail))"

definition breaking_fields :: "check list \<Rightarrow> string list" where
  "breaking_fields es = map (\<lambda>(_, _, f, _). f) (filter (\<lambda>(c, b, _, _). c \<and> b) es)"

definition compatible_fields :: "check list \<Rightarrow> string list" where
  "compatible_fields es = map (\<lambda>(_, _, f, _). f) (filter (\<lambda>(c, b, _, _). c \<and> \<not> b) es)"

definition changed_fields :: "check list \<Rightarrow> string list" where
  "changed_fields es = map (\<lambda>(_, _, f, _). f) (filter (\<lambda>(c, _, _, _). c) es)"

lemma fields_Nil [simp]: "breaking_fields [] = []" "compatible_fields [] = []" "changed_fields [] = []"
  by (simp_all add: breaking_fields_def compatible_fields_def changed_fields_def)

lemma fields_Cons [simp]:
  "breaking_fields ((c, b, f, d) # es) = (if c \<and> b then f # breaking_fields es else breaking_fields es)"
  "compatible_fields ((c, b, f, d) # es) = (if c \<and> \<not> b then f # compatible_fields es else compatible_fields es)"
  "changed_fields ((c, b, f, d) # es) = (if c then f # changed_fields es else changed_fields es)"
  by (simp_all add: breaking_fields_def compatible_fields_def changed_fields_def)

lemma set_changed_fields: "set (changed_fields es) = set (breaking_fields es) \<union> set (compatible_fields es)"
  by (induction es) (auto split: if_splits)

text \<open>A result is well formed when its five fields tell the same story.\<close>

definition diff_wf :: "DiffResult \<Rightarrow> bool" where
  "diff_wf r \<longleftrightarrow>
     (dr_HasChanges r \<longleftrightarrow> dr_ChangeType r \<noteq> ChangeTypeNone)
     \<and> (dr_HasChanges r \<longleftrightarrow> dr_ChangedFields r \<noteq> [] \<or> dr_BreakingChanges r \<noteq> [])
     \<and> (dr_ChangeType r = ChangeTypeBreaking \<longleftrightarrow> dr_BreakingChanges r \<noteq> [])
     \<and> fst ` set (dr_Details r) = set (dr_ChangedFields r) \<union> set (dr_BreakingChanges r)
     \<and> gomap_ok (dr_Details r)"

lemma emptyDiff_wf [simp]: "diff_wf emptyDiff"
  by (simp add: diff_wf_def emptyDiff_def gomap_ok_def)

lemma markBreaking_wf [intro]: "diff_wf r \<Longrightarrow> diff_wf (markBreaking f d r)"
  by (auto simp: diff_wf_def markBreaking_def keys_map_put)

lemma markCompatible_wf [intro]: "diff_wf r \<Longrightarrow> diff_wf (markCompatible f d r)"
  by (auto simp: diff_wf_def markCompatible_def keys_map_put)

lemma field_step_wf: "diff_wf r \<Longrightarrow> diff_wf (field_step e r)"
  by (auto simp: field_step_def guarded_def split: prod.splits)

lemma run_field_steps_wf: "diff_wf r \<Longrightarrow> diff_wf (run_steps (map field_step es) r)"
  by (rule run_steps_invariant[where P = diff_wf]) (auto intro: field_step_wf)

lemma run_field_steps:
  "dr_ChangedFields (run_steps (map field_step es) r) = dr_ChangedFields r @ compatible_fields es"
  "dr_BreakingChanges (run_steps (map field_step es) r) = dr_BreakingChanges r @ breaking_fields es"
proof (induction es arbitrary: r)
  case (Cons e es)
  {
    case 1
    show ?case
      using Cons.IH(1) by (cases e) (auto simp: field_step_def guarded_def markBreaking_def markCompatible_def)
  next
    case 2
    show ?case
      using Cons.IH(2) by (cases e) (auto simp: field_step_def guarded_def markBreaking_def markCompatible_def)
  }
qed simp_all

lemma field_step_not_additive:
  "dr_ChangeType r \<noteq> ChangeTypeAdditive \<Longrightarrow> dr_ChangeType (field_step e r) \<noteq> ChangeTypeAdditive"
  by (auto simp: field_step_def guarded_def markBreaking_def markCompatible_def split: prod.splits)

lemma run_field_steps_type:
  "dr_ChangeType (run_steps (map field_step es) emptyDiff) =
    (if breaking_fields es \<noteq> [] then ChangeTypeBreaking
     else if compatible_fields es \<noteq> [] then ChangeTypeCompatible else ChangeTypeNone)"
proof -
  let ?r = "run_steps (map field_step es) emptyDiff"
  have wf: "diff_wf ?r"
    by (rule run_field_steps_wf) simp
  have fields: "dr_ChangedFields ?r = compatible_fields es" "dr_BreakingChanges ?r = breaking_fields es"
    by (simp_all add: run_field_steps emptyDiff_def)
  have "dr_ChangeType ?r \<noteq> ChangeTypeAdditive"
    by (rule run_steps_invariant[where P = "\<lambda>r. dr_ChangeType r \<noteq> ChangeTypeAdditive"])
       (auto intro: field_step_not_additive[rule_format] simp: emptyDiff_def field_step_not_additive)
  then show ?thesis
    using wf fields by (cases "dr_ChangeType ?r") (auto simp: diff_wf_def)
qed

lemma run_field_steps_none:
  "changed_fields es = [] \<Longrightarrow> run_steps (map field_step es) r = r"
  by (induction es arbitrary: r) (auto simp: field_step_def split: if_splits)

section \<open>The checks of a container spec\<close>

definition spec_checks :: "ContainerSpec \<Rightarrow> ContainerSpec \<Rightarrow> bool \<Rightarrow> check list" where
  "spec_checks d a root =
     [(cs_Image d \<noteq> cs_Image a, root, ''image'',
        Sprintf ''image changed from %q to %q'' [QStr (cs_Image a), QStr (cs_Image d)]),
      (cs_Command d \<noteq> cs_Command a, root, ''command'',
        Sprintf ''command changed from %q to %q'' [QStr (cs_Command a), QStr (cs_Command d)]),
      (elems (cs_Args d) \<noteq> elems (cs_Args a), root, ''args'', Msg ''args changed''),
      (elems (cs_Env d) \<noteq> elems (cs_Env a), False, ''env'', Msg ''environment variables changed''),
      (elems (cs_Ports d) \<noteq> elems (cs_Ports a), False, ''ports'', Msg ''ports changed''),
      (\<not> volumeMountsEqual (cs_Volumes d) (cs_Volumes a), root, ''volumes'', Msg ''volumes changed''),
      (cs_Privileged d \<noteq> cs_Privileged a, root, ''privileged'',
        Sprintf ''privileged changed from %v to %v'' [VBool (cs_Privileged a), VBool (cs_Privileged d)]),
      (cs_User d \<noteq> cs_User a, root, ''user'',
        Sprintf ''user changed from %q to %q'' [QStr (cs_User a), QStr (cs_User d)]),
      (cs_ReadOnlyRootFilesystem d \<noteq> cs_ReadOnlyRootFilesystem a, root, ''readOnlyRootFilesystem'',
        Sprintf ''readOnlyRootFilesystem changed from %v to %v''
          [VBool (cs_ReadOnlyRootFilesystem a), VBool (cs_ReadOnlyRootFilesystem d)]),
      (cap_view (cs_Capabilities d) \<noteq> cap_view (cs_Capabilities a), root, ''capabilities'',
        Msg ''capabilities changed''),
      (elems (cs_SecurityOpts d) \<noteq> elems (cs_SecurityOpts a), root, ''securityOpts'',
        Msg ''securityOpts changed''),
      (elems (cs_Devices d) \<noteq> elems (cs_Devices a), root, ''devices'', Msg ''devices changed''),
      (map tm_view (elems (cs_Tmpfs d)) \<noteq> map tm_view (elems (cs_Tmpfs a)), root, ''tmpfs'',
        Msg ''tmpfs mounts changed''),
      (res_view (cs_Resources d) \<noteq> res_view (cs_Resources a), root, ''resources'',
        Msg ''resource limits changed''),
      (elems (cs_Secrets d) \<noteq> elems (cs_Secrets a), root, ''secrets'', Msg ''secrets changed''),
      (elems (cs_Repos d) \<noteq> elems (cs_Repos a), False, ''repos'', Msg ''repos changed''),
      (cs_WorkingDir d \<noteq> cs_WorkingDir a, root, ''workingDir'',
        Sprintf ''workingDir changed from %q to %q'' [QStr (cs_WorkingDir a), QStr (cs_WorkingDir d)]),
      (elems (cs_Networks d) \<noteq> elems (cs_Networks a), False, ''networks'', Msg ''networks changed''),
      (elems (cs_NetworksAliases d) \<noteq> elems (cs_NetworksAliases a), False, ''networksAliases'',
        Msg ''networksAliases changed''),
      (cs_HostNetwork d \<noteq> cs_HostNetwork a, True, ''hostNetwork'',
        Sprintf ''hostNetwork changed from %v to %v (breaking)''
          [VBool (cs_HostNetwork a), VBool (cs_HostNetwork d)]),
      (cs_HostPID d \<noteq> cs_HostPID a, True, ''hostPID'',
        Sprintf ''hostPID changed from %v to %v (breaking)'' [VBool (cs_HostPID a), VBool (cs_HostPID d)]),
      (cs_HostCgroup d \<noteq> cs_HostCgroup a, True, ''hostCgroup'',
        Sprintf ''hostCgroup changed from %v to %v (breaking)''
          [VBool (cs_HostCgroup a), VBool (cs_HostCgroup d)]),
      (cs_CNIConfigPath d \<noteq> '''' \<and> cs_CNIConfigPath d \<noteq> cs_CNIConfigPath a, False, ''cniConfigPath'',
        Sprintf ''cniConfigPath changed from %q to %q''
          [QStr (cs_CNIConfigPath a), QStr (cs_CNIConfigPath d)]),
      (cs_RestartPolicy d \<noteq> cs_RestartPolicy a, False, ''restartPolicy'',
        Sprintf ''restartPolicy changed from %q to %q''
          [QStr (cs_RestartPolicy a), QStr (cs_RestartPolicy d)]),
      (cs_Attachable d \<noteq> cs_Attachable a, False, ''attachable'',
        Sprintf ''attachable changed from %v to %v'' [VBool (cs_Attachable a), VBool (cs_Attachable d)]),
      (tty_view (cs_Tty d) \<noteq> tty_view (cs_Tty a), False, ''tty'', Msg ''tty changed''),
      (git_view (cs_Git d) \<noteq> git_view (cs_Git a), False, ''git'', Msg ''git identity changed'')]"

lemma recordSpecFieldChange_eq:
  "recordSpecFieldChange root b f d = (if root \<and> b then markBreaking f d else markCompatible f d)"
  by (simp add: fun_eq_iff recordSpecFieldChange_def)

lemma diffContainerSpec_checks:
  "diffContainerSpec d a root = run_steps (map field_step (spec_checks d a root)) emptyDiff"
proof -
  have "spec_steps_process d a root @ spec_steps_security d a root @ spec_steps_namespaces d a
      @ spec_steps_lifecycle d a = map field_step (spec_checks d a root)"
    by (simp add: spec_steps_process_def spec_steps_security_def spec_steps_namespaces_def
        spec_steps_lifecycle_def spec_checks_def field_step_def recordSpecFieldChange_eq)
  then show ?thesis
    by (simp only: diffContainerSpec_def)
qed

section \<open>The views of a container spec that a diff compares\<close>

text \<open>
  What is baked into the runtime spec when a container is created, what takes effect at the next
  start, and the host-namespace flags.
\<close>

definition oci_view where
  "oci_view (s :: ContainerSpec) = (cs_Image s, cs_Command s, elems (cs_Args s), cs_Privileged s, cs_User s,
     cs_ReadOnlyRootFilesystem s, cap_view (cs_Capabilities s), elems (cs_SecurityOpts s),
     elems (cs_Devices s), map tm_view (elems (cs_Tmpfs s)), res_view (cs_Resources s),
     elems (cs_Secrets s), cs_WorkingDir s)"

definition start_view where
  "start_view (s :: ContainerSpec) = (elems (cs_Env s), elems (cs_Ports s), elems (cs_Repos s), elems (cs_Networks s),
     elems (cs_NetworksAliases s), cs_RestartPolicy s, cs_Attachable s, tty_view (cs_Tty s),
     git_view (cs_Git s))"

definition namespace_view where
  "namespace_view (s :: ContainerSpec) = (cs_HostNetwork s, cs_HostPID s, cs_HostCgroup s)"

definition oci_same :: "ContainerSpec \<Rightarrow> ContainerSpec \<Rightarrow> bool" where
  "oci_same d a \<longleftrightarrow> oci_view d = oci_view a \<and> volumeMountsEqual (cs_Volumes d) (cs_Volumes a)"

definition start_same :: "ContainerSpec \<Rightarrow> ContainerSpec \<Rightarrow> bool" where
  "start_same d a \<longleftrightarrow> start_view d = start_view a
     \<and> (cs_CNIConfigPath d = '''' \<or> cs_CNIConfigPath d = cs_CNIConfigPath a)"

lemma breaking_fields_Nil_iff: "breaking_fields es = [] \<longleftrightarrow> list_all (\<lambda>(c, b, _, _). \<not> (c \<and> b)) es"
  by (induction es) (auto split: if_splits)

lemma compatible_fields_Nil_iff: "compatible_fields es = [] \<longleftrightarrow> list_all (\<lambda>(c, b, _, _). \<not> (c \<and> \<not> b)) es"
  by (induction es) (auto split: if_splits)

lemma spec_breaking_iff:
  "breaking_fields (spec_checks d a root) = [] \<longleftrightarrow>
    namespace_view d = namespace_view a \<and> (root \<longrightarrow> oci_same d a)"
  unfolding breaking_fields_Nil_iff
  by (cases root) (simp_all add: spec_checks_def namespace_view_def oci_same_def oci_view_def, argo+)

lemma spec_compatible_iff:
  "compatible_fields (spec_checks d a root) = [] \<longleftrightarrow> start_same d a \<and> (\<not> root \<longrightarrow> oci_same d a)"
  unfolding compatible_fields_Nil_iff
  by (cases root) (simp_all add: spec_checks_def start_same_def start_view_def oci_same_def oci_view_def, argo+)

lemma diffContainerSpec_wf: "diff_wf (diffContainerSpec d a root)"
  by (simp add: diffContainerSpec_checks run_field_steps_wf)

lemma diffContainerSpec_type:
  "dr_ChangeType (diffContainerSpec d a root) =
    (if namespace_view d \<noteq> namespace_view a \<or> root \<and> \<not> oci_same d a then ChangeTypeBreaking
     else if \<not> oci_same d a \<or> \<not> start_same d a then ChangeTypeCompatible
     else ChangeTypeNone)"
  unfolding diffContainerSpec_checks run_field_steps_type spec_breaking_iff spec_compatible_iff
  by auto

section \<open>Cells, step by step\<close>

definition cell_checks :: "Cell \<Rightarrow> Cell \<Rightarrow> check list" where
  "cell_checks d a =
     [(\<not> userLabelsEqual (ceM_Labels (ce_Metadata d)) (ceM_Labels (ce_Metadata a)), False,
        ''metadata.labels'', labelsChangedMsg),
      (ctty_view (ceS_Tty (ce_Spec d)) \<noteq> ctty_view (ceS_Tty (ce_Spec a)), False,
        ''spec.tty'', Msg ''tty default changed''),
      (ceS_AutoDelete (ce_Spec d) \<noteq> ceS_AutoDelete (ce_Spec a), False, ''spec.autoDelete'',
        Sprintf ''autoDelete changed from %v to %v''
          [VBool (ceS_AutoDelete (ce_Spec a)), VBool (ceS_AutoDelete (ce_Spec d))]),
      (ceS_NestedCgroupRuntime (ce_Spec d) \<noteq> ceS_NestedCgroupRuntime (ce_Spec a), True,
        ''spec.nestedCgroupRuntime'',
        Sprintf ''nestedCgroupRuntime changed from %v to %v (breaking)''
          [VBool (ceS_NestedCgroupRuntime (ce_Spec a)), VBool (ceS_NestedCgroupRuntime (ce_Spec d))])]"

lemma diffCellFields_checks: "diffCellFields d a = run_steps (map field_step (cell_checks d a))"
  by (simp add: fun_eq_iff diffCellFields_def cell_checks_def field_step_def Let_def)

lemma gomap_ok_containersByID: "gomap_ok (containersByID cs)"
proof -
  have "gomap_ok (foldl (\<lambda>m c. if \<not> cs_Root c \<and> cs_ID c \<noteq> '''' then map_put (cs_ID c) c m else m) m cs)"
    if "gomap_ok m" for m
    using that by (induction cs arbitrary: m) auto
  then show ?thesis
    by (simp add: containersByID_def gomap_ok_def)
qed

lemma mem_containersByID: "(i, c) \<in> set (containersByID cs) \<longleftrightarrow> map_of (containersByID cs) i = Some c"
  using gomap_ok_containersByID by (simp add: gomap_ok_def)

text \<open>What one child contributes.\<close>

definition child_diffs :: "(string, ContainerSpec) gomap \<Rightarrow> string \<times> ContainerSpec \<Rightarrow> ContainerDiff list" where
  "child_diffs am e =
     (case map_of am (fst e) of
        None \<Rightarrow> [\<lparr>cdf_Name = fst e, cdf_Action = ''add'', cdf_ChangedFields = [],
                  cdf_BreakingChanges = [], cdf_Details = []\<rparr>]
      | Some ac \<Rightarrow>
          let cd = diffContainerSpec (snd e) ac False in
          if dr_HasChanges cd then
            [\<lparr>cdf_Name = fst e, cdf_Action = ''update'', cdf_ChangedFields = dr_ChangedFields cd,
              cdf_BreakingChanges = dr_BreakingChanges cd, cdf_Details = dr_Details cd\<rparr>]
          else [])"

definition child_breaking :: "(string, ContainerSpec) gomap \<Rightarrow> string \<times> ContainerSpec \<Rightarrow> string list" where
  "child_breaking am e =
     (case map_of am (fst e) of
        None \<Rightarrow> []
      | Some ac \<Rightarrow> map (\<lambda>f. ''containers['' @ fst e @ ''].'' @ f)
          (dr_BreakingChanges (diffContainerSpec (snd e) ac False)))"

lemma wf_no_breaking:
  "diff_wf r \<Longrightarrow> \<not> dr_HasChanges r \<or> dr_ChangeType r \<noteq> ChangeTypeBreaking \<Longrightarrow> dr_BreakingChanges r = []"
  by (auto simp: diff_wf_def)

lemma adoptChangeType_simps [simp]:
  "dr_HasChanges (adoptChangeType t r) = dr_HasChanges r"
  "dr_ChangedFields (adoptChangeType t r) = dr_ChangedFields r"
  "dr_BreakingChanges (adoptChangeType t r) = dr_BreakingChanges r"
  "dr_Details (adoptChangeType t r) = dr_Details r"
  by (simp_all add: adoptChangeType_def)

lemma on_diff_simps [simp]:
  "cdr_Diff (on_diff f r) = f (cdr_Diff r)" "cdr_Containers (on_diff f r) = cdr_Containers r"
  "cdr_Orphans (on_diff f r) = cdr_Orphans r"
  "cdr_RootContainerChanged (on_diff f r) = cdr_RootContainerChanged r"
  "cdr_RootContainerDetails (on_diff f r) = cdr_RootContainerDetails r"
  by (simp_all add: on_diff_def)

lemma diffCellChild_fields:
  fixes am e r
  defines "r' \<equiv> diffCellChild am e r"
  shows "cdr_Containers r' = cdr_Containers r @ child_diffs am e"
    and "dr_BreakingChanges (cdr_Diff r') = dr_BreakingChanges (cdr_Diff r) @ child_breaking am e"
    and "dr_ChangedFields (cdr_Diff r') = dr_ChangedFields (cdr_Diff r)"
    and "dr_Details (cdr_Diff r') = dr_Details (cdr_Diff r)"
    and "cdr_Orphans r' = cdr_Orphans r"
    and "cdr_RootContainerChanged r' = cdr_RootContainerChanged r"
    and "cdr_RootContainerDetails r' = cdr_RootContainerDetails r"
proof -
  have nb: "\<not> dr_HasChanges (diffContainerSpec x y b) \<Longrightarrow> dr_BreakingChanges (diffContainerSpec x y b) = []"
    "dr_ChangeType (diffContainerSpec x y b) \<noteq> ChangeTypeBreaking \<Longrightarrow>
      dr_BreakingChanges (diffContainerSpec x y b) = []" for x y b
    using wf_no_breaking[OF diffContainerSpec_wf] by blast+
  show "cdr_Containers r' = cdr_Containers r @ child_diffs am e"
    "dr_BreakingChanges (cdr_Diff r') = dr_BreakingChanges (cdr_Diff r) @ child_breaking am e"
    "dr_ChangedFields (cdr_Diff r') = dr_ChangedFields (cdr_Diff r)"
    "dr_Details (cdr_Diff r') = dr_Details (cdr_Diff r)" "cdr_Orphans r' = cdr_Orphans r"
    "cdr_RootContainerChanged r' = cdr_RootContainerChanged r"
    "cdr_RootContainerDetails r' = cdr_RootContainerDetails r"
    unfolding r'_def diffCellChild_def child_diffs_def child_breaking_def
    by (simp_all add: Let_def nb split: prod.split option.split)
qed

lemma run_children_fields:
  fixes am es r
  defines "r' \<equiv> run_steps (map (diffCellChild am) es) r"
  shows "cdr_Containers r' = cdr_Containers r @ concat (map (child_diffs am) es)"
    and "dr_BreakingChanges (cdr_Diff r') = dr_BreakingChanges (cdr_Diff r) @ concat (map (child_breaking am) es)"
    and "dr_ChangedFields (cdr_Diff r') = dr_ChangedFields (cdr_Diff r)"
    and "dr_Details (cdr_Diff r') = dr_Details (cdr_Diff r)"
    and "cdr_Orphans r' = cdr_Orphans r"
    and "cdr_RootContainerChanged r' = cdr_RootContainerChanged r"
    and "cdr_RootContainerDetails r' = cdr_RootContainerDetails r"
  unfolding r'_def by (induction es arbitrary: r) (simp_all add: diffCellChild_fields)

lemma diffCellOrphan_fields:
  fixes dm e r
  defines "r' \<equiv> diffCellOrphan dm e r"
  shows "cdr_Orphans r' = cdr_Orphans r @ (if map_of dm (fst e) = None then [fst e] else [])"
    and "dr_BreakingChanges (cdr_Diff r') = dr_BreakingChanges (cdr_Diff r)"
    and "dr_ChangedFields (cdr_Diff r') = dr_ChangedFields (cdr_Diff r)"
    and "dr_Details (cdr_Diff r') = dr_Details (cdr_Diff r)"
    and "cdr_Containers r' = cdr_Containers r"
    and "cdr_RootContainerChanged r' = cdr_RootContainerChanged r"
    and "cdr_RootContainerDetails r' = cdr_RootContainerDetails r"
  unfolding r'_def by (simp_all add: diffCellOrphan_def)

lemma run_orphans_fields:
  fixes dm es r
  defines "r' \<equiv> run_steps (map (diffCellOrphan dm) es) r"
  shows "cdr_Orphans r' = cdr_Orphans r @ filter (\<lambda>i. map_of dm i = None) (map fst es)"
    and "dr_BreakingChanges (cdr_Diff r') = dr_BreakingChanges (cdr_Diff r)"
    and "dr_ChangedFields (cdr_Diff r') = dr_ChangedFields (cdr_Diff r)"
    and "dr_Details (cdr_Diff r') = dr_Details (cdr_Diff r)"
    and "cdr_Containers r' = cdr_Containers r"
    and "cdr_RootContainerChanged r' = cdr_RootContainerChanged r"
    and "cdr_RootContainerDetails r' = cdr_RootContainerDetails r"
  unfolding r'_def by (induction es arbitrary: r) (simp_all add: diffCellOrphan_fields)

text \<open>The invariant of a cell diff: as for a plain diff, with children and orphans as changes too.\<close>

definition cell_diff_wf :: "CellDiffResult \<Rightarrow> bool" where
  "cell_diff_wf r \<longleftrightarrow>
     (dr_HasChanges (cdr_Diff r) \<longleftrightarrow> dr_ChangeType (cdr_Diff r) \<noteq> ChangeTypeNone)
     \<and> (dr_HasChanges (cdr_Diff r) \<longleftrightarrow> dr_ChangedFields (cdr_Diff r) \<noteq> []
         \<or> dr_BreakingChanges (cdr_Diff r) \<noteq> [] \<or> cdr_Containers r \<noteq> [] \<or> cdr_Orphans r \<noteq> [])
     \<and> (dr_ChangeType (cdr_Diff r) = ChangeTypeBreaking \<longleftrightarrow> dr_BreakingChanges (cdr_Diff r) \<noteq> [])"

lemma emptyCellDiff_wf: "cell_diff_wf emptyCellDiff"
  by (simp add: cell_diff_wf_def emptyCellDiff_def emptyDiff_def)

lemma diff_wf_cell: "diff_wf d \<Longrightarrow> cell_diff_wf (emptyCellDiff\<lparr>cdr_Diff := d\<rparr>)"
  by (auto simp: cell_diff_wf_def diff_wf_def emptyCellDiff_def)

lemma adopt_wf:
  assumes "diff_wf n" "dr_HasChanges n"
  shows "dr_ChangeType (adoptChangeType (dr_ChangeType n) r) \<noteq> ChangeTypeNone"
    and "dr_ChangeType (adoptChangeType (dr_ChangeType n) r) = ChangeTypeBreaking \<longleftrightarrow>
      dr_ChangeType r = ChangeTypeBreaking \<or> dr_BreakingChanges n \<noteq> []"
  using assms by (auto simp: adoptChangeType_def diff_wf_def)

text \<open>Folding a nested diff with changes into a cell diff, with qualified field names.\<close>

lemma nested_wf:
  assumes "cell_diff_wf r" "diff_wf n" "dr_HasChanges n"
    and "cdr_Diff r' = (adoptChangeType (dr_ChangeType n) (cdr_Diff r\<lparr>dr_HasChanges := True\<rparr>))
      \<lparr>dr_BreakingChanges := dr_BreakingChanges (cdr_Diff r) @ map g (dr_BreakingChanges n),
       dr_ChangedFields := fs\<rparr>"
    and "fs \<noteq> [] \<or> dr_BreakingChanges n \<noteq> [] \<or> cdr_Containers r' \<noteq> [] \<or> cdr_Orphans r' \<noteq> []"
  shows "cell_diff_wf r'"
  using assms(1,5) adopt_wf[OF assms(2,3), of "cdr_Diff r\<lparr>dr_HasChanges := True\<rparr>"]
  unfolding cell_diff_wf_def assms(4) by (simp; blast)

lemma diffCellRoot_wf:
  assumes "cell_diff_wf r"
  shows "cell_diff_wf (diffCellRoot ds as r)"
proof (cases "findRootContainer ds")
  case None
  then show ?thesis using assms by (simp add: diffCellRoot_def)
next
  case root: (Some d)
  show ?thesis
  proof (cases "findRootContainer as")
    case None
    then show ?thesis using assms root by (simp add: diffCellRoot_def cell_diff_wf_def)
  next
    case (Some a)
    define n where "n = diffContainerSpec d a True"
    have wf: "diff_wf n"
      unfolding n_def by (rule diffContainerSpec_wf)
    show ?thesis
    proof (cases "dr_HasChanges n")
      case True
      then have "dr_ChangedFields n \<noteq> [] \<or> dr_BreakingChanges n \<noteq> []"
        using wf by (simp add: diff_wf_def)
      then have "dr_ChangedFields (cdr_Diff r) @ map (\<lambda>f. ''rootContainer.'' @ f) (dr_ChangedFields n) \<noteq> []
          \<or> dr_BreakingChanges n \<noteq> []"
        by auto
      moreover have "cdr_Diff (diffCellRoot ds as r) =
          (adoptChangeType (dr_ChangeType n) (cdr_Diff r\<lparr>dr_HasChanges := True\<rparr>))
          \<lparr>dr_BreakingChanges := dr_BreakingChanges (cdr_Diff r)
             @ map (\<lambda>f. ''rootContainer.'' @ f) (dr_BreakingChanges n),
           dr_ChangedFields := dr_ChangedFields (cdr_Diff r)
             @ map (\<lambda>f. ''rootContainer.'' @ f) (dr_ChangedFields n)\<rparr>"
        unfolding diffCellRoot_def root Some n_def[symmetric] by (simp add: Let_def True n_def[symmetric])
      ultimately show ?thesis
        by (intro nested_wf[OF assms wf True]) blast+
    next
      case False
      then show ?thesis
        using assms by (simp add: diffCellRoot_def root Some Let_def n_def[symmetric])
    qed
  qed
qed

lemma diffCellChild_wf:
  assumes "cell_diff_wf r"
  shows "cell_diff_wf (diffCellChild am e r)"
proof (cases "map_of am (fst e)")
  case None
  then show ?thesis
    using assms unfolding cell_diff_wf_def
    by (cases e) (simp add: diffCellChild_def, metis ChangeType.distinct)
next
  case (Some ac)
  define n where "n = diffContainerSpec (snd e) ac False"
  have wf: "diff_wf n"
    unfolding n_def by (rule diffContainerSpec_wf)
  show ?thesis
  proof (cases "dr_HasChanges n")
    case True
    have "dr_ChangeType n \<noteq> ChangeTypeBreaking \<Longrightarrow> dr_BreakingChanges n = []"
      using wf_no_breaking[OF wf] by blast
    then have "cdr_Diff (diffCellChild am e r) =
        (adoptChangeType (dr_ChangeType n) (cdr_Diff r\<lparr>dr_HasChanges := True\<rparr>))
        \<lparr>dr_BreakingChanges := dr_BreakingChanges (cdr_Diff r)
           @ map (\<lambda>f. ''containers['' @ fst e @ ''].'' @ f) (dr_BreakingChanges n),
         dr_ChangedFields := dr_ChangedFields (cdr_Diff r)\<rparr>"
      by (cases "cdr_Diff r")
         (simp add: diffCellChild_def Some Let_def True n_def[symmetric] case_prod_beta adoptChangeType_def)
    moreover have "cdr_Containers (diffCellChild am e r) \<noteq> []"
      by (simp add: diffCellChild_def Some Let_def True n_def[symmetric] case_prod_beta)
    ultimately show ?thesis
      by (intro nested_wf[OF assms wf True]) blast+
  next
    case False
    then show ?thesis
      using assms Some by (simp add: diffCellChild_def Let_def n_def[symmetric] case_prod_beta)
  qed
qed

lemma diffCellOrphan_wf:
  assumes "cell_diff_wf r"
  shows "cell_diff_wf (diffCellOrphan dm e r)"
proof (cases "map_of dm (fst e)")
  case None
  with assms show ?thesis
    unfolding cell_diff_wf_def by (simp add: diffCellOrphan_def) (metis ChangeType.distinct)
next
  case (Some c)
  with assms show ?thesis by (simp add: diffCellOrphan_def)
qed

definition same_identity :: "Cell \<Rightarrow> Cell \<Rightarrow> bool" where
  "same_identity d a \<longleftrightarrow> ceM_Name (ce_Metadata d) = ceM_Name (ce_Metadata a)
     \<and> ceS_RealmName (ce_Spec d) = ceS_RealmName (ce_Spec a)
     \<and> ceS_SpaceName (ce_Spec d) = ceS_SpaceName (ce_Spec a)
     \<and> ceS_StackName (ce_Spec d) = ceS_StackName (ce_Spec a)"

definition cell_base :: "Cell \<Rightarrow> Cell \<Rightarrow> CellDiffResult" where
  "cell_base d a = diffCellRoot (ceS_Containers (ce_Spec d)) (ceS_Containers (ce_Spec a))
     (on_diff (diffCellFields d a) emptyCellDiff)"

lemma DiffCell_other_identity:
  assumes "\<not> same_identity d a"
  obtains f m where "DiffCell iterD iterA d a = on_diff (markBreaking f m) emptyCellDiff"
  using assms that unfolding DiffCell_def Let_def nameChanged_def same_identity_def
  by (simp split: if_splits) metis

lemma DiffCell_same_identity:
  assumes "same_identity d a"
  shows "DiffCell iterD iterA d a =
    run_steps (map (diffCellOrphan (containersByID (ceS_Containers (ce_Spec d))))
        (iterA (containersByID (ceS_Containers (ce_Spec a)))))
      (run_steps (map (diffCellChild (containersByID (ceS_Containers (ce_Spec a))))
          (iterD (containersByID (ceS_Containers (ce_Spec d))))) (cell_base d a))"
  using assms by (simp add: DiffCell_def Let_def same_identity_def cell_base_def)

lemma cell_base_wf: "cell_diff_wf (cell_base d a)"
proof -
  have "cell_diff_wf (on_diff (diffCellFields d a) emptyCellDiff)"
    using diff_wf_cell[OF run_field_steps_wf[OF emptyDiff_wf, of "cell_checks d a"]]
    by (simp add: on_diff_def diffCellFields_checks emptyCellDiff_def)
  then show ?thesis
    unfolding cell_base_def by (rule diffCellRoot_wf)
qed

lemma DiffCell_wf: "cell_diff_wf (DiffCell iterD iterA d a)"
proof (cases "same_identity d a")
  case True
  show ?thesis
    unfolding DiffCell_same_identity[OF True]
  proof (rule run_steps_invariant[where P = cell_diff_wf])
    show "cell_diff_wf (run_steps (map (diffCellChild am) es) (cell_base d a))" for am es
      by (rule run_steps_invariant[where P = cell_diff_wf]) (auto intro: diffCellChild_wf cell_base_wf)
  qed (auto intro: diffCellOrphan_wf)
next
  case False
  then obtain f m where "DiffCell iterD iterA d a = on_diff (markBreaking f m) emptyCellDiff"
    by (rule DiffCell_other_identity)
  then show ?thesis
    using diff_wf_cell[OF markBreaking_wf[OF emptyDiff_wf]] by (simp add: on_diff_def emptyCellDiff_def)
qed

section \<open>What a diff decides\<close>

lemma diff_wfD:
  assumes "diff_wf r"
  shows "dr_HasChanges r \<longleftrightarrow> dr_ChangeType r \<noteq> ChangeTypeNone"
    and "dr_HasChanges r \<longleftrightarrow> dr_ChangedFields r \<noteq> [] \<or> dr_BreakingChanges r \<noteq> []"
    and "dr_BreakingChanges r \<noteq> [] \<longleftrightarrow> dr_ChangeType r = ChangeTypeBreaking"
  using assms unfolding diff_wf_def by blast+

definition spec_same :: "ContainerSpec \<Rightarrow> ContainerSpec \<Rightarrow> bool" where
  "spec_same d a \<longleftrightarrow> namespace_view d = namespace_view a \<and> oci_same d a \<and> start_same d a"

lemma spec_same_refl [simp]: "spec_same d d"
  by (simp add: spec_same_def oci_same_def start_same_def)

lemma diffContainerSpec_HasChanges: "dr_HasChanges (diffContainerSpec d a root) \<longleftrightarrow> \<not> spec_same d a"
  unfolding diff_wfD(1)[OF diffContainerSpec_wf] diffContainerSpec_type by (simp add: spec_same_def)

lemma diffContainerSpec_breaking:
  "dr_BreakingChanges (diffContainerSpec d a root) \<noteq> [] \<longleftrightarrow>
    namespace_view d \<noteq> namespace_view a \<or> root \<and> \<not> oci_same d a"
  unfolding diff_wfD(3)[OF diffContainerSpec_wf] diffContainerSpec_type by simp

definition root_same :: "ContainerSpec list \<Rightarrow> ContainerSpec list \<Rightarrow> bool" where
  "root_same ds as = (case (findRootContainer ds, findRootContainer as) of
     (None, _) \<Rightarrow> True | (Some d, None) \<Rightarrow> False | (Some d, Some a) \<Rightarrow> spec_same d a)"

definition root_breaking :: "ContainerSpec list \<Rightarrow> ContainerSpec list \<Rightarrow> bool" where
  "root_breaking ds as = (case (findRootContainer ds, findRootContainer as) of
     (None, _) \<Rightarrow> False | (Some d, None) \<Rightarrow> True
   | (Some d, Some a) \<Rightarrow> namespace_view d \<noteq> namespace_view a \<or> \<not> oci_same d a)"

lemma diffCellRoot_fields:
  "dr_BreakingChanges (cdr_Diff (diffCellRoot ds as r)) \<noteq> [] \<longleftrightarrow>
    dr_BreakingChanges (cdr_Diff r) \<noteq> [] \<or> root_breaking ds as"
  "dr_ChangedFields (cdr_Diff (diffCellRoot ds as r)) \<noteq> [] \<or> dr_BreakingChanges (cdr_Diff (diffCellRoot ds as r)) \<noteq> []
    \<longleftrightarrow> dr_ChangedFields (cdr_Diff r) \<noteq> [] \<or> dr_BreakingChanges (cdr_Diff r) \<noteq> [] \<or> \<not> root_same ds as"
  "cdr_Containers (diffCellRoot ds as r) = cdr_Containers r"
  "cdr_Orphans (diffCellRoot ds as r) = cdr_Orphans r"
proof -
  note wf = diff_wfD(2)[OF diffContainerSpec_wf]
  show "dr_BreakingChanges (cdr_Diff (diffCellRoot ds as r)) \<noteq> [] \<longleftrightarrow>
      dr_BreakingChanges (cdr_Diff r) \<noteq> [] \<or> root_breaking ds as"
    using diffContainerSpec_breaking wf
    by (simp add: diffCellRoot_def root_breaking_def Let_def split: option.split) blast
  show "dr_ChangedFields (cdr_Diff (diffCellRoot ds as r)) \<noteq> [] \<or> dr_BreakingChanges (cdr_Diff (diffCellRoot ds as r)) \<noteq> []
      \<longleftrightarrow> dr_ChangedFields (cdr_Diff r) \<noteq> [] \<or> dr_BreakingChanges (cdr_Diff r) \<noteq> [] \<or> \<not> root_same ds as"
    using diffContainerSpec_HasChanges wf
    by (simp add: diffCellRoot_def root_same_def Let_def split: option.split) blast
  show "cdr_Containers (diffCellRoot ds as r) = cdr_Containers r"
    "cdr_Orphans (diffCellRoot ds as r) = cdr_Orphans r"
    by (simp_all add: diffCellRoot_def Let_def split: option.split)
qed

definition cell_fields_same :: "Cell \<Rightarrow> Cell \<Rightarrow> bool" where
  "cell_fields_same d a \<longleftrightarrow> userLabelsEqual (ceM_Labels (ce_Metadata d)) (ceM_Labels (ce_Metadata a))
     \<and> ctty_view (ceS_Tty (ce_Spec d)) = ctty_view (ceS_Tty (ce_Spec a))
     \<and> ceS_AutoDelete (ce_Spec d) = ceS_AutoDelete (ce_Spec a)"

abbreviation cell_nested :: "Cell \<Rightarrow> bool" where "cell_nested c \<equiv> ceS_NestedCgroupRuntime (ce_Spec c)"
abbreviation cell_roots :: "Cell \<Rightarrow> ContainerSpec list" where "cell_roots c \<equiv> ceS_Containers (ce_Spec c)"
abbreviation cell_children :: "Cell \<Rightarrow> string \<rightharpoonup> ContainerSpec" where
  "cell_children c \<equiv> map_of (containersByID (ceS_Containers (ce_Spec c)))"

lemma cell_base_fields:
  "dr_BreakingChanges (cdr_Diff (cell_base d a)) \<noteq> [] \<longleftrightarrow>
    cell_nested d \<noteq> cell_nested a \<or> root_breaking (cell_roots d) (cell_roots a)"
  "dr_ChangedFields (cdr_Diff (cell_base d a)) \<noteq> [] \<or> dr_BreakingChanges (cdr_Diff (cell_base d a)) \<noteq> []
    \<longleftrightarrow> \<not> (cell_fields_same d a \<and> cell_nested d = cell_nested a \<and> root_same (cell_roots d) (cell_roots a))"
  "cdr_Containers (cell_base d a) = []" "cdr_Orphans (cell_base d a) = []"
proof -
  let ?r = "on_diff (diffCellFields d a) emptyCellDiff"
  have b: "dr_BreakingChanges (cdr_Diff ?r) \<noteq> [] \<longleftrightarrow> cell_nested d \<noteq> cell_nested a"
    by (simp add: diffCellFields_checks run_field_steps del: run_steps.simps list.map)
       (simp add: emptyCellDiff_def emptyDiff_def cell_checks_def)
  have c: "dr_ChangedFields (cdr_Diff ?r) \<noteq> [] \<longleftrightarrow> \<not> cell_fields_same d a"
    by (simp add: diffCellFields_checks run_field_steps del: run_steps.simps list.map)
       (simp add: emptyCellDiff_def emptyDiff_def cell_checks_def cell_fields_same_def)
  show "dr_BreakingChanges (cdr_Diff (cell_base d a)) \<noteq> [] \<longleftrightarrow>
      cell_nested d \<noteq> cell_nested a \<or> root_breaking (cell_roots d) (cell_roots a)"
    unfolding cell_base_def diffCellRoot_fields(1) b ..
  show "dr_ChangedFields (cdr_Diff (cell_base d a)) \<noteq> [] \<or> dr_BreakingChanges (cdr_Diff (cell_base d a)) \<noteq> []
    \<longleftrightarrow> \<not> (cell_fields_same d a \<and> cell_nested d = cell_nested a \<and> root_same (cell_roots d) (cell_roots a))"
    unfolding cell_base_def diffCellRoot_fields(2) b c by blast
  show "cdr_Containers (cell_base d a) = []" "cdr_Orphans (cell_base d a) = []"
    unfolding cell_base_def diffCellRoot_fields(3,4) by (simp_all add: emptyCellDiff_def)
qed

lemma child_diffs_Nil: "child_diffs am e = [] \<longleftrightarrow> (\<exists>ac. map_of am (fst e) = Some ac \<and> spec_same (snd e) ac)"
  by (simp add: child_diffs_def Let_def diffContainerSpec_HasChanges split: option.split)

lemma child_breaking_Nil:
  "child_breaking am e \<noteq> [] \<longleftrightarrow> (\<exists>ac. map_of am (fst e) = Some ac \<and> namespace_view (snd e) \<noteq> namespace_view ac)"
  using diffContainerSpec_breaking[of "snd e" _ False]
  by (auto simp: child_breaking_def split: option.split)

lemma add_names: "{cdf_Name x |x. x \<in> set (child_diffs am e) \<and> cdf_Action x = ''add''}
    = (if map_of am (fst e) = None then {fst e} else {})"
  by (auto simp: child_diffs_def Let_def split: option.splits if_splits)

text \<open>
  The lists a cell diff is made of, and then the verdict of \<open>DiffCell\<close> on cells with the same
  identity, whatever order the maps are visited in.
\<close>

abbreviation cell_byID :: "Cell \<Rightarrow> (string, ContainerSpec) gomap" where
  "cell_byID c \<equiv> containersByID (ceS_Containers (ce_Spec c))"

lemma DiffCell_lists:
  assumes "same_identity d a"
  shows "cdr_Containers (DiffCell iterD iterA d a) = concat (map (child_diffs (cell_byID a)) (iterD (cell_byID d)))"
    and "cdr_Orphans (DiffCell iterD iterA d a) =
      filter (\<lambda>i. cell_children d i = None) (map fst (iterA (cell_byID a)))"
    and "dr_BreakingChanges (cdr_Diff (DiffCell iterD iterA d a)) = dr_BreakingChanges (cdr_Diff (cell_base d a))
      @ concat (map (child_breaking (cell_byID a)) (iterD (cell_byID d)))"
    and "dr_ChangedFields (cdr_Diff (DiffCell iterD iterA d a)) = dr_ChangedFields (cdr_Diff (cell_base d a))"
    and "dr_Details (cdr_Diff (DiffCell iterD iterA d a)) = dr_Details (cdr_Diff (cell_base d a))"
    and "cdr_RootContainerChanged (DiffCell iterD iterA d a) = cdr_RootContainerChanged (cell_base d a)"
    and "cdr_RootContainerDetails (DiffCell iterD iterA d a) = cdr_RootContainerDetails (cell_base d a)"
  unfolding DiffCell_same_identity[OF assms]
  by (simp_all add: run_orphans_fields run_children_fields cell_base_fields(3,4))

lemma cell_diff_wfD:
  assumes "cell_diff_wf r"
  shows "dr_ChangeType (cdr_Diff r) = ChangeTypeBreaking \<longleftrightarrow> dr_BreakingChanges (cdr_Diff r) \<noteq> []"
    and "\<not> dr_HasChanges (cdr_Diff r) \<longleftrightarrow> dr_ChangedFields (cdr_Diff r) = [] \<and> dr_BreakingChanges (cdr_Diff r) = []
      \<and> cdr_Containers r = [] \<and> cdr_Orphans r = []"
  using assms unfolding cell_diff_wf_def by blast+

text \<open>A map iteration visits every entry once.\<close>

definition visits_all :: "visit \<Rightarrow> bool" where
  "visits_all iter \<longleftrightarrow> (\<forall>m. mset (iter m) = mset m)"

lemma set_visit: "visits_all iter \<Longrightarrow> set (iter m) = set m"
  unfolding visits_all_def by (rule mset_eq_setD) blast

lemma DiffCell_orphans:
  assumes "same_identity d a" and "visits_all iterA"
  shows "set (cdr_Orphans (DiffCell iterD iterA d a)) = dom (cell_children a) - dom (cell_children d)"
  unfolding DiffCell_lists[OF assms(1)]
  by (auto simp: set_visit[OF assms(2)] dom_map_of_conv_image_fst map_of_eq_None_iff)

lemma DiffCell_adds:
  assumes "same_identity d a" and "visits_all iterD"
  shows "{cdf_Name x |x. x \<in> set (cdr_Containers (DiffCell iterD iterA d a)) \<and> cdf_Action x = ''add''}
    = dom (cell_children d) - dom (cell_children a)"
proof -
  have "{cdf_Name x |x. x \<in> set (cdr_Containers (DiffCell iterD iterA d a)) \<and> cdf_Action x = ''add''}
      = (\<Union>e \<in> set (cell_byID d). {cdf_Name x |x. x \<in> set (child_diffs (cell_byID a) e) \<and> cdf_Action x = ''add''})"
    unfolding DiffCell_lists[OF assms(1)] by (auto simp: set_visit[OF assms(2)])
  also have "\<dots> = (\<Union>e \<in> set (cell_byID d). if cell_children a (fst e) = None then {fst e} else {})"
    unfolding add_names ..
  also have "\<dots> = dom (cell_children d) - dom (cell_children a)"
    by (auto simp: dom_map_of_conv_image_fst map_of_eq_None_iff split: if_splits)
  finally show ?thesis .
qed

lemma DiffCell_no_containers:
  assumes "same_identity d a" and "visits_all iterD"
  shows "cdr_Containers (DiffCell iterD iterA d a) = [] \<longleftrightarrow> (\<forall>i dc. cell_children d i = Some dc \<longrightarrow>
    (\<exists>ac. cell_children a i = Some ac \<and> spec_same dc ac))"
proof -
  have "cdr_Containers (DiffCell iterD iterA d a) = [] \<longleftrightarrow> (\<forall>e \<in> set (cell_byID d). child_diffs (cell_byID a) e = [])"
    unfolding DiffCell_lists[OF assms(1)] by (auto simp: set_visit[OF assms(2)])
  then show ?thesis
    unfolding child_diffs_Nil mem_containersByID[where cs = "cell_roots d", symmetric] by fastforce
qed

lemma DiffCell_breaking:
  assumes "same_identity d a" and "visits_all iterD"
  shows "dr_BreakingChanges (cdr_Diff (DiffCell iterD iterA d a)) \<noteq> [] \<longleftrightarrow>
    cell_nested d \<noteq> cell_nested a \<or> root_breaking (cell_roots d) (cell_roots a)
    \<or> (\<exists>i dc ac. cell_children d i = Some dc \<and> cell_children a i = Some ac
         \<and> namespace_view dc \<noteq> namespace_view ac)"
proof -
  have "concat (map (child_breaking (cell_byID a)) (iterD (cell_byID d))) \<noteq> []
      \<longleftrightarrow> (\<exists>e \<in> set (cell_byID d). child_breaking (cell_byID a) e \<noteq> [])"
    by (auto simp: set_visit[OF assms(2)])
  also have "\<dots> \<longleftrightarrow> (\<exists>i dc ac. cell_children d i = Some dc \<and> cell_children a i = Some ac
      \<and> namespace_view dc \<noteq> namespace_view ac)"
    unfolding child_breaking_Nil mem_containersByID[where cs = "cell_roots d", symmetric]
      Bex_def split_paired_Ex fst_conv snd_conv by blast
  finally show ?thesis
    unfolding DiffCell_lists[OF assms(1)] using cell_base_fields(1)[of d a] by auto
qed

definition cells_same :: "Cell \<Rightarrow> Cell \<Rightarrow> bool" where
  "cells_same d a \<longleftrightarrow> cell_fields_same d a \<and> cell_nested d = cell_nested a
     \<and> root_same (cell_roots d) (cell_roots a) \<and> dom (cell_children d) = dom (cell_children a)
     \<and> (\<forall>i dc ac. cell_children d i = Some dc \<and> cell_children a i = Some ac \<longrightarrow> spec_same dc ac)"

lemma DiffCell_unchanged:
  assumes "same_identity d a" and "visits_all iterD"
    and "visits_all iterA"
  shows "\<not> dr_HasChanges (cdr_Diff (DiffCell iterD iterA d a)) \<longleftrightarrow> cells_same d a"
proof -
  let ?r = "DiffCell iterD iterA d a"
  have "cdr_Orphans ?r = [] \<longleftrightarrow> dom (cell_children a) \<subseteq> dom (cell_children d)"
    using DiffCell_orphans[of d a iterA iterD] assms(1,3) by (metis Diff_eq_empty_iff set_empty)
  then have "cdr_Containers ?r = [] \<and> cdr_Orphans ?r = [] \<longleftrightarrow> dom (cell_children d) = dom (cell_children a)
      \<and> (\<forall>i dc ac. cell_children d i = Some dc \<and> cell_children a i = Some ac \<longrightarrow> spec_same dc ac)"
    unfolding DiffCell_no_containers[OF assms(1,2)] by (fastforce simp: dom_def)
  moreover have "dr_ChangedFields (cdr_Diff ?r) = dr_ChangedFields (cdr_Diff (cell_base d a))"
    by (rule DiffCell_lists[OF assms(1)])
  moreover have "dr_BreakingChanges (cdr_Diff ?r) = [] \<longleftrightarrow> dr_BreakingChanges (cdr_Diff (cell_base d a)) = []
      \<and> (\<forall>i dc ac. cell_children d i = Some dc \<and> cell_children a i = Some ac \<longrightarrow>
           namespace_view dc = namespace_view ac)"
    using DiffCell_breaking[OF assms(1,2), of iterA] cell_base_fields(1)[of d a] by metis
  moreover have "dr_ChangedFields (cdr_Diff (cell_base d a)) = [] \<and> dr_BreakingChanges (cdr_Diff (cell_base d a)) = []
      \<longleftrightarrow> cell_fields_same d a \<and> cell_nested d = cell_nested a \<and> root_same (cell_roots d) (cell_roots a)"
    using cell_base_fields(2)[of d a] by argo
  moreover have "spec_same dc ac \<Longrightarrow> namespace_view dc = namespace_view ac" for dc ac
    by (simp add: spec_same_def)
  ultimately show ?thesis
    unfolding cell_diff_wfD(2)[OF DiffCell_wf] cells_same_def by metis
qed

section \<open>Properties of the diffs\<close>

text \<open>
  C24. The verdict on two container specs: breaking exactly when a host-namespace flag differs or,
  on a root container, anything baked into the runtime spec differs; compatible when only fields
  applied at the next start differ, or runtime fields of a child; no change when all compared views
  agree. The result's flags, field lists and details always agree with that verdict.
\<close>
theorem diffContainerSpec_verdict:
  "dr_ChangeType (diffContainerSpec d a root) =
      (if namespace_view d = namespace_view a \<and> (if root then oci_same d a else True)
       then if oci_same d a \<and> start_same d a then ChangeTypeNone else ChangeTypeCompatible
       else ChangeTypeBreaking)
    \<and> diff_wf (diffContainerSpec d a root)"
  by (simp add: diffContainerSpec_type diffContainerSpec_wf)

text \<open>
  C25. The verdict of a cell diff does not depend on the order in which the container maps are
  visited: for cells with the same identity it has no changes exactly when the cell fields, the
  root and the children agree; it is breaking exactly for a changed nested-cgroup flag, an added
  root, a root with changed runtime fields, or a child with a changed host-namespace flag; orphans
  and additions are the two set differences of the child IDs. Another identity is always breaking.
\<close>
theorem DiffCell_verdict:
  assumes "visits_all iterD" and "visits_all iterA"
  shows "(\<not> same_identity d a \<longrightarrow>
      dr_ChangeType (cdr_Diff (DiffCell iterD iterA d a)) = ChangeTypeBreaking)
    \<and> (same_identity d a \<longrightarrow>
      (dr_HasChanges (cdr_Diff (DiffCell iterD iterA d a)) \<longleftrightarrow> \<not> cells_same d a)
      \<and> (dr_ChangeType (cdr_Diff (DiffCell iterD iterA d a)) = ChangeTypeBreaking \<longleftrightarrow>
          cell_nested d \<noteq> cell_nested a \<or> root_breaking (cell_roots d) (cell_roots a)
          \<or> (\<exists>i dc ac. cell_children d i = Some dc \<and> cell_children a i = Some ac
               \<and> namespace_view dc \<noteq> namespace_view ac))
      \<and> set (cdr_Orphans (DiffCell iterD iterA d a)) = dom (cell_children a) - dom (cell_children d)
      \<and> {cdf_Name x |x. x \<in> set (cdr_Containers (DiffCell iterD iterA d a)) \<and> cdf_Action x = ''add''}
          = dom (cell_children d) - dom (cell_children a))"
proof (cases "same_identity d a")
  case True
  then show ?thesis
    using DiffCell_unchanged[OF True assms] DiffCell_breaking[OF True assms(1), of iterA]
      DiffCell_orphans[OF True assms(2), of iterD] DiffCell_adds[OF True assms(1), of iterA]
      cell_diff_wfD(1)[OF DiffCell_wf, of iterD iterA d a] by argo
next
  case False
  then obtain f m where "DiffCell iterD iterA d a = on_diff (markBreaking f m) emptyCellDiff"
    by (rule DiffCell_other_identity)
  then show ?thesis
    using False by (simp add: markBreaking_def)
qed

text \<open>What the runner stores of an applied cell: managed labels, a synthesized root, stamped paths.\<close>

definition stampCNI :: "string \<Rightarrow> ContainerSpec \<Rightarrow> ContainerSpec" where
  "stampCNI path c = c\<lparr>cs_CNIConfigPath := (if cs_CNIConfigPath c = '''' then path else cs_CNIConfigPath c)\<rparr>"

lemma stampCNI_simps [simp]:
  "cs_ID (stampCNI p c) = cs_ID c" "cs_Root (stampCNI p c) = cs_Root c"
  by (simp_all add: stampCNI_def)

lemma spec_same_stampCNI: "spec_same c (stampCNI p c)"
  by (simp add: spec_same_def namespace_view_def oci_same_def oci_view_def start_same_def start_view_def
      stampCNI_def)

lemma find_map_stamp: "find cs_Root (map (stampCNI p) cs) = map_option (stampCNI p) (find cs_Root cs)"
  by (induction cs) auto

lemma find_append_none: "find P xs = None \<Longrightarrow> find P (xs @ ys) = find P ys"
  by (induction xs) (auto split: if_splits)

lemma containersByID_append_roots:
  "list_all cs_Root rs \<Longrightarrow> containersByID (rs @ cs) = containersByID cs"
proof -
  assume "list_all cs_Root rs"
  then have "foldl (\<lambda>m c. if \<not> cs_Root c \<and> cs_ID c \<noteq> '''' then map_put (cs_ID c) c m else m) m rs = m" for m
    by (induction rs arbitrary: m) auto
  then show ?thesis
    by (simp add: containersByID_def)
qed

lemma map_put_map_value:
  "map_put k (g v) (map (\<lambda>(k, v). (k, g v)) m) = map (\<lambda>(k, v). (k, g v)) (map_put k v m)"
  by (auto simp: map_put_def image_image case_prod_beta)

lemma containersByID_stamp:
  "containersByID (map (stampCNI p) cs) = map (\<lambda>(k, v). (k, stampCNI p v)) (containersByID cs)"
proof -
  have "foldl (\<lambda>m c. if \<not> cs_Root c \<and> cs_ID c \<noteq> '''' then map_put (cs_ID c) c m else m)
      (map (\<lambda>(k, v). (k, stampCNI p v)) m) (map (stampCNI p) cs)
    = map (\<lambda>(k, v). (k, stampCNI p v))
      (foldl (\<lambda>m c. if \<not> cs_Root c \<and> cs_ID c \<noteq> '''' then map_put (cs_ID c) c m else m) m cs)" for m
    by (induction cs arbitrary: m) (simp_all add: map_put_map_value)
  from this[of "[]"] show ?thesis
    by (simp add: containersByID_def)
qed

definition stored_as :: "Cell \<Rightarrow> (string, string) gomap \<Rightarrow> ContainerSpec list \<Rightarrow> string \<Rightarrow> Cell" where
  "stored_as d managed synthesized path =
     d\<lparr>ce_Metadata := ce_Metadata d\<lparr>ceM_Labels := managed @ ceM_Labels (ce_Metadata d)\<rparr>,
       ce_Spec := ce_Spec d\<lparr>ceS_Containers := synthesized @ map (stampCNI path) (ceS_Containers (ce_Spec d))\<rparr>\<rparr>"

lemma userLabels_managed:
  assumes "list_all (\<lambda>(k, v). suffix ''.kukeon.io'' k) managed"
  shows "filterManagedLabels (managed @ m) = filterManagedLabels m"
proof -
  have "filterManagedLabels x = filter (\<lambda>(k, v). \<not> suffix ''.kukeon.io'' k) x" for x
    by (simp add: filterManagedLabels_def)
  moreover have "filter (\<lambda>(k, v). \<not> suffix ''.kukeon.io'' k) managed = []"
    using assms by (induction managed) auto
  ultimately show ?thesis by simp
qed


definition demo_cell :: Cell where
  "demo_cell = zeroCell\<lparr>ce_Metadata := \<lparr>ceM_Name = ''web'', ceM_Labels = [(''team'', ''a'')],
       ceM_Annotations = [], ceM_Generation = 1\<rparr>,
     ce_Spec := ce_Spec zeroCell\<lparr>ceS_Containers :=
       [zeroContainerSpec\<lparr>cs_ID := ''app'', cs_Image := ''nginx''\<rparr>]\<rparr>\<rparr>"

lemma visits_all_id: "visits_all (\<lambda>m. m)" "visits_all rev"
  by (simp_all add: visits_all_def)


theorem DiffCell_verdict_witness:
  "visits_all rev \<and> dr_ChangeType (cdr_Diff (DiffCell rev rev demo_cell
    (demo_cell\<lparr>ce_Spec := ce_Spec demo_cell\<lparr>ceS_NestedCgroupRuntime := True\<rparr>\<rparr>))) = ChangeTypeBreaking"
  using DiffCell_verdict[OF visits_all_id(2) visits_all_id(2), of demo_cell
      "demo_cell\<lparr>ce_Spec := ce_Spec demo_cell\<lparr>ceS_NestedCgroupRuntime := True\<rparr>\<rparr>"] visits_all_id(2)
  by (simp add: same_identity_def demo_cell_def zeroCell_def)


section \<open>Where the comparison departs from equality\<close>

text \<open>
  Volume references are compared by address: a desired and a stored mount of the same volume, read
  from two documents, always differ, and on a root container that difference is breaking.
\<close>
lemma volume_ref_phantom_diff:
  assumes "cs_Volumes d = Some [v]" "cs_Volumes a = Some [v\<lparr>vm_VolumeRef := Ptr y r\<rparr>]"
    and "vm_VolumeRef v = Ptr x r" "x \<noteq> y"
  shows "dr_ChangeType (diffContainerSpec d a True) = ChangeTypeBreaking"
  using assms
  by (simp add: diffContainerSpec_type oci_same_def volumeMountsEqual_def same_length_and_iff volume_mount_eq_def)

text \<open>A label with an empty value is equal to a missing one of another name.\<close>
lemma empty_label_not_compared:
  "mapsEqual [(''x'', '''')] [(''y'', ''z'')] \<and> \<not> mapsEqual [(''y'', ''z'')] [(''x'', '''')]"
  by (simp add: mapsEqual_def map_get_def)

text \<open>An edit of the restart back-off or of the retry cap is reported as no change.\<close>
lemma restart_tuning_not_compared:
  "\<not> dr_HasChanges (diffContainerSpec (c\<lparr>cs_RestartBackoffSeconds := b, cs_RestartMaxRetries := n\<rparr>) c root)"
  by (simp add: diffContainerSpec_HasChanges spec_same_def namespace_view_def oci_same_def oci_view_def
      start_same_def start_view_def)

text \<open>Whether a cell diff is additive or compatible depends on the order of map iteration.\<close>
lemma change_type_depends_on_order:
  "\<exists>d a. dr_ChangeType (cdr_Diff (DiffCell (\<lambda>m. m) (\<lambda>m. m) d a)) = ChangeTypeAdditive
    \<and> dr_ChangeType (cdr_Diff (DiffCell rev (\<lambda>m. m) d a)) = ChangeTypeCompatible"
proof -
  let ?old = "zeroContainerSpec\<lparr>cs_ID := ''a''\<rparr>" and ?new = "zeroContainerSpec\<lparr>cs_ID := ''a'', cs_Image := ''i''\<rparr>"
  let ?add = "zeroContainerSpec\<lparr>cs_ID := ''b''\<rparr>"
  let ?a = "zeroCell\<lparr>ce_Spec := ce_Spec zeroCell\<lparr>ceS_Containers := [?old]\<rparr>\<rparr>"
  let ?d = "zeroCell\<lparr>ce_Spec := ce_Spec zeroCell\<lparr>ceS_Containers := [?add, ?new]\<rparr>\<rparr>"
  have byID: "cell_byID ?a = [(''a'', ?old)]" "cell_byID ?d = [(''b'', ?add), (''a'', ?new)]"
    by (simp_all add: containersByID_def zeroContainerSpec_def map_put_def)
  have base: "cell_base ?d ?a = emptyCellDiff"
    by (simp add: cell_base_def diffCellRoot_def findRootContainer_def zeroContainerSpec_def diffCellFields_def
        userLabelsEqual_def filterManagedLabels_def mapsEqual_def on_diff_def emptyCellDiff_def zeroCell_def Let_def)
  have "dr_HasChanges (diffContainerSpec ?new ?old False)"
    "dr_ChangeType (diffContainerSpec ?new ?old False) = ChangeTypeCompatible"
    by (simp_all add: diffContainerSpec_HasChanges diffContainerSpec_type spec_same_def oci_same_def
        oci_view_def namespace_view_def zeroContainerSpec_def)
  then have "dr_ChangeType (cdr_Diff (DiffCell (\<lambda>m. m) (\<lambda>m. m) ?d ?a)) = ChangeTypeAdditive
    \<and> dr_ChangeType (cdr_Diff (DiffCell rev (\<lambda>m. m) ?d ?a)) = ChangeTypeCompatible"
    using DiffCell_same_identity[of ?d ?a] unfolding byID base
    by (simp add: same_identity_def diffCellChild_def diffCellOrphan_def emptyCellDiff_def emptyDiff_def
        adoptChangeType_def Let_def)
  then show ?thesis by blast
qed

end
