(* ===== verification/Spec_Hash.thy ===== *)
theory Spec_Hash
  imports Apply_Diff
begin

text \<open>
  \<^verbatim>\<open>internal/controller/runner/spec_hash.go\<close>: the projection of a container spec that is hashed and
  stamped on the containerd record, and the guard that decides on the next start whether an
  existing record is reused, re-stamped or refused. The digest of a payload (JSON, SHA-256, hex) is
  an argument; no lemma needs it to be injective.
\<close>

section \<open>The payload\<close>

record capabilitiesHashPayload =
  chp_Add :: "string list"
  chp_Drop :: "string list"

record tmpfsHashPayload =
  thp_Path :: string
  thp_SizeBytes :: int
  thp_Options :: "string list"

record resourcesHashPayload =
  rhp_MemoryLimitBytes :: int
  rhp_CPUShares :: int
  rhp_PidsLimit :: int

record volumeHashPayload =
  vhp_Kind :: string
  vhp_Source :: string
  vhp_Target :: string
  vhp_ReadOnly :: bool
  vhp_SizeBytes :: int
  vhp_Mode :: "32 word"

record secretRefHashPayload =
  srhp_Name :: string
  srhp_Realm :: string
  srhp_Space :: string
  srhp_Stack :: string
  srhp_Cell :: string

record secretHashPayload =
  shp_Name :: string
  shp_FromFile :: string
  shp_FromEnv :: string
  shp_MountPath :: string
  shp_SecretRef :: "secretRefHashPayload option"

record containerSpecHashPayload =
  hp_Image :: string
  hp_Command :: string
  hp_Args :: "string list"
  hp_WorkingDir :: string
  hp_Privileged :: bool
  hp_User :: string
  hp_ReadOnlyRootFilesystem :: bool
  hp_Capabilities :: capabilitiesHashPayload
  hp_SecurityOpts :: "string list"
  hp_Devices :: "string list"
  hp_Tmpfs :: "tmpfsHashPayload list"
  hp_Resources :: resourcesHashPayload
  hp_Volumes :: "volumeHashPayload list"
  hp_Secrets :: "secretHashPayload list"

text \<open>A normalized slice is never nil, so it is the list of its elements.\<close>

definition normalizeStrings :: "string slice \<Rightarrow> string list" where
  "normalizeStrings s = (case s of None \<Rightarrow> [] | Some xs \<Rightarrow> xs)"

definition projectCapabilities :: "ContainerCapabilities option \<Rightarrow> capabilitiesHashPayload" where
  "projectCapabilities c =
     (case c of
        None \<Rightarrow> \<lparr>chp_Add = [], chp_Drop = []\<rparr>
      | Some c \<Rightarrow> \<lparr>chp_Add = normalizeStrings (cap_Add c), chp_Drop = normalizeStrings (cap_Drop c)\<rparr>)"

definition projectTmpfs :: "ContainerTmpfsMount slice \<Rightarrow> tmpfsHashPayload list" where
  "projectTmpfs t =
     map (\<lambda>m. \<lparr>thp_Path = tm_Path m, thp_SizeBytes = tm_SizeBytes m,
       thp_Options = normalizeStrings (tm_Options m)\<rparr>) (elems t)"

definition derefInt64 :: "int option \<Rightarrow> int" where
  "derefInt64 p = (case p of None \<Rightarrow> 0 | Some v \<Rightarrow> v)"

definition projectResources :: "ContainerResources option \<Rightarrow> resourcesHashPayload" where
  "projectResources r =
     (case r of
        None \<Rightarrow> \<lparr>rhp_MemoryLimitBytes = 0, rhp_CPUShares = 0, rhp_PidsLimit = 0\<rparr>
      | Some r \<Rightarrow> \<lparr>rhp_MemoryLimitBytes = derefInt64 (res_MemoryLimitBytes r),
          rhp_CPUShares = derefInt64 (res_CPUShares r), rhp_PidsLimit = derefInt64 (res_PidsLimit r)\<rparr>)"

definition projectVolumes :: "VolumeMount slice \<Rightarrow> volumeHashPayload list" where
  "projectVolumes v =
     map (\<lambda>m. \<lparr>vhp_Kind = vm_Kind m, vhp_Source = vm_Source m, vhp_Target = vm_Target m,
       vhp_ReadOnly = vm_ReadOnly m, vhp_SizeBytes = vm_SizeBytes m, vhp_Mode = vm_Mode m\<rparr>) (elems v)"

definition projectSecretRef :: "ContainerSecretRef option \<Rightarrow> secretRefHashPayload option" where
  "projectSecretRef r =
     (case r of
        None \<Rightarrow> None
      | Some r \<Rightarrow> Some \<lparr>srhp_Name = sr_Name r, srhp_Realm = sr_Realm r, srhp_Space = sr_Space r,
          srhp_Stack = sr_Stack r, srhp_Cell = sr_Cell r\<rparr>)"

definition projectSecrets :: "ContainerSecret slice \<Rightarrow> secretHashPayload list" where
  "projectSecrets s =
     map (\<lambda>m. \<lparr>shp_Name = sec_Name m, shp_FromFile = sec_FromFile m, shp_FromEnv = sec_FromEnv m,
       shp_MountPath = sec_MountPath m, shp_SecretRef = projectSecretRef (sec_SecretRef m)\<rparr>) (elems s)"

definition hashPayload :: "ContainerSpec \<Rightarrow> containerSpecHashPayload" where
  "hashPayload s =
     \<lparr>hp_Image = cs_Image s, hp_Command = cs_Command s, hp_Args = normalizeStrings (cs_Args s),
      hp_WorkingDir = cs_WorkingDir s, hp_Privileged = cs_Privileged s, hp_User = cs_User s,
      hp_ReadOnlyRootFilesystem = cs_ReadOnlyRootFilesystem s,
      hp_Capabilities = projectCapabilities (cs_Capabilities s),
      hp_SecurityOpts = normalizeStrings (cs_SecurityOpts s),
      hp_Devices = normalizeStrings (cs_Devices s), hp_Tmpfs = projectTmpfs (cs_Tmpfs s),
      hp_Resources = projectResources (cs_Resources s), hp_Volumes = projectVolumes (cs_Volumes s),
      hp_Secrets = projectSecrets (cs_Secrets s)\<rparr>"

type_synonym digest = "containerSpecHashPayload \<Rightarrow> string"

definition ComputeContainerSpecHash :: "digest \<Rightarrow> ContainerSpec \<Rightarrow> string" where
  "ComputeContainerSpecHash H spec = H (hashPayload spec)"

section \<open>Labels and the reuse guard\<close>

definition SpecHashLabelKey :: string where
  "SpecHashLabelKey = ''kukeon.io/spec-hash''"

definition SpecHashVersionLabelKey :: string where
  "SpecHashVersionLabelKey = ''kukeon.io/spec-hash-version''"

definition SpecHashDomainVersion :: string where
  "SpecHashDomainVersion = ''4''"

definition specHashLabels :: "digest \<Rightarrow> ContainerSpec \<Rightarrow> (string, string) gomap" where
  "specHashLabels H spec =
     [(SpecHashLabelKey, ComputeContainerSpecHash H spec), (SpecHashVersionLabelKey, SpecHashDomainVersion)]"

definition stampSpecHashOnLabels ::
  "digest \<Rightarrow> (string, string) gomap option \<Rightarrow> ContainerSpec \<Rightarrow> (string, string) gomap" where
  "stampSpecHashOnLabels H labels spec =
     (case labels of
        None \<Rightarrow> specHashLabels H spec
      | Some labels \<Rightarrow> put_all (specHashLabels H spec) labels)"

datatype specHashReuseAction = specHashReuseAsIs | specHashRestamp | specHashRefuse

definition classifySpecHashReuse :: "(string, string) gomap \<Rightarrow> string \<Rightarrow> specHashReuseAction" where
  "classifySpecHashReuse labels desiredHash =
     (if map_get '''' labels SpecHashVersionLabelKey \<noteq> SpecHashDomainVersion then specHashRestamp
      else
        let stampedHash = map_get '''' labels SpecHashLabelKey in
        if stampedHash \<noteq> '''' \<and> stampedHash \<noteq> desiredHash then specHashRefuse
        else specHashReuseAsIs)"

text \<open>
  The containerd side of one record: its labels and whether a task is left over. \<open>setLabels\<close> is
  \<^verbatim>\<open>Container.SetLabels\<close> (\<open>None\<close> when the call fails) and \<open>deleteOk\<close> whether deleting the stale task
  succeeds.
\<close>

record ctrRecord =
  cr_Labels :: "(string, string) gomap"
  cr_Task :: bool

type_synonym labelSetter = "(string, string) gomap \<Rightarrow> (string, string) gomap \<Rightarrow> (string, string) gomap option"

definition restampSpecHashLabels :: "digest \<Rightarrow> labelSetter \<Rightarrow> ContainerSpec \<Rightarrow> ctrRecord \<Rightarrow> ctrRecord" where
  "restampSpecHashLabels H setLabels spec c =
     (case setLabels (cr_Labels c) (specHashLabels H spec) of
        None \<Rightarrow> c
      | Some labels \<Rightarrow> c\<lparr>cr_Labels := labels\<rparr>)"

definition dropStaleTask :: "bool \<Rightarrow> ctrRecord \<Rightarrow> ctrRecord" where
  "dropStaleTask deleteOk c = (if cr_Task c \<and> deleteOk then c\<lparr>cr_Task := False\<rparr> else c)"

text \<open>
  The lookup is the record, or the error of \<^verbatim>\<open>GetContainer\<close>; \<open>labelsOk\<close> is whether the labels can be
  read. The result is the verdict and the record afterwards.
\<close>

definition reuseOrRefuseExistingChildContainer ::
  "digest \<Rightarrow> labelSetter \<Rightarrow> bool \<Rightarrow> bool \<Rightarrow> ctrRecord result \<Rightarrow> ContainerSpec
    \<Rightarrow> bool result \<times> ctrRecord option" where
  "reuseOrRefuseExistingChildContainer H setLabels labelsOk deleteOk lookup spec =
     (case lookup of
        Inl e \<Rightarrow> (if e = ErrContainerNotFound then Inr False else Inl e, None)
      | Inr c \<Rightarrow>
          let desiredHash = ComputeContainerSpecHash H spec;
              existingLabels = (if labelsOk then cr_Labels c else [])
          in case classifySpecHashReuse existingLabels desiredHash of
               specHashRefuse \<Rightarrow> (Inl ErrCellSpecHashDrift, Some c)
             | specHashRestamp \<Rightarrow>
                 (Inr True, Some (dropStaleTask deleteOk (restampSpecHashLabels H setLabels spec c)))
             | specHashReuseAsIs \<Rightarrow> (Inr True, Some (dropStaleTask deleteOk c)))"

section \<open>The payload and the diff\<close>

lemma normalizeStrings_elems [simp]: "normalizeStrings s = elems s"
  by (simp add: normalizeStrings_def elems_def)

lemma projectCapabilities_eq [simp]:
  "projectCapabilities c = projectCapabilities c' \<longleftrightarrow> cap_view c = cap_view c'"
  by (auto simp: projectCapabilities_def cap_view_def capabilitiesDrop_def capabilitiesAdd_def
      split: option.splits)

lemma projectTmpfs_eq [simp]:
  "projectTmpfs t = projectTmpfs t' \<longleftrightarrow> map tm_view (elems t) = map tm_view (elems t')"
proof -
  have "projectTmpfs x = map (\<lambda>(p, s, os). \<lparr>thp_Path = p, thp_SizeBytes = s, thp_Options = os\<rparr>)
      (map tm_view (elems x))" for x
    by (simp add: projectTmpfs_def tm_view_def)
  moreover have "inj (\<lambda>(p, s, os). \<lparr>thp_Path = p, thp_SizeBytes = s, thp_Options = os\<rparr>)"
    by (auto simp: inj_def)
  ultimately show ?thesis
    by (metis inj_map_eq_map)
qed

lemma projectSecretRef_eq: "projectSecretRef r = projectSecretRef r' \<longleftrightarrow> r = r'"
  by (cases r; cases r') (auto simp: projectSecretRef_def intro: ContainerSecretRef.equality)

lemma projectSecrets_eq [simp]: "projectSecrets s = projectSecrets s' \<longleftrightarrow> elems s = elems s'"
proof -
  have "inj (\<lambda>m :: ContainerSecret. \<lparr>shp_Name = sec_Name m, shp_FromFile = sec_FromFile m,
      shp_FromEnv = sec_FromEnv m, shp_MountPath = sec_MountPath m,
      shp_SecretRef = projectSecretRef (sec_SecretRef m)\<rparr>)"
    by (auto simp: inj_def projectSecretRef_eq intro: ContainerSecret.equality)
  then show ?thesis
    unfolding projectSecrets_def by (rule inj_map_eq_map)
qed

lemma projectResources_view:
  "projectResources r = (case res_view r of (m, c, p) \<Rightarrow>
     \<lparr>rhp_MemoryLimitBytes = derefInt64 m, rhp_CPUShares = derefInt64 c, rhp_PidsLimit = derefInt64 p\<rparr>)"
  by (cases r) (simp_all add: projectResources_def res_view_def derefInt64_def)

lemma derefInt64_inject: "p \<noteq> Some 0 \<Longrightarrow> q \<noteq> Some 0 \<Longrightarrow> derefInt64 p = derefInt64 q \<longleftrightarrow> p = q"
  by (cases p; cases q) (auto simp: derefInt64_def)

lemma projectVolumes_eq_iff:
  "projectVolumes v = projectVolumes v' \<longleftrightarrow>
    list_all2 (\<lambda>x y. vm_Kind x = vm_Kind y \<and> vm_Source x = vm_Source y \<and> vm_Target x = vm_Target y
      \<and> vm_ReadOnly x = vm_ReadOnly y \<and> vm_SizeBytes x = vm_SizeBytes y \<and> vm_Mode x = vm_Mode y)
      (elems v) (elems v')"
  unfolding projectVolumes_def list_all2_map_eq[symmetric] by simp

lemma projectVolumes_cong: "volumeMountsEqual v v' \<Longrightarrow> projectVolumes v = projectVolumes v'"
  unfolding volumeMountsEqual_def same_length_and_iff projectVolumes_eq_iff
  by (erule list_all2_mono) (simp add: volume_mount_eq_def)

text \<open>
  Where the hash is coarser than the diff: an explicit zero limit, a volume reference, and the
  ensure flag of a volume.
\<close>

definition no_zero_limits :: "ContainerSpec \<Rightarrow> bool" where
  "no_zero_limits s = (case res_view (cs_Resources s) of (m, c, p) \<Rightarrow> m \<noteq> Some 0 \<and> c \<noteq> Some 0 \<and> p \<noteq> Some 0)"

definition plain_volumes :: "ContainerSpec \<Rightarrow> bool" where
  "plain_volumes s \<longleftrightarrow> list_all (\<lambda>v. vm_VolumeRef v = NilPtr \<and> \<not> vm_Ensure v) (elems (cs_Volumes s))"

lemma projectResources_eq:
  assumes "no_zero_limits s" "no_zero_limits s'"
  shows "projectResources (cs_Resources s) = projectResources (cs_Resources s')
    \<longleftrightarrow> res_view (cs_Resources s) = res_view (cs_Resources s')"
  using assms unfolding projectResources_view no_zero_limits_def
  by (simp add: derefInt64_inject split: prod.splits)

lemma projectVolumes_eq:
  assumes "plain_volumes s" "plain_volumes s'"
  shows "projectVolumes (cs_Volumes s) = projectVolumes (cs_Volumes s')
    \<longleftrightarrow> volumeMountsEqual (cs_Volumes s) (cs_Volumes s')"
  unfolding volumeMountsEqual_def same_length_and_iff projectVolumes_eq_iff
  using assms by (intro list.rel_cong) (auto simp: volume_mount_eq_def plain_volumes_def list_all_iff)

lemma hashPayload_eq:
  "hashPayload d = hashPayload a \<longleftrightarrow>
    cs_Image d = cs_Image a \<and> cs_Command d = cs_Command a \<and> elems (cs_Args d) = elems (cs_Args a)
    \<and> cs_WorkingDir d = cs_WorkingDir a \<and> cs_Privileged d = cs_Privileged a \<and> cs_User d = cs_User a
    \<and> cs_ReadOnlyRootFilesystem d = cs_ReadOnlyRootFilesystem a
    \<and> cap_view (cs_Capabilities d) = cap_view (cs_Capabilities a)
    \<and> elems (cs_SecurityOpts d) = elems (cs_SecurityOpts a) \<and> elems (cs_Devices d) = elems (cs_Devices a)
    \<and> map tm_view (elems (cs_Tmpfs d)) = map tm_view (elems (cs_Tmpfs a))
    \<and> projectResources (cs_Resources d) = projectResources (cs_Resources a)
    \<and> projectVolumes (cs_Volumes d) = projectVolumes (cs_Volumes a)
    \<and> elems (cs_Secrets d) = elems (cs_Secrets a)"
  by (simp add: hashPayload_def)

lemma oci_same_hash: "oci_same d a \<Longrightarrow> hashPayload d = hashPayload a"
  by (simp add: oci_same_def oci_view_def hashPayload_eq projectVolumes_cong projectResources_view)

lemma hash_oci_same:
  assumes "no_zero_limits d" "no_zero_limits a" "plain_volumes d" "plain_volumes a"
  shows "hashPayload d = hashPayload a \<longleftrightarrow> oci_same d a"
  unfolding hashPayload_eq projectResources_eq[OF assms(1,2)] projectVolumes_eq[OF assms(3,4)]
    oci_same_def oci_view_def by auto

section \<open>Properties of the guard\<close>



lemma dropStaleTask_labels [simp]: "cr_Labels (dropStaleTask ok c) = cr_Labels c"
  by (simp add: dropStaleTask_def)

lemma map_of_put_all: "gomap_ok new \<Longrightarrow> map_of (put_all new old) = map_of old ++ map_of new"
proof (induction new arbitrary: old)
  case (Cons e new)
  obtain k v where e: "e = (k, v)"
    by fastforce
  have "map_of new k = None"
    using Cons.prems by (simp add: e gomap_ok_def map_of_eq_None_iff)
  then show ?case
    using Cons by (auto simp: e put_all_def gomap_ok_def fun_eq_iff map_add_def split: option.splits)
qed (simp add: put_all_def)

lemma gomap_ok_specHashLabels: "gomap_ok (specHashLabels H spec)"
  by (simp add: gomap_ok_def specHashLabels_def SpecHashLabelKey_def SpecHashVersionLabelKey_def)

lemma map_get_specHashLabels:
  "map_get '''' (specHashLabels H spec) SpecHashLabelKey = ComputeContainerSpecHash H spec"
  "map_get '''' (specHashLabels H spec) SpecHashVersionLabelKey = SpecHashDomainVersion"
  by (simp_all add: map_get_def specHashLabels_def SpecHashLabelKey_def SpecHashVersionLabelKey_def)

lemma classify_stamped:
  assumes "\<And>k. k \<in> fst ` set (specHashLabels H spec) \<Longrightarrow> map_of l k = map_of (specHashLabels H spec) k"
  shows "classifySpecHashReuse l (ComputeContainerSpecHash H spec') =
    (if H (hashPayload spec) \<noteq> '''' \<and> H (hashPayload spec) \<noteq> H (hashPayload spec')
     then specHashRefuse else specHashReuseAsIs)"
proof -
  have "map_get '''' l SpecHashLabelKey = H (hashPayload spec)"
    "map_get '''' l SpecHashVersionLabelKey = SpecHashDomainVersion"
    using assms map_get_specHashLabels[of H spec]
    by (simp_all add: map_get_def specHashLabels_def ComputeContainerSpecHash_def)
  then show ?thesis
    by (simp add: classifySpecHashReuse_def ComputeContainerSpecHash_def)
qed

text \<open>
  C29. A record stamped by this daemon from one spec is, on the next start from another spec, reused
  untouched if the two have the same payload and refused if their digests differ; whatever labels
  it had before, and whether or not it had any.
\<close>
theorem stamped_record_guard:
  "classifySpecHashReuse (stampSpecHashOnLabels H labels spec) (ComputeContainerSpecHash H spec') =
    (if H (hashPayload spec) \<noteq> '''' \<and> H (hashPayload spec) \<noteq> H (hashPayload spec')
     then specHashRefuse else specHashReuseAsIs)"
proof (rule classify_stamped)
  fix k
  assume "k \<in> fst ` set (specHashLabels H spec)"
  then obtain v where "map_of (specHashLabels H spec) k = Some v"
    by (metis map_of_eq_None_iff not_None_eq)
  then show "map_of (stampSpecHashOnLabels H labels spec) k = map_of (specHashLabels H spec) k"
    by (cases labels) (simp_all add: stampSpecHashOnLabels_def map_of_put_all gomap_ok_specHashLabels)
qed



text \<open>
  Labels that cannot be read classify as a legacy record: the record is re-stamped and reused even
  when its stamp shows drift.
\<close>
lemma unreadable_labels_restamp:
  "reuseOrRefuseExistingChildContainer H setLabels False deleteOk (Inr c) spec =
    (Inr True, Some (dropStaleTask deleteOk (restampSpecHashLabels H setLabels spec c)))"
  by (simp add: reuseOrRefuseExistingChildContainer_def classifySpecHashReuse_def map_get_def
      SpecHashDomainVersion_def)

end
