(* ===== verification/Cell_Lock.thy ===== *)
theory Cell_Lock
  imports Naming
begin

text \<open>
  \<^verbatim>\<open>internal/controller/runner/cell_lock.go\<close>: the per-cell lifecycle lock. The manager's map is
  guarded by its own mutex, so entering and leaving are atomic steps; the wait for the entry's
  mutex in between is not. The steps of any number of goroutines interleave freely.
\<close>

section \<open>The lock manager\<close>

record cellLockEntry =
  le_held :: bool
  le_waiters :: int

text \<open>
  Where a goroutine is in \<^verbatim>\<open>lock\<close> or in the release function it returned: outside, waiting for the
  entry's mutex, holding it, or past its unlock but before the bookkeeping.
\<close>

datatype pc = Idle | Waiting string nat | Holding string nat | Unlocked string nat

record cellLockManager =
  lm_locks :: "string \<rightharpoonup> nat"
  lm_heap :: "nat \<Rightarrow> cellLockEntry"
  lm_next :: nat
  lm_pc :: "nat \<Rightarrow> pc"

definition newCellLockManager :: cellLockManager where
  "newCellLockManager = \<lparr>lm_locks = Map.empty, lm_heap = (\<lambda>_. \<lparr>le_held = False, le_waiters = 0\<rparr>),
     lm_next = 0, lm_pc = (\<lambda>_. Idle)\<rparr>"

text \<open>The section under the manager's mutex: find or allocate the entry and count the goroutine.\<close>

definition lock_lookup :: "string \<Rightarrow> cellLockManager \<Rightarrow> nat \<times> cellLockManager" where
  "lock_lookup key m =
     (case lm_locks m key of
        Some a \<Rightarrow> (a, m)
      | None \<Rightarrow> (lm_next m,
          m\<lparr>lm_locks := (lm_locks m)(key \<mapsto> lm_next m),
            lm_heap := (lm_heap m)(lm_next m := \<lparr>le_held = False, le_waiters = 0\<rparr>),
            lm_next := Suc (lm_next m)\<rparr>))"

definition lock_enter :: "nat \<Rightarrow> string \<Rightarrow> cellLockManager \<Rightarrow> cellLockManager" where
  "lock_enter g key m =
     (case lock_lookup key m of (a, m) \<Rightarrow>
        m\<lparr>lm_heap := (lm_heap m)(a := (lm_heap m a)\<lparr>le_waiters := le_waiters (lm_heap m a) + 1\<rparr>),
          lm_pc := (lm_pc m)(g := Waiting key a)\<rparr>)"

text \<open>\<^verbatim>\<open>e.mu.Lock()\<close>: \<open>None\<close> while another goroutine holds the entry.\<close>

definition lock_acquire :: "nat \<Rightarrow> cellLockManager \<Rightarrow> cellLockManager option" where
  "lock_acquire g m =
     (case lm_pc m g of
        Waiting key a \<Rightarrow>
          if le_held (lm_heap m a) then None
          else Some (m\<lparr>lm_heap := (lm_heap m)(a := (lm_heap m a)\<lparr>le_held := True\<rparr>),
                      lm_pc := (lm_pc m)(g := Holding key a)\<rparr>)
      | _ \<Rightarrow> None)"

definition lock_unlock :: "nat \<Rightarrow> cellLockManager \<Rightarrow> cellLockManager option" where
  "lock_unlock g m =
     (case lm_pc m g of
        Holding key a \<Rightarrow>
          Some (m\<lparr>lm_heap := (lm_heap m)(a := (lm_heap m a)\<lparr>le_held := False\<rparr>),
                 lm_pc := (lm_pc m)(g := Unlocked key a)\<rparr>)
      | _ \<Rightarrow> None)"

definition lock_leave :: "nat \<Rightarrow> cellLockManager \<Rightarrow> cellLockManager option" where
  "lock_leave g m =
     (case lm_pc m g of
        Unlocked key a \<Rightarrow>
          let w = le_waiters (lm_heap m a) - 1 in
          Some (m\<lparr>lm_heap := (lm_heap m)(a := (lm_heap m a)\<lparr>le_waiters := w\<rparr>),
                 lm_locks := (if w = 0 then (lm_locks m)(key := None) else lm_locks m),
                 lm_pc := (lm_pc m)(g := Idle)\<rparr>)
      | _ \<Rightarrow> None)"

inductive lock_step :: "cellLockManager \<Rightarrow> cellLockManager \<Rightarrow> bool" where
  enter: "lm_pc m g = Idle \<Longrightarrow> lock_step m (lock_enter g key m)"
| acquire: "lock_acquire g m = Some m' \<Longrightarrow> lock_step m m'"
| unlock: "lock_unlock g m = Some m' \<Longrightarrow> lock_step m m'"
| leave: "lock_leave g m = Some m' \<Longrightarrow> lock_step m m'"

inductive lock_reachable :: "cellLockManager \<Rightarrow> bool" where
  init: "lock_reachable newCellLockManager"
| step: "lock_reachable m \<Longrightarrow> lock_step m m' \<Longrightarrow> lock_reachable m'"

section \<open>The invariant\<close>

fun uses :: "pc \<Rightarrow> (string \<times> nat) option" where
  "uses Idle = None"
| "uses (Waiting k a) = Some (k, a)"
| "uses (Holding k a) = Some (k, a)"
| "uses (Unlocked k a) = Some (k, a)"

definition users :: "cellLockManager \<Rightarrow> string \<times> nat \<Rightarrow> nat set" where
  "users m e = {g. uses (lm_pc m g) = Some e}"

definition holders :: "cellLockManager \<Rightarrow> nat \<Rightarrow> nat set" where
  "holders m a = {g. \<exists>k. lm_pc m g = Holding k a}"

definition lock_inv :: "cellLockManager \<Rightarrow> bool" where
  "lock_inv m \<longleftrightarrow>
     (\<forall>g k a. uses (lm_pc m g) = Some (k, a) \<longrightarrow> lm_locks m k = Some a)
     \<and> (\<forall>k a. lm_locks m k = Some a \<longrightarrow> a < lm_next m \<and> finite (users m (k, a)) \<and> users m (k, a) \<noteq> {}
          \<and> le_waiters (lm_heap m a) = int (card (users m (k, a))))
     \<and> (\<forall>k k' a. lm_locks m k = Some a \<longrightarrow> lm_locks m k' = Some a \<longrightarrow> k = k')
     \<and> (\<forall>a. a < lm_next m \<longrightarrow> le_held (lm_heap m a) \<longleftrightarrow> holders m a \<noteq> {})
     \<and> (\<forall>a g g'. g \<in> holders m a \<longrightarrow> g' \<in> holders m a \<longrightarrow> g = g')"

lemma lock_invD:
  assumes "lock_inv m"
  shows "uses (lm_pc m g) = Some (k, a) \<Longrightarrow> lm_locks m k = Some a"
    and "lm_locks m k = Some a \<Longrightarrow> a < lm_next m"
    and "lm_locks m k = Some a \<Longrightarrow> finite (users m (k, a))"
    and "lm_locks m k = Some a \<Longrightarrow> users m (k, a) \<noteq> {}"
    and "lm_locks m k = Some a \<Longrightarrow> le_waiters (lm_heap m a) = int (card (users m (k, a)))"
    and "lm_locks m k = Some a \<Longrightarrow> lm_locks m k' = Some a \<Longrightarrow> k = k'"
    and "a < lm_next m \<Longrightarrow> le_held (lm_heap m a) \<longleftrightarrow> holders m a \<noteq> {}"
    and "g \<in> holders m a \<Longrightarrow> g' \<in> holders m a \<Longrightarrow> g = g'"
  using assms unfolding lock_inv_def by blast+

lemma holders_use: "g \<in> holders m a \<Longrightarrow> \<exists>k. uses (lm_pc m g) = Some (k, a)"
  by (auto simp: holders_def)

lemma lock_inv_init: "lock_inv newCellLockManager"
  by (simp add: lock_inv_def newCellLockManager_def holders_def)

lemma users_upd:
  "lm_pc m' = (lm_pc m)(g := p) \<Longrightarrow>
    users m' e = (if uses p = Some e then insert g (users m e) else users m e - {g})"
  by (auto simp: users_def)

lemma holders_upd:
  "lm_pc m' = (lm_pc m)(g := p) \<Longrightarrow>
    holders m' a = (if \<exists>k. p = Holding k a then insert g (holders m a) else holders m a - {g})"
  by (auto simp: holders_def)

lemma lock_invI:
  assumes "\<And>g k a. uses (lm_pc m g) = Some (k, a) \<Longrightarrow> lm_locks m k = Some a"
    and "\<And>k a. lm_locks m k = Some a \<Longrightarrow> a < lm_next m \<and> finite (users m (k, a)) \<and> users m (k, a) \<noteq> {}
      \<and> le_waiters (lm_heap m a) = int (card (users m (k, a)))"
    and "\<And>k k' a. lm_locks m k = Some a \<Longrightarrow> lm_locks m k' = Some a \<Longrightarrow> k = k'"
    and "\<And>a. a < lm_next m \<Longrightarrow> le_held (lm_heap m a) \<longleftrightarrow> holders m a \<noteq> {}"
    and "\<And>a g g'. g \<in> holders m a \<Longrightarrow> g' \<in> holders m a \<Longrightarrow> g = g'"
  shows "lock_inv m"
  using assms unfolding lock_inv_def by blast

lemma enter_inv_existing:
  assumes inv: "lock_inv m" and idle: "lm_pc m g = Idle" and a: "lm_locks m key = Some a"
  shows "lock_inv (lock_enter g key m)"
proof -
  let ?m = "lock_enter g key m"
  have m: "lm_pc ?m = (lm_pc m)(g := Waiting key a)" "lm_locks ?m = lm_locks m" "lm_next ?m = lm_next m"
    "lm_heap ?m = (lm_heap m)(a := (lm_heap m a)\<lparr>le_waiters := le_waiters (lm_heap m a) + 1\<rparr>)"
    by (simp_all add: lock_enter_def lock_lookup_def a)
  have new: "g \<notin> users m e" "g \<notin> holders m b" for e b
    using idle by (auto simp: users_def holders_def)
  have same: "holders ?m b = holders m b" for b
    using new by (simp add: holders_upd[OF m(1)])
  show ?thesis
  proof (rule lock_invI)
    fix k b assume k: "lm_locks ?m k = Some b"
    show "b < lm_next ?m \<and> finite (users ?m (k, b)) \<and> users ?m (k, b) \<noteq> {}
        \<and> le_waiters (lm_heap ?m b) = int (card (users ?m (k, b)))"
    proof (cases "k = key")
      case True
      then have "b = a" using k a m(2) by simp
      then show ?thesis
        using True lock_invD(2-5)[OF inv a] new by (simp add: users_upd[OF m(1)] m)
    next
      case False
      then have "b \<noteq> a" using lock_invD(6)[OF inv] k a m(2) by metis
      then show ?thesis
        using False k lock_invD(2-5)[OF inv, of k b] new by (simp add: users_upd[OF m(1)] m)
    qed
  next
    fix g' k b assume "uses (lm_pc ?m g') = Some (k, b)"
    then show "lm_locks ?m k = Some b"
      using lock_invD(1)[OF inv] a by (auto simp: m split: if_splits)
  next
    fix b assume "b < lm_next ?m"
    then show "le_held (lm_heap ?m b) \<longleftrightarrow> holders ?m b \<noteq> {}"
      using lock_invD(7)[OF inv] by (auto simp: m same)
  qed (use lock_invD(6,8)[OF inv] in \<open>auto simp: m same\<close>)
qed

lemma enter_inv_fresh:
  assumes inv: "lock_inv m" and idle: "lm_pc m g = Idle" and a: "lm_locks m key = None"
  shows "lock_inv (lock_enter g key m)"
proof -
  let ?m = "lock_enter g key m" and ?n = "lm_next m"
  have m: "lm_pc ?m = (lm_pc m)(g := Waiting key ?n)" "lm_locks ?m = (lm_locks m)(key \<mapsto> ?n)"
    "lm_next ?m = Suc ?n" "lm_heap ?m = (lm_heap m)(?n := \<lparr>le_held = False, le_waiters = 1\<rparr>)"
    by (simp_all add: lock_enter_def lock_lookup_def a)
  have new: "g \<notin> users m e" "g \<notin> holders m b" for e b
    using idle by (auto simp: users_def holders_def)
  have fresh: "users m (k, ?n) = {}" "holders m ?n = {}" for k
    using lock_invD(1,2)[OF inv] holders_use by (fastforce simp: users_def)+
  have same: "holders ?m b = holders m b" for b
    using new by (simp add: holders_upd[OF m(1)])
  show ?thesis
  proof (rule lock_invI)
    fix k b assume k: "lm_locks ?m k = Some b"
    show "b < lm_next ?m \<and> finite (users ?m (k, b)) \<and> users ?m (k, b) \<noteq> {}
        \<and> le_waiters (lm_heap ?m b) = int (card (users ?m (k, b)))"
    proof (cases "k = key")
      case True
      then show ?thesis
        using k fresh by (auto simp: users_upd[OF m(1)] m)
    next
      case False
      then have old: "lm_locks m k = Some b" using k by (simp add: m)
      then have "b < ?n" by (rule lock_invD(2)[OF inv])
      then show ?thesis
        using False lock_invD(3-5)[OF inv old] new by (simp add: users_upd[OF m(1)] m)
    qed
  next
    fix g' k b assume u: "uses (lm_pc ?m g') = Some (k, b)"
    show "lm_locks ?m k = Some b"
    proof (cases "g' = g")
      case True
      then have "k = key" "b = ?n" using u by (auto simp: m)
      then show ?thesis by (simp add: m)
    next
      case False
      then have "lm_locks m k = Some b" using u lock_invD(1)[OF inv] by (simp add: m)
      then show ?thesis using a by (auto simp: m)
    qed
  next
    fix k k' b assume "lm_locks ?m k = Some b" "lm_locks ?m k' = Some b"
    then show "k = k'"
      using lock_invD(2,6)[OF inv] by (fastforce simp: m split: if_splits)
  next
    fix b assume "b < lm_next ?m"
    then show "le_held (lm_heap ?m b) \<longleftrightarrow> holders ?m b \<noteq> {}"
      using lock_invD(7)[OF inv, of b] fresh by (auto simp: m same less_Suc_eq)
  qed (use lock_invD(8)[OF inv] in \<open>auto simp: same\<close>)
qed

lemma acquire_inv:
  assumes inv: "lock_inv m" and acq: "lock_acquire g m = Some m'"
  shows "lock_inv m'"
proof -
  obtain key a where w: "lm_pc m g = Waiting key a" and free: "\<not> le_held (lm_heap m a)"
    and m: "lm_pc m' = (lm_pc m)(g := Holding key a)" "lm_locks m' = lm_locks m" "lm_next m' = lm_next m"
      "lm_heap m' = (lm_heap m)(a := (lm_heap m a)\<lparr>le_held := True\<rparr>)"
    using acq by (auto simp: lock_acquire_def split: pc.splits if_splits)
  have key: "lm_locks m key = Some a"
    using lock_invD(1)[OF inv, of g] w by simp
  have none: "holders m a = {}"
    using lock_invD(7)[OF inv lock_invD(2)[OF inv key]] free by simp
  have u: "users m' e = users m e" for e
    using w by (auto simp: users_def m)
  have h: "holders m' b = (if b = a then {g} else holders m b)" for b
    using none w by (auto simp: holders_def m)
  show ?thesis
  proof (rule lock_invI)
    fix g' k b assume "uses (lm_pc m' g') = Some (k, b)"
    then show "lm_locks m' k = Some b"
      using lock_invD(1)[OF inv] key by (auto simp: m split: if_splits)
  next
    fix k b assume "lm_locks m' k = Some b"
    then show "b < lm_next m' \<and> finite (users m' (k, b)) \<and> users m' (k, b) \<noteq> {}
        \<and> le_waiters (lm_heap m' b) = int (card (users m' (k, b)))"
      using lock_invD(2-5)[OF inv] by (simp add: m u)
  next
    fix b assume "b < lm_next m'"
    then show "le_held (lm_heap m' b) \<longleftrightarrow> holders m' b \<noteq> {}"
      using lock_invD(7)[OF inv] by (auto simp: m h)
  qed (use lock_invD(6,8)[OF inv] in \<open>auto simp: m h split: if_splits\<close>)
qed

lemma unlock_inv:
  assumes inv: "lock_inv m" and ul: "lock_unlock g m = Some m'"
  shows "lock_inv m'"
proof -
  obtain key a where w: "lm_pc m g = Holding key a"
    and m: "lm_pc m' = (lm_pc m)(g := Unlocked key a)" "lm_locks m' = lm_locks m" "lm_next m' = lm_next m"
      "lm_heap m' = (lm_heap m)(a := (lm_heap m a)\<lparr>le_held := False\<rparr>)"
    using ul by (auto simp: lock_unlock_def split: pc.splits)
  have key: "lm_locks m key = Some a"
    using lock_invD(1)[OF inv, of g] w by simp
  have only: "holders m a = {g}"
    using lock_invD(8)[OF inv, of _ a g] w by (auto simp: holders_def)
  have u: "users m' e = users m e" for e
    using w by (auto simp: users_def m)
  have h: "holders m' b = (if b = a then {} else holders m b)" for b
    using only w by (auto simp: holders_def m)
  show ?thesis
  proof (rule lock_invI)
    fix g' k b assume "uses (lm_pc m' g') = Some (k, b)"
    then show "lm_locks m' k = Some b"
      using lock_invD(1)[OF inv] key by (auto simp: m split: if_splits)
  next
    fix k b assume "lm_locks m' k = Some b"
    then show "b < lm_next m' \<and> finite (users m' (k, b)) \<and> users m' (k, b) \<noteq> {}
        \<and> le_waiters (lm_heap m' b) = int (card (users m' (k, b)))"
      using lock_invD(2-5)[OF inv] by (simp add: m u)
  next
    fix b assume "b < lm_next m'"
    then show "le_held (lm_heap m' b) \<longleftrightarrow> holders m' b \<noteq> {}"
      using lock_invD(7)[OF inv] by (auto simp: m h)
  qed (use lock_invD(6,8)[OF inv] in \<open>auto simp: m h split: if_splits\<close>)
qed

lemma leave_inv:
  assumes inv: "lock_inv m" and lv: "lock_leave g m = Some m'"
  shows "lock_inv m'"
proof -
  obtain key a where w: "lm_pc m g = Unlocked key a"
    and m: "lm_pc m' = (lm_pc m)(g := Idle)" "lm_next m' = lm_next m"
      "lm_locks m' = (if le_waiters (lm_heap m a) = 1 then (lm_locks m)(key := None) else lm_locks m)"
      "lm_heap m' = (lm_heap m)(a := (lm_heap m a)\<lparr>le_waiters := le_waiters (lm_heap m a) - 1\<rparr>)"
  proof -
    obtain key a where w: "lm_pc m g = Unlocked key a"
      using lv by (cases "lm_pc m g") (simp_all add: lock_leave_def)
    show ?thesis
      by (rule that[OF w]) (use lv w in \<open>auto simp: lock_leave_def Let_def\<close>)
  qed
  have key: "lm_locks m key = Some a"
    using lock_invD(1)[OF inv, of g] w by simp
  have u: "users m' e = users m e - {g}" for e
    by (simp add: users_upd[OF m(1)])
  have gin: "g \<in> users m e \<longleftrightarrow> e = (key, a)" for e
    using w by (auto simp: users_def)
  have h: "holders m' b = holders m b" for b
    using w by (auto simp: holders_def m)
  note waiters = lock_invD(5)[OF inv key]
  have last: "le_waiters (lm_heap m a) = 1 \<longleftrightarrow> users m (key, a) = {g}"
    using gin[of "(key, a)"] unfolding waiters by (auto simp: card_1_singleton_iff)
  show ?thesis
  proof (rule lock_invI)
    fix g' k b assume u': "uses (lm_pc m' g') = Some (k, b)"
    then have old: "lm_locks m k = Some b" and ne: "g' \<noteq> g"
      using lock_invD(1)[OF inv, of g' k b] by (simp_all add: m(1) split: if_splits)
    have "g' \<in> users m (k, b)"
      using u' ne by (simp add: m users_def)
    then show "lm_locks m' k = Some b"
    proof (cases "k = key")
      case True
      then have "g' \<in> users m (key, a)" using \<open>g' \<in> users m (k, b)\<close> old key by simp
      then have "le_waiters (lm_heap m a) \<noteq> 1" using last ne by blast
      then show ?thesis using old by (simp add: m(3))
    qed (simp add: m(3) old)
  next
    fix k b assume k: "lm_locks m' k = Some b"
    then have old: "lm_locks m k = Some b"
      by (simp add: m(3) split: if_splits)
    show "b < lm_next m' \<and> finite (users m' (k, b)) \<and> users m' (k, b) \<noteq> {}
        \<and> le_waiters (lm_heap m' b) = int (card (users m' (k, b)))"
    proof (cases "k = key")
      case True
      then have b: "b = a" and more: "users m (key, a) \<noteq> {g}"
        using k key last by (simp_all add: m(3) split: if_splits)
      have "users m (key, a) - {g} \<noteq> {}"
        using more lock_invD(4)[OF inv key] by blast
      moreover have "int (card (users m (key, a) - {g})) = int (card (users m (key, a))) - 1"
        using card_Suc_Diff1[OF lock_invD(3)[OF inv key], of g] gin[of "(key, a)"] by simp
      ultimately show ?thesis
        using lock_invD(2,3)[OF inv key] waiters unfolding True b u by (simp add: m(2,4))
    next
      case False
      then have "b \<noteq> a" using lock_invD(6)[OF inv old, of key] key by blast
      moreover have "g \<notin> users m (k, b)" using gin False by simp
      ultimately show ?thesis
        using lock_invD(2-5)[OF inv old] unfolding u by (simp add: m(2,4))
    qed
  next
    fix k k' b assume "lm_locks m' k = Some b" "lm_locks m' k' = Some b"
    then have "lm_locks m k = Some b" "lm_locks m k' = Some b"
      by (simp_all add: m split: if_splits)
    then show "k = k'" by (rule lock_invD(6)[OF inv])
  next
    fix b assume "b < lm_next m'"
    then show "le_held (lm_heap m' b) \<longleftrightarrow> holders m' b \<noteq> {}"
      using lock_invD(7)[OF inv, of b] by (cases "b = a") (simp_all add: m h)
  next
    fix b x y assume "x \<in> holders m' b" "y \<in> holders m' b"
    then show "x = y" using lock_invD(8)[OF inv] by (simp add: h)
  qed
qed

lemma lock_step_inv: "lock_step m m' \<Longrightarrow> lock_inv m \<Longrightarrow> lock_inv m'"
proof (induction rule: lock_step.induct)
  case (enter m g key)
  then show ?case by (cases "lm_locks m key") (auto intro: enter_inv_existing enter_inv_fresh)
qed (blast intro: acquire_inv unlock_inv leave_inv)+

lemma lock_reachable_inv: "lock_reachable m \<Longrightarrow> lock_inv m"
  by (induction rule: lock_reachable.induct) (auto intro: lock_inv_init lock_step_inv)

section \<open>Draining\<close>

text \<open>The steps of goroutines already inside: everything but a new call of \<^verbatim>\<open>lock\<close>.\<close>

inductive drain_step :: "cellLockManager \<Rightarrow> cellLockManager \<Rightarrow> bool" where
  drain_acquire: "lock_acquire g m = Some m' \<Longrightarrow> drain_step m m'"
| drain_unlock: "lock_unlock g m = Some m' \<Longrightarrow> drain_step m m'"
| drain_leave: "lock_leave g m = Some m' \<Longrightarrow> drain_step m m'"

fun pc_rank :: "pc \<Rightarrow> nat" where
  "pc_rank Idle = 0"
| "pc_rank (Waiting k a) = 3"
| "pc_rank (Holding k a) = 2"
| "pc_rank (Unlocked k a) = 1"

definition busy :: "cellLockManager \<Rightarrow> nat set" where
  "busy m = {g. lm_pc m g \<noteq> Idle}"

definition pending :: "cellLockManager \<Rightarrow> nat" where
  "pending m = (\<Sum>g\<in>busy m. pc_rank (lm_pc m g))"

lemma drain_is_step: "drain_step m m' \<Longrightarrow> lock_step m m'"
  by (auto elim!: drain_step.cases intro: lock_step.intros)

lemma drain_pc:
  assumes "drain_step m m'"
  obtains g p where "lm_pc m' = (lm_pc m)(g := p)" "pc_rank p < pc_rank (lm_pc m g)"
  using assms
  by cases (auto simp: lock_acquire_def lock_unlock_def lock_leave_def Let_def
      split: pc.splits if_splits)

lemma step_pc: "lock_step m m' \<Longrightarrow> \<exists>g p. lm_pc m' = (lm_pc m)(g := p)"
proof (induction rule: lock_step.induct)
  case (enter m g key)
  then show ?case by (auto simp: lock_enter_def lock_lookup_def split: option.splits)
qed (metis drain_step.intros drain_pc)+

lemma busy_upd: "lm_pc m' = (lm_pc m)(g := p) \<Longrightarrow> busy m' \<subseteq> insert g (busy m)"
  by (auto simp: busy_def)

lemma finite_busy: "lock_reachable m \<Longrightarrow> finite (busy m)"
proof (induction rule: lock_reachable.induct)
  case init
  then show ?case by (simp add: busy_def newCellLockManager_def)
next
  case (step m m')
  then show ?case by (meson busy_upd finite_insert finite_subset step_pc)
qed

lemma pending_alt: "finite A \<Longrightarrow> busy m \<subseteq> A \<Longrightarrow> pending m = (\<Sum>g\<in>A. pc_rank (lm_pc m g))"
  unfolding pending_def by (rule sum.mono_neutral_left) (auto simp: busy_def)

lemma drain_decreases:
  assumes fin: "finite (busy m)" and d: "drain_step m m'"
  shows "pending m' < pending m"
proof -
  obtain g p where m': "lm_pc m' = (lm_pc m)(g := p)" and r: "pc_rank p < pc_rank (lm_pc m g)"
    using drain_pc[OF d] .
  have g: "g \<in> busy m" using r by (auto simp: busy_def)
  have "pending m' = (\<Sum>x\<in>busy m. pc_rank (lm_pc m' x))"
    using busy_upd[OF m'] g by (intro pending_alt fin) auto
  also have "\<dots> < pending m"
    unfolding pending_def using fin g r by (intro sum_strict_mono_ex1) (auto simp: m')
  finally show ?thesis .
qed

text \<open>The holder of an entry a goroutine waits for can always release it.\<close>

lemma drain_enabled:
  assumes inv: "lock_inv m" and g: "lm_pc m g \<noteq> Idle"
  shows "\<exists>m'. drain_step m m'"
proof (cases "lm_pc m g")
  case (Waiting k a)
  then have key: "lm_locks m k = Some a" using lock_invD(1)[OF inv, of g] by simp
  show ?thesis
  proof (cases "le_held (lm_heap m a)")
    case True
    then obtain h k' where "lm_pc m h = Holding k' a"
      using lock_invD(7)[OF inv lock_invD(2)[OF inv key]] by (auto simp: holders_def)
    then show ?thesis by (auto simp: lock_unlock_def intro!: exI drain_unlock[of h])
  next
    case False
    with Waiting show ?thesis by (auto simp: lock_acquire_def intro!: exI drain_acquire[of g])
  qed
next
  case (Holding k a)
  then show ?thesis by (auto simp: lock_unlock_def intro!: exI drain_unlock[of g])
next
  case (Unlocked k a)
  then show ?thesis by (auto simp: lock_leave_def Let_def intro!: exI drain_leave[of g])
qed (use g in simp)

lemma idle_empty: "lock_inv m \<Longrightarrow> busy m = {} \<Longrightarrow> lm_locks m = Map.empty"
proof
  fix k assume inv: "lock_inv m" and idle: "busy m = {}"
  have "users m e = {}" for e using idle by (auto simp: users_def busy_def)
  then show "lm_locks m k = None" using lock_invD(4)[OF inv, of k] by (cases "lm_locks m k") auto
qed

lemma drains: "lock_reachable m \<Longrightarrow> \<exists>m'. drain_step\<^sup>*\<^sup>* m m' \<and> busy m' = {} \<and> lm_locks m' = Map.empty"
proof (induction "pending m" arbitrary: m rule: less_induct)
  case less
  note inv = lock_reachable_inv[OF less.prems]
  show ?case
  proof (cases "busy m = {}")
    case True
    then show ?thesis using idle_empty[OF inv] by blast
  next
    case False
    then obtain m1 where m1: "drain_step m m1" using drain_enabled[OF inv] by (auto simp: busy_def)
    obtain m' where "drain_step\<^sup>*\<^sup>* m1 m'" "busy m' = {}" "lm_locks m' = Map.empty"
      using less.hyps[OF drain_decreases[OF finite_busy[OF less.prems] m1]]
        lock_reachable.step[OF less.prems drain_is_step[OF m1]] by blast
    then show ?thesis using m1 by (meson converse_rtranclp_into_rtranclp)
  qed
qed

section \<open>Properties\<close>

text \<open>
  C37. Mutual exclusion per cell. Whatever the interleaving of any number of goroutines, at most one of
  them is between \<^verbatim>\<open>lock(key)\<close> and the release for a key; goroutines inside for the same
  key always share one entry, although entries are dropped and re-created.\<close>

theorem lock_mutual_exclusion:
  assumes "lock_reachable m"
    and "lm_pc m g = Holding key a" and "lm_pc m g' = Holding key b"
  shows "g = g' \<and> a = b"
proof -
  note inv = lock_reachable_inv[OF assms(1)]
  have "lm_locks m key = Some a" "lm_locks m key = Some b"
    using lock_invD(1)[OF inv, of g] lock_invD(1)[OF inv, of g'] assms(2,3) by simp_all
  then have "a = b" by simp
  then show ?thesis using lock_invD(8)[OF inv, of g a g'] assms(2,3) by (simp add: holders_def)
qed

definition demo_lock :: "nat list \<Rightarrow> cellLockManager" where
  "demo_lock gs = fold (\<lambda>g m. lock_enter g ''k'' m) gs newCellLockManager"

definition demo_held :: cellLockManager where
  "demo_held = the (lock_acquire 1 (demo_lock [1, 2]))"

lemmas demo_lock_simps = demo_held_def demo_lock_def lock_enter_def lock_lookup_def lock_acquire_def
  newCellLockManager_def

lemma demo_held_reachable: "lock_reachable demo_held"
proof -
  have "lock_reachable (lock_enter 1 ''k'' newCellLockManager)"
    by (rule lock_reachable.step[OF init enter]) (simp add: newCellLockManager_def)
  then have "lock_reachable (demo_lock [1, 2])"
    by (simp add: demo_lock_def) (erule lock_reachable.step, rule enter, simp add: demo_lock_simps)
  then show ?thesis
    by (rule lock_reachable.step) (rule acquire[of 1], simp add: demo_lock_simps)
qed

theorem lock_mutual_exclusion_witness:
  "lm_pc demo_held 1 = Holding ''k'' 0 \<and> lm_pc demo_held 2 = Waiting ''k'' 0
    \<and> (1::nat) = 1 \<and> (0::nat) = 0"
proof -
  have "lm_pc demo_held 1 = Holding ''k'' 0" by (simp add: demo_lock_simps)
  from lock_mutual_exclusion[OF demo_held_reachable this this] this
  show ?thesis by (simp add: demo_lock_simps)
qed

text \<open>
  C38. The reference count is exact and the map does not leak: a key has an entry exactly while some
  goroutine holds or waits on it, and \<^verbatim>\<open>waiters\<close> is the number of those
  goroutines.\<close>

theorem lock_entries_exact:
  assumes "lock_reachable m"
  shows "(lm_locks m key = None \<longleftrightarrow> (\<forall>g a. uses (lm_pc m g) \<noteq> Some (key, a)))
    \<and> (case lm_locks m key of None \<Rightarrow> True
        | Some a \<Rightarrow> finite (users m (key, a)) \<and> le_waiters (lm_heap m a) = int (card (users m (key, a))))"
proof -
  note inv = lock_reachable_inv[OF assms]
  have "lm_locks m key = None \<longleftrightarrow> (\<forall>g a. uses (lm_pc m g) \<noteq> Some (key, a))"
    using lock_invD(1)[OF inv] lock_invD(4)[OF inv, of key]
    by (cases "lm_locks m key") (fastforce simp: users_def)+
  then show ?thesis using lock_invD(3,5)[OF inv, of key] by (simp split: option.splits)
qed

theorem lock_entries_exact_witness:
  "lm_locks demo_held ''k'' = Some 0 \<and> le_waiters (lm_heap demo_held 0) = int (card (users demo_held (''k'', 0)))
    \<and> card (users demo_held (''k'', 0)) = 2 \<and> lm_locks demo_held ''other'' = None"
proof -
  have k: "lm_locks demo_held ''k'' = Some 0" and o: "lm_locks demo_held ''other'' = None"
    and w: "le_waiters (lm_heap demo_held 0) = 2"
    by (simp_all add: demo_lock_simps)
  then have "le_waiters (lm_heap demo_held 0) = int (card (users demo_held (''k'', 0)))"
    using lock_entries_exact[OF demo_held_reachable, of "''k''"] by simp
  with k o w show ?thesis by simp
qed

text \<open>
  C39. Progress. In every reachable state the goroutines already inside can run to completion without
  any new caller, each of their steps reduces the outstanding work, so they cannot run forever, and
  when they are done the map is empty again.\<close>

theorem lock_drains:
  assumes "lock_reachable m"
  shows "(\<exists>m'. drain_step\<^sup>*\<^sup>* m m' \<and> busy m' = {} \<and> lm_locks m' = Map.empty)
    \<and> (busy m \<noteq> {} \<longrightarrow> (\<exists>m'. drain_step m m'))
    \<and> (\<forall>m'. drain_step m m' \<longrightarrow> pending m' < pending m)"
  using drains[OF assms] drain_enabled[OF lock_reachable_inv[OF assms]]
    drain_decreases[OF finite_busy[OF assms]]
  by (auto simp: busy_def)

theorem lock_drains_witness:
  "busy demo_held \<noteq> {} \<and> (\<exists>m'. drain_step\<^sup>*\<^sup>* demo_held m' \<and> lm_locks m' = Map.empty)
    \<and> (\<exists>m'. drain_step demo_held m')"
proof -
  have "1 \<in> busy demo_held" by (simp add: busy_def demo_lock_simps)
  then show ?thesis using lock_drains[OF demo_held_reachable] by blast
qed

text \<open>
  C40. Distinct cells never share a lock, as long as no name contains a NUL byte: the key determines
  the realm, space, stack and cell names after trimming.\<close>

theorem cellLockKey_injective:
  assumes "cellLockKey r s t c = cellLockKey r' s' t' c'"
    and "CHR 0x00 \<notin> set (r @ s @ t @ r' @ s' @ t')"
  shows "map TrimSpace [r, s, t, c] = map TrimSpace [r', s', t', c']"
proof -
  have t: "x \<notin> set y \<Longrightarrow> x \<notin> set (TrimSpace y)" for x y
    using set_TrimSpace by blast
  show ?thesis
    using assms joined4_inject[of "TrimSpace r" "CHR 0x00" "TrimSpace s" "TrimSpace t" "TrimSpace c"
        "TrimSpace r'" "TrimSpace s'" "TrimSpace t'" "TrimSpace c'"]
    by (simp add: cellLockKey_def t)
qed

theorem cellLockKey_injective_witness:
  "cellLockKey ''r'' ''s'' ''t'' '' c'' = cellLockKey ''r '' ''s'' ''t'' ''c''
   \<and> map TrimSpace [''r'', ''s'', ''t'', '' c''] = map TrimSpace [''r '', ''s'', ''t'', ''c'']"
proof -
  have k: "cellLockKey ''r'' ''s'' ''t'' '' c'' = cellLockKey ''r '' ''s'' ''t'' ''c''"
    by code_simp
  show ?thesis using cellLockKey_injective[OF k] k by simp
qed

text \<open>
  Without that proviso the keys collide: a NUL byte passes \<^const>\<open>ValidateHierarchyName\<close>, which
  only rejects the underscore and the slash.
\<close>

lemma cellLockKey_NUL_collision:
  "cellLockKey [CHR ''a'', CHR 0x00, CHR ''b''] ''c'' ''d'' ''e'' =
     cellLockKey ''a'' ''b'' [CHR ''c'', CHR 0x00, CHR ''d''] ''e''
   \<and> ValidateHierarchyName ''realm'' [CHR ''a'', CHR 0x00, CHR ''b''] = Inr ()
   \<and> ValidateHierarchyName ''stack'' [CHR ''c'', CHR 0x00, CHR ''d''] = Inr ()"
  by code_simp

end
