(* ===== verification/Api_Docs.thy ===== *)
theory Api_Docs
  imports Model_Hub
begin

text \<open>
  The external documents of \<^verbatim>\<open>pkg/api/model/v1beta1\<close>. Where an external struct has the fields of
  its counterpart in \<^verbatim>\<open>internal/modelhub\<close>, name for name, the record of \<open>Model_Hub\<close> is used for
  both; the structs that differ are the records below. A state is one of its declared constants:
  the decoders of \<open>State_Labels\<close> accept nothing else.
\<close>

definition APIVersionV1Beta1 :: string where
  "APIVersionV1Beta1 = ''v1beta1''"

definition KindRealm :: string where "KindRealm = ''Realm''"
definition KindSpace :: string where "KindSpace = ''Space''"
definition KindStack :: string where "KindStack = ''Stack''"
definition KindCell :: string where "KindCell = ''Cell''"
definition KindContainer :: string where "KindContainer = ''Container''"
definition KindSecret :: string where "KindSecret = ''Secret''"
definition KindVolume :: string where "KindVolume = ''Volume''"

record RealmDoc =
  rd_APIVersion :: string
  rd_Kind :: string
  rd_Metadata :: RealmMetadata
  rd_Spec :: RealmSpec
  rd_Status :: RealmStatus

text \<open>The external space states have no Creating and no Deleting.\<close>

datatype extSpaceState = ExtSpacePending | ExtSpaceReady | ExtSpaceFailed | ExtSpaceUnknown

record extSpaceSpec =
  xspS_RealmID :: string
  xspS_CNIConfigPath :: string
  xspS_Network :: "SpaceNetwork option"
  xspS_Defaults :: "SpaceDefaults option"

record extSpaceStatus =
  xspT_State :: extSpaceState
  xspT_CgroupPath :: string
  xspT_SubtreeControllers :: "string slice"
  xspT_CreatedAt :: gotime
  xspT_UpdatedAt :: gotime
  xspT_ReadyAt :: gotime
  xspT_Reason :: string
  xspT_Message :: string
  xspT_CgroupReady :: bool
  xspT_ObservedGeneration :: int

record SpaceDoc =
  spd_APIVersion :: string
  spd_Kind :: string
  spd_Metadata :: SpaceMetadata
  spd_Spec :: extSpaceSpec
  spd_Status :: extSpaceStatus

record extStackSpec =
  xskS_ID :: string
  xskS_RealmID :: string
  xskS_SpaceID :: string

record StackDoc =
  skd_APIVersion :: string
  skd_Kind :: string
  skd_Metadata :: StackMetadata
  skd_Spec :: extStackSpec
  skd_Status :: StackStatus

record extContainerSpec =
  xcs_ID :: string
  xcs_ContainerdID :: string
  xcs_RealmID :: string
  xcs_SpaceID :: string
  xcs_StackID :: string
  xcs_CellID :: string
  xcs_Root :: bool
  xcs_Image :: string
  xcs_Command :: string
  xcs_Args :: "string slice"
  xcs_WorkingDir :: string
  xcs_Env :: "string slice"
  xcs_Ports :: "string slice"
  xcs_Volumes :: "VolumeMount slice"
  xcs_Networks :: "string slice"
  xcs_NetworksAliases :: "string slice"
  xcs_Privileged :: bool
  xcs_HostNetwork :: bool
  xcs_HostPID :: bool
  xcs_HostCgroup :: bool
  xcs_User :: string
  xcs_ReadOnlyRootFilesystem :: bool
  xcs_Capabilities :: "ContainerCapabilities option"
  xcs_SecurityOpts :: "string slice"
  xcs_Devices :: "string slice"
  xcs_Tmpfs :: "ContainerTmpfsMount slice"
  xcs_Resources :: "ContainerResources option"
  xcs_Secrets :: "ContainerSecret slice"
  xcs_Repos :: "ContainerRepo slice"
  xcs_Git :: "ContainerGit option"
  xcs_CNIConfigPath :: string
  xcs_RestartPolicy :: string
  xcs_RestartBackoffSeconds :: "int option"
  xcs_RestartMaxRetries :: "int option"
  xcs_Attachable :: bool
  xcs_Tty :: "ContainerTty option"
  xcs_KukeonGroupGID :: int

record ContainerDoc =
  cd_APIVersion :: string
  cd_Kind :: string
  cd_Metadata :: ContainerMetadata
  cd_Spec :: extContainerSpec
  cd_Status :: ContainerStatus

record extCellSpec =
  xceS_ID :: string
  xceS_RealmID :: string
  xceS_SpaceID :: string
  xceS_StackID :: string
  xceS_RootContainerID :: string
  xceS_Tty :: "CellTty option"
  xceS_Containers :: "extContainerSpec list"
  xceS_AutoDelete :: bool
  xceS_NestedCgroupRuntime :: bool
  xceS_RuntimeEnv :: "string slice"
  xceS_Provenance :: "CellProvenance option"
  xceS_IgnoreDiskPressure :: bool

record CellDoc =
  ced_APIVersion :: string
  ced_Kind :: string
  ced_Metadata :: CellMetadata
  ced_Spec :: extCellSpec
  ced_Status :: CellStatus

record SecretDoc =
  scd_APIVersion :: string
  scd_Kind :: string
  scd_Metadata :: SecretMetadata
  scd_Spec :: SecretSpec

record VolumeDoc =
  vod_APIVersion :: string
  vod_Kind :: string
  vod_Metadata :: VolumeMetadata
  vod_Spec :: VolumeSpec

definition RunOnStart :: string where "RunOnStart = ''start''"
definition RunOnCreate :: string where "RunOnCreate = ''create''"
definition VolumeKindBind :: string where "VolumeKindBind = ''bind''"
definition VolumeKindTmpfs :: string where "VolumeKindTmpfs = ''tmpfs''"
definition VolumeKindVolume :: string where "VolumeKindVolume = ''volume''"
definition GitSignCommits :: string where "GitSignCommits = ''commits''"
definition GitSignTags :: string where "GitSignTags = ''tags''"

text \<open>The zero container spec of the external model.\<close>

definition zeroExtContainerSpec :: extContainerSpec where
  "zeroExtContainerSpec = \<lparr>xcs_ID = '''', xcs_ContainerdID = '''', xcs_RealmID = '''', xcs_SpaceID = '''',
     xcs_StackID = '''', xcs_CellID = '''', xcs_Root = False, xcs_Image = '''', xcs_Command = '''',
     xcs_Args = None, xcs_WorkingDir = '''', xcs_Env = None, xcs_Ports = None, xcs_Volumes = None,
     xcs_Networks = None, xcs_NetworksAliases = None, xcs_Privileged = False, xcs_HostNetwork = False,
     xcs_HostPID = False, xcs_HostCgroup = False, xcs_User = '''', xcs_ReadOnlyRootFilesystem = False,
     xcs_Capabilities = None, xcs_SecurityOpts = None, xcs_Devices = None, xcs_Tmpfs = None,
     xcs_Resources = None, xcs_Secrets = None, xcs_Repos = None, xcs_Git = None,
     xcs_CNIConfigPath = '''', xcs_RestartPolicy = '''', xcs_RestartBackoffSeconds = None,
     xcs_RestartMaxRetries = None, xcs_Attachable = False, xcs_Tty = None, xcs_KukeonGroupGID = 0\<rparr>"

end
