(* ===== verification/Api_Scheme.thy ===== *)
theory Api_Scheme
  imports Api_Docs
begin

text \<open>
  \<^verbatim>\<open>internal/apischeme/scheme.go\<close> and \<^verbatim>\<open>volume.go\<close>: the conversions between the external
  documents and the internal model, and the validation a document passes on the way in. A
  conversion allocates a fresh \<^verbatim>\<open>VolumeRef\<close> for each mount that has one; the address it gets is
  read from the allocator argument \<open>al\<close>, indexed by the position of the mount.
\<close>

section \<open>Leaf conversions\<close>

definition DefaultVersion :: "string \<Rightarrow> string" where
  "DefaultVersion version = (if version = '''' then APIVersionV1Beta1 else version)"

definition supported :: "string \<Rightarrow> bool" where
  "supported version \<longleftrightarrow> version = APIVersionV1Beta1 \<or> version = ''''"

definition cloneStringSlice :: "string slice \<Rightarrow> string slice" where
  "cloneStringSlice xs = (if elems xs = [] then None else Some (elems xs))"

definition copyBoolPtr :: "bool option \<Rightarrow> bool option" where
  "copyBoolPtr p = (case p of None \<Rightarrow> None | Some b \<Rightarrow> Some b)"

text \<open>Copying element by element, with nil for an empty input.\<close>

definition copy_slice :: "('a \<Rightarrow> 'b) \<Rightarrow> 'a slice \<Rightarrow> 'b slice" where
  "copy_slice f xs = (if elems xs = [] then None else Some (map f (elems xs)))"

definition convertCapabilitiesToInternal :: "ContainerCapabilities option \<Rightarrow> ContainerCapabilities option" where
  "convertCapabilitiesToInternal c = map_option (\<lambda>c. \<lparr>cap_Drop = cap_Drop c, cap_Add = cap_Add c\<rparr>) c"

definition buildCapabilitiesExternalFromInternal :: "ContainerCapabilities option \<Rightarrow> ContainerCapabilities option" where
  "buildCapabilitiesExternalFromInternal c = map_option (\<lambda>c. \<lparr>cap_Drop = cap_Drop c, cap_Add = cap_Add c\<rparr>) c"

definition convertTmpfsMountsToInternal :: "ContainerTmpfsMount slice \<Rightarrow> ContainerTmpfsMount slice" where
  "convertTmpfsMountsToInternal = copy_slice (\<lambda>m.
     \<lparr>tm_Path = tm_Path m, tm_SizeBytes = tm_SizeBytes m, tm_Options = tm_Options m\<rparr>)"

definition buildTmpfsMountsExternalFromInternal :: "ContainerTmpfsMount slice \<Rightarrow> ContainerTmpfsMount slice" where
  "buildTmpfsMountsExternalFromInternal = copy_slice (\<lambda>m.
     \<lparr>tm_Path = tm_Path m, tm_SizeBytes = tm_SizeBytes m, tm_Options = tm_Options m\<rparr>)"

definition convertResourcesToInternal :: "ContainerResources option \<Rightarrow> ContainerResources option" where
  "convertResourcesToInternal r = map_option (\<lambda>r. \<lparr>res_MemoryLimitBytes = res_MemoryLimitBytes r,
     res_CPUShares = res_CPUShares r, res_PidsLimit = res_PidsLimit r\<rparr>) r"

definition buildResourcesExternalFromInternal :: "ContainerResources option \<Rightarrow> ContainerResources option" where
  "buildResourcesExternalFromInternal r = map_option (\<lambda>r. \<lparr>res_MemoryLimitBytes = res_MemoryLimitBytes r,
     res_CPUShares = res_CPUShares r, res_PidsLimit = res_PidsLimit r\<rparr>) r"

definition secretRefToInternal :: "ContainerSecretRef option \<Rightarrow> ContainerSecretRef option" where
  "secretRefToInternal r = map_option (\<lambda>r. \<lparr>sr_Name = sr_Name r, sr_Realm = sr_Realm r,
     sr_Space = sr_Space r, sr_Stack = sr_Stack r, sr_Cell = sr_Cell r\<rparr>) r"

definition secretRefToExternal :: "ContainerSecretRef option \<Rightarrow> ContainerSecretRef option" where
  "secretRefToExternal r = map_option (\<lambda>r. \<lparr>sr_Name = sr_Name r, sr_Realm = sr_Realm r,
     sr_Space = sr_Space r, sr_Stack = sr_Stack r, sr_Cell = sr_Cell r\<rparr>) r"

definition convertSecretsToInternal :: "ContainerSecret slice \<Rightarrow> ContainerSecret slice" where
  "convertSecretsToInternal = copy_slice (\<lambda>s. \<lparr>sec_Name = sec_Name s, sec_FromFile = sec_FromFile s,
     sec_FromEnv = sec_FromEnv s, sec_SecretRef = secretRefToInternal (sec_SecretRef s),
     sec_MountPath = sec_MountPath s\<rparr>)"

definition buildSecretsExternalFromInternal :: "ContainerSecret slice \<Rightarrow> ContainerSecret slice" where
  "buildSecretsExternalFromInternal = copy_slice (\<lambda>s. \<lparr>sec_Name = sec_Name s, sec_FromFile = sec_FromFile s,
     sec_FromEnv = sec_FromEnv s, sec_SecretRef = secretRefToExternal (sec_SecretRef s),
     sec_MountPath = sec_MountPath s\<rparr>)"

definition reposToInternal :: "ContainerRepo slice \<Rightarrow> ContainerRepo slice" where
  "reposToInternal = copy_slice (\<lambda>r. \<lparr>repo_Name = repo_Name r, repo_Target = repo_Target r,
     repo_Branch = repo_Branch r, repo_Ref = repo_Ref r, repo_URL = repo_URL r,
     repo_Required = repo_Required r\<rparr>)"

definition reposToExternal :: "ContainerRepo slice \<Rightarrow> ContainerRepo slice" where
  "reposToExternal = copy_slice (\<lambda>r. \<lparr>repo_Name = repo_Name r, repo_Target = repo_Target r,
     repo_Branch = repo_Branch r, repo_Ref = repo_Ref r, repo_URL = repo_URL r,
     repo_Required = repo_Required r\<rparr>)"

definition repoStatusesToInternal :: "RepoStatus slice \<Rightarrow> RepoStatus slice" where
  "repoStatusesToInternal = copy_slice (\<lambda>s. \<lparr>rs_Name = rs_Name s, rs_Target = rs_Target s,
     rs_State = rs_State s, rs_Commit = rs_Commit s, rs_Error = rs_Error s\<rparr>)"

definition repoStatusesToExternal :: "RepoStatus slice \<Rightarrow> RepoStatus slice" where
  "repoStatusesToExternal = copy_slice (\<lambda>s. \<lparr>rs_Name = rs_Name s, rs_Target = rs_Target s,
     rs_State = rs_State s, rs_Commit = rs_Commit s, rs_Error = rs_Error s\<rparr>)"

definition stageStatusesToInternal :: "StageStatus slice \<Rightarrow> StageStatus slice" where
  "stageStatusesToInternal = copy_slice (\<lambda>s. \<lparr>ss_Index = ss_Index s, ss_State = ss_State s,
     ss_Error = ss_Error s, ss_Hash = ss_Hash s\<rparr>)"

definition stageStatusesToExternal :: "StageStatus slice \<Rightarrow> StageStatus slice" where
  "stageStatusesToExternal = copy_slice (\<lambda>s. \<lparr>ss_Index = ss_Index s, ss_State = ss_State s,
     ss_Error = ss_Error s, ss_Hash = ss_Hash s\<rparr>)"

definition gitToInternal :: "ContainerGit option \<Rightarrow> ContainerGit option" where
  "gitToInternal g = map_option (\<lambda>g.
     \<lparr>git_Author = map_option (\<lambda>i. \<lparr>gi_Name = gi_Name i, gi_Email = gi_Email i\<rparr>) (git_Author g),
      git_Committer = map_option (\<lambda>i. \<lparr>gi_Name = gi_Name i, gi_Email = gi_Email i\<rparr>) (git_Committer g),
      git_SigningKey = git_SigningKey g, git_Sign = cloneStringSlice (git_Sign g),
      git_AllowedSigners = git_AllowedSigners g\<rparr>) g"

definition gitToExternal :: "ContainerGit option \<Rightarrow> ContainerGit option" where
  "gitToExternal g = map_option (\<lambda>g.
     \<lparr>git_Author = map_option (\<lambda>i. \<lparr>gi_Name = gi_Name i, gi_Email = gi_Email i\<rparr>) (git_Author g),
      git_Committer = map_option (\<lambda>i. \<lparr>gi_Name = gi_Name i, gi_Email = gi_Email i\<rparr>) (git_Committer g),
      git_SigningKey = git_SigningKey g, git_Sign = cloneStringSlice (git_Sign g),
      git_AllowedSigners = git_AllowedSigners g\<rparr>) g"

definition copy_stage :: "TtyStage \<Rightarrow> TtyStage" where
  "copy_stage s = \<lparr>ts_Script = ts_Script s, ts_RunOn = ts_RunOn s\<rparr>"

definition convertContainerTtyToInternal :: "ContainerTty option \<Rightarrow> ContainerTty option" where
  "convertContainerTtyToInternal t =
     (if ContainerTty_IsEmpty t then None
      else map_option (\<lambda>t. \<lparr>tty_Prompt = tty_Prompt t, tty_OnInit = copy_slice copy_stage (tty_OnInit t),
        tty_LogFile = tty_LogFile t, tty_LogLevel = tty_LogLevel t\<rparr>) t)"

definition buildContainerTtyExternalFromInternal :: "ContainerTty option \<Rightarrow> ContainerTty option" where
  "buildContainerTtyExternalFromInternal t =
     (if ContainerTty_IsEmpty t then None
      else map_option (\<lambda>t. \<lparr>tty_Prompt = tty_Prompt t, tty_OnInit = copy_slice copy_stage (tty_OnInit t),
        tty_LogFile = tty_LogFile t, tty_LogLevel = tty_LogLevel t\<rparr>) t)"

definition convertCellTtyToInternal :: "CellTty option \<Rightarrow> CellTty option" where
  "convertCellTtyToInternal t =
     (case t of None \<Rightarrow> None | Some t \<Rightarrow> if ct_Default t = '''' then None else Some \<lparr>ct_Default = ct_Default t\<rparr>)"

definition buildCellTtyExternalFromInternal :: "CellTty option \<Rightarrow> CellTty option" where
  "buildCellTtyExternalFromInternal t =
     (case t of None \<Rightarrow> None | Some t \<Rightarrow> if ct_Default t = '''' then None else Some \<lparr>ct_Default = ct_Default t\<rparr>)"

definition volumeRefToInternal :: "nat \<Rightarrow> VolumeRef goptr \<Rightarrow> VolumeRef goptr" where
  "volumeRefToInternal a r = (case r of NilPtr \<Rightarrow> NilPtr
     | Ptr _ r \<Rightarrow> Ptr a \<lparr>vr_Name = vr_Name r, vr_Realm = vr_Realm r, vr_Space = vr_Space r, vr_Stack = vr_Stack r\<rparr>)"

definition volumeRefToExternal :: "nat \<Rightarrow> VolumeRef goptr \<Rightarrow> VolumeRef goptr" where
  "volumeRefToExternal a r = (case r of NilPtr \<Rightarrow> NilPtr
     | Ptr _ r \<Rightarrow> Ptr a \<lparr>vr_Name = vr_Name r, vr_Realm = vr_Realm r, vr_Space = vr_Space r, vr_Stack = vr_Stack r\<rparr>)"

definition volumeMountsToInternal :: "(nat \<Rightarrow> nat) \<Rightarrow> VolumeMount slice \<Rightarrow> VolumeMount slice" where
  "volumeMountsToInternal al vs = map_option (\<lambda>vs. map (\<lambda>(i, v).
     \<lparr>vm_Kind = vm_Kind v, vm_Source = vm_Source v, vm_Target = vm_Target v,
      vm_VolumeRef = volumeRefToInternal (al i) (vm_VolumeRef v), vm_ReadOnly = vm_ReadOnly v,
      vm_SizeBytes = vm_SizeBytes v, vm_Mode = vm_Mode v, vm_Ensure = vm_Ensure v\<rparr>) (enumerate 0 vs)) vs"

definition volumeMountsToExternal :: "(nat \<Rightarrow> nat) \<Rightarrow> VolumeMount slice \<Rightarrow> VolumeMount slice" where
  "volumeMountsToExternal al vs = map_option (\<lambda>vs. map (\<lambda>(i, v).
     \<lparr>vm_Kind = vm_Kind v, vm_Source = vm_Source v, vm_Target = vm_Target v,
      vm_VolumeRef = volumeRefToExternal (al i) (vm_VolumeRef v), vm_ReadOnly = vm_ReadOnly v,
      vm_SizeBytes = vm_SizeBytes v, vm_Mode = vm_Mode v, vm_Ensure = vm_Ensure v\<rparr>) (enumerate 0 vs)) vs"

definition convertCellProvenanceToInternal :: "CellProvenance option \<Rightarrow> CellProvenance option" where
  "convertCellProvenanceToInternal p = map_option (\<lambda>p. \<lparr>cp_BindingKind = cp_BindingKind p,
     cp_BindingRef = \<lparr>cbr_Name = cbr_Name (cp_BindingRef p), cbr_Realm = cbr_Realm (cp_BindingRef p),
       cbr_Space = cbr_Space (cp_BindingRef p), cbr_Stack = cbr_Stack (cp_BindingRef p)\<rparr>,
     cp_Params = cp_Params p, cp_EnvOverrides = cloneStringSlice (cp_EnvOverrides p)\<rparr>) p"

definition buildCellProvenanceExternalFromInternal :: "CellProvenance option \<Rightarrow> CellProvenance option" where
  "buildCellProvenanceExternalFromInternal p = map_option (\<lambda>p. \<lparr>cp_BindingKind = cp_BindingKind p,
     cp_BindingRef = \<lparr>cbr_Name = cbr_Name (cp_BindingRef p), cbr_Realm = cbr_Realm (cp_BindingRef p),
       cbr_Space = cbr_Space (cp_BindingRef p), cbr_Stack = cbr_Stack (cp_BindingRef p)\<rparr>,
     cp_Params = cp_Params p, cp_EnvOverrides = cloneStringSlice (cp_EnvOverrides p)\<rparr>) p"

section \<open>Space defaults and networks\<close>

definition convertSpaceContainerDefaultsToInternal :: "SpaceContainerDefaults option \<Rightarrow> SpaceContainerDefaults option" where
  "convertSpaceContainerDefaultsToInternal d = map_option (\<lambda>d. \<lparr>scd_User = scd_User d,
     scd_ReadOnlyRootFilesystem = copyBoolPtr (scd_ReadOnlyRootFilesystem d),
     scd_Capabilities = convertCapabilitiesToInternal (scd_Capabilities d),
     scd_SecurityOpts = scd_SecurityOpts d, scd_Tmpfs = convertTmpfsMountsToInternal (scd_Tmpfs d),
     scd_Resources = convertResourcesToInternal (scd_Resources d)\<rparr>) d"

definition buildSpaceContainerDefaultsExternalFromInternal :: "SpaceContainerDefaults option \<Rightarrow> SpaceContainerDefaults option" where
  "buildSpaceContainerDefaultsExternalFromInternal d = map_option (\<lambda>d. \<lparr>scd_User = scd_User d,
     scd_ReadOnlyRootFilesystem = copyBoolPtr (scd_ReadOnlyRootFilesystem d),
     scd_Capabilities = buildCapabilitiesExternalFromInternal (scd_Capabilities d),
     scd_SecurityOpts = scd_SecurityOpts d, scd_Tmpfs = buildTmpfsMountsExternalFromInternal (scd_Tmpfs d),
     scd_Resources = buildResourcesExternalFromInternal (scd_Resources d)\<rparr>) d"

definition convertSpaceDefaultsToInternal :: "SpaceDefaults option \<Rightarrow> SpaceDefaults option" where
  "convertSpaceDefaultsToInternal d =
     map_option (\<lambda>d. \<lparr>sd_Container = convertSpaceContainerDefaultsToInternal (sd_Container d)\<rparr>) d"

definition buildSpaceDefaultsExternalFromInternal :: "SpaceDefaults option \<Rightarrow> SpaceDefaults option" where
  "buildSpaceDefaultsExternalFromInternal d =
     map_option (\<lambda>d. \<lparr>sd_Container = buildSpaceContainerDefaultsExternalFromInternal (sd_Container d)\<rparr>) d"

text \<open>\<^verbatim>\<open>append([]int(nil), ports...)\<close> is nil for no ports; the rule slice itself is never nil.\<close>

definition copy_rule :: "EgressAllowRule \<Rightarrow> EgressAllowRule" where
  "copy_rule r = \<lparr>ear_Host = ear_Host r, ear_CIDR = ear_CIDR r, ear_Ports = copy_slice id (ear_Ports r)\<rparr>"

definition convertSpaceNetworkToInternal :: "SpaceNetwork option \<Rightarrow> SpaceNetwork option" where
  "convertSpaceNetworkToInternal n = map_option (\<lambda>n. \<lparr>sn_Egress =
     map_option (\<lambda>e. \<lparr>ep_Default = ep_Default e, ep_Allow = Some (map copy_rule (elems (ep_Allow e)))\<rparr>)
       (sn_Egress n)\<rparr>) n"

definition buildSpaceNetworkExternalFromInternal :: "SpaceNetwork option \<Rightarrow> SpaceNetwork option" where
  "buildSpaceNetworkExternalFromInternal n = map_option (\<lambda>n. \<lparr>sn_Egress =
     map_option (\<lambda>e. \<lparr>ep_Default = ep_Default e, ep_Allow = Some (map copy_rule (elems (ep_Allow e)))\<rparr>)
       (sn_Egress n)\<rparr>) n"

section \<open>Container specs and statuses\<close>

definition convertContainerSpecToInternal :: "(nat \<Rightarrow> nat) \<Rightarrow> extContainerSpec \<Rightarrow> ContainerSpec" where
  "convertContainerSpecToInternal al s = \<lparr>cs_ID = xcs_ID s, cs_ContainerdID = xcs_ContainerdID s, cs_RealmName = xcs_RealmID s,
     cs_SpaceName = xcs_SpaceID s, cs_StackName = xcs_StackID s, cs_CellName = xcs_CellID s,
     cs_Root = xcs_Root s, cs_Image = xcs_Image s, cs_Command = xcs_Command s,
     cs_Args = xcs_Args s, cs_WorkingDir = xcs_WorkingDir s, cs_Env = xcs_Env s,
     cs_Ports = xcs_Ports s, cs_Volumes = volumeMountsToInternal al (xcs_Volumes s),
     cs_Networks = xcs_Networks s, cs_NetworksAliases = xcs_NetworksAliases s,
     cs_Privileged = xcs_Privileged s, cs_HostNetwork = xcs_HostNetwork s,
     cs_HostPID = xcs_HostPID s, cs_HostCgroup = xcs_HostCgroup s,
     cs_NestedCgroupRuntime = False, cs_User = xcs_User s,
     cs_ReadOnlyRootFilesystem = xcs_ReadOnlyRootFilesystem s,
     cs_Capabilities = convertCapabilitiesToInternal (xcs_Capabilities s),
     cs_SecurityOpts = xcs_SecurityOpts s, cs_Devices = xcs_Devices s,
     cs_Tmpfs = convertTmpfsMountsToInternal (xcs_Tmpfs s),
     cs_Resources = convertResourcesToInternal (xcs_Resources s),
     cs_Secrets = convertSecretsToInternal (xcs_Secrets s),
     cs_Repos = reposToInternal (xcs_Repos s), cs_Git = gitToInternal (xcs_Git s),
     cs_CNIConfigPath = xcs_CNIConfigPath s, cs_RestartPolicy = xcs_RestartPolicy s,
     cs_RestartBackoffSeconds = xcs_RestartBackoffSeconds s,
     cs_RestartMaxRetries = xcs_RestartMaxRetries s, cs_Attachable = xcs_Attachable s,
     cs_Tty = convertContainerTtyToInternal (xcs_Tty s), cs_CellCgroupPath = '''',
     cs_EtcHostsPath = '''', cs_EtcHostnamePath = ''''\<rparr>"

definition BuildContainerSpecExternalFromInternal :: "(nat \<Rightarrow> nat) \<Rightarrow> ContainerSpec \<Rightarrow> extContainerSpec" where
  "BuildContainerSpecExternalFromInternal al s = \<lparr>xcs_ID = cs_ID s, xcs_ContainerdID = cs_ContainerdID s, xcs_RealmID = cs_RealmName s,
     xcs_SpaceID = cs_SpaceName s, xcs_StackID = cs_StackName s, xcs_CellID = cs_CellName s,
     xcs_Root = cs_Root s, xcs_Image = cs_Image s, xcs_Command = cs_Command s,
     xcs_Args = cs_Args s, xcs_WorkingDir = cs_WorkingDir s, xcs_Env = cs_Env s,
     xcs_Ports = cs_Ports s, xcs_Volumes = volumeMountsToExternal al (cs_Volumes s),
     xcs_Networks = cs_Networks s, xcs_NetworksAliases = cs_NetworksAliases s,
     xcs_Privileged = cs_Privileged s, xcs_HostNetwork = cs_HostNetwork s,
     xcs_HostPID = cs_HostPID s, xcs_HostCgroup = cs_HostCgroup s, xcs_User = cs_User s,
     xcs_ReadOnlyRootFilesystem = cs_ReadOnlyRootFilesystem s,
     xcs_Capabilities = buildCapabilitiesExternalFromInternal (cs_Capabilities s),
     xcs_SecurityOpts = cs_SecurityOpts s, xcs_Devices = cs_Devices s,
     xcs_Tmpfs = buildTmpfsMountsExternalFromInternal (cs_Tmpfs s),
     xcs_Resources = buildResourcesExternalFromInternal (cs_Resources s),
     xcs_Secrets = buildSecretsExternalFromInternal (cs_Secrets s),
     xcs_Repos = reposToExternal (cs_Repos s), xcs_Git = gitToExternal (cs_Git s),
     xcs_CNIConfigPath = cs_CNIConfigPath s, xcs_RestartPolicy = cs_RestartPolicy s,
     xcs_RestartBackoffSeconds = cs_RestartBackoffSeconds s,
     xcs_RestartMaxRetries = cs_RestartMaxRetries s, xcs_Attachable = cs_Attachable s,
     xcs_Tty = buildContainerTtyExternalFromInternal (cs_Tty s), xcs_KukeonGroupGID = 0\<rparr>"

text \<open>The statuses nested in a cell carry neither repositories nor stages across a conversion.\<close>

definition copy_container_status :: "ContainerStatus \<Rightarrow> ContainerStatus" where
  "copy_container_status s =
     \<lparr>st_Name = st_Name s, st_ID = st_ID s, st_CreatedAt = st_CreatedAt s,
       st_State = st_State s, st_RestartCount = st_RestartCount s,
       st_RestartTime = st_RestartTime s, st_StartTime = st_StartTime s,
       st_FinishTime = st_FinishTime s, st_ExitCode = st_ExitCode s,
       st_ExitSignal = st_ExitSignal s, st_Repos = None, st_Stages = None\<rparr>"

definition convertContainerStatusesToInternal :: "ContainerStatus list \<Rightarrow> ContainerStatus list" where
  "convertContainerStatusesToInternal xs = map copy_container_status xs"

definition buildContainerStatusesExternalFromInternal :: "ContainerStatus list \<Rightarrow> ContainerStatus list" where
  "buildContainerStatusesExternalFromInternal xs = map copy_container_status xs"

section \<open>Realms, spaces and stacks\<close>

definition ConvertRealmDocToInternal :: "RealmDoc \<Rightarrow> Realm result" where
  "ConvertRealmDocToInternal d =
     (if supported (rd_APIVersion d) then Inr
        \<lparr>re_Metadata = \<lparr>reM_Name = reM_Name (rd_Metadata d), reM_Labels = reM_Labels (rd_Metadata d),
           reM_Generation = reM_Generation (rd_Metadata d)\<rparr>,
         re_Spec = \<lparr>reS_Namespace = reS_Namespace (rd_Spec d),
           reS_RegistryCredentials = Some (map (\<lambda>c. \<lparr>rc_Username = rc_Username c, rc_Password = rc_Password c,
         rc_ServerAddress = rc_ServerAddress c\<rparr>) (elems (reS_RegistryCredentials (rd_Spec d))))\<rparr>,
         re_Status = \<lparr>reT_State = reT_State (rd_Status d), reT_CgroupPath = reT_CgroupPath (rd_Status d),
       reT_SubtreeControllers = cloneStringSlice (reT_SubtreeControllers (rd_Status d)),
       reT_CreatedAt = reT_CreatedAt (rd_Status d), reT_UpdatedAt = reT_UpdatedAt (rd_Status d),
       reT_ReadyAt = reT_ReadyAt (rd_Status d), reT_Reason = reT_Reason (rd_Status d),
       reT_Message = reT_Message (rd_Status d), reT_CgroupReady = reT_CgroupReady (rd_Status d),
       reT_ContainerdNamespaceReady = reT_ContainerdNamespaceReady (rd_Status d),
       reT_ObservedGeneration = reT_ObservedGeneration (rd_Status d)\<rparr>\<rparr>
      else Inl (errorf ''unsupported apiVersion for Realm: %s'' [QStr (rd_APIVersion d)]))"

definition BuildRealmExternalFromInternal :: "Realm \<Rightarrow> string \<Rightarrow> RealmDoc result" where
  "BuildRealmExternalFromInternal r apiVersion =
     (if supported apiVersion then Inr
        \<lparr>rd_APIVersion = APIVersionV1Beta1, rd_Kind = KindRealm,
         rd_Metadata = \<lparr>reM_Name = reM_Name (re_Metadata r), reM_Labels = reM_Labels (re_Metadata r),
           reM_Generation = reM_Generation (re_Metadata r)\<rparr>,
         rd_Spec = \<lparr>reS_Namespace = reS_Namespace (re_Spec r),
           reS_RegistryCredentials = Some (map (\<lambda>c. \<lparr>rc_Username = rc_Username c, rc_Password = rc_Password c,
         rc_ServerAddress = rc_ServerAddress c\<rparr>) (elems (reS_RegistryCredentials (re_Spec r))))\<rparr>,
         rd_Status = \<lparr>reT_State = reT_State (re_Status r), reT_CgroupPath = reT_CgroupPath (re_Status r),
       reT_SubtreeControllers = cloneStringSlice (reT_SubtreeControllers (re_Status r)),
       reT_CreatedAt = reT_CreatedAt (re_Status r), reT_UpdatedAt = reT_UpdatedAt (re_Status r),
       reT_ReadyAt = reT_ReadyAt (re_Status r), reT_Reason = reT_Reason (re_Status r),
       reT_Message = reT_Message (re_Status r), reT_CgroupReady = reT_CgroupReady (re_Status r),
       reT_ContainerdNamespaceReady = reT_ContainerdNamespaceReady (re_Status r),
       reT_ObservedGeneration = reT_ObservedGeneration (re_Status r)\<rparr>\<rparr>
      else Inl (errorf ''unsupported output apiVersion for Realm: %s'' [QStr apiVersion]))"

definition NormalizeRealm :: "RealmDoc \<Rightarrow> (Realm \<times> string) result" where
  "NormalizeRealm req = rbind (ConvertRealmDocToInternal req) (\<lambda>r. Inr (r, DefaultVersion (rd_APIVersion req)))"

text \<open>The state switches of the two space conversions.\<close>

fun space_state_in :: "extSpaceState \<Rightarrow> SpaceState" where
  "space_state_in ExtSpacePending = SpaceStatePending"
| "space_state_in ExtSpaceReady = SpaceStateReady"
| "space_state_in ExtSpaceFailed = SpaceStateFailed"
| "space_state_in ExtSpaceUnknown = SpaceStateUnknown"

fun space_state_out :: "SpaceState \<Rightarrow> extSpaceState" where
  "space_state_out SpaceStatePending = ExtSpacePending"
| "space_state_out SpaceStateCreating = ExtSpaceReady"
| "space_state_out SpaceStateReady = ExtSpaceReady"
| "space_state_out SpaceStateDeleting = ExtSpaceFailed"
| "space_state_out SpaceStateFailed = ExtSpaceFailed"
| "space_state_out SpaceStateUnknown = ExtSpaceUnknown"

definition ConvertSpaceDocToInternal :: "SpaceDoc \<Rightarrow> Space result" where
  "ConvertSpaceDocToInternal d =
     (if supported (spd_APIVersion d) then Inr
        \<lparr>sp_Metadata = \<lparr>spM_Name = spM_Name (spd_Metadata d), spM_Labels = spM_Labels (spd_Metadata d),
           spM_Generation = spM_Generation (spd_Metadata d)\<rparr>,
         sp_Spec = \<lparr>spS_RealmName = xspS_RealmID (spd_Spec d),
           spS_CNIConfigPath = xspS_CNIConfigPath (spd_Spec d),
           spS_Network = convertSpaceNetworkToInternal (xspS_Network (spd_Spec d)),
           spS_Defaults = convertSpaceDefaultsToInternal (xspS_Defaults (spd_Spec d))\<rparr>,
         sp_Status = \<lparr>spT_State = space_state_in (xspT_State (spd_Status d)),
       spT_CgroupPath = xspT_CgroupPath (spd_Status d),
       spT_SubtreeControllers = cloneStringSlice (xspT_SubtreeControllers (spd_Status d)),
       spT_CreatedAt = xspT_CreatedAt (spd_Status d),
       spT_UpdatedAt = xspT_UpdatedAt (spd_Status d), spT_ReadyAt = xspT_ReadyAt (spd_Status d),
       spT_Reason = xspT_Reason (spd_Status d), spT_Message = xspT_Message (spd_Status d),
       spT_CgroupReady = xspT_CgroupReady (spd_Status d),
       spT_ObservedGeneration = xspT_ObservedGeneration (spd_Status d)\<rparr>\<rparr>
      else Inl (errorf ''unsupported apiVersion for Space: %s'' [QStr (spd_APIVersion d)]))"

definition BuildSpaceExternalFromInternal :: "Space \<Rightarrow> string \<Rightarrow> SpaceDoc result" where
  "BuildSpaceExternalFromInternal s apiVersion =
     (if supported apiVersion then Inr
        \<lparr>spd_APIVersion = APIVersionV1Beta1, spd_Kind = KindSpace,
         spd_Metadata = \<lparr>spM_Name = spM_Name (sp_Metadata s), spM_Labels = spM_Labels (sp_Metadata s),
           spM_Generation = spM_Generation (sp_Metadata s)\<rparr>,
         spd_Spec = \<lparr>xspS_RealmID = spS_RealmName (sp_Spec s),
           xspS_CNIConfigPath = spS_CNIConfigPath (sp_Spec s),
           xspS_Network = buildSpaceNetworkExternalFromInternal (spS_Network (sp_Spec s)),
           xspS_Defaults = buildSpaceDefaultsExternalFromInternal (spS_Defaults (sp_Spec s))\<rparr>,
         spd_Status = \<lparr>xspT_State = space_state_out (spT_State (sp_Status s)),
       xspT_CgroupPath = spT_CgroupPath (sp_Status s),
       xspT_SubtreeControllers = cloneStringSlice (spT_SubtreeControllers (sp_Status s)),
       xspT_CreatedAt = spT_CreatedAt (sp_Status s),
       xspT_UpdatedAt = spT_UpdatedAt (sp_Status s), xspT_ReadyAt = spT_ReadyAt (sp_Status s),
       xspT_Reason = spT_Reason (sp_Status s), xspT_Message = spT_Message (sp_Status s),
       xspT_CgroupReady = spT_CgroupReady (sp_Status s),
       xspT_ObservedGeneration = spT_ObservedGeneration (sp_Status s)\<rparr>\<rparr>
      else Inl (errorf ''unsupported output apiVersion for Space: %s'' [QStr apiVersion]))"

definition NormalizeSpace :: "SpaceDoc \<Rightarrow> (Space \<times> string) result" where
  "NormalizeSpace req = rbind (ConvertSpaceDocToInternal req) (\<lambda>s. Inr (s, DefaultVersion (spd_APIVersion req)))"

definition ConvertStackDocToInternal :: "StackDoc \<Rightarrow> Stack result" where
  "ConvertStackDocToInternal d =
     (if supported (skd_APIVersion d) then Inr
        \<lparr>sk_Metadata = \<lparr>skM_Name = skM_Name (skd_Metadata d), skM_Labels = skM_Labels (skd_Metadata d),
           skM_Generation = skM_Generation (skd_Metadata d)\<rparr>,
         sk_Spec = \<lparr>skS_ID = xskS_ID (skd_Spec d), skS_RealmName = xskS_RealmID (skd_Spec d),
           skS_SpaceName = xskS_SpaceID (skd_Spec d)\<rparr>,
         sk_Status = \<lparr>skT_State = skT_State (skd_Status d), skT_CgroupPath = skT_CgroupPath (skd_Status d),
       skT_SubtreeControllers = cloneStringSlice (skT_SubtreeControllers (skd_Status d)),
       skT_CreatedAt = skT_CreatedAt (skd_Status d),
       skT_UpdatedAt = skT_UpdatedAt (skd_Status d), skT_ReadyAt = skT_ReadyAt (skd_Status d),
       skT_Reason = skT_Reason (skd_Status d), skT_Message = skT_Message (skd_Status d),
       skT_CgroupReady = skT_CgroupReady (skd_Status d),
       skT_ObservedGeneration = skT_ObservedGeneration (skd_Status d)\<rparr>\<rparr>
      else Inl (errorf ''unsupported apiVersion for Stack: %s'' [QStr (skd_APIVersion d)]))"

definition BuildStackExternalFromInternal :: "Stack \<Rightarrow> string \<Rightarrow> StackDoc result" where
  "BuildStackExternalFromInternal s apiVersion =
     (if supported apiVersion then Inr
        \<lparr>skd_APIVersion = APIVersionV1Beta1, skd_Kind = KindStack,
         skd_Metadata = \<lparr>skM_Name = skM_Name (sk_Metadata s), skM_Labels = skM_Labels (sk_Metadata s),
           skM_Generation = skM_Generation (sk_Metadata s)\<rparr>,
         skd_Spec = \<lparr>xskS_ID = skS_ID (sk_Spec s), xskS_RealmID = skS_RealmName (sk_Spec s),
           xskS_SpaceID = skS_SpaceName (sk_Spec s)\<rparr>,
         skd_Status = \<lparr>skT_State = skT_State (sk_Status s), skT_CgroupPath = skT_CgroupPath (sk_Status s),
       skT_SubtreeControllers = cloneStringSlice (skT_SubtreeControllers (sk_Status s)),
       skT_CreatedAt = skT_CreatedAt (sk_Status s), skT_UpdatedAt = skT_UpdatedAt (sk_Status s),
       skT_ReadyAt = skT_ReadyAt (sk_Status s), skT_Reason = skT_Reason (sk_Status s),
       skT_Message = skT_Message (sk_Status s), skT_CgroupReady = skT_CgroupReady (sk_Status s),
       skT_ObservedGeneration = skT_ObservedGeneration (sk_Status s)\<rparr>\<rparr>
      else Inl (errorf ''unsupported output apiVersion for Stack: %s'' [QStr apiVersion]))"

definition NormalizeStack :: "StackDoc \<Rightarrow> (Stack \<times> string) result" where
  "NormalizeStack req = rbind (ConvertStackDocToInternal req) (\<lambda>s. Inr (s, DefaultVersion (skd_APIVersion req)))"

section \<open>Secrets and volumes\<close>

definition ConvertSecretDocToInternal :: "SecretDoc \<Rightarrow> Secret result" where
  "ConvertSecretDocToInternal d =
     (if supported (scd_APIVersion d) then Inr
        \<lparr>sc_Metadata = \<lparr>scM_Name = scM_Name (scd_Metadata d), scM_Realm = scM_Realm (scd_Metadata d),
       scM_Space = scM_Space (scd_Metadata d), scM_Stack = scM_Stack (scd_Metadata d),
       scM_Cell = scM_Cell (scd_Metadata d)\<rparr>,
         sc_Spec = \<lparr>scS_Data = scS_Data (scd_Spec d)\<rparr>\<rparr>
      else Inl (errorf ''unsupported apiVersion for Secret: %s'' [QStr (scd_APIVersion d)]))"

definition NormalizeSecret :: "SecretDoc \<Rightarrow> (Secret \<times> string) result" where
  "NormalizeSecret req = rbind (ConvertSecretDocToInternal req) (\<lambda>s. Inr (s, DefaultVersion (scd_APIVersion req)))"

definition ConvertSecretToExternal :: "Secret \<Rightarrow> SecretDoc" where
  "ConvertSecretToExternal s = \<lparr>scd_APIVersion = APIVersionV1Beta1, scd_Kind = KindSecret,
     scd_Metadata = \<lparr>scM_Name = scM_Name (sc_Metadata s), scM_Realm = scM_Realm (sc_Metadata s),
       scM_Space = scM_Space (sc_Metadata s), scM_Stack = scM_Stack (sc_Metadata s),
       scM_Cell = scM_Cell (sc_Metadata s)\<rparr>,
     scd_Spec = \<lparr>scS_Data = ''''\<rparr>\<rparr>"

definition ConvertSecretListToExternal :: "Secret slice \<Rightarrow> SecretDoc slice" where
  "ConvertSecretListToExternal xs = map_option (map ConvertSecretToExternal) xs"

definition ConvertVolumeDocToInternal :: "VolumeDoc \<Rightarrow> Volume result" where
  "ConvertVolumeDocToInternal d =
     (if supported (vod_APIVersion d) then Inr
        \<lparr>vo_Metadata = \<lparr>voM_Name = voM_Name (vod_Metadata d), voM_Realm = voM_Realm (vod_Metadata d),
       voM_Space = voM_Space (vod_Metadata d), voM_Stack = voM_Stack (vod_Metadata d)\<rparr>,
         vo_Spec = \<lparr>voS_ReclaimPolicy = voS_ReclaimPolicy (vod_Spec d)\<rparr>\<rparr>
      else Inl (errorf ''unsupported apiVersion for Volume: %s'' [QStr (vod_APIVersion d)]))"

definition NormalizeVolume :: "VolumeDoc \<Rightarrow> (Volume \<times> string) result" where
  "NormalizeVolume req = rbind (ConvertVolumeDocToInternal req) (\<lambda>v. Inr (v, DefaultVersion (vod_APIVersion req)))"

definition ConvertVolumeToExternal :: "Volume \<Rightarrow> VolumeDoc" where
  "ConvertVolumeToExternal v = \<lparr>vod_APIVersion = APIVersionV1Beta1, vod_Kind = KindVolume,
     vod_Metadata = \<lparr>voM_Name = voM_Name (vo_Metadata v), voM_Realm = voM_Realm (vo_Metadata v),
       voM_Space = voM_Space (vo_Metadata v), voM_Stack = voM_Stack (vo_Metadata v)\<rparr>,
     vod_Spec = \<lparr>voS_ReclaimPolicy = voS_ReclaimPolicy (vo_Spec v)\<rparr>\<rparr>"

definition ConvertVolumeListToExternal :: "Volume slice \<Rightarrow> VolumeDoc slice" where
  "ConvertVolumeListToExternal xs = map_option (map ConvertVolumeToExternal) xs"

section \<open>Validation\<close>

definition validateTtyLogLevel :: "string \<Rightarrow> unit result" where
  "validateTtyLogLevel level = when_ok (level \<in> {'''', ''debug'', ''info'', ''warn'', ''error''})
     (errorf ''tty.logLevel %q: must be one of debug, info, warn, error'' [QStr level])"

definition validateTtyStageRunOn :: "string \<Rightarrow> unit result" where
  "validateTtyStageRunOn runOn = when_ok (runOn \<in> {'''', RunOnStart, RunOnCreate})
     (errorf ''tty stage runOn %q: must be one of %q, %q (or empty)'' [QStr runOn, QStr RunOnStart, QStr RunOnCreate])"

definition validateContainerCreateStagePersistence :: "extContainerSpec \<Rightarrow> unit result" where
  "validateContainerCreateStagePersistence spec =
     (case xcs_Tty spec of
        None \<Rightarrow> Inr ()
      | Some t \<Rightarrow>
          if \<not> list_ex (\<lambda>s. ts_RunOn s = RunOnCreate) (elems (tty_OnInit t)) then Inr ()
          else when_ok (list_ex (\<lambda>v. vm_Kind v \<noteq> VolumeKindTmpfs \<and> \<not> vm_ReadOnly v) (elems (xcs_Volumes spec)))
            (errorf ''container %q: tty.onInit has runOn: %q stages but the container has no persistent writable mount; declare a volumes: entry of kind bind covering the stage's write target so its side effects survive container recreate, or move the work into a runOn: %q stage''
              [QStr (xcs_ID spec), QStr RunOnCreate, QStr RunOnStart]))"

definition validateContainerTty :: "extContainerSpec \<Rightarrow> unit result" where
  "validateContainerTty spec =
     (if \<not> xcs_Attachable spec then
        when_ok (ContainerTty_IsEmpty (xcs_Tty spec))
          (errorf ''container %q: tty fields require attachable: true'' [QStr (xcs_ID spec)])
      else case xcs_Tty spec of
        None \<Rightarrow> Inr ()
      | Some t \<Rightarrow>
          rbind (map_err (errorfw ''container %q: %w'' [QStr (xcs_ID spec)]) (validateTtyLogLevel (tty_LogLevel t))) (\<lambda>_.
          rbind (first_error (\<lambda>(i, s). map_err (errorfw ''container %q: onInit[%d]: %w'' [QStr (xcs_ID spec), DInt (int i)])
              (validateTtyStageRunOn (ts_RunOn s))) (enumerate 0 (elems (tty_OnInit t)))) (\<lambda>_.
          validateContainerCreateStagePersistence spec)))"

definition validateContainerRestart :: "extContainerSpec \<Rightarrow> unit result" where
  "validateContainerRestart spec =
     (let policy = xcs_RestartPolicy spec;
          restarts = (policy = RestartPolicyAlways \<or> policy = RestartPolicyOnFailure)
      in rbind (case xcs_RestartBackoffSeconds spec of
           None \<Rightarrow> Inr ()
         | Some b \<Rightarrow>
             if b < 0 then Inl (errorf ''container %q: restartBackoffSeconds must be >= 0, got %d'' [QStr (xcs_ID spec), DInt b])
             else when_ok restarts (errorf ''container %q: restartBackoffSeconds requires restartPolicy %q or %q, got %q''
               [QStr (xcs_ID spec), QStr RestartPolicyAlways, QStr RestartPolicyOnFailure, QStr policy])) (\<lambda>_.
         case xcs_RestartMaxRetries spec of
           None \<Rightarrow> Inr ()
         | Some n \<Rightarrow>
             if n < 1 then Inl (errorf ''container %q: restartMaxRetries must be >= 1, got %d'' [QStr (xcs_ID spec), DInt n])
             else when_ok (policy = RestartPolicyOnFailure)
               (errorf ''container %q: restartMaxRetries requires restartPolicy %q, got %q''
                 [QStr (xcs_ID spec), QStr RestartPolicyOnFailure, QStr policy])))"

definition volumeSegmentSafe :: "string \<Rightarrow> bool" where
  "volumeSegmentSafe seg \<longleftrightarrow>
     (if seg = ''.'' \<or> seg = ''..'' then False
      else \<not> (CHR ''/'' \<in> set seg \<or> CHR 0x00 \<in> set seg) \<and> \<not> sublist ''..'' seg)"

definition IsAbs :: "string \<Rightarrow> bool" where
  "IsAbs path \<longleftrightarrow> prefix ''/'' path"

definition validateVolumeRefScope :: "VolumeRef \<Rightarrow> unit result" where
  "validateVolumeRefScope ref =
     (let name = TrimSpace (vr_Name ref); realm = TrimSpace (vr_Realm ref);
          space = TrimSpace (vr_Space ref); stack = TrimSpace (vr_Stack ref)
      in if name = '''' then Inl ErrVolumeRefNameRequired
         else if realm = '''' then Inl ErrVolumeRefRealmRequired
         else if stack \<noteq> '''' \<and> space = '''' then Inl ErrVolumeRefScopeIncomplete
         else first_error (\<lambda>seg. when_ok (seg = '''' \<or> volumeSegmentSafe seg) ErrVolumeCoordUnsafe)
                [name, realm, space, stack])"

definition validateVolumeKindMount :: "VolumeMount \<Rightarrow> unit result" where
  "validateVolumeKindMount v =
     (let hasSource = (TrimSpace (vm_Source v) \<noteq> ''''); hasRef = (ptr_val (vm_VolumeRef v) \<noteq> None)
      in if hasSource \<and> hasRef then Inl ErrVolumeRefSourceExclusive
         else if \<not> hasSource \<and> \<not> hasRef then Inl ErrVolumeRefSourceMissing
         else rbind (if hasSource then
                if IsAbs (vm_Source v) then Inl ErrVolumeSourceNotName
                else when_ok (volumeSegmentSafe (vm_Source v)) ErrVolumeCoordUnsafe
              else Inr ()) (\<lambda>_.
            rbind (case ptr_val (vm_VolumeRef v) of None \<Rightarrow> Inr () | Some r \<Rightarrow> validateVolumeRefScope r) (\<lambda>_.
            if TrimSpace (vm_Target v) = '''' then Inl ErrVolumeTargetRequired
            else when_ok (IsAbs (vm_Target v)) ErrVolumeTargetNotAbsolute)))"

definition validateContainerVolume :: "string \<Rightarrow> nat \<Rightarrow> VolumeMount \<Rightarrow> unit result" where
  "validateContainerVolume cid i v =
     (if ptr_val (vm_VolumeRef v) \<noteq> None \<and> vm_Kind v \<noteq> VolumeKindVolume then
        Inl (errorf ''container %q volume %d: volumeRef is only valid on a kind: volume mount'' [QStr cid, DInt (int i)])
      else if vm_Kind v = VolumeKindVolume then
        map_err (errorfw ''container %q volume %d: %w'' [QStr cid, DInt (int i)]) (validateVolumeKindMount v)
      else if vm_Kind v = VolumeKindTmpfs then
        when_ok (vm_Source v = '''') (errorfw ''container %q volume %d: %w'' [QStr cid, DInt (int i)] ErrVolumeTmpfsSourceForbidden)
      else when_ok (vm_Kind v = '''' \<or> vm_Kind v = VolumeKindBind)
        (errorfw ''container %q volume %d: %w (got %q)'' [QStr cid, DInt (int i), QStr (vm_Kind v)] ErrVolumeKindUnknown))"

definition validateContainerVolumes :: "extContainerSpec \<Rightarrow> unit result" where
  "validateContainerVolumes spec =
     first_error (\<lambda>(i, v). validateContainerVolume (xcs_ID spec) i v) (enumerate 0 (elems (xcs_Volumes spec)))"

definition validateGitIdentity :: "string \<Rightarrow> GitIdentity option \<Rightarrow> unit result" where
  "validateGitIdentity role i =
     (case i of None \<Rightarrow> Inr ()
      | Some i \<Rightarrow> when_ok (\<not> (gi_Name i = '''' \<or> gi_Email i = ''''))
          (errorf ''git.%s requires both name and email'' [QStr role]))"

definition validateContainerGit :: "extContainerSpec \<Rightarrow> unit result" where
  "validateContainerGit spec =
     (case xcs_Git spec of
        None \<Rightarrow> Inr ()
      | Some g \<Rightarrow>
          rbind (map_err (errorfw ''container %q: %w'' [QStr (xcs_ID spec)]) (validateGitIdentity ''author'' (git_Author g))) (\<lambda>_.
          rbind (map_err (errorfw ''container %q: %w'' [QStr (xcs_ID spec)]) (validateGitIdentity ''committer'' (git_Committer g))) (\<lambda>_.
          rbind (first_error (\<lambda>s. when_ok (s = GitSignCommits \<or> s = GitSignTags)
              (errorf ''container %q: git.sign %q: must be one of %q, %q''
                [QStr (xcs_ID spec), QStr s, QStr GitSignCommits, QStr GitSignTags])) (elems (git_Sign g))) (\<lambda>_.
          when_ok (\<not> (elems (git_Sign g) \<noteq> [] \<and> git_SigningKey g = ''''))
            (errorf ''container %q: git.sign requires git.signingKey to be set'' [QStr (xcs_ID spec)])))))"

definition validateContainerSpec :: "extContainerSpec \<Rightarrow> unit result" where
  "validateContainerSpec c =
     rbind (validateContainerTty c) (\<lambda>_. rbind (validateContainerGit c) (\<lambda>_.
     rbind (validateContainerVolumes c) (\<lambda>_. validateContainerRestart c)))"

definition validateCellTty :: "extCellSpec \<Rightarrow> unit result" where
  "validateCellTty spec =
     (case xceS_Tty spec of
        None \<Rightarrow> Inr ()
      | Some t \<Rightarrow>
          if ct_Default t = '''' then Inr ()
          else case List.find (\<lambda>c. xcs_ID c = ct_Default t) (xceS_Containers spec) of
            None \<Rightarrow> Inl (errorf ''cell tty.default %q does not match any container in this cell'' [QStr (ct_Default t)])
          | Some c \<Rightarrow> when_ok (xcs_Attachable c)
              (errorf ''cell tty.default %q references container that is not attachable'' [QStr (ct_Default t)]))"

definition resolveCellRootContainer :: "CellSpec \<Rightarrow> string result" where
  "resolveCellRootContainer spec =
     (let rootMarked = map cs_ID (filter cs_Root (ceS_Containers spec))
      in if length rootMarked > 1 then
           Inl (errorfw ''%w: %v'' (map QStr rootMarked) ErrMultipleRootContainers)
         else if ceS_RootContainerID spec \<noteq> '''' then
           if \<not> list_ex (\<lambda>c. cs_ID c = ceS_RootContainerID spec) (ceS_Containers spec) then
             Inl (errorf ''rootContainerId %q not found in containers array'' [QStr (ceS_RootContainerID spec)])
           else if length rootMarked = 1 \<and> hd rootMarked \<noteq> ceS_RootContainerID spec then
             Inl (errorfw ''%w: rootContainerId is %q but container %q has root: true''
               [QStr (ceS_RootContainerID spec), QStr (hd rootMarked)] ErrRootContainerMismatch)
           else Inr (ceS_RootContainerID spec)
         else if length rootMarked = 1 then Inr (hd rootMarked)
         else Inr '''')"

section \<open>Containers and cells\<close>

definition ConvertContainerDocToInternal :: "(nat \<Rightarrow> nat) \<Rightarrow> ContainerDoc \<Rightarrow> Container result" where
  "ConvertContainerDocToInternal al d =
     (if supported (cd_APIVersion d) then
        rbind (validateContainerSpec (cd_Spec d)) (\<lambda>_. Inr
        \<lparr>c_Metadata = \<lparr>cm_Name = cm_Name (cd_Metadata d), cm_Labels = cm_Labels (cd_Metadata d)\<rparr>,
         c_Spec = (convertContainerSpecToInternal al (cd_Spec d))\<lparr>cs_ContainerdID := ''''\<rparr>,
         c_Status = \<lparr>st_Name = st_Name (cd_Status d), st_ID = st_ID (cd_Status d), st_CreatedAt = st_CreatedAt (cd_Status d),
       st_State = st_State (cd_Status d), st_RestartCount = st_RestartCount (cd_Status d),
       st_RestartTime = st_RestartTime (cd_Status d), st_StartTime = st_StartTime (cd_Status d),
       st_FinishTime = st_FinishTime (cd_Status d), st_ExitCode = st_ExitCode (cd_Status d),
       st_ExitSignal = st_ExitSignal (cd_Status d), st_Repos = repoStatusesToInternal (st_Repos (cd_Status d)), st_Stages = stageStatusesToInternal (st_Stages (cd_Status d))\<rparr>\<rparr>)
      else Inl (errorf ''unsupported apiVersion for Container: %s'' [QStr (cd_APIVersion d)]))"

definition BuildContainerExternalFromInternal :: "(nat \<Rightarrow> nat) \<Rightarrow> Container \<Rightarrow> string \<Rightarrow> ContainerDoc result" where
  "BuildContainerExternalFromInternal al c apiVersion =
     (if supported apiVersion then Inr
        \<lparr>cd_APIVersion = APIVersionV1Beta1, cd_Kind = KindContainer,
         cd_Metadata = \<lparr>cm_Name = cm_Name (c_Metadata c), cm_Labels = cm_Labels (c_Metadata c)\<rparr>,
         cd_Spec = (BuildContainerSpecExternalFromInternal al (c_Spec c))\<lparr>xcs_ContainerdID := ''''\<rparr>,
         cd_Status = \<lparr>st_Name = st_Name (c_Status c), st_ID = st_ID (c_Status c), st_CreatedAt = st_CreatedAt (c_Status c),
       st_State = st_State (c_Status c), st_RestartCount = st_RestartCount (c_Status c),
       st_RestartTime = st_RestartTime (c_Status c), st_StartTime = st_StartTime (c_Status c),
       st_FinishTime = st_FinishTime (c_Status c), st_ExitCode = st_ExitCode (c_Status c),
       st_ExitSignal = st_ExitSignal (c_Status c), st_Repos = repoStatusesToExternal (st_Repos (c_Status c)), st_Stages = stageStatusesToExternal (st_Stages (c_Status c))\<rparr>\<rparr>
      else Inl (errorf ''unsupported output apiVersion for Container: %s'' [QStr apiVersion]))"

definition NormalizeContainer :: "(nat \<Rightarrow> nat) \<Rightarrow> ContainerDoc \<Rightarrow> (Container \<times> string) result" where
  "NormalizeContainer al req =
     rbind (ConvertContainerDocToInternal al req) (\<lambda>c. Inr (c, DefaultVersion (cd_APIVersion req)))"

text \<open>The spec and the status of a cell, without the resolved root.\<close>

definition cellSpecToInternal :: "(nat \<Rightarrow> nat \<Rightarrow> nat) \<Rightarrow> extCellSpec \<Rightarrow> CellSpec" where
  "cellSpecToInternal al s = \<lparr>ceS_ID = xceS_ID s, ceS_RealmName = xceS_RealmID s,
               ceS_SpaceName = xceS_SpaceID s, ceS_StackName = xceS_StackID s,
               ceS_RootContainerID = xceS_RootContainerID s,
               ceS_Tty = convertCellTtyToInternal (xceS_Tty s),
               ceS_Containers = map (\<lambda>(i, c). convertContainerSpecToInternal (al i) c)
                 (enumerate 0 (xceS_Containers s)),
               ceS_AutoDelete = xceS_AutoDelete s,
               ceS_NestedCgroupRuntime = xceS_NestedCgroupRuntime s,
               ceS_RuntimeEnv = cloneStringSlice (xceS_RuntimeEnv s),
               ceS_Provenance = convertCellProvenanceToInternal (xceS_Provenance s),
               ceS_IgnoreDiskPressure = xceS_IgnoreDiskPressure s\<rparr>"

definition cellStatusToInternal :: "CellStatus \<Rightarrow> CellStatus" where
  "cellStatusToInternal t = \<lparr>ceT_State = ceT_State t, ceT_CgroupPath = ceT_CgroupPath t,
       ceT_SubtreeControllers = cloneStringSlice (ceT_SubtreeControllers t),
       ceT_Network = \<lparr>cn_BridgeName = cn_BridgeName (ceT_Network t)\<rparr>,
       ceT_Containers = convertContainerStatusesToInternal (ceT_Containers t),
       ceT_ReadyObserved = ceT_ReadyObserved t,
       ceT_CreatedAt = ceT_CreatedAt t,
       ceT_UpdatedAt = ceT_UpdatedAt t, ceT_ReadyAt = ceT_ReadyAt t,
       ceT_Reason = ceT_Reason t, ceT_Message = ceT_Message t,
       ceT_CgroupReady = ceT_CgroupReady t,
       ceT_ObservedGeneration = ceT_ObservedGeneration t,
       ceT_OutOfSync = ceT_OutOfSync t,
       ceT_OutOfSyncReason = ceT_OutOfSyncReason t,
       ceT_OutOfSyncError = ceT_OutOfSyncError t\<rparr>"

definition ConvertCellDocToInternal :: "(nat \<Rightarrow> nat \<Rightarrow> nat) \<Rightarrow> CellDoc \<Rightarrow> Cell result" where
  "ConvertCellDocToInternal al d =
     (if supported (ced_APIVersion d) then
        rbind (first_error validateContainerSpec (xceS_Containers (ced_Spec d))) (\<lambda>_.
        rbind (validateCellTty (ced_Spec d)) (\<lambda>_.
        rbind (resolveCellRootContainer (cellSpecToInternal al (ced_Spec d))) (\<lambda>resolvedRoot. Inr
          \<lparr>ce_Metadata = \<lparr>ceM_Name = ceM_Name (ced_Metadata d), ceM_Labels = ceM_Labels (ced_Metadata d),
             ceM_Annotations = ceM_Annotations (ced_Metadata d),
             ceM_Generation = ceM_Generation (ced_Metadata d)\<rparr>,
           ce_Spec = (cellSpecToInternal al (ced_Spec d))\<lparr>ceS_RootContainerID := resolvedRoot\<rparr>,
           ce_Status = cellStatusToInternal (ced_Status d)\<rparr>)))
      else Inl (errorf ''unsupported apiVersion for Cell: %s'' [QStr (ced_APIVersion d)]))"

definition cellSpecToExternal :: "(nat \<Rightarrow> nat \<Rightarrow> nat) \<Rightarrow> CellSpec \<Rightarrow> extCellSpec" where
  "cellSpecToExternal al s = \<lparr>xceS_ID = ceS_ID s, xceS_RealmID = ceS_RealmName s,
           xceS_SpaceID = ceS_SpaceName s, xceS_StackID = ceS_StackName s,
           xceS_RootContainerID = ceS_RootContainerID s,
           xceS_Tty = buildCellTtyExternalFromInternal (ceS_Tty s),
           xceS_Containers = map (\<lambda>(i, c). BuildContainerSpecExternalFromInternal (al i) c)
             (enumerate 0 (ceS_Containers s)),
           xceS_AutoDelete = ceS_AutoDelete s,
           xceS_NestedCgroupRuntime = ceS_NestedCgroupRuntime s,
           xceS_RuntimeEnv = None,
           xceS_Provenance = buildCellProvenanceExternalFromInternal (ceS_Provenance s),
           xceS_IgnoreDiskPressure = False\<rparr>"

definition cellStatusToExternal :: "CellStatus \<Rightarrow> CellStatus" where
  "cellStatusToExternal t = \<lparr>ceT_State = ceT_State t, ceT_CgroupPath = ceT_CgroupPath t,
       ceT_SubtreeControllers = cloneStringSlice (ceT_SubtreeControllers t),
       ceT_Network = \<lparr>cn_BridgeName = cn_BridgeName (ceT_Network t)\<rparr>,
       ceT_Containers = buildContainerStatusesExternalFromInternal (ceT_Containers t),
       ceT_ReadyObserved = ceT_ReadyObserved t,
       ceT_CreatedAt = ceT_CreatedAt t, ceT_UpdatedAt = ceT_UpdatedAt t,
       ceT_ReadyAt = ceT_ReadyAt t, ceT_Reason = ceT_Reason t,
       ceT_Message = ceT_Message t, ceT_CgroupReady = ceT_CgroupReady t,
       ceT_ObservedGeneration = ceT_ObservedGeneration t,
       ceT_OutOfSync = ceT_OutOfSync t,
       ceT_OutOfSyncReason = ceT_OutOfSyncReason t,
       ceT_OutOfSyncError = ceT_OutOfSyncError t\<rparr>"

definition BuildCellExternalFromInternal :: "(nat \<Rightarrow> nat \<Rightarrow> nat) \<Rightarrow> Cell \<Rightarrow> string \<Rightarrow> CellDoc result" where
  "BuildCellExternalFromInternal al c apiVersion =
     (if supported apiVersion then
        rbind (resolveCellRootContainer (ce_Spec c)) (\<lambda>_. Inr
        \<lparr>ced_APIVersion = APIVersionV1Beta1, ced_Kind = KindCell,
         ced_Metadata = \<lparr>ceM_Name = ceM_Name (ce_Metadata c), ceM_Labels = ceM_Labels (ce_Metadata c),
           ceM_Annotations = ceM_Annotations (ce_Metadata c), ceM_Generation = ceM_Generation (ce_Metadata c)\<rparr>,
         ced_Spec = cellSpecToExternal al (ce_Spec c),
         ced_Status = cellStatusToExternal (ce_Status c)\<rparr>)
      else Inl (errorf ''unsupported output apiVersion for Cell: %s'' [QStr apiVersion]))"

definition NormalizeCell :: "(nat \<Rightarrow> nat \<Rightarrow> nat) \<Rightarrow> CellDoc \<Rightarrow> (Cell \<times> string) result" where
  "NormalizeCell al req =
     rbind (ConvertCellDocToInternal al req) (\<lambda>c. Inr (c,
       if ced_APIVersion req = '''' then APIVersionV1Beta1 else ced_APIVersion req))"

section \<open>What the leaf conversions keep\<close>

definition canon_slice :: "'a slice \<Rightarrow> 'a slice" where
  "canon_slice xs = (if elems xs = [] then None else Some (elems xs))"

lemma canon_slice_idem [simp]: "canon_slice (canon_slice xs) = canon_slice xs"
  by (simp add: canon_slice_def)

lemma elems_canon_slice [simp]: "elems (canon_slice xs) = elems xs"
  by (simp add: canon_slice_def)

lemma canon_slice_None [simp]: "canon_slice None = None"
  by (simp add: canon_slice_def)

lemma copy_slice_id: "(\<And>x. f x = x) \<Longrightarrow> copy_slice f = canon_slice"
  by (simp add: copy_slice_def canon_slice_def fun_eq_iff map_idI)

lemma clone_canon [simp]: "cloneStringSlice = canon_slice" "copy_slice id = canon_slice" "copy_slice copy_stage = canon_slice"
  by (simp add: cloneStringSlice_def canon_slice_def fun_eq_iff, simp_all add: copy_slice_id copy_stage_def)

lemma leaf_conversions [simp]:
  "convertCapabilitiesToInternal c = c" "buildCapabilitiesExternalFromInternal c = c"
  "convertResourcesToInternal r = r" "buildResourcesExternalFromInternal r = r"
  "secretRefToInternal s = s" "secretRefToExternal s = s" "copyBoolPtr b = b"
  "convertTmpfsMountsToInternal = canon_slice" "buildTmpfsMountsExternalFromInternal = canon_slice"
  "reposToInternal = canon_slice" "reposToExternal = canon_slice"
  "repoStatusesToInternal = canon_slice" "repoStatusesToExternal = canon_slice"
  "stageStatusesToInternal = canon_slice" "stageStatusesToExternal = canon_slice"
  by (cases c; cases r; cases s; cases b;
      simp add: convertCapabilitiesToInternal_def buildCapabilitiesExternalFromInternal_def
        convertResourcesToInternal_def buildResourcesExternalFromInternal_def secretRefToInternal_def
        secretRefToExternal_def copyBoolPtr_def)+
     (simp_all add: convertTmpfsMountsToInternal_def buildTmpfsMountsExternalFromInternal_def reposToInternal_def
        reposToExternal_def repoStatusesToInternal_def repoStatusesToExternal_def
        stageStatusesToInternal_def stageStatusesToExternal_def copy_slice_id)

lemma secret_conversions [simp]:
  "convertSecretsToInternal = canon_slice" "buildSecretsExternalFromInternal = canon_slice"
  by (simp_all add: convertSecretsToInternal_def buildSecretsExternalFromInternal_def copy_slice_id)

definition canon_git :: "ContainerGit option \<Rightarrow> ContainerGit option" where
  "canon_git g = map_option (\<lambda>g. g\<lparr>git_Sign := canon_slice (git_Sign g)\<rparr>) g"

lemma git_conversions [simp]: "gitToInternal = canon_git" "gitToExternal = canon_git"
  by (auto simp: fun_eq_iff gitToInternal_def gitToExternal_def canon_git_def map_option_case split: option.splits)

lemma canon_git_idem [simp]: "canon_git (canon_git g) = canon_git g"
  by (cases g) (simp_all add: canon_git_def)

definition canon_tty :: "ContainerTty option \<Rightarrow> ContainerTty option" where
  "canon_tty t = (if ContainerTty_IsEmpty t then None
     else map_option (\<lambda>t. t\<lparr>tty_OnInit := canon_slice (tty_OnInit t)\<rparr>) t)"

lemma tty_conversions [simp]:
  "convertContainerTtyToInternal = canon_tty" "buildContainerTtyExternalFromInternal = canon_tty"
  by (auto simp: fun_eq_iff convertContainerTtyToInternal_def buildContainerTtyExternalFromInternal_def
      canon_tty_def map_option_case split: option.splits)

lemma canon_tty_idem [simp]: "canon_tty (canon_tty t) = canon_tty t"
  by (cases t) (simp_all add: canon_tty_def ContainerTty_IsEmpty_def)

lemma canon_tty_empty [simp]: "ContainerTty_IsEmpty (canon_tty t) = ContainerTty_IsEmpty t"
  by (cases t) (simp_all add: canon_tty_def ContainerTty_IsEmpty_def)

lemma cell_tty_conversions [simp]:
  "buildCellTtyExternalFromInternal = convertCellTtyToInternal"
  "convertCellTtyToInternal (convertCellTtyToInternal t) = convertCellTtyToInternal t"
  by (simp_all add: fun_eq_iff buildCellTtyExternalFromInternal_def convertCellTtyToInternal_def split: option.splits)

definition canon_prov :: "CellProvenance option \<Rightarrow> CellProvenance option" where
  "canon_prov p = map_option (\<lambda>p. p\<lparr>cp_EnvOverrides := canon_slice (cp_EnvOverrides p)\<rparr>) p"

lemma provenance_conversions [simp]:
  "convertCellProvenanceToInternal = canon_prov" "buildCellProvenanceExternalFromInternal = canon_prov"
  by (auto simp: fun_eq_iff convertCellProvenanceToInternal_def buildCellProvenanceExternalFromInternal_def
      canon_prov_def map_option_case split: option.splits)

lemma canon_prov_idem [simp]: "canon_prov (canon_prov p) = canon_prov p"
  by (cases p) (simp_all add: canon_prov_def)

text \<open>A conversion of mounts only renames the pointers.\<close>

fun readdress :: "nat \<Rightarrow> 'a goptr \<Rightarrow> 'a goptr" where
  "readdress a NilPtr = NilPtr"
| "readdress a (Ptr _ r) = Ptr a r"

lemma readdress_simps [simp]: "readdress a (readdress b p) = readdress a p" "ptr_val (readdress a p) = ptr_val p"
  by (cases p; simp)+

definition readdress_mounts :: "(nat \<Rightarrow> nat) \<Rightarrow> VolumeMount slice \<Rightarrow> VolumeMount slice" where
  "readdress_mounts al = map_option (\<lambda>vs. map (\<lambda>(i, v).
     v\<lparr>vm_VolumeRef := readdress (al i) (vm_VolumeRef v)\<rparr>) (enumerate 0 vs))"

lemma volumeRef_conversions: "volumeRefToInternal a r = readdress a r" "volumeRefToExternal a r = readdress a r"
  by (cases r; simp add: volumeRefToInternal_def volumeRefToExternal_def)+

lemma mount_eta:
  "\<lparr>vm_Kind = vm_Kind v, vm_Source = vm_Source v, vm_Target = vm_Target v, vm_VolumeRef = p,
     vm_ReadOnly = vm_ReadOnly v, vm_SizeBytes = vm_SizeBytes v, vm_Mode = vm_Mode v, vm_Ensure = vm_Ensure v\<rparr>
   = (v :: VolumeMount)\<lparr>vm_VolumeRef := p\<rparr>"
  by (cases v) simp

lemma mount_conversions [simp]:
  "volumeMountsToInternal = readdress_mounts" "volumeMountsToExternal = readdress_mounts"
  by (simp_all add: fun_eq_iff volumeMountsToInternal_def volumeMountsToExternal_def readdress_mounts_def
      volumeRef_conversions mount_eta)

lemma readdress_mounts_readdress [simp]: "readdress_mounts al (readdress_mounts al' vs) = readdress_mounts al vs"
  by (cases vs) (auto simp: readdress_mounts_def intro!: nth_equalityI simp: nth_enumerate_eq)

lemma length_elems_readdress_mounts [simp]: "length (elems (readdress_mounts al vs)) = length (elems vs)"
  by (cases vs) (simp_all add: readdress_mounts_def)

lemma nth_elems_readdress_mounts [simp]:
  "i < length (elems vs) \<Longrightarrow> elems (readdress_mounts al vs) ! i =
    (elems vs ! i)\<lparr>vm_VolumeRef := readdress (al i) (vm_VolumeRef (elems vs ! i))\<rparr>"
  by (cases vs) (simp_all add: readdress_mounts_def nth_enumerate_eq)

lemmas scheme_spec_defs = convertContainerSpecToInternal_def BuildContainerSpecExternalFromInternal_def

lemma spec_reconvert:
  "convertContainerSpecToInternal al (BuildContainerSpecExternalFromInternal al' (convertContainerSpecToInternal al s))
    = convertContainerSpecToInternal al s"
  by (simp add: scheme_spec_defs)

lemma status_conversions [simp]:
  "buildContainerStatusesExternalFromInternal = convertContainerStatusesToInternal"
  "convertContainerStatusesToInternal (convertContainerStatusesToInternal xs) = convertContainerStatusesToInternal xs"
  by (simp_all add: fun_eq_iff convertContainerStatusesToInternal_def buildContainerStatusesExternalFromInternal_def
      copy_container_status_def)

section \<open>Validation accepts what the conversion stores\<close>

lemma first_error_enumerate:
  "first_error (\<lambda>(i, x). f i x) (enumerate n xs) = Inr u \<longleftrightarrow> (\<forall>i < length xs. f (n + i) (xs ! i) = Inr ())"
  by (auto simp: first_error_eq_Inr list_all_length nth_enumerate_eq)

lemma list_ex_nth: "list_ex P xs \<longleftrightarrow> (\<exists>i < length xs. P (xs ! i))"
  by (auto simp: list_ex_length)

lemma validateContainerVolume_readdress [simp]:
  "validateContainerVolume cid i (v\<lparr>vm_VolumeRef := readdress a (vm_VolumeRef v)\<rparr>) = validateContainerVolume cid i v"
  by (simp add: validateContainerVolume_def validateVolumeKindMount_def)

lemma validateContainerVolumes_reconvert:
  assumes "xcs_ID s' = xcs_ID s" "xcs_Volumes s' = readdress_mounts al (xcs_Volumes s)"
  shows "validateContainerVolumes s' = Inr () \<longleftrightarrow> validateContainerVolumes s = Inr ()"
  unfolding validateContainerVolumes_def first_error_enumerate assms by simp

lemma persistence_iff:
  "validateContainerCreateStagePersistence s = Inr () \<longleftrightarrow>
    (\<forall>t. xcs_Tty s = Some t \<longrightarrow> list_ex (\<lambda>x. ts_RunOn x = RunOnCreate) (elems (tty_OnInit t)) \<longrightarrow>
      list_ex (\<lambda>v. vm_Kind v \<noteq> VolumeKindTmpfs \<and> \<not> vm_ReadOnly v) (elems (xcs_Volumes s)))"
  by (simp add: validateContainerCreateStagePersistence_def split: option.splits)

lemma list_ex_readdress:
  "(\<And>v a. P (v\<lparr>vm_VolumeRef := a\<rparr>) = P v) \<Longrightarrow> list_ex P (elems (readdress_mounts al vs)) = list_ex P (elems vs)"
  unfolding list_ex_nth by auto

lemma validateContainerTty_iff:
  "validateContainerTty s = Inr () \<longleftrightarrow>
    (if xcs_Attachable s then case xcs_Tty s of None \<Rightarrow> True
       | Some t \<Rightarrow> validateTtyLogLevel (tty_LogLevel t) = Inr ()
           \<and> list_all (\<lambda>x. validateTtyStageRunOn (ts_RunOn x) = Inr ()) (elems (tty_OnInit t))
           \<and> validateContainerCreateStagePersistence s = Inr ()
     else ContainerTty_IsEmpty (xcs_Tty s))"
  by (auto simp: validateContainerTty_def rbind_eq_Inr first_error_enumerate list_all_length
      split: option.splits)

lemma validateContainerTty_reconvert:
  assumes ok: "validateContainerTty s = Inr ()"
    and s': "xcs_Attachable s' = xcs_Attachable s" "xcs_Tty s' = canon_tty (xcs_Tty s)"
      "xcs_Volumes s' = readdress_mounts al (xcs_Volumes s)"
  shows "validateContainerTty s' = Inr ()"
proof (cases "xcs_Attachable s \<and> \<not> ContainerTty_IsEmpty (xcs_Tty s)")
  case True
  then obtain t where t: "xcs_Tty s = Some t" "xcs_Tty s' = Some (t\<lparr>tty_OnInit := canon_slice (tty_OnInit t)\<rparr>)"
    using s' by (cases "xcs_Tty s") (auto simp: canon_tty_def ContainerTty_IsEmpty_def)
  have "list_ex P (elems (xcs_Volumes s')) = list_ex P (elems (xcs_Volumes s))"
    if "\<And>v a. P (v\<lparr>vm_VolumeRef := a\<rparr>) = P v" for P
    unfolding s' by (rule list_ex_readdress[OF that])
  then show ?thesis
    using ok t True s' unfolding validateContainerTty_iff persistence_iff by simp
next
  case False
  then show ?thesis
    using ok s' unfolding validateContainerTty_iff by (auto simp: canon_tty_def ContainerTty_IsEmpty_def[of None] split: if_splits)
qed

lemma validateContainerGit_reconvert:
  assumes "xcs_ID s' = xcs_ID s" "xcs_Git s' = canon_git (xcs_Git s)"
  shows "validateContainerGit s' = validateContainerGit s"
  using assms by (cases "xcs_Git s") (simp_all add: validateContainerGit_def canon_git_def)

lemma validateContainerSpec_iff:
  "validateContainerSpec s = Inr () \<longleftrightarrow> validateContainerTty s = Inr () \<and> validateContainerGit s = Inr ()
    \<and> validateContainerVolumes s = Inr () \<and> validateContainerRestart s = Inr ()"
  by (auto simp: validateContainerSpec_def rbind_eq_Inr)

lemma validateContainerSpec_reconvert:
  assumes "validateContainerSpec s = Inr ()"
  shows "validateContainerSpec (BuildContainerSpecExternalFromInternal al' (convertContainerSpecToInternal al s)) = Inr ()"
    (is "validateContainerSpec ?s = _")
proof -
  have f: "xcs_ID ?s = xcs_ID s" "xcs_Attachable ?s = xcs_Attachable s" "xcs_Tty ?s = canon_tty (xcs_Tty s)"
      "xcs_Git ?s = canon_git (xcs_Git s)" "xcs_Volumes ?s = readdress_mounts al' (xcs_Volumes s)"
      "xcs_RestartPolicy ?s = xcs_RestartPolicy s" "xcs_RestartBackoffSeconds ?s = xcs_RestartBackoffSeconds s"
      "xcs_RestartMaxRetries ?s = xcs_RestartMaxRetries s"
    by (simp_all add: scheme_spec_defs)
  have "validateContainerRestart ?s = validateContainerRestart s"
    unfolding validateContainerRestart_def f ..
  then show ?thesis
    using assms validateContainerTty_reconvert[OF _ f(2,3,5)] validateContainerGit_reconvert[OF f(1,4)]
      validateContainerVolumes_reconvert[OF f(1,5)]
    unfolding validateContainerSpec_iff by simp
qed

section \<open>The root container\<close>

definition roots :: "CellSpec \<Rightarrow> string list" where
  "roots spec = map cs_ID (filter cs_Root (ceS_Containers spec))"

definition hasID :: "string \<Rightarrow> CellSpec \<Rightarrow> bool" where
  "hasID i spec \<longleftrightarrow> list_ex (\<lambda>c. cs_ID c = i) (ceS_Containers spec)"

lemma resolve_alt:
  "resolveCellRootContainer spec =
     (if length (roots spec) > 1 then Inl (errorfw ''%w: %v'' (map QStr (roots spec)) ErrMultipleRootContainers)
      else if ceS_RootContainerID spec \<noteq> '''' then
        if \<not> hasID (ceS_RootContainerID spec) spec then
          Inl (errorf ''rootContainerId %q not found in containers array'' [QStr (ceS_RootContainerID spec)])
        else if length (roots spec) = 1 \<and> hd (roots spec) \<noteq> ceS_RootContainerID spec then
          Inl (errorfw ''%w: rootContainerId is %q but container %q has root: true''
            [QStr (ceS_RootContainerID spec), QStr (hd (roots spec))] ErrRootContainerMismatch)
        else Inr (ceS_RootContainerID spec)
      else if length (roots spec) = 1 then Inr (hd (roots spec)) else Inr '''')"
  unfolding resolveCellRootContainer_def Let_def roots_def hasID_def ..

lemma roots_upd [simp]: "roots (spec\<lparr>ceS_RootContainerID := r\<rparr>) = roots spec" "hasID i (spec\<lparr>ceS_RootContainerID := r\<rparr>) = hasID i spec"
  by (simp_all add: roots_def hasID_def)

lemma roots_hasID: "x \<in> set (roots spec) \<Longrightarrow> hasID x spec"
  by (auto simp: roots_def hasID_def list_ex_iff)

lemma resolve_iff:
  "resolveCellRootContainer spec = Inr r \<longleftrightarrow>
    length (roots spec) \<le> 1
    \<and> (if ceS_RootContainerID spec = '''' then r = (if roots spec = [] then '''' else hd (roots spec))
       else r = ceS_RootContainerID spec \<and> hasID r spec \<and> set (roots spec) \<subseteq> {r})"
proof -
  consider "roots spec = []" | x where "roots spec = [x]" | x y zs where "roots spec = x # y # zs"
    by (metis list.exhaust)
  then show ?thesis by cases (auto simp: resolve_alt)
qed

lemma resolve_again:
  assumes ok: "resolveCellRootContainer spec = Inr r"
  shows "resolveCellRootContainer (spec\<lparr>ceS_RootContainerID := r\<rparr>) = Inr r"
proof -
  consider "roots spec = []" | x where "roots spec = [x]" | x y zs where "roots spec = x # y # zs"
    by (metis list.exhaust)
  then show ?thesis
  proof cases
    case (2 x)
    then have "hasID x spec" using roots_hasID by simp
    with 2 ok show ?thesis unfolding resolve_iff by (auto split: if_splits)
  qed (use ok in \<open>auto simp: resolve_iff split: if_splits\<close>)
qed

section \<open>Reading back a stored cell\<close>

lemma enumerate_map_enumerate:
  "map (\<lambda>(i, x). f i x) (enumerate n (map (\<lambda>(i, x). g i x) (enumerate n xs)))
    = map (\<lambda>(i, x). f i (g i x)) (enumerate n xs)"
  by (induction xs arbitrary: n) simp_all

lemma validateCellTty_iff:
  "validateCellTty spec = Inr () \<longleftrightarrow> (case convertCellTtyToInternal (xceS_Tty spec) of None \<Rightarrow> True
     | Some t \<Rightarrow> \<exists>c. List.find (\<lambda>c. xcs_ID c = ct_Default t) (xceS_Containers spec) = Some c \<and> xcs_Attachable c)"
  by (auto simp: validateCellTty_def convertCellTtyToInternal_def split: option.splits)

lemma find_attachable_map:
  assumes "\<And>i c. xcs_ID (f i c) = xcs_ID c" "\<And>i c. xcs_Attachable (f i c) = xcs_Attachable c"
  shows "(\<exists>c. List.find (\<lambda>c. xcs_ID c = t) (map (\<lambda>(i, c). f i c) (enumerate n cs)) = Some c \<and> xcs_Attachable c)
    \<longleftrightarrow> (\<exists>c. List.find (\<lambda>c. xcs_ID c = t) cs = Some c \<and> xcs_Attachable c)"
  by (induction cs arbitrary: n) (auto simp: assms)

text \<open>The stored part of a spec, and of a cell: the two per-invocation fields are dropped.\<close>

definition persistedSpec :: "CellSpec \<Rightarrow> CellSpec" where
  "persistedSpec s = s\<lparr>ceS_RuntimeEnv := None, ceS_IgnoreDiskPressure := False\<rparr>"

definition persisted :: "Cell \<Rightarrow> Cell" where
  "persisted c = c\<lparr>ce_Spec := persistedSpec (ce_Spec c)\<rparr>"

lemma cellSpec_reconvert:
  "cellSpecToInternal al (cellSpecToExternal al' ((cellSpecToInternal al s)\<lparr>ceS_RootContainerID := r\<rparr>))
    = persistedSpec ((cellSpecToInternal al s)\<lparr>ceS_RootContainerID := r\<rparr>)"
  by (simp add: cellSpecToInternal_def cellSpecToExternal_def persistedSpec_def enumerate_map_enumerate spec_reconvert)

lemma cellStatus_reconvert:
  "cellStatusToInternal (cellStatusToExternal (cellStatusToInternal t)) = cellStatusToInternal t"
  by (simp add: cellStatusToInternal_def cellStatusToExternal_def)

lemma resolve_persistedSpec [simp]: "resolveCellRootContainer (persistedSpec s) = resolveCellRootContainer s"
  by (simp add: resolve_alt roots_def hasID_def persistedSpec_def)

lemma stored_spec_valid:
  assumes val: "list_all (\<lambda>s. validateContainerSpec s = Inr ()) (xceS_Containers s)"
    and tty: "validateCellTty s = Inr ()"
    and s': "s' = cellSpecToExternal al' ((cellSpecToInternal al s)\<lparr>ceS_RootContainerID := r\<rparr>)"
  shows "list_all (\<lambda>s. validateContainerSpec s = Inr ()) (xceS_Containers s') \<and> validateCellTty s' = Inr ()"
proof -
  let ?b = "\<lambda>i s. BuildContainerSpecExternalFromInternal (al' i) (convertContainerSpecToInternal (al i) s)"
  have c: "xceS_Containers s' = map (\<lambda>(i, s). ?b i s) (enumerate 0 (xceS_Containers s))"
    and t: "xceS_Tty s' = convertCellTtyToInternal (xceS_Tty s)"
    by (simp_all add: s' cellSpecToInternal_def cellSpecToExternal_def enumerate_map_enumerate)
  have f: "xcs_ID (?b i x) = xcs_ID x" "xcs_Attachable (?b i x) = xcs_Attachable x" for i x
    by (simp_all add: scheme_spec_defs)
  have "validateCellTty s' = Inr ()"
    using tty unfolding validateCellTty_iff t cell_tty_conversions c find_attachable_map[where f = ?b, OF f] .
  moreover have "list_all (\<lambda>s. validateContainerSpec s = Inr ()) (xceS_Containers s')"
    using val unfolding c by (simp add: list_all_length nth_enumerate_eq validateContainerSpec_reconvert)
  ultimately show ?thesis by simp
qed

lemma convert_cell_iff:
  "ConvertCellDocToInternal al d = Inr c \<longleftrightarrow>
    supported (ced_APIVersion d) \<and> list_all (\<lambda>s. validateContainerSpec s = Inr ()) (xceS_Containers (ced_Spec d))
    \<and> validateCellTty (ced_Spec d) = Inr ()
    \<and> (\<exists>r. resolveCellRootContainer (cellSpecToInternal al (ced_Spec d)) = Inr r
        \<and> c = \<lparr>ce_Metadata = ced_Metadata d,
               ce_Spec = (cellSpecToInternal al (ced_Spec d))\<lparr>ceS_RootContainerID := r\<rparr>,
               ce_Status = cellStatusToInternal (ced_Status d)\<rparr>)"
  by (auto simp: ConvertCellDocToInternal_def rbind_eq_Inr first_error_eq_Inr)

lemma build_cell_iff:
  "BuildCellExternalFromInternal al c version = Inr d \<longleftrightarrow>
    supported version \<and> (\<exists>r. resolveCellRootContainer (ce_Spec c) = Inr r)
    \<and> d = \<lparr>ced_APIVersion = APIVersionV1Beta1, ced_Kind = KindCell, ced_Metadata = ce_Metadata c,
           ced_Spec = cellSpecToExternal al (ce_Spec c), ced_Status = cellStatusToExternal (ce_Status c)\<rparr>"
  by (auto simp: BuildCellExternalFromInternal_def rbind_eq_Inr)

section \<open>Properties\<close>

text \<open>
  C11. Storing a cell and reading it back. A cell that came from an accepted document can always be
  written out again; the written document is accepted, and it yields the same cell, its resolved
  root included, except for the two per-invocation fields (the runtime environment and the
  disk-pressure override), which never reach the disk.
\<close>
theorem cell_storage_roundtrip:
  assumes "ConvertCellDocToInternal al d = Inr c"
  shows "\<exists>d'. BuildCellExternalFromInternal al' c APIVersionV1Beta1 = Inr d'
    \<and> ConvertCellDocToInternal al d' = Inr (persisted c)"
proof -
  from assms obtain r where val: "list_all (\<lambda>s. validateContainerSpec s = Inr ()) (xceS_Containers (ced_Spec d))"
    and tty: "validateCellTty (ced_Spec d) = Inr ()"
    and r: "resolveCellRootContainer (cellSpecToInternal al (ced_Spec d)) = Inr r"
    and c: "c = \<lparr>ce_Metadata = ced_Metadata d,
        ce_Spec = (cellSpecToInternal al (ced_Spec d))\<lparr>ceS_RootContainerID := r\<rparr>,
        ce_Status = cellStatusToInternal (ced_Status d)\<rparr>"
    unfolding convert_cell_iff by blast
  have again: "resolveCellRootContainer (ce_Spec c) = Inr r"
    using resolve_again[OF r] by (simp add: c)
  have sup: "supported APIVersionV1Beta1" by (simp add: supported_def)
  define d' where "d' = \<lparr>ced_APIVersion = APIVersionV1Beta1, ced_Kind = KindCell, ced_Metadata = ce_Metadata c,
    ced_Spec = cellSpecToExternal al' (ce_Spec c), ced_Status = cellStatusToExternal (ce_Status c)\<rparr>"
  have "BuildCellExternalFromInternal al' c APIVersionV1Beta1 = Inr d'"
    unfolding build_cell_iff d'_def using sup again by blast
  moreover have "ConvertCellDocToInternal al d' = Inr (persisted c)"
    unfolding convert_cell_iff
    using stored_spec_valid[where s' = "ced_Spec d'" and al' = al' and al = al and r = r, OF val tty] again sup
    by (simp add: d'_def c cellSpec_reconvert cellStatus_reconvert persisted_def)
       (simp add: persistedSpec_def)
  ultimately show ?thesis by blast
qed

section \<open>Well-formed cells\<close>

definition tty_ok :: "ContainerSpec \<Rightarrow> bool" where
  "tty_ok s \<longleftrightarrow> (case cs_Tty s of None \<Rightarrow> True | Some t \<Rightarrow>
     cs_Attachable s \<and> tty_LogLevel t \<in> {'''', ''debug'', ''info'', ''warn'', ''error''}
     \<and> (\<forall>x \<in> set (elems (tty_OnInit t)). ts_RunOn x \<in> {'''', RunOnStart, RunOnCreate})
     \<and> ((\<exists>x \<in> set (elems (tty_OnInit t)). ts_RunOn x = RunOnCreate) \<longrightarrow>
         (\<exists>v \<in> set (elems (cs_Volumes s)). vm_Kind v \<noteq> VolumeKindTmpfs \<and> \<not> vm_ReadOnly v)))"

definition git_ok :: "ContainerSpec \<Rightarrow> bool" where
  "git_ok s \<longleftrightarrow> (case cs_Git s of None \<Rightarrow> True | Some g \<Rightarrow>
     (\<forall>i. git_Author g = Some i \<or> git_Committer g = Some i \<longrightarrow> gi_Name i \<noteq> '''' \<and> gi_Email i \<noteq> '''')
     \<and> set (elems (git_Sign g)) \<subseteq> {GitSignCommits, GitSignTags}
     \<and> (elems (git_Sign g) \<noteq> [] \<longrightarrow> git_SigningKey g \<noteq> ''''))"

definition restart_ok :: "ContainerSpec \<Rightarrow> bool" where
  "restart_ok s \<longleftrightarrow>
     (\<forall>b. cs_RestartBackoffSeconds s = Some b \<longrightarrow>
        0 \<le> b \<and> cs_RestartPolicy s \<in> {RestartPolicyAlways, RestartPolicyOnFailure})
     \<and> (\<forall>n. cs_RestartMaxRetries s = Some n \<longrightarrow> 1 \<le> n \<and> cs_RestartPolicy s = RestartPolicyOnFailure)"

definition coord_ok :: "string \<Rightarrow> bool" where
  "coord_ok seg \<longleftrightarrow> seg = '''' \<or> volumeSegmentSafe seg"

definition ref_ok :: "VolumeRef \<Rightarrow> bool" where
  "ref_ok r \<longleftrightarrow> TrimSpace (vr_Name r) \<noteq> '''' \<and> TrimSpace (vr_Realm r) \<noteq> ''''
     \<and> (TrimSpace (vr_Stack r) \<noteq> '''' \<longrightarrow> TrimSpace (vr_Space r) \<noteq> '''')
     \<and> list_all coord_ok (map TrimSpace [vr_Name r, vr_Realm r, vr_Space r, vr_Stack r])"

definition mount_ok :: "VolumeMount \<Rightarrow> bool" where
  "mount_ok v \<longleftrightarrow>
     vm_Kind v \<in> {'''', VolumeKindBind, VolumeKindTmpfs, VolumeKindVolume}
     \<and> (vm_Kind v = VolumeKindTmpfs \<longrightarrow> vm_Source v = '''')
     \<and> (vm_Kind v \<noteq> VolumeKindVolume \<longrightarrow> ptr_val (vm_VolumeRef v) = None)
     \<and> (vm_Kind v = VolumeKindVolume \<longrightarrow>
          (case ptr_val (vm_VolumeRef v) of
             None \<Rightarrow> TrimSpace (vm_Source v) \<noteq> '''' \<and> \<not> IsAbs (vm_Source v) \<and> volumeSegmentSafe (vm_Source v)
           | Some r \<Rightarrow> TrimSpace (vm_Source v) = '''' \<and> ref_ok r)
          \<and> TrimSpace (vm_Target v) \<noteq> '''' \<and> IsAbs (vm_Target v))"

definition spec_wf :: "ContainerSpec \<Rightarrow> bool" where
  "spec_wf s \<longleftrightarrow> tty_ok s \<and> git_ok s \<and> restart_ok s \<and> list_all mount_ok (elems (cs_Volumes s))"

definition cell_wf :: "CellSpec \<Rightarrow> bool" where
  "cell_wf s \<longleftrightarrow>
     list_all spec_wf (ceS_Containers s)
     \<and> length (roots s) \<le> 1 \<and> set (roots s) \<subseteq> {ceS_RootContainerID s}
     \<and> (ceS_RootContainerID s \<noteq> '''' \<longrightarrow> hasID (ceS_RootContainerID s) s)
     \<and> (case ceS_Tty s of None \<Rightarrow> True
        | Some t \<Rightarrow> \<exists>c. List.find (\<lambda>c. cs_ID c = ct_Default t) (ceS_Containers s) = Some c \<and> cs_Attachable c)"

lemma kind_distinct [simp]:
  "VolumeKindVolume \<noteq> VolumeKindTmpfs" "VolumeKindTmpfs \<noteq> VolumeKindVolume" "VolumeKindVolume \<noteq> ''''"
  "VolumeKindTmpfs \<noteq> ''''" "VolumeKindBind \<noteq> VolumeKindVolume" "VolumeKindBind \<noteq> VolumeKindTmpfs"
  "VolumeKindVolume \<noteq> VolumeKindBind" "VolumeKindTmpfs \<noteq> VolumeKindBind"
  by (simp_all add: VolumeKindVolume_def VolumeKindTmpfs_def VolumeKindBind_def)

lemma validateVolumeRefScope_iff: "validateVolumeRefScope r = Inr () \<longleftrightarrow> ref_ok r"
  by (auto simp: validateVolumeRefScope_def ref_ok_def Let_def rbind_eq_Inr coord_ok_def)

lemma validateVolumeKindMount_iff:
  "validateVolumeKindMount v = Inr () \<longleftrightarrow>
    (case ptr_val (vm_VolumeRef v) of
       None \<Rightarrow> TrimSpace (vm_Source v) \<noteq> '''' \<and> \<not> IsAbs (vm_Source v) \<and> volumeSegmentSafe (vm_Source v)
     | Some r \<Rightarrow> TrimSpace (vm_Source v) = '''' \<and> ref_ok r)
    \<and> TrimSpace (vm_Target v) \<noteq> '''' \<and> IsAbs (vm_Target v)"
  by (cases "ptr_val (vm_VolumeRef v)")
     (auto simp: validateVolumeKindMount_def Let_def rbind_eq_Inr validateVolumeRefScope_iff)

lemma validateContainerVolume_iff: "validateContainerVolume cid i v = Inr () \<longleftrightarrow> mount_ok v"
  by (auto simp: validateContainerVolume_def mount_ok_def validateVolumeKindMount_iff)

lemma mount_ok_readdress [simp]: "mount_ok (v\<lparr>vm_VolumeRef := readdress a (vm_VolumeRef v)\<rparr>) = mount_ok v"
  by (cases "ptr_val (vm_VolumeRef v)") (simp_all add: mount_ok_def)

lemma volumes_ok_iff:
  "validateContainerVolumes s = Inr () \<longleftrightarrow> list_all mount_ok (elems (readdress_mounts al (xcs_Volumes s)))"
  unfolding validateContainerVolumes_def first_error_enumerate validateContainerVolume_iff
  by (simp add: list_all_length)

lemma restart_ok_iff: "validateContainerRestart s = Inr () \<longleftrightarrow> restart_ok (convertContainerSpecToInternal al s)"
  by (auto simp: validateContainerRestart_def restart_ok_def Let_def rbind_eq_Inr convertContainerSpecToInternal_def
      split: option.splits)

lemma git_ok_iff: "validateContainerGit s = Inr () \<longleftrightarrow> git_ok (convertContainerSpecToInternal al s)"
  by (cases "xcs_Git s")
     (auto simp: validateContainerGit_def git_ok_def rbind_eq_Inr first_error_eq_Inr list_all_iff validateGitIdentity_def
       convertContainerSpecToInternal_def canon_git_def split: option.splits)

lemma tty_ok_iff: "validateContainerTty s = Inr () \<longleftrightarrow> tty_ok (convertContainerSpecToInternal al s)"
proof -
  have f: "cs_Tty (convertContainerSpecToInternal al s) = canon_tty (xcs_Tty s)"
      "cs_Attachable (convertContainerSpecToInternal al s) = xcs_Attachable s"
      "cs_Volumes (convertContainerSpecToInternal al s) = readdress_mounts al (xcs_Volumes s)"
    by (simp_all add: convertContainerSpecToInternal_def)
  have ex: "(\<exists>v \<in> set (elems (readdress_mounts al (xcs_Volumes s))). vm_Kind v \<noteq> VolumeKindTmpfs \<and> \<not> vm_ReadOnly v)
      \<longleftrightarrow> (\<exists>v \<in> set (elems (xcs_Volumes s)). vm_Kind v \<noteq> VolumeKindTmpfs \<and> \<not> vm_ReadOnly v)"
    using list_ex_readdress[of "\<lambda>v. vm_Kind v \<noteq> VolumeKindTmpfs \<and> \<not> vm_ReadOnly v" al "xcs_Volumes s"]
    by (simp add: list_ex_iff)
  show ?thesis
  proof (cases "ContainerTty_IsEmpty (xcs_Tty s)")
    case True
    then show ?thesis
      unfolding validateContainerTty_iff tty_ok_def f canon_tty_def persistence_iff
      by (cases "xcs_Tty s")
         (auto simp: ContainerTty_IsEmpty_def validateTtyLogLevel_def validateTtyStageRunOn_def list_all_iff list_ex_iff
           RunOnCreate_def split: if_splits)
  next
    case False
    then obtain t where t: "xcs_Tty s = Some t" by (cases "xcs_Tty s") (auto simp: ContainerTty_IsEmpty_def)
    then have c: "canon_tty (xcs_Tty s) = Some (t\<lparr>tty_OnInit := canon_slice (tty_OnInit t)\<rparr>)"
      using False by (simp add: canon_tty_def)
    show ?thesis
      unfolding validateContainerTty_iff tty_ok_def f c persistence_iff using False t ex
      by (simp add: validateTtyLogLevel_def validateTtyStageRunOn_def list_all_iff list_ex_iff)
  qed
qed

lemma spec_wf_iff: "validateContainerSpec s = Inr () \<longleftrightarrow> spec_wf (convertContainerSpecToInternal al s)"
proof -
  have "cs_Volumes (convertContainerSpecToInternal al s) = readdress_mounts al (xcs_Volumes s)"
    by (simp add: convertContainerSpecToInternal_def)
  then show ?thesis
    unfolding validateContainerSpec_iff spec_wf_def
    using tty_ok_iff[of s al] git_ok_iff[of s al] restart_ok_iff[of s al] volumes_ok_iff[of s al] by auto
qed

lemma specs_wf_iff:
  "list_all (\<lambda>s. validateContainerSpec s = Inr ()) (xceS_Containers s) \<longleftrightarrow> list_all spec_wf (ceS_Containers (cellSpecToInternal al s))"
  by (simp add: list_all_length nth_enumerate_eq cellSpecToInternal_def spec_wf_iff[symmetric])

lemma find_attachable_convert:
  "(\<exists>c. List.find (\<lambda>c. cs_ID c = t) (map (\<lambda>(i, c). convertContainerSpecToInternal (al i) c) (enumerate n cs)) = Some c
      \<and> cs_Attachable c)
    \<longleftrightarrow> (\<exists>c. List.find (\<lambda>c. xcs_ID c = t) cs = Some c \<and> xcs_Attachable c)"
  by (induction cs arbitrary: n) (auto simp: convertContainerSpecToInternal_def)

lemma cell_tty_wf_iff:
  "validateCellTty s = Inr () \<longleftrightarrow> (case ceS_Tty (cellSpecToInternal al s) of None \<Rightarrow> True
     | Some t \<Rightarrow> \<exists>c. List.find (\<lambda>c. cs_ID c = ct_Default t) (ceS_Containers (cellSpecToInternal al s)) = Some c
         \<and> cs_Attachable c)"
  unfolding validateCellTty_iff cellSpecToInternal_def by (simp add: find_attachable_convert split: option.splits)

lemma cell_wf_iff:
  "cell_wf ((cellSpecToInternal al s)\<lparr>ceS_RootContainerID := r\<rparr>) \<longleftrightarrow>
    list_all (\<lambda>s. validateContainerSpec s = Inr ()) (xceS_Containers s) \<and> validateCellTty s = Inr ()
    \<and> length (roots (cellSpecToInternal al s)) \<le> 1 \<and> set (roots (cellSpecToInternal al s)) \<subseteq> {r}
    \<and> (r \<noteq> '''' \<longrightarrow> hasID r (cellSpecToInternal al s))"
  unfolding cell_wf_def specs_wf_iff[of s al] cell_tty_wf_iff[of s al] by (auto cong: option.case_cong)

text \<open>
  C12. What a cell document must satisfy. A document is accepted exactly when its version is known and,
  with the root it names or the one its containers flag, the converted spec is well formed: every
  container has consistent terminal, git, restart and volume settings, at most one is the root, the
  root exists, and the default terminal names an attachable container. The spec that an accepted
  document yields is well formed.
\<close>
theorem cell_acceptance:
  "((\<exists>c. ConvertCellDocToInternal al d = Inr c) \<longleftrightarrow>
      supported (ced_APIVersion d)
      \<and> (\<exists>r. cell_wf ((cellSpecToInternal al (ced_Spec d))\<lparr>ceS_RootContainerID := r\<rparr>)
           \<and> xceS_RootContainerID (ced_Spec d) \<in> {'''', r}))
   \<and> (case ConvertCellDocToInternal al d of Inl _ \<Rightarrow> True | Inr c \<Rightarrow> cell_wf (ce_Spec c))"
proof -
  let ?s = "cellSpecToInternal al (ced_Spec d)"
  have id: "ceS_RootContainerID ?s = xceS_RootContainerID (ced_Spec d)"
    by (simp add: cellSpecToInternal_def)
  have wf: "cell_wf (?s\<lparr>ceS_RootContainerID := r\<rparr>)" and root: "xceS_RootContainerID (ced_Spec d) \<in> {'''', r}"
    if "list_all (\<lambda>s. validateContainerSpec s = Inr ()) (xceS_Containers (ced_Spec d))"
      "validateCellTty (ced_Spec d) = Inr ()" "resolveCellRootContainer ?s = Inr r" for r
  proof -
    have "set (roots ?s) \<subseteq> {r} \<and> length (roots ?s) \<le> 1 \<and> (r \<noteq> '''' \<longrightarrow> hasID r ?s)"
      using that(3) roots_hasID[of "hd (roots ?s)" ?s] unfolding resolve_iff
      by (cases "roots ?s") (auto split: if_splits)
    with that(1,2) show "cell_wf (?s\<lparr>ceS_RootContainerID := r\<rparr>)" unfolding cell_wf_iff by simp
    show "xceS_RootContainerID (ced_Spec d) \<in> {'''', r}"
      using that(3) unfolding resolve_iff id by (auto split: if_splits)
  qed
  have res: "\<exists>r'. resolveCellRootContainer ?s = Inr r'"
    if "cell_wf (?s\<lparr>ceS_RootContainerID := r\<rparr>)" "xceS_RootContainerID (ced_Spec d) \<in> {'''', r}" for r
    using that unfolding cell_wf_iff resolve_iff id by auto
  have "(\<exists>c. ConvertCellDocToInternal al d = Inr c) \<longleftrightarrow> supported (ced_APIVersion d)
      \<and> (\<exists>r. cell_wf (?s\<lparr>ceS_RootContainerID := r\<rparr>) \<and> xceS_RootContainerID (ced_Spec d) \<in> {'''', r})"
    unfolding convert_cell_iff using wf root res by (metis cell_wf_iff)
  moreover have "case ConvertCellDocToInternal al d of Inl _ \<Rightarrow> True | Inr c \<Rightarrow> cell_wf (ce_Spec c)"
    using wf by (auto simp: convert_cell_iff split: sum.splits)
  ultimately show ?thesis by blast
qed

section \<open>Realms, spaces and stacks\<close>

definition canon_net :: "SpaceNetwork option \<Rightarrow> SpaceNetwork option" where
  "canon_net n = buildSpaceNetworkExternalFromInternal n"

definition canon_defaults :: "SpaceDefaults option \<Rightarrow> SpaceDefaults option" where
  "canon_defaults d = map_option (\<lambda>d. \<lparr>sd_Container =
     map_option (\<lambda>c. c\<lparr>scd_Tmpfs := canon_slice (scd_Tmpfs c)\<rparr>) (sd_Container d)\<rparr>) d"

lemma defaults_conversions [simp]:
  "convertSpaceDefaultsToInternal = canon_defaults" "buildSpaceDefaultsExternalFromInternal = canon_defaults"
  by (auto simp: fun_eq_iff convertSpaceDefaultsToInternal_def buildSpaceDefaultsExternalFromInternal_def
      canon_defaults_def convertSpaceContainerDefaultsToInternal_def
      buildSpaceContainerDefaultsExternalFromInternal_def map_option_case split: option.splits)

lemma canon_defaults_idem [simp]: "canon_defaults (canon_defaults d) = canon_defaults d"
  by (cases d) (auto simp: canon_defaults_def option.map_comp comp_def)

lemma copy_rule_idem [simp]: "copy_rule (copy_rule r) = copy_rule r"
  by (simp add: copy_rule_def)

lemma network_conversions [simp]:
  "convertSpaceNetworkToInternal = canon_net" "buildSpaceNetworkExternalFromInternal = canon_net"
  "canon_net (canon_net n) = canon_net n"
  by (auto simp: fun_eq_iff convertSpaceNetworkToInternal_def buildSpaceNetworkExternalFromInternal_def
      canon_net_def map_option_case comp_def split: option.splits)

text \<open>What a stored realm, space or stack keeps: all of it, up to empty slices and the space state.\<close>

definition storedRealm :: "Realm \<Rightarrow> Realm" where
  "storedRealm r = r\<lparr>
     re_Spec := (re_Spec r)\<lparr>reS_RegistryCredentials := Some (elems (reS_RegistryCredentials (re_Spec r)))\<rparr>,
     re_Status := (re_Status r)\<lparr>reT_SubtreeControllers := canon_slice (reT_SubtreeControllers (re_Status r))\<rparr>\<rparr>"

fun stored_space_state :: "SpaceState \<Rightarrow> SpaceState" where
  "stored_space_state SpaceStateCreating = SpaceStateReady"
| "stored_space_state SpaceStateDeleting = SpaceStateFailed"
| "stored_space_state st = st"

definition storedSpace :: "Space \<Rightarrow> Space" where
  "storedSpace s = s\<lparr>
     sp_Spec := (sp_Spec s)\<lparr>spS_Network := canon_net (spS_Network (sp_Spec s)),
       spS_Defaults := canon_defaults (spS_Defaults (sp_Spec s))\<rparr>,
     sp_Status := (sp_Status s)\<lparr>spT_State := stored_space_state (spT_State (sp_Status s)),
       spT_SubtreeControllers := canon_slice (spT_SubtreeControllers (sp_Status s))\<rparr>\<rparr>"

definition storedStack :: "Stack \<Rightarrow> Stack" where
  "storedStack s = s\<lparr>
     sk_Status := (sk_Status s)\<lparr>skT_SubtreeControllers := canon_slice (skT_SubtreeControllers (sk_Status s))\<rparr>\<rparr>"

lemma space_state_stored: "space_state_in (space_state_out st) = stored_space_state st"
  by (cases st) simp_all

lemma creds_id: "map (\<lambda>c. \<lparr>rc_Username = rc_Username c, rc_Password = rc_Password c,
    rc_ServerAddress = rc_ServerAddress c\<rparr>) xs = (xs :: RegistryCredentials list)"
  by (induction xs) simp_all


section \<open>Witnesses\<close>

definition demo_doc :: CellDoc where
  "demo_doc = \<lparr>ced_APIVersion = '''', ced_Kind = KindCell,
     ced_Metadata = \<lparr>ceM_Name = ''c'', ceM_Labels = [], ceM_Annotations = [], ceM_Generation = 0\<rparr>,
     ced_Spec = \<lparr>xceS_ID = ''c'', xceS_RealmID = ''r'', xceS_SpaceID = ''s'', xceS_StackID = ''t'',
       xceS_RootContainerID = '''', xceS_Tty = Some \<lparr>ct_Default = ''web''\<rparr>,
       xceS_Containers =
         [zeroExtContainerSpec\<lparr>xcs_ID := ''base'', xcs_Root := True,
            xcs_Volumes := Some [\<lparr>vm_Kind = ''volume'', vm_Source = '''', vm_Target = ''/data'',
              vm_VolumeRef = Ptr 7 \<lparr>vr_Name = ''v'', vr_Realm = ''r'', vr_Space = '''', vr_Stack = ''''\<rparr>,
              vm_ReadOnly = False, vm_SizeBytes = 0, vm_Mode = 0, vm_Ensure = False\<rparr>]\<rparr>,
          zeroExtContainerSpec\<lparr>xcs_ID := ''web'', xcs_Attachable := True, xcs_RestartPolicy := ''on-failure'',
            xcs_RestartMaxRetries := Some 3\<rparr>],
       xceS_AutoDelete = False, xceS_NestedCgroupRuntime = False, xceS_RuntimeEnv = Some [''A=1''],
       xceS_Provenance = None, xceS_IgnoreDiskPressure = True\<rparr>,
     ced_Status = zeroCellStatus\<rparr>"

theorem cell_storage_roundtrip_witness:
  "\<exists>c d'. ConvertCellDocToInternal (\<lambda>_ _. 0) demo_doc = Inr c
    \<and> BuildCellExternalFromInternal (\<lambda>_ _. 1) c APIVersionV1Beta1 = Inr d'
    \<and> ConvertCellDocToInternal (\<lambda>_ _. 0) d' = Inr (persisted c)"
proof -
  have "\<not> isl (ConvertCellDocToInternal (\<lambda>_ _. 0) demo_doc)" by code_simp
  then obtain c where "ConvertCellDocToInternal (\<lambda>_ _. 0) demo_doc = Inr c"
    by (cases "ConvertCellDocToInternal (\<lambda>_ _. 0) demo_doc") auto
  with cell_storage_roundtrip[OF this] show ?thesis by blast
qed

text \<open>
  The statuses nested in a stored cell lose the repository and the stage records, which only the
  conversion of a container document carries.
\<close>

lemma stored_statuses_lose_stages:
  assumes "BuildCellExternalFromInternal al c version = Inr d"
  shows "\<forall>st \<in> set (ceT_Containers (ced_Status d)). st_Stages st = None \<and> st_Repos st = None"
  using assms unfolding build_cell_iff
  by (auto simp: cellStatusToExternal_def convertContainerStatusesToInternal_def copy_container_status_def)

end
