(* ===== verification/Api_Json.thy ===== *)
theory Api_Json
  imports Api_Scheme State_Labels "HOL-Library.List_Lexorder" "HOL-Library.Char_ord"
begin

text \<open>
  The JSON form of the v1beta1 documents: the struct tags of \<^verbatim>\<open>pkg/api/model/v1beta1\<close> under the rules
  of \<^verbatim>\<open>encoding/json\<close>. A field tagged \<^verbatim>\<open>omitempty\<close> is left out when it is empty, a map is written
  in the order of its keys (the tag has no effect on a struct or a time), a missing field or a null decodes to the zero value, and an unknown
  field is ignored. A value is kept as a tree: a time and a status message are the JSON strings
  that render them, kept as the instant and as the format with its arguments. Objects with two
  keys of the same field are not represented.
\<close>

section \<open>Values and combinators\<close>

datatype json = JsNull | JsBool bool | JsNum int | JsStr string | JsTime gotime | JsMsg message
  | JsArr "json list" | JsObj "(string \<times> json) list"

definition fld :: "string \<Rightarrow> json \<Rightarrow> (string \<times> json) list" where
  "fld k v = [(k, v)]"

definition opt :: "string \<Rightarrow> bool \<Rightarrow> json \<Rightarrow> (string \<times> json) list" where
  "opt k omit v = (if omit then [] else [(k, v)])"

definition enc_slice :: "('a \<Rightarrow> json) \<Rightarrow> 'a slice \<Rightarrow> json" where
  "enc_slice f xs = (case xs of None \<Rightarrow> JsNull | Some xs \<Rightarrow> JsArr (map f xs))"

definition enc_ptr :: "('a \<Rightarrow> json) \<Rightarrow> 'a option \<Rightarrow> json" where
  "enc_ptr f p = (case p of None \<Rightarrow> JsNull | Some x \<Rightarrow> f x)"

definition sort_map :: "(string, string) gomap \<Rightarrow> (string, string) gomap" where
  "sort_map m = sort_key fst m"

definition enc_map :: "(string, string) gomap \<Rightarrow> json" where
  "enc_map m = JsObj (map (\<lambda>(k, v). (k, JsStr v)) (sort_map m))"

definition dec_str :: "json \<Rightarrow> string result" where
  "dec_str v = (case v of JsStr s \<Rightarrow> Inr s | JsNull \<Rightarrow> Inr '''' | _ \<Rightarrow> Inl ErrDecode)"

definition dec_int :: "json \<Rightarrow> int result" where
  "dec_int v = (case v of JsNum i \<Rightarrow> Inr i | JsNull \<Rightarrow> Inr 0 | _ \<Rightarrow> Inl ErrDecode)"

definition dec_bool :: "json \<Rightarrow> bool result" where
  "dec_bool v = (case v of JsBool b \<Rightarrow> Inr b | JsNull \<Rightarrow> Inr False | _ \<Rightarrow> Inl ErrDecode)"

definition dec_time :: "json \<Rightarrow> gotime result" where
  "dec_time v = (case v of JsTime t \<Rightarrow> Inr t | JsNull \<Rightarrow> Inr 0 | _ \<Rightarrow> Inl ErrDecode)"

definition dec_msg :: "json \<Rightarrow> message result" where
  "dec_msg v = (case v of JsMsg m \<Rightarrow> Inr m | JsStr s \<Rightarrow> Inr (Msg s) | JsNull \<Rightarrow> Inr (Msg '''') | _ \<Rightarrow> Inl ErrDecode)"

definition dec_u32 :: "json \<Rightarrow> 32 word result" where
  "dec_u32 v = (case v of JsNum i \<Rightarrow> if 0 \<le> i \<and> i < 2 ^ 32 then Inr (word_of_int i) else Inl ErrDecode
     | JsNull \<Rightarrow> Inr 0 | _ \<Rightarrow> Inl ErrDecode)"

fun dec_all :: "('a \<Rightarrow> 'b result) \<Rightarrow> 'a list \<Rightarrow> 'b list result" where
  "dec_all f [] = Inr []"
| "dec_all f (x # xs) = rbind (f x) (\<lambda>y. rbind (dec_all f xs) (\<lambda>ys. Inr (y # ys)))"

definition dec_slice :: "(json \<Rightarrow> 'a result) \<Rightarrow> json \<Rightarrow> 'a slice result" where
  "dec_slice f v = (case v of JsArr xs \<Rightarrow> rbind (dec_all f xs) (\<lambda>ys. Inr (Some ys)) | JsNull \<Rightarrow> Inr None
     | _ \<Rightarrow> Inl ErrDecode)"

text \<open>A slice whose nil and empty forms the code does not tell apart is a plain list.\<close>

definition dec_list :: "(json \<Rightarrow> 'a result) \<Rightarrow> json \<Rightarrow> 'a list result" where
  "dec_list f v = rbind (dec_slice f v) (\<lambda>xs. Inr (elems xs))"

definition dec_ptr :: "(json \<Rightarrow> 'a result) \<Rightarrow> json \<Rightarrow> 'a option result" where
  "dec_ptr f v = (if v = JsNull then Inr None else rbind (f v) (\<lambda>x. Inr (Some x)))"

definition dec_map :: "json \<Rightarrow> (string, string) gomap result" where
  "dec_map v = (case v of JsObj kvs \<Rightarrow> dec_all (\<lambda>(k, v). rbind (dec_str v) (\<lambda>s. Inr (k, s))) kvs
     | JsNull \<Rightarrow> Inr [] | _ \<Rightarrow> Inl ErrDecode)"

definition get_field :: "(string \<times> json) list \<Rightarrow> string \<Rightarrow> (json \<Rightarrow> 'a result) \<Rightarrow> 'a \<Rightarrow> 'a result" where
  "get_field kvs k f zero = (case map_of kvs k of None \<Rightarrow> Inr zero | Some v \<Rightarrow> f v)"

definition dec_obj :: "((string \<times> json) list \<Rightarrow> 'a result) \<Rightarrow> 'a \<Rightarrow> json \<Rightarrow> 'a result" where
  "dec_obj f zero v = (case v of JsObj kvs \<Rightarrow> f kvs | JsNull \<Rightarrow> Inr zero | _ \<Rightarrow> Inl ErrDecode)"

section \<open>States\<close>

text \<open>The states through the codecs of \<open>State_Labels\<close>.\<close>

fun json_of_value :: "json_value \<Rightarrow> json" where
  "json_of_value JNull = JsNull"
| "json_of_value (JString s) = JsStr s"
| "json_of_value (JInteger i) = JsNum i"
| "json_of_value JOther = JsBool False"

fun value_of_json :: "json \<Rightarrow> json_value" where
  "value_of_json JsNull = JNull"
| "value_of_json (JsStr s) = JString s"
| "value_of_json (JsNum i) = JInteger i"
| "value_of_json v = JOther"

definition realmStates :: "RealmState list" where
  "realmStates = [RealmStatePending, RealmStateCreating, RealmStateReady, RealmStateDeleting, RealmStateFailed, RealmStateUnknown]"
definition spaceStates :: "extSpaceState list" where
  "spaceStates = [ExtSpacePending, ExtSpaceReady, ExtSpaceFailed, ExtSpaceUnknown]"
definition stackStates :: "StackState list" where
  "stackStates = [StackStatePending, StackStateReady, StackStateFailed, StackStateUnknown]"
definition cellStates :: "CellState list" where
  "cellStates = [CellStatePending, CellStateReady, CellStateStopped, CellStateFailed, CellStateUnknown,
     CellStateExited, CellStateError, CellStateDegraded]"
definition containerStates :: "ContainerState list" where
  "containerStates = [ContainerStatePending, ContainerStateReady, ContainerStateStopped, ContainerStatePaused,
     ContainerStatePausing, ContainerStateFailed, ContainerStateUnknown, ContainerStateNotCreated,
     ContainerStateExited, ContainerStateError]"

fun position :: "'a \<Rightarrow> 'a list \<Rightarrow> nat" where
  "position x [] = 0"
| "position x (y # ys) = (if x = y then 0 else Suc (position x ys))"

definition enc_realmState :: "RealmState \<Rightarrow> json" where
  "enc_realmState s = json_of_value (RealmState_MarshalJSON (int (position s realmStates)))"
definition dec_realmState :: "json \<Rightarrow> RealmState result" where
  "dec_realmState v = rbind (RealmState_UnmarshalJSON (value_of_json v)) (\<lambda>i. Inr (realmStates ! nat i))"
definition zero_realmState :: RealmState where
  "zero_realmState = RealmStatePending"

definition enc_spaceState :: "extSpaceState \<Rightarrow> json" where
  "enc_spaceState s = json_of_value (SpaceState_MarshalJSON (int (position s spaceStates)))"
definition dec_spaceState :: "json \<Rightarrow> extSpaceState result" where
  "dec_spaceState v = rbind (SpaceState_UnmarshalJSON (value_of_json v)) (\<lambda>i. Inr (spaceStates ! nat i))"
definition zero_spaceState :: extSpaceState where
  "zero_spaceState = ExtSpacePending"

definition enc_stackState :: "StackState \<Rightarrow> json" where
  "enc_stackState s = json_of_value (StackState_MarshalJSON (int (position s stackStates)))"
definition dec_stackState :: "json \<Rightarrow> StackState result" where
  "dec_stackState v = rbind (StackState_UnmarshalJSON (value_of_json v)) (\<lambda>i. Inr (stackStates ! nat i))"
definition zero_stackState :: StackState where
  "zero_stackState = StackStatePending"

definition enc_cellState :: "CellState \<Rightarrow> json" where
  "enc_cellState s = json_of_value (CellState_MarshalJSON (int (position s cellStates)))"
definition dec_cellState :: "json \<Rightarrow> CellState result" where
  "dec_cellState v = rbind (CellState_UnmarshalJSON (value_of_json v)) (\<lambda>i. Inr (cellStates ! nat i))"
definition zero_cellState :: CellState where
  "zero_cellState = CellStatePending"

definition enc_containerState :: "ContainerState \<Rightarrow> json" where
  "enc_containerState s = json_of_value (ContainerState_MarshalJSON (int (position s containerStates)))"
definition dec_containerState :: "json \<Rightarrow> ContainerState result" where
  "dec_containerState v = rbind (ContainerState_UnmarshalJSON (value_of_json v)) (\<lambda>i. Inr (containerStates ! nat i))"
definition zero_containerState :: ContainerState where
  "zero_containerState = ContainerStatePending"

section \<open>Documents\<close>

definition zero_cap :: ContainerCapabilities where
  "zero_cap = \<lparr>cap_Drop = None, cap_Add = None\<rparr>"

definition enc_cap :: "ContainerCapabilities \<Rightarrow> json" where
  "enc_cap x = JsObj (concat [
     opt ''drop'' (elems (cap_Drop x) = []) (enc_slice JsStr (cap_Drop x)),
     opt ''add'' (elems (cap_Add x) = []) (enc_slice JsStr (cap_Add x))])"

definition dec_cap :: "json \<Rightarrow> ContainerCapabilities result" where
  "dec_cap v = dec_obj (\<lambda>kvs.
     rbind (get_field kvs ''drop'' (dec_slice dec_str) None) (\<lambda>x_Drop.
     rbind (get_field kvs ''add'' (dec_slice dec_str) None) (\<lambda>x_Add.
     Inr \<lparr>cap_Drop = x_Drop, cap_Add = x_Add\<rparr>))) zero_cap v"

definition zero_tmpfs :: ContainerTmpfsMount where
  "zero_tmpfs = \<lparr>tm_Path = '''', tm_SizeBytes = 0, tm_Options = None\<rparr>"

definition enc_tmpfs :: "ContainerTmpfsMount \<Rightarrow> json" where
  "enc_tmpfs x = JsObj (concat [
     fld ''path'' (JsStr (tm_Path x)),
     opt ''sizeBytes'' (tm_SizeBytes x = 0) (JsNum (tm_SizeBytes x)),
     opt ''options'' (elems (tm_Options x) = []) (enc_slice JsStr (tm_Options x))])"

definition dec_tmpfs :: "json \<Rightarrow> ContainerTmpfsMount result" where
  "dec_tmpfs v = dec_obj (\<lambda>kvs.
     rbind (get_field kvs ''path'' dec_str '''') (\<lambda>x_Path.
     rbind (get_field kvs ''sizeBytes'' dec_int 0) (\<lambda>x_SizeBytes.
     rbind (get_field kvs ''options'' (dec_slice dec_str) None) (\<lambda>x_Options.
     Inr \<lparr>tm_Path = x_Path, tm_SizeBytes = x_SizeBytes, tm_Options = x_Options\<rparr>)))) zero_tmpfs v"

definition zero_resources :: ContainerResources where
  "zero_resources = \<lparr>res_MemoryLimitBytes = None, res_CPUShares = None, res_PidsLimit = None\<rparr>"

definition enc_resources :: "ContainerResources \<Rightarrow> json" where
  "enc_resources x = JsObj (concat [
     opt ''memoryLimitBytes'' (res_MemoryLimitBytes x = None) (enc_ptr JsNum (res_MemoryLimitBytes x)),
     opt ''cpuShares'' (res_CPUShares x = None) (enc_ptr JsNum (res_CPUShares x)),
     opt ''pidsLimit'' (res_PidsLimit x = None) (enc_ptr JsNum (res_PidsLimit x))])"

definition dec_resources :: "json \<Rightarrow> ContainerResources result" where
  "dec_resources v = dec_obj (\<lambda>kvs.
     rbind (get_field kvs ''memoryLimitBytes'' (dec_ptr dec_int) None) (\<lambda>x_MemoryLimitBytes.
     rbind (get_field kvs ''cpuShares'' (dec_ptr dec_int) None) (\<lambda>x_CPUShares.
     rbind (get_field kvs ''pidsLimit'' (dec_ptr dec_int) None) (\<lambda>x_PidsLimit.
     Inr \<lparr>res_MemoryLimitBytes = x_MemoryLimitBytes, res_CPUShares = x_CPUShares,
       res_PidsLimit = x_PidsLimit\<rparr>)))) zero_resources v"

definition zero_secretRef :: ContainerSecretRef where
  "zero_secretRef = \<lparr>sr_Name = '''', sr_Realm = '''', sr_Space = '''', sr_Stack = '''',
    sr_Cell = ''''\<rparr>"

definition enc_secretRef :: "ContainerSecretRef \<Rightarrow> json" where
  "enc_secretRef x = JsObj (concat [
     fld ''name'' (JsStr (sr_Name x)),
     fld ''realm'' (JsStr (sr_Realm x)),
     opt ''space'' (sr_Space x = '''') (JsStr (sr_Space x)),
     opt ''stack'' (sr_Stack x = '''') (JsStr (sr_Stack x)),
     opt ''cell'' (sr_Cell x = '''') (JsStr (sr_Cell x))])"

definition dec_secretRef :: "json \<Rightarrow> ContainerSecretRef result" where
  "dec_secretRef v = dec_obj (\<lambda>kvs.
     rbind (get_field kvs ''name'' dec_str '''') (\<lambda>x_Name.
     rbind (get_field kvs ''realm'' dec_str '''') (\<lambda>x_Realm.
     rbind (get_field kvs ''space'' dec_str '''') (\<lambda>x_Space.
     rbind (get_field kvs ''stack'' dec_str '''') (\<lambda>x_Stack.
     rbind (get_field kvs ''cell'' dec_str '''') (\<lambda>x_Cell.
     Inr \<lparr>sr_Name = x_Name, sr_Realm = x_Realm, sr_Space = x_Space, sr_Stack = x_Stack,
       sr_Cell = x_Cell\<rparr>)))))) zero_secretRef v"

definition zero_secret :: ContainerSecret where
  "zero_secret = \<lparr>sec_Name = '''', sec_FromFile = '''', sec_FromEnv = '''', sec_SecretRef = None,
    sec_MountPath = ''''\<rparr>"

definition enc_secret :: "ContainerSecret \<Rightarrow> json" where
  "enc_secret x = JsObj (concat [
     fld ''name'' (JsStr (sec_Name x)),
     opt ''fromFile'' (sec_FromFile x = '''') (JsStr (sec_FromFile x)),
     opt ''fromEnv'' (sec_FromEnv x = '''') (JsStr (sec_FromEnv x)),
     opt ''secretRef'' (sec_SecretRef x = None) (enc_ptr enc_secretRef (sec_SecretRef x)),
     opt ''mountPath'' (sec_MountPath x = '''') (JsStr (sec_MountPath x))])"

definition dec_secret :: "json \<Rightarrow> ContainerSecret result" where
  "dec_secret v = dec_obj (\<lambda>kvs.
     rbind (get_field kvs ''name'' dec_str '''') (\<lambda>x_Name.
     rbind (get_field kvs ''fromFile'' dec_str '''') (\<lambda>x_FromFile.
     rbind (get_field kvs ''fromEnv'' dec_str '''') (\<lambda>x_FromEnv.
     rbind (get_field kvs ''secretRef'' (dec_ptr dec_secretRef) None) (\<lambda>x_SecretRef.
     rbind (get_field kvs ''mountPath'' dec_str '''') (\<lambda>x_MountPath.
     Inr \<lparr>sec_Name = x_Name, sec_FromFile = x_FromFile, sec_FromEnv = x_FromEnv,
       sec_SecretRef = x_SecretRef, sec_MountPath = x_MountPath\<rparr>)))))) zero_secret v"

definition zero_repo :: ContainerRepo where
  "zero_repo = \<lparr>repo_Name = '''', repo_Target = '''', repo_Branch = '''', repo_Ref = '''',
    repo_URL = '''', repo_Required = False\<rparr>"

definition enc_repo :: "ContainerRepo \<Rightarrow> json" where
  "enc_repo x = JsObj (concat [
     fld ''name'' (JsStr (repo_Name x)),
     fld ''target'' (JsStr (repo_Target x)),
     opt ''branch'' (repo_Branch x = '''') (JsStr (repo_Branch x)),
     opt ''ref'' (repo_Ref x = '''') (JsStr (repo_Ref x)),
     fld ''url'' (JsStr (repo_URL x)),
     opt ''required'' (\<not> repo_Required x) (JsBool (repo_Required x))])"

definition dec_repo :: "json \<Rightarrow> ContainerRepo result" where
  "dec_repo v = dec_obj (\<lambda>kvs.
     rbind (get_field kvs ''name'' dec_str '''') (\<lambda>x_Name.
     rbind (get_field kvs ''target'' dec_str '''') (\<lambda>x_Target.
     rbind (get_field kvs ''branch'' dec_str '''') (\<lambda>x_Branch.
     rbind (get_field kvs ''ref'' dec_str '''') (\<lambda>x_Ref.
     rbind (get_field kvs ''url'' dec_str '''') (\<lambda>x_URL.
     rbind (get_field kvs ''required'' dec_bool False) (\<lambda>x_Required.
     Inr \<lparr>repo_Name = x_Name, repo_Target = x_Target, repo_Branch = x_Branch, repo_Ref = x_Ref,
       repo_URL = x_URL, repo_Required = x_Required\<rparr>))))))) zero_repo v"

definition zero_gitIdentity :: GitIdentity where
  "zero_gitIdentity = \<lparr>gi_Name = '''', gi_Email = ''''\<rparr>"

definition enc_gitIdentity :: "GitIdentity \<Rightarrow> json" where
  "enc_gitIdentity x = JsObj (concat [
     fld ''name'' (JsStr (gi_Name x)),
     fld ''email'' (JsStr (gi_Email x))])"

definition dec_gitIdentity :: "json \<Rightarrow> GitIdentity result" where
  "dec_gitIdentity v = dec_obj (\<lambda>kvs.
     rbind (get_field kvs ''name'' dec_str '''') (\<lambda>x_Name.
     rbind (get_field kvs ''email'' dec_str '''') (\<lambda>x_Email.
     Inr \<lparr>gi_Name = x_Name, gi_Email = x_Email\<rparr>))) zero_gitIdentity v"

definition zero_git :: ContainerGit where
  "zero_git = \<lparr>git_Author = None, git_Committer = None, git_SigningKey = '''', git_Sign = None,
    git_AllowedSigners = ''''\<rparr>"

definition enc_git :: "ContainerGit \<Rightarrow> json" where
  "enc_git x = JsObj (concat [
     opt ''author'' (git_Author x = None) (enc_ptr enc_gitIdentity (git_Author x)),
     opt ''committer'' (git_Committer x = None) (enc_ptr enc_gitIdentity (git_Committer x)),
     opt ''signingKey'' (git_SigningKey x = '''') (JsStr (git_SigningKey x)),
     opt ''sign'' (elems (git_Sign x) = []) (enc_slice JsStr (git_Sign x)),
     opt ''allowedSigners'' (git_AllowedSigners x = '''') (JsStr (git_AllowedSigners x))])"

definition dec_git :: "json \<Rightarrow> ContainerGit result" where
  "dec_git v = dec_obj (\<lambda>kvs.
     rbind (get_field kvs ''author'' (dec_ptr dec_gitIdentity) None) (\<lambda>x_Author.
     rbind (get_field kvs ''committer'' (dec_ptr dec_gitIdentity) None) (\<lambda>x_Committer.
     rbind (get_field kvs ''signingKey'' dec_str '''') (\<lambda>x_SigningKey.
     rbind (get_field kvs ''sign'' (dec_slice dec_str) None) (\<lambda>x_Sign.
     rbind (get_field kvs ''allowedSigners'' dec_str '''') (\<lambda>x_AllowedSigners.
     Inr \<lparr>git_Author = x_Author, git_Committer = x_Committer, git_SigningKey = x_SigningKey,
       git_Sign = x_Sign, git_AllowedSigners = x_AllowedSigners\<rparr>)))))) zero_git v"

definition zero_stage :: TtyStage where
  "zero_stage = \<lparr>ts_Script = '''', ts_RunOn = ''''\<rparr>"

definition enc_stage :: "TtyStage \<Rightarrow> json" where
  "enc_stage x = JsObj (concat [
     opt ''script'' (ts_Script x = '''') (JsStr (ts_Script x)),
     opt ''runOn'' (ts_RunOn x = '''') (JsStr (ts_RunOn x))])"

definition dec_stage :: "json \<Rightarrow> TtyStage result" where
  "dec_stage v = dec_obj (\<lambda>kvs.
     rbind (get_field kvs ''script'' dec_str '''') (\<lambda>x_Script.
     rbind (get_field kvs ''runOn'' dec_str '''') (\<lambda>x_RunOn.
     Inr \<lparr>ts_Script = x_Script, ts_RunOn = x_RunOn\<rparr>))) zero_stage v"

definition zero_tty :: ContainerTty where
  "zero_tty = \<lparr>tty_Prompt = '''', tty_OnInit = None, tty_LogFile = '''', tty_LogLevel = ''''\<rparr>"

definition enc_tty :: "ContainerTty \<Rightarrow> json" where
  "enc_tty x = JsObj (concat [
     opt ''prompt'' (tty_Prompt x = '''') (JsStr (tty_Prompt x)),
     opt ''onInit'' (elems (tty_OnInit x) = []) (enc_slice enc_stage (tty_OnInit x)),
     opt ''logFile'' (tty_LogFile x = '''') (JsStr (tty_LogFile x)),
     opt ''logLevel'' (tty_LogLevel x = '''') (JsStr (tty_LogLevel x))])"

definition dec_tty :: "json \<Rightarrow> ContainerTty result" where
  "dec_tty v = dec_obj (\<lambda>kvs.
     rbind (get_field kvs ''prompt'' dec_str '''') (\<lambda>x_Prompt.
     rbind (get_field kvs ''onInit'' (dec_slice dec_stage) None) (\<lambda>x_OnInit.
     rbind (get_field kvs ''logFile'' dec_str '''') (\<lambda>x_LogFile.
     rbind (get_field kvs ''logLevel'' dec_str '''') (\<lambda>x_LogLevel.
     Inr \<lparr>tty_Prompt = x_Prompt, tty_OnInit = x_OnInit, tty_LogFile = x_LogFile,
       tty_LogLevel = x_LogLevel\<rparr>))))) zero_tty v"

definition zero_credentials :: RegistryCredentials where
  "zero_credentials = \<lparr>rc_Username = '''', rc_Password = '''', rc_ServerAddress = ''''\<rparr>"

definition enc_credentials :: "RegistryCredentials \<Rightarrow> json" where
  "enc_credentials x = JsObj (concat [
     fld ''username'' (JsStr (rc_Username x)),
     fld ''password'' (JsStr (rc_Password x)),
     opt ''serverAddress'' (rc_ServerAddress x = '''') (JsStr (rc_ServerAddress x))])"

definition dec_credentials :: "json \<Rightarrow> RegistryCredentials result" where
  "dec_credentials v = dec_obj (\<lambda>kvs.
     rbind (get_field kvs ''username'' dec_str '''') (\<lambda>x_Username.
     rbind (get_field kvs ''password'' dec_str '''') (\<lambda>x_Password.
     rbind (get_field kvs ''serverAddress'' dec_str '''') (\<lambda>x_ServerAddress.
     Inr \<lparr>rc_Username = x_Username, rc_Password = x_Password,
       rc_ServerAddress = x_ServerAddress\<rparr>)))) zero_credentials v"

definition zero_rule :: EgressAllowRule where
  "zero_rule = \<lparr>ear_Host = '''', ear_CIDR = '''', ear_Ports = None\<rparr>"

definition enc_rule :: "EgressAllowRule \<Rightarrow> json" where
  "enc_rule x = JsObj (concat [
     opt ''host'' (ear_Host x = '''') (JsStr (ear_Host x)),
     opt ''cidr'' (ear_CIDR x = '''') (JsStr (ear_CIDR x)),
     opt ''ports'' (elems (ear_Ports x) = []) (enc_slice JsNum (ear_Ports x))])"

definition dec_rule :: "json \<Rightarrow> EgressAllowRule result" where
  "dec_rule v = dec_obj (\<lambda>kvs.
     rbind (get_field kvs ''host'' dec_str '''') (\<lambda>x_Host.
     rbind (get_field kvs ''cidr'' dec_str '''') (\<lambda>x_CIDR.
     rbind (get_field kvs ''ports'' (dec_slice dec_int) None) (\<lambda>x_Ports.
     Inr \<lparr>ear_Host = x_Host, ear_CIDR = x_CIDR, ear_Ports = x_Ports\<rparr>)))) zero_rule v"

definition zero_egress :: EgressPolicy where
  "zero_egress = \<lparr>ep_Default = '''', ep_Allow = None\<rparr>"

definition enc_egress :: "EgressPolicy \<Rightarrow> json" where
  "enc_egress x = JsObj (concat [
     fld ''default'' (JsStr (ep_Default x)),
     opt ''allow'' (elems (ep_Allow x) = []) (enc_slice enc_rule (ep_Allow x))])"

definition dec_egress :: "json \<Rightarrow> EgressPolicy result" where
  "dec_egress v = dec_obj (\<lambda>kvs.
     rbind (get_field kvs ''default'' dec_str '''') (\<lambda>x_Default.
     rbind (get_field kvs ''allow'' (dec_slice dec_rule) None) (\<lambda>x_Allow.
     Inr \<lparr>ep_Default = x_Default, ep_Allow = x_Allow\<rparr>))) zero_egress v"

definition zero_network :: SpaceNetwork where
  "zero_network = \<lparr>sn_Egress = None\<rparr>"

definition enc_network :: "SpaceNetwork \<Rightarrow> json" where
  "enc_network x = JsObj (concat [
     opt ''egress'' (sn_Egress x = None) (enc_ptr enc_egress (sn_Egress x))])"

definition dec_network :: "json \<Rightarrow> SpaceNetwork result" where
  "dec_network v = dec_obj (\<lambda>kvs.
     rbind (get_field kvs ''egress'' (dec_ptr dec_egress) None) (\<lambda>x_Egress.
     Inr \<lparr>sn_Egress = x_Egress\<rparr>)) zero_network v"

definition zero_containerDefaults :: SpaceContainerDefaults where
  "zero_containerDefaults = \<lparr>scd_User = '''', scd_ReadOnlyRootFilesystem = None,
    scd_Capabilities = None, scd_SecurityOpts = None, scd_Tmpfs = None, scd_Resources = None\<rparr>"

definition enc_containerDefaults :: "SpaceContainerDefaults \<Rightarrow> json" where
  "enc_containerDefaults x = JsObj (concat [
     opt ''user'' (scd_User x = '''') (JsStr (scd_User x)),
     opt ''readOnlyRootFilesystem'' (scd_ReadOnlyRootFilesystem x = None)
       (enc_ptr JsBool (scd_ReadOnlyRootFilesystem x)),
     opt ''capabilities'' (scd_Capabilities x = None) (enc_ptr enc_cap (scd_Capabilities x)),
     opt ''securityOpts'' (elems (scd_SecurityOpts x) = []) (enc_slice JsStr (scd_SecurityOpts x)),
     opt ''tmpfs'' (elems (scd_Tmpfs x) = []) (enc_slice enc_tmpfs (scd_Tmpfs x)),
     opt ''resources'' (scd_Resources x = None) (enc_ptr enc_resources (scd_Resources x))])"

definition dec_containerDefaults :: "json \<Rightarrow> SpaceContainerDefaults result" where
  "dec_containerDefaults v = dec_obj (\<lambda>kvs.
     rbind (get_field kvs ''user'' dec_str '''') (\<lambda>x_User.
     rbind (get_field kvs ''readOnlyRootFilesystem'' (dec_ptr dec_bool) None) (\<lambda>x_ReadOnlyRootFilesystem.
     rbind (get_field kvs ''capabilities'' (dec_ptr dec_cap) None) (\<lambda>x_Capabilities.
     rbind (get_field kvs ''securityOpts'' (dec_slice dec_str) None) (\<lambda>x_SecurityOpts.
     rbind (get_field kvs ''tmpfs'' (dec_slice dec_tmpfs) None) (\<lambda>x_Tmpfs.
     rbind (get_field kvs ''resources'' (dec_ptr dec_resources) None) (\<lambda>x_Resources.
     Inr \<lparr>scd_User = x_User, scd_ReadOnlyRootFilesystem = x_ReadOnlyRootFilesystem,
       scd_Capabilities = x_Capabilities, scd_SecurityOpts = x_SecurityOpts, scd_Tmpfs = x_Tmpfs,
       scd_Resources = x_Resources\<rparr>))))))) zero_containerDefaults v"

definition zero_defaults :: SpaceDefaults where
  "zero_defaults = \<lparr>sd_Container = None\<rparr>"

definition enc_defaults :: "SpaceDefaults \<Rightarrow> json" where
  "enc_defaults x = JsObj (concat [
     opt ''container'' (sd_Container x = None) (enc_ptr enc_containerDefaults (sd_Container x))])"

definition dec_defaults :: "json \<Rightarrow> SpaceDefaults result" where
  "dec_defaults v = dec_obj (\<lambda>kvs.
     rbind (get_field kvs ''container'' (dec_ptr dec_containerDefaults) None) (\<lambda>x_Container.
     Inr \<lparr>sd_Container = x_Container\<rparr>)) zero_defaults v"

definition zero_cellTty :: CellTty where
  "zero_cellTty = \<lparr>ct_Default = ''''\<rparr>"

definition enc_cellTty :: "CellTty \<Rightarrow> json" where
  "enc_cellTty x = JsObj (concat [
     opt ''default'' (ct_Default x = '''') (JsStr (ct_Default x))])"

definition dec_cellTty :: "json \<Rightarrow> CellTty result" where
  "dec_cellTty v = dec_obj (\<lambda>kvs.
     rbind (get_field kvs ''default'' dec_str '''') (\<lambda>x_Default.
     Inr \<lparr>ct_Default = x_Default\<rparr>)) zero_cellTty v"

definition zero_bindingRef :: CellBindingRef where
  "zero_bindingRef = \<lparr>cbr_Name = '''', cbr_Realm = '''', cbr_Space = '''', cbr_Stack = ''''\<rparr>"

definition enc_bindingRef :: "CellBindingRef \<Rightarrow> json" where
  "enc_bindingRef x = JsObj (concat [
     fld ''name'' (JsStr (cbr_Name x)),
     fld ''realm'' (JsStr (cbr_Realm x)),
     opt ''space'' (cbr_Space x = '''') (JsStr (cbr_Space x)),
     opt ''stack'' (cbr_Stack x = '''') (JsStr (cbr_Stack x))])"

definition dec_bindingRef :: "json \<Rightarrow> CellBindingRef result" where
  "dec_bindingRef v = dec_obj (\<lambda>kvs.
     rbind (get_field kvs ''name'' dec_str '''') (\<lambda>x_Name.
     rbind (get_field kvs ''realm'' dec_str '''') (\<lambda>x_Realm.
     rbind (get_field kvs ''space'' dec_str '''') (\<lambda>x_Space.
     rbind (get_field kvs ''stack'' dec_str '''') (\<lambda>x_Stack.
     Inr \<lparr>cbr_Name = x_Name, cbr_Realm = x_Realm, cbr_Space = x_Space,
       cbr_Stack = x_Stack\<rparr>))))) zero_bindingRef v"

definition zero_cellNetwork :: CellNetworkStatus where
  "zero_cellNetwork = \<lparr>cn_BridgeName = ''''\<rparr>"

definition enc_cellNetwork :: "CellNetworkStatus \<Rightarrow> json" where
  "enc_cellNetwork x = JsObj (concat [
     opt ''bridgeName'' (cn_BridgeName x = '''') (JsStr (cn_BridgeName x))])"

definition dec_cellNetwork :: "json \<Rightarrow> CellNetworkStatus result" where
  "dec_cellNetwork v = dec_obj (\<lambda>kvs.
     rbind (get_field kvs ''bridgeName'' dec_str '''') (\<lambda>x_BridgeName.
     Inr \<lparr>cn_BridgeName = x_BridgeName\<rparr>)) zero_cellNetwork v"

definition zero_volumeRef :: VolumeRef where
  "zero_volumeRef = \<lparr>vr_Name = '''', vr_Realm = '''', vr_Space = '''', vr_Stack = ''''\<rparr>"

definition enc_volumeRef :: "VolumeRef \<Rightarrow> json" where
  "enc_volumeRef x = JsObj (concat [
     fld ''name'' (JsStr (vr_Name x)),
     fld ''realm'' (JsStr (vr_Realm x)),
     opt ''space'' (vr_Space x = '''') (JsStr (vr_Space x)),
     opt ''stack'' (vr_Stack x = '''') (JsStr (vr_Stack x))])"

definition dec_volumeRef :: "json \<Rightarrow> VolumeRef result" where
  "dec_volumeRef v = dec_obj (\<lambda>kvs.
     rbind (get_field kvs ''name'' dec_str '''') (\<lambda>x_Name.
     rbind (get_field kvs ''realm'' dec_str '''') (\<lambda>x_Realm.
     rbind (get_field kvs ''space'' dec_str '''') (\<lambda>x_Space.
     rbind (get_field kvs ''stack'' dec_str '''') (\<lambda>x_Stack.
     Inr \<lparr>vr_Name = x_Name, vr_Realm = x_Realm, vr_Space = x_Space,
       vr_Stack = x_Stack\<rparr>))))) zero_volumeRef v"

definition zero_provenance :: CellProvenance where
  "zero_provenance = \<lparr>cp_BindingKind = '''', cp_BindingRef = zero_bindingRef, cp_Params = None,
    cp_EnvOverrides = None\<rparr>"

definition enc_provenance :: "CellProvenance \<Rightarrow> json" where
  "enc_provenance x = JsObj (concat [
     fld ''bindingKind'' (JsStr (cp_BindingKind x)),
     fld ''bindingRef'' (enc_bindingRef (cp_BindingRef x)),
     opt ''params'' (case cp_Params x of None \<Rightarrow> True | Some m \<Rightarrow> m = [])
       (enc_ptr enc_map (cp_Params x)),
     opt ''envOverrides'' (elems (cp_EnvOverrides x) = []) (enc_slice JsStr (cp_EnvOverrides x))])"

definition dec_provenance :: "json \<Rightarrow> CellProvenance result" where
  "dec_provenance v = dec_obj (\<lambda>kvs.
     rbind (get_field kvs ''bindingKind'' dec_str '''') (\<lambda>x_BindingKind.
     rbind (get_field kvs ''bindingRef'' dec_bindingRef zero_bindingRef) (\<lambda>x_BindingRef.
     rbind (get_field kvs ''params'' (dec_ptr dec_map) None) (\<lambda>x_Params.
     rbind (get_field kvs ''envOverrides'' (dec_slice dec_str) None) (\<lambda>x_EnvOverrides.
     Inr \<lparr>cp_BindingKind = x_BindingKind, cp_BindingRef = x_BindingRef, cp_Params = x_Params,
       cp_EnvOverrides = x_EnvOverrides\<rparr>))))) zero_provenance v"

definition zero_realmMetadata :: RealmMetadata where
  "zero_realmMetadata = \<lparr>reM_Name = '''', reM_Labels = [], reM_Generation = 0\<rparr>"

definition enc_realmMetadata :: "RealmMetadata \<Rightarrow> json" where
  "enc_realmMetadata x = JsObj (concat [
     fld ''name'' (JsStr (reM_Name x)),
     fld ''labels'' (enc_map (reM_Labels x)),
     opt ''generation'' (reM_Generation x = 0) (JsNum (reM_Generation x))])"

definition dec_realmMetadata :: "json \<Rightarrow> RealmMetadata result" where
  "dec_realmMetadata v = dec_obj (\<lambda>kvs.
     rbind (get_field kvs ''name'' dec_str '''') (\<lambda>x_Name.
     rbind (get_field kvs ''labels'' dec_map []) (\<lambda>x_Labels.
     rbind (get_field kvs ''generation'' dec_int 0) (\<lambda>x_Generation.
     Inr \<lparr>reM_Name = x_Name, reM_Labels = x_Labels,
       reM_Generation = x_Generation\<rparr>)))) zero_realmMetadata v"

definition zero_realmSpec :: RealmSpec where
  "zero_realmSpec = \<lparr>reS_Namespace = '''', reS_RegistryCredentials = None\<rparr>"

definition enc_realmSpec :: "RealmSpec \<Rightarrow> json" where
  "enc_realmSpec x = JsObj (concat [
     fld ''namespace'' (JsStr (reS_Namespace x)),
     opt ''registryCredentials'' (elems (reS_RegistryCredentials x) = [])
       (enc_slice enc_credentials (reS_RegistryCredentials x))])"

definition dec_realmSpec :: "json \<Rightarrow> RealmSpec result" where
  "dec_realmSpec v = dec_obj (\<lambda>kvs.
     rbind (get_field kvs ''namespace'' dec_str '''') (\<lambda>x_Namespace.
     rbind (get_field kvs ''registryCredentials'' (dec_slice dec_credentials) None) (\<lambda>x_RegistryCredentials.
     Inr \<lparr>reS_Namespace = x_Namespace,
       reS_RegistryCredentials = x_RegistryCredentials\<rparr>))) zero_realmSpec v"

definition zero_realmStatus :: RealmStatus where
  "zero_realmStatus = \<lparr>reT_State = zero_realmState, reT_CgroupPath = '''',
    reT_SubtreeControllers = None, reT_CreatedAt = 0, reT_UpdatedAt = 0, reT_ReadyAt = 0, reT_Reason = '''',
    reT_Message = '''', reT_CgroupReady = False, reT_ContainerdNamespaceReady = False,
    reT_ObservedGeneration = 0\<rparr>"

definition enc_realmStatus :: "RealmStatus \<Rightarrow> json" where
  "enc_realmStatus x = JsObj (concat [
     fld ''state'' (enc_realmState (reT_State x)),
     opt ''cgroupPath'' (reT_CgroupPath x = '''') (JsStr (reT_CgroupPath x)),
     opt ''subtreeControllers'' (elems (reT_SubtreeControllers x) = [])
       (enc_slice JsStr (reT_SubtreeControllers x)),
     fld ''createdAt'' (JsTime (reT_CreatedAt x)),
     fld ''updatedAt'' (JsTime (reT_UpdatedAt x)),
     fld ''readyAt'' (JsTime (reT_ReadyAt x)),
     opt ''reason'' (reT_Reason x = '''') (JsStr (reT_Reason x)),
     opt ''message'' (reT_Message x = '''') (JsStr (reT_Message x)),
     opt ''cgroupReady'' (\<not> reT_CgroupReady x) (JsBool (reT_CgroupReady x)),
     opt ''containerdNamespaceReady'' (\<not> reT_ContainerdNamespaceReady x)
       (JsBool (reT_ContainerdNamespaceReady x)),
     opt ''observedGeneration'' (reT_ObservedGeneration x = 0) (JsNum (reT_ObservedGeneration x))])"

definition dec_realmStatus :: "json \<Rightarrow> RealmStatus result" where
  "dec_realmStatus v = dec_obj (\<lambda>kvs.
     rbind (get_field kvs ''state'' dec_realmState zero_realmState) (\<lambda>x_State.
     rbind (get_field kvs ''cgroupPath'' dec_str '''') (\<lambda>x_CgroupPath.
     rbind (get_field kvs ''subtreeControllers'' (dec_slice dec_str) None) (\<lambda>x_SubtreeControllers.
     rbind (get_field kvs ''createdAt'' dec_time 0) (\<lambda>x_CreatedAt.
     rbind (get_field kvs ''updatedAt'' dec_time 0) (\<lambda>x_UpdatedAt.
     rbind (get_field kvs ''readyAt'' dec_time 0) (\<lambda>x_ReadyAt.
     rbind (get_field kvs ''reason'' dec_str '''') (\<lambda>x_Reason.
     rbind (get_field kvs ''message'' dec_str '''') (\<lambda>x_Message.
     rbind (get_field kvs ''cgroupReady'' dec_bool False) (\<lambda>x_CgroupReady.
     rbind (get_field kvs ''containerdNamespaceReady'' dec_bool False) (\<lambda>x_ContainerdNamespaceReady.
     rbind (get_field kvs ''observedGeneration'' dec_int 0) (\<lambda>x_ObservedGeneration.
     Inr \<lparr>reT_State = x_State, reT_CgroupPath = x_CgroupPath,
       reT_SubtreeControllers = x_SubtreeControllers, reT_CreatedAt = x_CreatedAt,
       reT_UpdatedAt = x_UpdatedAt, reT_ReadyAt = x_ReadyAt, reT_Reason = x_Reason, reT_Message = x_Message,
       reT_CgroupReady = x_CgroupReady, reT_ContainerdNamespaceReady = x_ContainerdNamespaceReady,
       reT_ObservedGeneration = x_ObservedGeneration\<rparr>)))))))))))) zero_realmStatus v"

definition zero_spaceMetadata :: SpaceMetadata where
  "zero_spaceMetadata = \<lparr>spM_Name = '''', spM_Labels = [], spM_Generation = 0\<rparr>"

definition enc_spaceMetadata :: "SpaceMetadata \<Rightarrow> json" where
  "enc_spaceMetadata x = JsObj (concat [
     fld ''name'' (JsStr (spM_Name x)),
     fld ''labels'' (enc_map (spM_Labels x)),
     opt ''generation'' (spM_Generation x = 0) (JsNum (spM_Generation x))])"

definition dec_spaceMetadata :: "json \<Rightarrow> SpaceMetadata result" where
  "dec_spaceMetadata v = dec_obj (\<lambda>kvs.
     rbind (get_field kvs ''name'' dec_str '''') (\<lambda>x_Name.
     rbind (get_field kvs ''labels'' dec_map []) (\<lambda>x_Labels.
     rbind (get_field kvs ''generation'' dec_int 0) (\<lambda>x_Generation.
     Inr \<lparr>spM_Name = x_Name, spM_Labels = x_Labels,
       spM_Generation = x_Generation\<rparr>)))) zero_spaceMetadata v"

definition zero_spaceSpec :: extSpaceSpec where
  "zero_spaceSpec = \<lparr>xspS_RealmID = '''', xspS_CNIConfigPath = '''', xspS_Network = None,
    xspS_Defaults = None\<rparr>"

definition enc_spaceSpec :: "extSpaceSpec \<Rightarrow> json" where
  "enc_spaceSpec x = JsObj (concat [
     fld ''realmId'' (JsStr (xspS_RealmID x)),
     opt ''cniConfigPath'' (xspS_CNIConfigPath x = '''') (JsStr (xspS_CNIConfigPath x)),
     opt ''network'' (xspS_Network x = None) (enc_ptr enc_network (xspS_Network x)),
     opt ''defaults'' (xspS_Defaults x = None) (enc_ptr enc_defaults (xspS_Defaults x))])"

definition dec_spaceSpec :: "json \<Rightarrow> extSpaceSpec result" where
  "dec_spaceSpec v = dec_obj (\<lambda>kvs.
     rbind (get_field kvs ''realmId'' dec_str '''') (\<lambda>x_RealmID.
     rbind (get_field kvs ''cniConfigPath'' dec_str '''') (\<lambda>x_CNIConfigPath.
     rbind (get_field kvs ''network'' (dec_ptr dec_network) None) (\<lambda>x_Network.
     rbind (get_field kvs ''defaults'' (dec_ptr dec_defaults) None) (\<lambda>x_Defaults.
     Inr \<lparr>xspS_RealmID = x_RealmID, xspS_CNIConfigPath = x_CNIConfigPath, xspS_Network = x_Network,
       xspS_Defaults = x_Defaults\<rparr>))))) zero_spaceSpec v"

definition zero_spaceStatus :: extSpaceStatus where
  "zero_spaceStatus = \<lparr>xspT_State = zero_spaceState, xspT_CgroupPath = '''',
    xspT_SubtreeControllers = None, xspT_CreatedAt = 0, xspT_UpdatedAt = 0, xspT_ReadyAt = 0,
    xspT_Reason = '''', xspT_Message = '''', xspT_CgroupReady = False, xspT_ObservedGeneration = 0\<rparr>"

definition enc_spaceStatus :: "extSpaceStatus \<Rightarrow> json" where
  "enc_spaceStatus x = JsObj (concat [
     fld ''state'' (enc_spaceState (xspT_State x)),
     opt ''cgroupPath'' (xspT_CgroupPath x = '''') (JsStr (xspT_CgroupPath x)),
     opt ''subtreeControllers'' (elems (xspT_SubtreeControllers x) = [])
       (enc_slice JsStr (xspT_SubtreeControllers x)),
     fld ''createdAt'' (JsTime (xspT_CreatedAt x)),
     fld ''updatedAt'' (JsTime (xspT_UpdatedAt x)),
     fld ''readyAt'' (JsTime (xspT_ReadyAt x)),
     opt ''reason'' (xspT_Reason x = '''') (JsStr (xspT_Reason x)),
     opt ''message'' (xspT_Message x = '''') (JsStr (xspT_Message x)),
     opt ''cgroupReady'' (\<not> xspT_CgroupReady x) (JsBool (xspT_CgroupReady x)),
     opt ''observedGeneration'' (xspT_ObservedGeneration x = 0) (JsNum (xspT_ObservedGeneration x))])"

definition dec_spaceStatus :: "json \<Rightarrow> extSpaceStatus result" where
  "dec_spaceStatus v = dec_obj (\<lambda>kvs.
     rbind (get_field kvs ''state'' dec_spaceState zero_spaceState) (\<lambda>x_State.
     rbind (get_field kvs ''cgroupPath'' dec_str '''') (\<lambda>x_CgroupPath.
     rbind (get_field kvs ''subtreeControllers'' (dec_slice dec_str) None) (\<lambda>x_SubtreeControllers.
     rbind (get_field kvs ''createdAt'' dec_time 0) (\<lambda>x_CreatedAt.
     rbind (get_field kvs ''updatedAt'' dec_time 0) (\<lambda>x_UpdatedAt.
     rbind (get_field kvs ''readyAt'' dec_time 0) (\<lambda>x_ReadyAt.
     rbind (get_field kvs ''reason'' dec_str '''') (\<lambda>x_Reason.
     rbind (get_field kvs ''message'' dec_str '''') (\<lambda>x_Message.
     rbind (get_field kvs ''cgroupReady'' dec_bool False) (\<lambda>x_CgroupReady.
     rbind (get_field kvs ''observedGeneration'' dec_int 0) (\<lambda>x_ObservedGeneration.
     Inr \<lparr>xspT_State = x_State, xspT_CgroupPath = x_CgroupPath,
       xspT_SubtreeControllers = x_SubtreeControllers, xspT_CreatedAt = x_CreatedAt,
       xspT_UpdatedAt = x_UpdatedAt, xspT_ReadyAt = x_ReadyAt, xspT_Reason = x_Reason,
       xspT_Message = x_Message, xspT_CgroupReady = x_CgroupReady,
       xspT_ObservedGeneration = x_ObservedGeneration\<rparr>))))))))))) zero_spaceStatus v"

definition zero_stackMetadata :: StackMetadata where
  "zero_stackMetadata = \<lparr>skM_Name = '''', skM_Labels = [], skM_Generation = 0\<rparr>"

definition enc_stackMetadata :: "StackMetadata \<Rightarrow> json" where
  "enc_stackMetadata x = JsObj (concat [
     fld ''name'' (JsStr (skM_Name x)),
     fld ''labels'' (enc_map (skM_Labels x)),
     opt ''generation'' (skM_Generation x = 0) (JsNum (skM_Generation x))])"

definition dec_stackMetadata :: "json \<Rightarrow> StackMetadata result" where
  "dec_stackMetadata v = dec_obj (\<lambda>kvs.
     rbind (get_field kvs ''name'' dec_str '''') (\<lambda>x_Name.
     rbind (get_field kvs ''labels'' dec_map []) (\<lambda>x_Labels.
     rbind (get_field kvs ''generation'' dec_int 0) (\<lambda>x_Generation.
     Inr \<lparr>skM_Name = x_Name, skM_Labels = x_Labels,
       skM_Generation = x_Generation\<rparr>)))) zero_stackMetadata v"

definition zero_stackSpec :: extStackSpec where
  "zero_stackSpec = \<lparr>xskS_ID = '''', xskS_RealmID = '''', xskS_SpaceID = ''''\<rparr>"

definition enc_stackSpec :: "extStackSpec \<Rightarrow> json" where
  "enc_stackSpec x = JsObj (concat [
     fld ''id'' (JsStr (xskS_ID x)),
     fld ''realmId'' (JsStr (xskS_RealmID x)),
     fld ''spaceId'' (JsStr (xskS_SpaceID x))])"

definition dec_stackSpec :: "json \<Rightarrow> extStackSpec result" where
  "dec_stackSpec v = dec_obj (\<lambda>kvs.
     rbind (get_field kvs ''id'' dec_str '''') (\<lambda>x_ID.
     rbind (get_field kvs ''realmId'' dec_str '''') (\<lambda>x_RealmID.
     rbind (get_field kvs ''spaceId'' dec_str '''') (\<lambda>x_SpaceID.
     Inr \<lparr>xskS_ID = x_ID, xskS_RealmID = x_RealmID,
       xskS_SpaceID = x_SpaceID\<rparr>)))) zero_stackSpec v"

definition zero_stackStatus :: StackStatus where
  "zero_stackStatus = \<lparr>skT_State = zero_stackState, skT_CgroupPath = '''',
    skT_SubtreeControllers = None, skT_CreatedAt = 0, skT_UpdatedAt = 0, skT_ReadyAt = 0, skT_Reason = '''',
    skT_Message = '''', skT_CgroupReady = False, skT_ObservedGeneration = 0\<rparr>"

definition enc_stackStatus :: "StackStatus \<Rightarrow> json" where
  "enc_stackStatus x = JsObj (concat [
     fld ''state'' (enc_stackState (skT_State x)),
     fld ''cgroupPath'' (JsStr (skT_CgroupPath x)),
     opt ''subtreeControllers'' (elems (skT_SubtreeControllers x) = [])
       (enc_slice JsStr (skT_SubtreeControllers x)),
     fld ''createdAt'' (JsTime (skT_CreatedAt x)),
     fld ''updatedAt'' (JsTime (skT_UpdatedAt x)),
     fld ''readyAt'' (JsTime (skT_ReadyAt x)),
     opt ''reason'' (skT_Reason x = '''') (JsStr (skT_Reason x)),
     opt ''message'' (skT_Message x = '''') (JsStr (skT_Message x)),
     opt ''cgroupReady'' (\<not> skT_CgroupReady x) (JsBool (skT_CgroupReady x)),
     opt ''observedGeneration'' (skT_ObservedGeneration x = 0) (JsNum (skT_ObservedGeneration x))])"

definition dec_stackStatus :: "json \<Rightarrow> StackStatus result" where
  "dec_stackStatus v = dec_obj (\<lambda>kvs.
     rbind (get_field kvs ''state'' dec_stackState zero_stackState) (\<lambda>x_State.
     rbind (get_field kvs ''cgroupPath'' dec_str '''') (\<lambda>x_CgroupPath.
     rbind (get_field kvs ''subtreeControllers'' (dec_slice dec_str) None) (\<lambda>x_SubtreeControllers.
     rbind (get_field kvs ''createdAt'' dec_time 0) (\<lambda>x_CreatedAt.
     rbind (get_field kvs ''updatedAt'' dec_time 0) (\<lambda>x_UpdatedAt.
     rbind (get_field kvs ''readyAt'' dec_time 0) (\<lambda>x_ReadyAt.
     rbind (get_field kvs ''reason'' dec_str '''') (\<lambda>x_Reason.
     rbind (get_field kvs ''message'' dec_str '''') (\<lambda>x_Message.
     rbind (get_field kvs ''cgroupReady'' dec_bool False) (\<lambda>x_CgroupReady.
     rbind (get_field kvs ''observedGeneration'' dec_int 0) (\<lambda>x_ObservedGeneration.
     Inr \<lparr>skT_State = x_State, skT_CgroupPath = x_CgroupPath,
       skT_SubtreeControllers = x_SubtreeControllers, skT_CreatedAt = x_CreatedAt,
       skT_UpdatedAt = x_UpdatedAt, skT_ReadyAt = x_ReadyAt, skT_Reason = x_Reason, skT_Message = x_Message,
       skT_CgroupReady = x_CgroupReady,
       skT_ObservedGeneration = x_ObservedGeneration\<rparr>))))))))))) zero_stackStatus v"

definition zero_cellMetadata :: CellMetadata where
  "zero_cellMetadata = \<lparr>ceM_Name = '''', ceM_Labels = [], ceM_Annotations = [],
    ceM_Generation = 0\<rparr>"

definition enc_cellMetadata :: "CellMetadata \<Rightarrow> json" where
  "enc_cellMetadata x = JsObj (concat [
     fld ''name'' (JsStr (ceM_Name x)),
     fld ''labels'' (enc_map (ceM_Labels x)),
     opt ''annotations'' (ceM_Annotations x = []) (enc_map (ceM_Annotations x)),
     opt ''generation'' (ceM_Generation x = 0) (JsNum (ceM_Generation x))])"

definition dec_cellMetadata :: "json \<Rightarrow> CellMetadata result" where
  "dec_cellMetadata v = dec_obj (\<lambda>kvs.
     rbind (get_field kvs ''name'' dec_str '''') (\<lambda>x_Name.
     rbind (get_field kvs ''labels'' dec_map []) (\<lambda>x_Labels.
     rbind (get_field kvs ''annotations'' dec_map []) (\<lambda>x_Annotations.
     rbind (get_field kvs ''generation'' dec_int 0) (\<lambda>x_Generation.
     Inr \<lparr>ceM_Name = x_Name, ceM_Labels = x_Labels, ceM_Annotations = x_Annotations,
       ceM_Generation = x_Generation\<rparr>))))) zero_cellMetadata v"

definition zero_repoStatus :: RepoStatus where
  "zero_repoStatus = \<lparr>rs_Name = '''', rs_Target = '''', rs_State = '''', rs_Commit = '''',
    rs_Error = ''''\<rparr>"

definition enc_repoStatus :: "RepoStatus \<Rightarrow> json" where
  "enc_repoStatus x = JsObj (concat [
     fld ''name'' (JsStr (rs_Name x)),
     fld ''target'' (JsStr (rs_Target x)),
     fld ''state'' (JsStr (rs_State x)),
     opt ''commit'' (rs_Commit x = '''') (JsStr (rs_Commit x)),
     opt ''error'' (rs_Error x = '''') (JsStr (rs_Error x))])"

definition dec_repoStatus :: "json \<Rightarrow> RepoStatus result" where
  "dec_repoStatus v = dec_obj (\<lambda>kvs.
     rbind (get_field kvs ''name'' dec_str '''') (\<lambda>x_Name.
     rbind (get_field kvs ''target'' dec_str '''') (\<lambda>x_Target.
     rbind (get_field kvs ''state'' dec_str '''') (\<lambda>x_State.
     rbind (get_field kvs ''commit'' dec_str '''') (\<lambda>x_Commit.
     rbind (get_field kvs ''error'' dec_str '''') (\<lambda>x_Error.
     Inr \<lparr>rs_Name = x_Name, rs_Target = x_Target, rs_State = x_State, rs_Commit = x_Commit,
       rs_Error = x_Error\<rparr>)))))) zero_repoStatus v"

definition zero_stageStatus :: StageStatus where
  "zero_stageStatus = \<lparr>ss_Index = 0, ss_State = '''', ss_Error = '''', ss_Hash = ''''\<rparr>"

definition enc_stageStatus :: "StageStatus \<Rightarrow> json" where
  "enc_stageStatus x = JsObj (concat [
     fld ''index'' (JsNum (ss_Index x)),
     fld ''state'' (JsStr (ss_State x)),
     opt ''error'' (ss_Error x = '''') (JsStr (ss_Error x)),
     opt ''hash'' (ss_Hash x = '''') (JsStr (ss_Hash x))])"

definition dec_stageStatus :: "json \<Rightarrow> StageStatus result" where
  "dec_stageStatus v = dec_obj (\<lambda>kvs.
     rbind (get_field kvs ''index'' dec_int 0) (\<lambda>x_Index.
     rbind (get_field kvs ''state'' dec_str '''') (\<lambda>x_State.
     rbind (get_field kvs ''error'' dec_str '''') (\<lambda>x_Error.
     rbind (get_field kvs ''hash'' dec_str '''') (\<lambda>x_Hash.
     Inr \<lparr>ss_Index = x_Index, ss_State = x_State, ss_Error = x_Error,
       ss_Hash = x_Hash\<rparr>))))) zero_stageStatus v"

definition zero_containerStatus :: ContainerStatus where
  "zero_containerStatus = \<lparr>st_Name = '''', st_ID = '''', st_CreatedAt = 0,
    st_State = zero_containerState, st_RestartCount = 0, st_RestartTime = 0, st_StartTime = 0,
    st_FinishTime = 0, st_ExitCode = 0, st_ExitSignal = '''', st_Repos = None, st_Stages = None\<rparr>"

definition enc_containerStatus :: "ContainerStatus \<Rightarrow> json" where
  "enc_containerStatus x = JsObj (concat [
     fld ''name'' (JsStr (st_Name x)),
     fld ''id'' (JsStr (st_ID x)),
     fld ''state'' (enc_containerState (st_State x)),
     fld ''createdAt'' (JsTime (st_CreatedAt x)),
     fld ''restartCount'' (JsNum (st_RestartCount x)),
     fld ''restartTime'' (JsTime (st_RestartTime x)),
     fld ''startTime'' (JsTime (st_StartTime x)),
     fld ''finishTime'' (JsTime (st_FinishTime x)),
     fld ''exitCode'' (JsNum (st_ExitCode x)),
     fld ''exitSignal'' (JsStr (st_ExitSignal x)),
     opt ''repos'' (elems (st_Repos x) = []) (enc_slice enc_repoStatus (st_Repos x)),
     opt ''stages'' (elems (st_Stages x) = []) (enc_slice enc_stageStatus (st_Stages x))])"

definition dec_containerStatus :: "json \<Rightarrow> ContainerStatus result" where
  "dec_containerStatus v = dec_obj (\<lambda>kvs.
     rbind (get_field kvs ''name'' dec_str '''') (\<lambda>x_Name.
     rbind (get_field kvs ''id'' dec_str '''') (\<lambda>x_ID.
     rbind (get_field kvs ''state'' dec_containerState zero_containerState) (\<lambda>x_State.
     rbind (get_field kvs ''createdAt'' dec_time 0) (\<lambda>x_CreatedAt.
     rbind (get_field kvs ''restartCount'' dec_int 0) (\<lambda>x_RestartCount.
     rbind (get_field kvs ''restartTime'' dec_time 0) (\<lambda>x_RestartTime.
     rbind (get_field kvs ''startTime'' dec_time 0) (\<lambda>x_StartTime.
     rbind (get_field kvs ''finishTime'' dec_time 0) (\<lambda>x_FinishTime.
     rbind (get_field kvs ''exitCode'' dec_int 0) (\<lambda>x_ExitCode.
     rbind (get_field kvs ''exitSignal'' dec_str '''') (\<lambda>x_ExitSignal.
     rbind (get_field kvs ''repos'' (dec_slice dec_repoStatus) None) (\<lambda>x_Repos.
     rbind (get_field kvs ''stages'' (dec_slice dec_stageStatus) None) (\<lambda>x_Stages.
     Inr \<lparr>st_Name = x_Name, st_ID = x_ID, st_CreatedAt = x_CreatedAt, st_State = x_State,
       st_RestartCount = x_RestartCount, st_RestartTime = x_RestartTime, st_StartTime = x_StartTime,
       st_FinishTime = x_FinishTime, st_ExitCode = x_ExitCode, st_ExitSignal = x_ExitSignal,
       st_Repos = x_Repos, st_Stages = x_Stages\<rparr>))))))))))))) zero_containerStatus v"

definition zero_cellStatus :: CellStatus where
  "zero_cellStatus = \<lparr>ceT_State = zero_cellState, ceT_CgroupPath = '''', ceT_SubtreeControllers = None,
    ceT_Network = zero_cellNetwork, ceT_Containers = [], ceT_ReadyObserved = False, ceT_CreatedAt = 0,
    ceT_UpdatedAt = 0, ceT_ReadyAt = 0, ceT_Reason = '''', ceT_Message = Msg '''', ceT_CgroupReady = False,
    ceT_ObservedGeneration = 0, ceT_OutOfSync = False, ceT_OutOfSyncReason = '''',
    ceT_OutOfSyncError = ''''\<rparr>"

definition enc_cellStatus :: "CellStatus \<Rightarrow> json" where
  "enc_cellStatus x = JsObj (concat [
     fld ''state'' (enc_cellState (ceT_State x)),
     fld ''cgroupPath'' (JsStr (ceT_CgroupPath x)),
     opt ''subtreeControllers'' (elems (ceT_SubtreeControllers x) = [])
       (enc_slice JsStr (ceT_SubtreeControllers x)),
     fld ''network'' (enc_cellNetwork (ceT_Network x)),
     fld ''containers'' (JsArr (map enc_containerStatus (ceT_Containers x))),
     opt ''readyObserved'' (\<not> ceT_ReadyObserved x) (JsBool (ceT_ReadyObserved x)),
     fld ''createdAt'' (JsTime (ceT_CreatedAt x)),
     fld ''updatedAt'' (JsTime (ceT_UpdatedAt x)),
     fld ''readyAt'' (JsTime (ceT_ReadyAt x)),
     opt ''reason'' (ceT_Reason x = '''') (JsStr (ceT_Reason x)),
     opt ''message'' (ceT_Message x = Msg '''') (JsMsg (ceT_Message x)),
     opt ''cgroupReady'' (\<not> ceT_CgroupReady x) (JsBool (ceT_CgroupReady x)),
     opt ''observedGeneration'' (ceT_ObservedGeneration x = 0) (JsNum (ceT_ObservedGeneration x)),
     opt ''outOfSync'' (\<not> ceT_OutOfSync x) (JsBool (ceT_OutOfSync x)),
     opt ''outOfSyncReason'' (ceT_OutOfSyncReason x = '''') (JsStr (ceT_OutOfSyncReason x)),
     opt ''outOfSyncError'' (ceT_OutOfSyncError x = '''') (JsStr (ceT_OutOfSyncError x))])"

definition dec_cellStatus :: "json \<Rightarrow> CellStatus result" where
  "dec_cellStatus v = dec_obj (\<lambda>kvs.
     rbind (get_field kvs ''state'' dec_cellState zero_cellState) (\<lambda>x_State.
     rbind (get_field kvs ''cgroupPath'' dec_str '''') (\<lambda>x_CgroupPath.
     rbind (get_field kvs ''subtreeControllers'' (dec_slice dec_str) None) (\<lambda>x_SubtreeControllers.
     rbind (get_field kvs ''network'' dec_cellNetwork zero_cellNetwork) (\<lambda>x_Network.
     rbind (get_field kvs ''containers'' (dec_list dec_containerStatus) []) (\<lambda>x_Containers.
     rbind (get_field kvs ''readyObserved'' dec_bool False) (\<lambda>x_ReadyObserved.
     rbind (get_field kvs ''createdAt'' dec_time 0) (\<lambda>x_CreatedAt.
     rbind (get_field kvs ''updatedAt'' dec_time 0) (\<lambda>x_UpdatedAt.
     rbind (get_field kvs ''readyAt'' dec_time 0) (\<lambda>x_ReadyAt.
     rbind (get_field kvs ''reason'' dec_str '''') (\<lambda>x_Reason.
     rbind (get_field kvs ''message'' dec_msg (Msg '''')) (\<lambda>x_Message.
     rbind (get_field kvs ''cgroupReady'' dec_bool False) (\<lambda>x_CgroupReady.
     rbind (get_field kvs ''observedGeneration'' dec_int 0) (\<lambda>x_ObservedGeneration.
     rbind (get_field kvs ''outOfSync'' dec_bool False) (\<lambda>x_OutOfSync.
     rbind (get_field kvs ''outOfSyncReason'' dec_str '''') (\<lambda>x_OutOfSyncReason.
     rbind (get_field kvs ''outOfSyncError'' dec_str '''') (\<lambda>x_OutOfSyncError.
     Inr \<lparr>ceT_State = x_State, ceT_CgroupPath = x_CgroupPath,
       ceT_SubtreeControllers = x_SubtreeControllers, ceT_Network = x_Network, ceT_Containers = x_Containers,
       ceT_ReadyObserved = x_ReadyObserved, ceT_CreatedAt = x_CreatedAt, ceT_UpdatedAt = x_UpdatedAt,
       ceT_ReadyAt = x_ReadyAt, ceT_Reason = x_Reason, ceT_Message = x_Message,
       ceT_CgroupReady = x_CgroupReady, ceT_ObservedGeneration = x_ObservedGeneration,
       ceT_OutOfSync = x_OutOfSync, ceT_OutOfSyncReason = x_OutOfSyncReason,
       ceT_OutOfSyncError = x_OutOfSyncError\<rparr>))))))))))))))))) zero_cellStatus v"

text \<open>Decoding a volume reference allocates it.\<close>

definition dec_goptr :: "nat \<Rightarrow> json \<Rightarrow> VolumeRef goptr result" where
  "dec_goptr a v = rbind (dec_ptr dec_volumeRef v) (\<lambda>p. Inr (case p of None \<Rightarrow> NilPtr | Some r \<Rightarrow> Ptr a r))"

definition zero_mount :: VolumeMount where
  "zero_mount = \<lparr>vm_Kind = '''', vm_Source = '''', vm_Target = '''', vm_VolumeRef = NilPtr,
    vm_ReadOnly = False, vm_SizeBytes = 0, vm_Mode = 0, vm_Ensure = False\<rparr>"

definition enc_mount :: "VolumeMount \<Rightarrow> json" where
  "enc_mount x = JsObj (concat [
     opt ''kind'' (vm_Kind x = '''') (JsStr (vm_Kind x)),
     opt ''source'' (vm_Source x = '''') (JsStr (vm_Source x)),
     fld ''target'' (JsStr (vm_Target x)),
     opt ''volumeRef'' (ptr_val (vm_VolumeRef x) = None) (enc_ptr enc_volumeRef (ptr_val (vm_VolumeRef x))),
     opt ''readOnly'' (\<not> vm_ReadOnly x) (JsBool (vm_ReadOnly x)),
     opt ''sizeBytes'' (vm_SizeBytes x = 0) (JsNum (vm_SizeBytes x)),
     opt ''mode'' (vm_Mode x = 0) (JsNum (uint (vm_Mode x))),
     opt ''ensure'' (\<not> vm_Ensure x) (JsBool (vm_Ensure x))])"

definition dec_mount :: "nat \<Rightarrow> json \<Rightarrow> VolumeMount result" where
  "dec_mount a v = dec_obj (\<lambda>kvs.
     rbind (get_field kvs ''kind'' dec_str '''') (\<lambda>x_Kind.
     rbind (get_field kvs ''source'' dec_str '''') (\<lambda>x_Source.
     rbind (get_field kvs ''target'' dec_str '''') (\<lambda>x_Target.
     rbind (get_field kvs ''volumeRef'' (dec_goptr a) NilPtr) (\<lambda>x_VolumeRef.
     rbind (get_field kvs ''readOnly'' dec_bool False) (\<lambda>x_ReadOnly.
     rbind (get_field kvs ''sizeBytes'' dec_int 0) (\<lambda>x_SizeBytes.
     rbind (get_field kvs ''mode'' dec_u32 0) (\<lambda>x_Mode.
     rbind (get_field kvs ''ensure'' dec_bool False) (\<lambda>x_Ensure.
     Inr \<lparr>vm_Kind = x_Kind, vm_Source = x_Source, vm_Target = x_Target, vm_VolumeRef = x_VolumeRef,
       vm_ReadOnly = x_ReadOnly, vm_SizeBytes = x_SizeBytes, vm_Mode = x_Mode,
       vm_Ensure = x_Ensure\<rparr>))))))))) zero_mount v"

definition dec_mounts :: "(nat \<Rightarrow> nat) \<Rightarrow> json \<Rightarrow> VolumeMount slice result" where
  "dec_mounts al v = (case v of
       JsArr xs \<Rightarrow> rbind (dec_all (\<lambda>(i, x). dec_mount (al i) x) (enumerate 0 xs)) (\<lambda>ys. Inr (Some ys))
     | JsNull \<Rightarrow> Inr None | _ \<Rightarrow> Inl ErrDecode)"

definition zero_containerSpec :: extContainerSpec where
  "zero_containerSpec = \<lparr>xcs_ID = '''', xcs_ContainerdID = '''', xcs_RealmID = '''',
    xcs_SpaceID = '''', xcs_StackID = '''', xcs_CellID = '''', xcs_Root = False, xcs_Image = '''',
    xcs_Command = '''', xcs_Args = None, xcs_WorkingDir = '''', xcs_Env = None, xcs_Ports = None,
    xcs_Volumes = None, xcs_Networks = None, xcs_NetworksAliases = None, xcs_Privileged = False,
    xcs_HostNetwork = False, xcs_HostPID = False, xcs_HostCgroup = False, xcs_User = '''',
    xcs_ReadOnlyRootFilesystem = False, xcs_Capabilities = None, xcs_SecurityOpts = None, xcs_Devices = None,
    xcs_Tmpfs = None, xcs_Resources = None, xcs_Secrets = None, xcs_Repos = None, xcs_Git = None,
    xcs_CNIConfigPath = '''', xcs_RestartPolicy = '''', xcs_RestartBackoffSeconds = None,
    xcs_RestartMaxRetries = None, xcs_Attachable = False, xcs_Tty = None, xcs_KukeonGroupGID = 0\<rparr>"

definition enc_containerSpec :: "extContainerSpec \<Rightarrow> json" where
  "enc_containerSpec x = JsObj (concat [
     fld ''id'' (JsStr (xcs_ID x)),
     opt ''containerdId'' (xcs_ContainerdID x = '''') (JsStr (xcs_ContainerdID x)),
     fld ''realmId'' (JsStr (xcs_RealmID x)),
     fld ''spaceId'' (JsStr (xcs_SpaceID x)),
     fld ''stackId'' (JsStr (xcs_StackID x)),
     fld ''cellId'' (JsStr (xcs_CellID x)),
     opt ''root'' (\<not> xcs_Root x) (JsBool (xcs_Root x)),
     fld ''image'' (JsStr (xcs_Image x)),
     fld ''command'' (JsStr (xcs_Command x)),
     fld ''args'' (enc_slice JsStr (xcs_Args x)),
     opt ''workingDir'' (xcs_WorkingDir x = '''') (JsStr (xcs_WorkingDir x)),
     fld ''env'' (enc_slice JsStr (xcs_Env x)),
     fld ''ports'' (enc_slice JsStr (xcs_Ports x)),
     fld ''volumes'' (enc_slice enc_mount (xcs_Volumes x)),
     fld ''networks'' (enc_slice JsStr (xcs_Networks x)),
     fld ''networksAliases'' (enc_slice JsStr (xcs_NetworksAliases x)),
     fld ''privileged'' (JsBool (xcs_Privileged x)),
     opt ''hostNetwork'' (\<not> xcs_HostNetwork x) (JsBool (xcs_HostNetwork x)),
     opt ''hostPID'' (\<not> xcs_HostPID x) (JsBool (xcs_HostPID x)),
     opt ''hostCgroup'' (\<not> xcs_HostCgroup x) (JsBool (xcs_HostCgroup x)),
     opt ''user'' (xcs_User x = '''') (JsStr (xcs_User x)),
     opt ''readOnlyRootFilesystem'' (\<not> xcs_ReadOnlyRootFilesystem x)
       (JsBool (xcs_ReadOnlyRootFilesystem x)),
     opt ''capabilities'' (xcs_Capabilities x = None) (enc_ptr enc_cap (xcs_Capabilities x)),
     opt ''securityOpts'' (elems (xcs_SecurityOpts x) = []) (enc_slice JsStr (xcs_SecurityOpts x)),
     opt ''devices'' (elems (xcs_Devices x) = []) (enc_slice JsStr (xcs_Devices x)),
     opt ''tmpfs'' (elems (xcs_Tmpfs x) = []) (enc_slice enc_tmpfs (xcs_Tmpfs x)),
     opt ''resources'' (xcs_Resources x = None) (enc_ptr enc_resources (xcs_Resources x)),
     opt ''secrets'' (elems (xcs_Secrets x) = []) (enc_slice enc_secret (xcs_Secrets x)),
     opt ''repos'' (elems (xcs_Repos x) = []) (enc_slice enc_repo (xcs_Repos x)),
     opt ''git'' (xcs_Git x = None) (enc_ptr enc_git (xcs_Git x)),
     opt ''cniConfigPath'' (xcs_CNIConfigPath x = '''') (JsStr (xcs_CNIConfigPath x)),
     fld ''restartPolicy'' (JsStr (xcs_RestartPolicy x)),
     opt ''restartBackoffSeconds'' (xcs_RestartBackoffSeconds x = None)
       (enc_ptr JsNum (xcs_RestartBackoffSeconds x)),
     opt ''restartMaxRetries'' (xcs_RestartMaxRetries x = None) (enc_ptr JsNum (xcs_RestartMaxRetries x)),
     opt ''attachable'' (\<not> xcs_Attachable x) (JsBool (xcs_Attachable x)),
     opt ''tty'' (xcs_Tty x = None) (enc_ptr enc_tty (xcs_Tty x)),
     opt ''kukeonGroupGID'' (xcs_KukeonGroupGID x = 0) (JsNum (xcs_KukeonGroupGID x))])"

definition dec_containerSpec :: "(nat \<Rightarrow> nat) \<Rightarrow> json
  \<Rightarrow> extContainerSpec result" where
  "dec_containerSpec al v = dec_obj (\<lambda>kvs.
     rbind (get_field kvs ''id'' dec_str '''') (\<lambda>x_ID.
     rbind (get_field kvs ''containerdId'' dec_str '''') (\<lambda>x_ContainerdID.
     rbind (get_field kvs ''realmId'' dec_str '''') (\<lambda>x_RealmID.
     rbind (get_field kvs ''spaceId'' dec_str '''') (\<lambda>x_SpaceID.
     rbind (get_field kvs ''stackId'' dec_str '''') (\<lambda>x_StackID.
     rbind (get_field kvs ''cellId'' dec_str '''') (\<lambda>x_CellID.
     rbind (get_field kvs ''root'' dec_bool False) (\<lambda>x_Root.
     rbind (get_field kvs ''image'' dec_str '''') (\<lambda>x_Image.
     rbind (get_field kvs ''command'' dec_str '''') (\<lambda>x_Command.
     rbind (get_field kvs ''args'' (dec_slice dec_str) None) (\<lambda>x_Args.
     rbind (get_field kvs ''workingDir'' dec_str '''') (\<lambda>x_WorkingDir.
     rbind (get_field kvs ''env'' (dec_slice dec_str) None) (\<lambda>x_Env.
     rbind (get_field kvs ''ports'' (dec_slice dec_str) None) (\<lambda>x_Ports.
     rbind (get_field kvs ''volumes'' (dec_mounts al) None) (\<lambda>x_Volumes.
     rbind (get_field kvs ''networks'' (dec_slice dec_str) None) (\<lambda>x_Networks.
     rbind (get_field kvs ''networksAliases'' (dec_slice dec_str) None) (\<lambda>x_NetworksAliases.
     rbind (get_field kvs ''privileged'' dec_bool False) (\<lambda>x_Privileged.
     rbind (get_field kvs ''hostNetwork'' dec_bool False) (\<lambda>x_HostNetwork.
     rbind (get_field kvs ''hostPID'' dec_bool False) (\<lambda>x_HostPID.
     rbind (get_field kvs ''hostCgroup'' dec_bool False) (\<lambda>x_HostCgroup.
     rbind (get_field kvs ''user'' dec_str '''') (\<lambda>x_User.
     rbind (get_field kvs ''readOnlyRootFilesystem'' dec_bool False) (\<lambda>x_ReadOnlyRootFilesystem.
     rbind (get_field kvs ''capabilities'' (dec_ptr dec_cap) None) (\<lambda>x_Capabilities.
     rbind (get_field kvs ''securityOpts'' (dec_slice dec_str) None) (\<lambda>x_SecurityOpts.
     rbind (get_field kvs ''devices'' (dec_slice dec_str) None) (\<lambda>x_Devices.
     rbind (get_field kvs ''tmpfs'' (dec_slice dec_tmpfs) None) (\<lambda>x_Tmpfs.
     rbind (get_field kvs ''resources'' (dec_ptr dec_resources) None) (\<lambda>x_Resources.
     rbind (get_field kvs ''secrets'' (dec_slice dec_secret) None) (\<lambda>x_Secrets.
     rbind (get_field kvs ''repos'' (dec_slice dec_repo) None) (\<lambda>x_Repos.
     rbind (get_field kvs ''git'' (dec_ptr dec_git) None) (\<lambda>x_Git.
     rbind (get_field kvs ''cniConfigPath'' dec_str '''') (\<lambda>x_CNIConfigPath.
     rbind (get_field kvs ''restartPolicy'' dec_str '''') (\<lambda>x_RestartPolicy.
     rbind (get_field kvs ''restartBackoffSeconds'' (dec_ptr dec_int) None) (\<lambda>x_RestartBackoffSeconds.
     rbind (get_field kvs ''restartMaxRetries'' (dec_ptr dec_int) None) (\<lambda>x_RestartMaxRetries.
     rbind (get_field kvs ''attachable'' dec_bool False) (\<lambda>x_Attachable.
     rbind (get_field kvs ''tty'' (dec_ptr dec_tty) None) (\<lambda>x_Tty.
     rbind (get_field kvs ''kukeonGroupGID'' dec_int 0) (\<lambda>x_KukeonGroupGID.
     Inr \<lparr>xcs_ID = x_ID, xcs_ContainerdID = x_ContainerdID, xcs_RealmID = x_RealmID,
       xcs_SpaceID = x_SpaceID, xcs_StackID = x_StackID, xcs_CellID = x_CellID, xcs_Root = x_Root,
       xcs_Image = x_Image, xcs_Command = x_Command, xcs_Args = x_Args, xcs_WorkingDir = x_WorkingDir,
       xcs_Env = x_Env, xcs_Ports = x_Ports, xcs_Volumes = x_Volumes, xcs_Networks = x_Networks,
       xcs_NetworksAliases = x_NetworksAliases, xcs_Privileged = x_Privileged,
       xcs_HostNetwork = x_HostNetwork, xcs_HostPID = x_HostPID, xcs_HostCgroup = x_HostCgroup,
       xcs_User = x_User, xcs_ReadOnlyRootFilesystem = x_ReadOnlyRootFilesystem,
       xcs_Capabilities = x_Capabilities, xcs_SecurityOpts = x_SecurityOpts, xcs_Devices = x_Devices,
       xcs_Tmpfs = x_Tmpfs, xcs_Resources = x_Resources, xcs_Secrets = x_Secrets, xcs_Repos = x_Repos,
       xcs_Git = x_Git, xcs_CNIConfigPath = x_CNIConfigPath, xcs_RestartPolicy = x_RestartPolicy,
       xcs_RestartBackoffSeconds = x_RestartBackoffSeconds, xcs_RestartMaxRetries = x_RestartMaxRetries,
       xcs_Attachable = x_Attachable, xcs_Tty = x_Tty,
       xcs_KukeonGroupGID = x_KukeonGroupGID\<rparr>)))))))))))))))))))))))))))))))))))))) zero_containerSpec v"

definition dec_specs :: "(nat \<Rightarrow> nat \<Rightarrow> nat) \<Rightarrow> json \<Rightarrow> extContainerSpec list result" where
  "dec_specs al v = (case v of
       JsArr xs \<Rightarrow> dec_all (\<lambda>(i, x). dec_containerSpec (al i) x) (enumerate 0 xs)
     | JsNull \<Rightarrow> Inr [] | _ \<Rightarrow> Inl ErrDecode)"

definition zero_cellSpec :: extCellSpec where
  "zero_cellSpec = \<lparr>xceS_ID = '''', xceS_RealmID = '''', xceS_SpaceID = '''', xceS_StackID = '''',
    xceS_RootContainerID = '''', xceS_Tty = None, xceS_Containers = [], xceS_AutoDelete = False,
    xceS_NestedCgroupRuntime = False, xceS_RuntimeEnv = None, xceS_Provenance = None,
    xceS_IgnoreDiskPressure = False\<rparr>"

definition enc_cellSpec :: "extCellSpec \<Rightarrow> json" where
  "enc_cellSpec x = JsObj (concat [
     fld ''id'' (JsStr (xceS_ID x)),
     fld ''realmId'' (JsStr (xceS_RealmID x)),
     fld ''spaceId'' (JsStr (xceS_SpaceID x)),
     fld ''stackId'' (JsStr (xceS_StackID x)),
     opt ''rootContainerId'' (xceS_RootContainerID x = '''') (JsStr (xceS_RootContainerID x)),
     opt ''tty'' (xceS_Tty x = None) (enc_ptr enc_cellTty (xceS_Tty x)),
     fld ''containers'' (JsArr (map enc_containerSpec (xceS_Containers x))),
     opt ''autoDelete'' (\<not> xceS_AutoDelete x) (JsBool (xceS_AutoDelete x)),
     opt ''nestedCgroupRuntime'' (\<not> xceS_NestedCgroupRuntime x) (JsBool (xceS_NestedCgroupRuntime x)),
     opt ''runtimeEnv'' (elems (xceS_RuntimeEnv x) = []) (enc_slice JsStr (xceS_RuntimeEnv x)),
     opt ''provenance'' (xceS_Provenance x = None) (enc_ptr enc_provenance (xceS_Provenance x)),
     opt ''ignoreDiskPressure'' (\<not> xceS_IgnoreDiskPressure x) (JsBool (xceS_IgnoreDiskPressure x))])"

definition dec_cellSpec :: "(nat \<Rightarrow> nat \<Rightarrow> nat) \<Rightarrow> json
  \<Rightarrow> extCellSpec result" where
  "dec_cellSpec al v = dec_obj (\<lambda>kvs.
     rbind (get_field kvs ''id'' dec_str '''') (\<lambda>x_ID.
     rbind (get_field kvs ''realmId'' dec_str '''') (\<lambda>x_RealmID.
     rbind (get_field kvs ''spaceId'' dec_str '''') (\<lambda>x_SpaceID.
     rbind (get_field kvs ''stackId'' dec_str '''') (\<lambda>x_StackID.
     rbind (get_field kvs ''rootContainerId'' dec_str '''') (\<lambda>x_RootContainerID.
     rbind (get_field kvs ''tty'' (dec_ptr dec_cellTty) None) (\<lambda>x_Tty.
     rbind (get_field kvs ''containers'' (dec_specs al) []) (\<lambda>x_Containers.
     rbind (get_field kvs ''autoDelete'' dec_bool False) (\<lambda>x_AutoDelete.
     rbind (get_field kvs ''nestedCgroupRuntime'' dec_bool False) (\<lambda>x_NestedCgroupRuntime.
     rbind (get_field kvs ''runtimeEnv'' (dec_slice dec_str) None) (\<lambda>x_RuntimeEnv.
     rbind (get_field kvs ''provenance'' (dec_ptr dec_provenance) None) (\<lambda>x_Provenance.
     rbind (get_field kvs ''ignoreDiskPressure'' dec_bool False) (\<lambda>x_IgnoreDiskPressure.
     Inr \<lparr>xceS_ID = x_ID, xceS_RealmID = x_RealmID, xceS_SpaceID = x_SpaceID, xceS_StackID = x_StackID,
       xceS_RootContainerID = x_RootContainerID, xceS_Tty = x_Tty, xceS_Containers = x_Containers,
       xceS_AutoDelete = x_AutoDelete, xceS_NestedCgroupRuntime = x_NestedCgroupRuntime,
       xceS_RuntimeEnv = x_RuntimeEnv, xceS_Provenance = x_Provenance,
       xceS_IgnoreDiskPressure = x_IgnoreDiskPressure\<rparr>))))))))))))) zero_cellSpec v"

definition zero_realmDoc :: RealmDoc where
  "zero_realmDoc = \<lparr>rd_APIVersion = '''', rd_Kind = '''', rd_Metadata = zero_realmMetadata,
    rd_Spec = zero_realmSpec, rd_Status = zero_realmStatus\<rparr>"

definition enc_realmDoc :: "RealmDoc \<Rightarrow> json" where
  "enc_realmDoc x = JsObj (concat [
     fld ''apiVersion'' (JsStr (rd_APIVersion x)),
     fld ''kind'' (JsStr (rd_Kind x)),
     fld ''metadata'' (enc_realmMetadata (rd_Metadata x)),
     fld ''spec'' (enc_realmSpec (rd_Spec x)),
     fld ''status'' (enc_realmStatus (rd_Status x))])"

definition dec_realmDoc :: "json \<Rightarrow> RealmDoc result" where
  "dec_realmDoc v = dec_obj (\<lambda>kvs.
     rbind (get_field kvs ''apiVersion'' dec_str '''') (\<lambda>x_APIVersion.
     rbind (get_field kvs ''kind'' dec_str '''') (\<lambda>x_Kind.
     rbind (get_field kvs ''metadata'' dec_realmMetadata zero_realmMetadata) (\<lambda>x_Metadata.
     rbind (get_field kvs ''spec'' dec_realmSpec zero_realmSpec) (\<lambda>x_Spec.
     rbind (get_field kvs ''status'' dec_realmStatus zero_realmStatus) (\<lambda>x_Status.
     Inr \<lparr>rd_APIVersion = x_APIVersion, rd_Kind = x_Kind, rd_Metadata = x_Metadata, rd_Spec = x_Spec,
       rd_Status = x_Status\<rparr>)))))) zero_realmDoc v"

definition zero_spaceDoc :: SpaceDoc where
  "zero_spaceDoc = \<lparr>spd_APIVersion = '''', spd_Kind = '''', spd_Metadata = zero_spaceMetadata,
    spd_Spec = zero_spaceSpec, spd_Status = zero_spaceStatus\<rparr>"

definition enc_spaceDoc :: "SpaceDoc \<Rightarrow> json" where
  "enc_spaceDoc x = JsObj (concat [
     fld ''apiVersion'' (JsStr (spd_APIVersion x)),
     fld ''kind'' (JsStr (spd_Kind x)),
     fld ''metadata'' (enc_spaceMetadata (spd_Metadata x)),
     fld ''spec'' (enc_spaceSpec (spd_Spec x)),
     fld ''status'' (enc_spaceStatus (spd_Status x))])"

definition dec_spaceDoc :: "json \<Rightarrow> SpaceDoc result" where
  "dec_spaceDoc v = dec_obj (\<lambda>kvs.
     rbind (get_field kvs ''apiVersion'' dec_str '''') (\<lambda>x_APIVersion.
     rbind (get_field kvs ''kind'' dec_str '''') (\<lambda>x_Kind.
     rbind (get_field kvs ''metadata'' dec_spaceMetadata zero_spaceMetadata) (\<lambda>x_Metadata.
     rbind (get_field kvs ''spec'' dec_spaceSpec zero_spaceSpec) (\<lambda>x_Spec.
     rbind (get_field kvs ''status'' dec_spaceStatus zero_spaceStatus) (\<lambda>x_Status.
     Inr \<lparr>spd_APIVersion = x_APIVersion, spd_Kind = x_Kind, spd_Metadata = x_Metadata,
       spd_Spec = x_Spec, spd_Status = x_Status\<rparr>)))))) zero_spaceDoc v"

definition zero_stackDoc :: StackDoc where
  "zero_stackDoc = \<lparr>skd_APIVersion = '''', skd_Kind = '''', skd_Metadata = zero_stackMetadata,
    skd_Spec = zero_stackSpec, skd_Status = zero_stackStatus\<rparr>"

definition enc_stackDoc :: "StackDoc \<Rightarrow> json" where
  "enc_stackDoc x = JsObj (concat [
     fld ''apiVersion'' (JsStr (skd_APIVersion x)),
     fld ''kind'' (JsStr (skd_Kind x)),
     fld ''metadata'' (enc_stackMetadata (skd_Metadata x)),
     fld ''spec'' (enc_stackSpec (skd_Spec x)),
     fld ''status'' (enc_stackStatus (skd_Status x))])"

definition dec_stackDoc :: "json \<Rightarrow> StackDoc result" where
  "dec_stackDoc v = dec_obj (\<lambda>kvs.
     rbind (get_field kvs ''apiVersion'' dec_str '''') (\<lambda>x_APIVersion.
     rbind (get_field kvs ''kind'' dec_str '''') (\<lambda>x_Kind.
     rbind (get_field kvs ''metadata'' dec_stackMetadata zero_stackMetadata) (\<lambda>x_Metadata.
     rbind (get_field kvs ''spec'' dec_stackSpec zero_stackSpec) (\<lambda>x_Spec.
     rbind (get_field kvs ''status'' dec_stackStatus zero_stackStatus) (\<lambda>x_Status.
     Inr \<lparr>skd_APIVersion = x_APIVersion, skd_Kind = x_Kind, skd_Metadata = x_Metadata,
       skd_Spec = x_Spec, skd_Status = x_Status\<rparr>)))))) zero_stackDoc v"

definition zero_cellDoc :: CellDoc where
  "zero_cellDoc = \<lparr>ced_APIVersion = '''', ced_Kind = '''', ced_Metadata = zero_cellMetadata,
    ced_Spec = zero_cellSpec, ced_Status = zero_cellStatus\<rparr>"

definition enc_cellDoc :: "CellDoc \<Rightarrow> json" where
  "enc_cellDoc x = JsObj (concat [
     fld ''apiVersion'' (JsStr (ced_APIVersion x)),
     fld ''kind'' (JsStr (ced_Kind x)),
     fld ''metadata'' (enc_cellMetadata (ced_Metadata x)),
     fld ''spec'' (enc_cellSpec (ced_Spec x)),
     fld ''status'' (enc_cellStatus (ced_Status x))])"

definition dec_cellDoc :: "(nat \<Rightarrow> nat \<Rightarrow> nat) \<Rightarrow> json
  \<Rightarrow> CellDoc result" where
  "dec_cellDoc al v = dec_obj (\<lambda>kvs.
     rbind (get_field kvs ''apiVersion'' dec_str '''') (\<lambda>x_APIVersion.
     rbind (get_field kvs ''kind'' dec_str '''') (\<lambda>x_Kind.
     rbind (get_field kvs ''metadata'' dec_cellMetadata zero_cellMetadata) (\<lambda>x_Metadata.
     rbind (get_field kvs ''spec'' (dec_cellSpec al) zero_cellSpec) (\<lambda>x_Spec.
     rbind (get_field kvs ''status'' dec_cellStatus zero_cellStatus) (\<lambda>x_Status.
     Inr \<lparr>ced_APIVersion = x_APIVersion, ced_Kind = x_Kind, ced_Metadata = x_Metadata,
       ced_Spec = x_Spec, ced_Status = x_Status\<rparr>)))))) zero_cellDoc v"

section \<open>Round trips\<close>

definition absent :: "string \<Rightarrow> (string \<times> json) list \<Rightarrow> bool" where
  "absent k kvs \<longleftrightarrow> map_of kvs k = None"

lemma absent_simps [simp]:
  "absent k []" "absent k (fld k' v @ r) \<longleftrightarrow> k' \<noteq> k \<and> absent k r"
  "k' \<noteq> k \<Longrightarrow> absent k (opt k' e v @ r) \<longleftrightarrow> absent k r"
  by (auto simp: absent_def fld_def opt_def)

lemma get_field_skip [simp]:
  "k \<noteq> k' \<Longrightarrow> get_field (fld k v @ r) k' f z = get_field r k' f z"
  "k \<noteq> k' \<Longrightarrow> get_field (opt k e v @ r) k' f z = get_field r k' f z"
  "get_field (fld k v @ r) k f z = f v"
  by (auto simp: get_field_def fld_def opt_def)

lemma get_field_opt: "absent k r \<Longrightarrow> get_field (opt k e v @ r) k f z = (if e then Inr z else f v)"
  by (simp add: get_field_def opt_def absent_def)

lemma dec_leaf [simp]:
  "dec_str (JsStr s) = Inr s" "dec_int (JsNum i) = Inr i" "dec_bool (JsBool b) = Inr b"
  "dec_time (JsTime t) = Inr t" "dec_msg (JsMsg m) = Inr m" "dec_u32 (JsNum (uint w)) = Inr w"
  using uint_lt2p[of w] by (simp_all add: dec_str_def dec_int_def dec_bool_def dec_time_def dec_msg_def dec_u32_def)

lemma dec_obj_JsObj [simp]: "dec_obj f z (JsObj kvs) = f kvs"
  by (simp add: dec_obj_def)

lemma dec_all_map: "(\<And>x. d (e x) = Inr (c x)) \<Longrightarrow> dec_all d (map e xs) = Inr (map c xs)"
  by (induction xs) simp_all

lemma dec_all_enumerate:
  "(\<And>i x. d i (e x) = Inr (c i x)) \<Longrightarrow>
    dec_all (\<lambda>(i, x). d i x) (enumerate n (map e xs)) = Inr (map (\<lambda>(i,
      x). c i x) (enumerate n xs))"
  by (induction xs arbitrary: n) simp_all

lemma dec_slice_enc: "(\<And>x. d (e x) = Inr (c x)) \<Longrightarrow> dec_slice d
  (enc_slice e xs) = Inr (map_option (map c) xs)"
  by (cases xs) (simp_all add: dec_slice_def enc_slice_def dec_all_map)

lemma dec_list_enc: "(\<And>x. d (e x) = Inr (c x)) \<Longrightarrow> dec_list d (JsArr (map e xs)) = Inr (map c xs)"
  by (simp add: dec_list_def dec_slice_def dec_all_map)

lemma dec_ptr_enc:
  "(\<And>x. d (e x) = Inr (c x)) \<Longrightarrow> (\<And>x. e x \<noteq> JsNull) \<Longrightarrow> dec_ptr d
    (enc_ptr e p) = Inr (map_option c p)"
  by (cases p) (simp_all add: dec_ptr_def enc_ptr_def)

lemma dec_slice_leaf [simp]:
  "dec_slice dec_str (enc_slice JsStr xs) = Inr xs" "dec_slice dec_int (enc_slice JsNum ys) = Inr ys"
  "dec_ptr dec_int (enc_ptr JsNum i) = Inr i" "dec_ptr dec_bool (enc_ptr JsBool b) = Inr b"
  using dec_slice_enc[of dec_str JsStr "\<lambda>x. x" xs] dec_slice_enc[of dec_int JsNum "\<lambda>x. x" ys]
    dec_ptr_enc[of dec_int JsNum "\<lambda>x. x" i] dec_ptr_enc[of dec_bool JsBool "\<lambda>x. x" b]
  by (simp_all add: list.map_ident option.map_ident)

lemma dec_map_enc [simp]: "dec_map (enc_map m) = Inr (sort_map m)"
proof -
  have "dec_all (\<lambda>(k, v). rbind (dec_str v) (\<lambda>s. Inr (k, s))) (map (\<lambda>(k, v). (k,
    JsStr v)) xs) = Inr xs" for xs
    by (induction xs) auto
  then show ?thesis by (simp add: dec_map_def enc_map_def)
qed

lemma sort_map_Nil [simp]: "sort_map [] = []" "sort_map m = [] \<longleftrightarrow> m = []"
  by (simp add: sort_map_def) (metis length_0_conv length_sort sort_map_def)

lemma enc_map_not_null [simp]: "enc_map m \<noteq> JsNull"
  by (simp add: enc_map_def)

lemma dec_params_enc [simp]: "dec_ptr dec_map (enc_ptr enc_map p) = Inr (map_option sort_map p)"
  by (rule dec_ptr_enc) simp_all

definition canon_params :: "(string, string) gomap option \<Rightarrow> (string, string) gomap option" where
  "canon_params p = (case p of None \<Rightarrow> None | Some m
    \<Rightarrow> if m = [] then None else Some (sort_map m))"

definition canon_slice_of :: "('a \<Rightarrow> 'a) \<Rightarrow> 'a slice \<Rightarrow> 'a slice" where
  "canon_slice_of f xs = canon_slice (map_option (map f) xs)"

lemma omitempty [simp]:
  "absent k r \<Longrightarrow> get_field (opt k (s = []) (JsStr s) @ r) k dec_str [] = Inr s"
  "absent k r \<Longrightarrow> get_field (opt k (i = 0) (JsNum i) @ r) k dec_int 0 = Inr i"
  "absent k r \<Longrightarrow> get_field (opt k (w = 0) (JsNum (uint w)) @ r) k dec_u32 0 = Inr w"
  "absent k r \<Longrightarrow> get_field (opt k (\<not> b) (JsBool b) @ r) k dec_bool False = Inr b"
  "absent k r \<Longrightarrow> get_field (opt k (m = Msg []) (JsMsg m) @ r) k dec_msg (Msg []) = Inr m"
  "absent k r \<Longrightarrow> get_field (opt k (l = []) (enc_map l) @ r) k dec_map [] = Inr (sort_map l)"
  by (simp_all add: get_field_opt)

lemma omitempty_ptr [simp]:
  "absent k r \<Longrightarrow> dec_ptr d
    (enc_ptr e p) = Inr (f p) \<Longrightarrow> f None = None \<Longrightarrow>
    get_field (opt k (p = None) (enc_ptr e p) @ r) k (dec_ptr d) None = Inr (f p)"
  by (simp add: get_field_opt)

lemma omitempty_strs [simp]:
  "absent k r \<Longrightarrow> get_field (opt k (elems xs = [])
    (enc_slice JsStr xs) @ r) k (dec_slice dec_str) None = Inr (canon_slice xs)"
  "absent k r \<Longrightarrow> get_field (opt k (elems is = [])
    (enc_slice JsNum is) @ r) k (dec_slice dec_int) None = Inr (canon_slice is)"
  by (cases xs; simp add: get_field_opt canon_slice_def) (cases "is"; simp add: get_field_opt canon_slice_def)

lemma omitempty_slice:
  "absent k r \<Longrightarrow> dec_slice d (enc_slice e xs) = Inr (map_option (map f) xs) \<Longrightarrow>
    get_field (opt k (elems xs = []) (enc_slice e xs) @ r) k (dec_slice d) None = Inr (canon_slice_of f xs)"
  by (cases xs) (simp_all add: get_field_opt canon_slice_def canon_slice_of_def)

lemma canon_slice_of_id [simp]: "canon_slice_of (\<lambda>x. x) = canon_slice"
  by (simp add: fun_eq_iff canon_slice_of_def option.map_ident list.map_ident)

lemma omitempty_params [simp]:
  "absent k r \<Longrightarrow> get_field (opt k (case pm of None \<Rightarrow> True | Some m
    \<Rightarrow> m = []) (enc_ptr enc_map pm) @ r) k
    (dec_ptr dec_map) None = Inr (canon_params pm)"
  by (cases pm) (simp_all add: get_field_opt canon_params_def)

lemma position_less: "x \<in> set xs \<Longrightarrow> position x xs < length xs \<and> xs ! position x xs = x"
  by (induction xs) auto

lemma json_realmState [simp]: "dec_realmState (enc_realmState s) = Inr s"
proof -
  have "s \<in> set realmStates" by (cases s) (simp_all add: realmStates_def)
  then have p: "position s realmStates < 6" "realmStates ! position s realmStates = s"
    using position_less[of s realmStates] by (auto simp: realmStates_def)
  then show ?thesis
    using realm_enum.json_roundtrip[of "int (position s realmStates)"]
    by (simp add: dec_realmState_def enc_realmState_def RealmState_MarshalJSON_def RealmState_UnmarshalJSON_def)
qed

lemma json_spaceState [simp]: "dec_spaceState (enc_spaceState s) = Inr s"
proof -
  have "s \<in> set spaceStates" by (cases s) (simp_all add: spaceStates_def)
  then have p: "position s spaceStates < 4" "spaceStates ! position s spaceStates = s"
    using position_less[of s spaceStates] by (auto simp: spaceStates_def)
  then show ?thesis
    using space_enum.json_roundtrip[of "int (position s spaceStates)"]
    by (simp add: dec_spaceState_def enc_spaceState_def SpaceState_MarshalJSON_def SpaceState_UnmarshalJSON_def)
qed

lemma json_stackState [simp]: "dec_stackState (enc_stackState s) = Inr s"
proof -
  have "s \<in> set stackStates" by (cases s) (simp_all add: stackStates_def)
  then have p: "position s stackStates < 4" "stackStates ! position s stackStates = s"
    using position_less[of s stackStates] by (auto simp: stackStates_def)
  then show ?thesis
    using stack_enum.json_roundtrip[of "int (position s stackStates)"]
    by (simp add: dec_stackState_def enc_stackState_def StackState_MarshalJSON_def StackState_UnmarshalJSON_def)
qed

lemma json_cellState [simp]: "dec_cellState (enc_cellState s) = Inr s"
proof -
  have "s \<in> set cellStates" by (cases s) (simp_all add: cellStates_def)
  then have p: "position s cellStates < 8" "cellStates ! position s cellStates = s"
    using position_less[of s cellStates] by (auto simp: cellStates_def)
  then show ?thesis
    using cell_enum.json_roundtrip[of "int (position s cellStates)"]
    by (simp add: dec_cellState_def enc_cellState_def CellState_MarshalJSON_def CellState_UnmarshalJSON_def)
qed

lemma json_containerState [simp]: "dec_containerState (enc_containerState s) = Inr s"
proof -
  have "s \<in> set containerStates" by (cases s) (simp_all add: containerStates_def)
  then have p: "position s containerStates < 10" "containerStates ! position s containerStates = s"
    using position_less[of s containerStates] by (auto simp: containerStates_def)
  then show ?thesis
    using container_enum.json_roundtrip[of "int (position s containerStates)"]
    by (simp add: dec_containerState_def enc_containerState_def ContainerState_MarshalJSON_def ContainerState_UnmarshalJSON_def)
qed

definition js_cap :: "ContainerCapabilities \<Rightarrow> ContainerCapabilities" where
  "js_cap x = x\<lparr>cap_Drop := canon_slice (cap_Drop x), cap_Add := canon_slice (cap_Add x)\<rparr>"

lemma json_cap [simp]: "dec_cap (enc_cap x) = Inr (js_cap x)"
  by (simp add: enc_cap_def dec_cap_def js_cap_def del: append_Nil2)

lemma enc_cap_not_null [simp]: "enc_cap x \<noteq> JsNull"
  by (simp add: enc_cap_def)

lemmas json_cap_ptr [simp] = dec_ptr_enc[of dec_cap enc_cap js_cap, OF json_cap enc_cap_not_null]

definition js_tmpfs :: "ContainerTmpfsMount \<Rightarrow> ContainerTmpfsMount" where
  "js_tmpfs x = x\<lparr>tm_Options := canon_slice (tm_Options x)\<rparr>"

lemma json_tmpfs [simp]: "dec_tmpfs (enc_tmpfs x) = Inr (js_tmpfs x)"
  by (simp add: enc_tmpfs_def dec_tmpfs_def js_tmpfs_def del: append_Nil2)

lemmas opt_tmpfs_slice [simp] = omitempty_slice[where d = dec_tmpfs and e = enc_tmpfs,
  OF _ dec_slice_enc[of dec_tmpfs enc_tmpfs js_tmpfs, OF json_tmpfs]]
lemmas json_tmpfs_slice [simp] = dec_slice_enc[of dec_tmpfs enc_tmpfs js_tmpfs, OF json_tmpfs]

lemma json_resources [simp]: "dec_resources (enc_resources x) = Inr x"
  by (simp add: enc_resources_def dec_resources_def del: append_Nil2)

lemma enc_resources_not_null [simp]: "enc_resources x \<noteq> JsNull"
  by (simp add: enc_resources_def)

lemmas json_resources_ptr [simp] = dec_ptr_enc[of dec_resources enc_resources "\<lambda>x. x",
  OF json_resources enc_resources_not_null, unfolded option.map_ident]

lemma json_secretRef [simp]: "dec_secretRef (enc_secretRef x) = Inr x"
  by (simp add: enc_secretRef_def dec_secretRef_def del: append_Nil2)

lemma enc_secretRef_not_null [simp]: "enc_secretRef x \<noteq> JsNull"
  by (simp add: enc_secretRef_def)

lemmas json_secretRef_ptr [simp] = dec_ptr_enc[of dec_secretRef enc_secretRef "\<lambda>x. x",
  OF json_secretRef enc_secretRef_not_null, unfolded option.map_ident]

lemma json_secret [simp]: "dec_secret (enc_secret x) = Inr x"
  by (simp add: enc_secret_def dec_secret_def del: append_Nil2)

lemmas opt_secret_slice [simp] = omitempty_slice[where d = dec_secret and e = enc_secret,
  OF _ dec_slice_enc[of dec_secret enc_secret "\<lambda>x. x", OF json_secret], unfolded canon_slice_of_id]
lemmas json_secret_slice [simp] = dec_slice_enc[of dec_secret enc_secret "\<lambda>x. x", OF json_secret,
  unfolded list.map_ident option.map_ident]

lemma json_repo [simp]: "dec_repo (enc_repo x) = Inr x"
  by (simp add: enc_repo_def dec_repo_def del: append_Nil2)

lemmas opt_repo_slice [simp] = omitempty_slice[where d = dec_repo and e = enc_repo,
  OF _ dec_slice_enc[of dec_repo enc_repo "\<lambda>x. x", OF json_repo], unfolded canon_slice_of_id]
lemmas json_repo_slice [simp] = dec_slice_enc[of dec_repo enc_repo "\<lambda>x. x", OF json_repo,
  unfolded list.map_ident option.map_ident]

lemma json_gitIdentity [simp]: "dec_gitIdentity (enc_gitIdentity x) = Inr x"
  by (simp add: enc_gitIdentity_def dec_gitIdentity_def del: append_Nil2)

lemma enc_gitIdentity_not_null [simp]: "enc_gitIdentity x \<noteq> JsNull"
  by (simp add: enc_gitIdentity_def)

lemmas json_gitIdentity_ptr [simp] = dec_ptr_enc[of dec_gitIdentity enc_gitIdentity "\<lambda>x. x",
  OF json_gitIdentity enc_gitIdentity_not_null, unfolded option.map_ident]

definition js_git :: "ContainerGit \<Rightarrow> ContainerGit" where
  "js_git x = x\<lparr>git_Sign := canon_slice (git_Sign x)\<rparr>"

lemma json_git [simp]: "dec_git (enc_git x) = Inr (js_git x)"
  by (simp add: enc_git_def dec_git_def js_git_def del: append_Nil2)

lemma enc_git_not_null [simp]: "enc_git x \<noteq> JsNull"
  by (simp add: enc_git_def)

lemmas json_git_ptr [simp] = dec_ptr_enc[of dec_git enc_git js_git, OF json_git enc_git_not_null]

lemma json_stage [simp]: "dec_stage (enc_stage x) = Inr x"
  by (simp add: enc_stage_def dec_stage_def del: append_Nil2)

lemmas opt_stage_slice [simp] = omitempty_slice[where d = dec_stage and e = enc_stage,
  OF _ dec_slice_enc[of dec_stage enc_stage "\<lambda>x. x", OF json_stage], unfolded canon_slice_of_id]
lemmas json_stage_slice [simp] = dec_slice_enc[of dec_stage enc_stage "\<lambda>x. x", OF json_stage,
  unfolded list.map_ident option.map_ident]

definition js_tty :: "ContainerTty \<Rightarrow> ContainerTty" where
  "js_tty x = x\<lparr>tty_OnInit := canon_slice (tty_OnInit x)\<rparr>"

lemma json_tty [simp]: "dec_tty (enc_tty x) = Inr (js_tty x)"
  by (simp add: enc_tty_def dec_tty_def js_tty_def del: append_Nil2)

lemma enc_tty_not_null [simp]: "enc_tty x \<noteq> JsNull"
  by (simp add: enc_tty_def)

lemmas json_tty_ptr [simp] = dec_ptr_enc[of dec_tty enc_tty js_tty, OF json_tty enc_tty_not_null]

lemma json_credentials [simp]: "dec_credentials (enc_credentials x) = Inr x"
  by (simp add: enc_credentials_def dec_credentials_def del: append_Nil2)

lemmas opt_credentials_slice [simp] = omitempty_slice[where d = dec_credentials and e = enc_credentials,
  OF _ dec_slice_enc[of dec_credentials enc_credentials "\<lambda>x. x", OF json_credentials],
  unfolded canon_slice_of_id]
lemmas json_credentials_slice [simp] = dec_slice_enc[of dec_credentials enc_credentials "\<lambda>x. x",
  OF json_credentials, unfolded list.map_ident option.map_ident]

definition js_rule :: "EgressAllowRule \<Rightarrow> EgressAllowRule" where
  "js_rule x = x\<lparr>ear_Ports := canon_slice (ear_Ports x)\<rparr>"

lemma json_rule [simp]: "dec_rule (enc_rule x) = Inr (js_rule x)"
  by (simp add: enc_rule_def dec_rule_def js_rule_def del: append_Nil2)

lemmas opt_rule_slice [simp] = omitempty_slice[where d = dec_rule and e = enc_rule,
  OF _ dec_slice_enc[of dec_rule enc_rule js_rule, OF json_rule]]
lemmas json_rule_slice [simp] = dec_slice_enc[of dec_rule enc_rule js_rule, OF json_rule]

definition js_egress :: "EgressPolicy \<Rightarrow> EgressPolicy" where
  "js_egress x = x\<lparr>ep_Allow := canon_slice_of js_rule (ep_Allow x)\<rparr>"

lemma json_egress [simp]: "dec_egress (enc_egress x) = Inr (js_egress x)"
  by (simp add: enc_egress_def dec_egress_def js_egress_def del: append_Nil2)

lemma enc_egress_not_null [simp]: "enc_egress x \<noteq> JsNull"
  by (simp add: enc_egress_def)

lemmas json_egress_ptr [simp] = dec_ptr_enc[of dec_egress enc_egress js_egress,
  OF json_egress enc_egress_not_null]

definition js_network :: "SpaceNetwork \<Rightarrow> SpaceNetwork" where
  "js_network x = x\<lparr>sn_Egress := map_option js_egress (sn_Egress x)\<rparr>"

lemma json_network [simp]: "dec_network (enc_network x) = Inr (js_network x)"
  by (simp add: enc_network_def dec_network_def js_network_def del: append_Nil2)

lemma enc_network_not_null [simp]: "enc_network x \<noteq> JsNull"
  by (simp add: enc_network_def)

lemmas json_network_ptr [simp] = dec_ptr_enc[of dec_network enc_network js_network,
  OF json_network enc_network_not_null]

definition js_containerDefaults :: "SpaceContainerDefaults \<Rightarrow> SpaceContainerDefaults" where
  "js_containerDefaults x = x\<lparr>scd_Capabilities := map_option js_cap (scd_Capabilities x),
    scd_SecurityOpts := canon_slice (scd_SecurityOpts x),
    scd_Tmpfs := canon_slice_of js_tmpfs (scd_Tmpfs x)\<rparr>"

lemma json_containerDefaults [simp]: "dec_containerDefaults
  (enc_containerDefaults x) = Inr (js_containerDefaults x)"
  by (simp add: enc_containerDefaults_def dec_containerDefaults_def js_containerDefaults_def del: append_Nil2)

lemma enc_containerDefaults_not_null [simp]: "enc_containerDefaults x \<noteq> JsNull"
  by (simp add: enc_containerDefaults_def)

lemmas json_containerDefaults_ptr [simp] = dec_ptr_enc[of dec_containerDefaults enc_containerDefaults js_containerDefaults,
  OF json_containerDefaults enc_containerDefaults_not_null]

definition js_defaults :: "SpaceDefaults \<Rightarrow> SpaceDefaults" where
  "js_defaults x = x\<lparr>sd_Container := map_option js_containerDefaults (sd_Container x)\<rparr>"

lemma json_defaults [simp]: "dec_defaults (enc_defaults x) = Inr (js_defaults x)"
  by (simp add: enc_defaults_def dec_defaults_def js_defaults_def del: append_Nil2)

lemma enc_defaults_not_null [simp]: "enc_defaults x \<noteq> JsNull"
  by (simp add: enc_defaults_def)

lemmas json_defaults_ptr [simp] = dec_ptr_enc[of dec_defaults enc_defaults js_defaults,
  OF json_defaults enc_defaults_not_null]

lemma json_cellTty [simp]: "dec_cellTty (enc_cellTty x) = Inr x"
  by (simp add: enc_cellTty_def dec_cellTty_def del: append_Nil2)

lemma enc_cellTty_not_null [simp]: "enc_cellTty x \<noteq> JsNull"
  by (simp add: enc_cellTty_def)

lemmas json_cellTty_ptr [simp] = dec_ptr_enc[of dec_cellTty enc_cellTty "\<lambda>x. x",
  OF json_cellTty enc_cellTty_not_null, unfolded option.map_ident]

lemma json_bindingRef [simp]: "dec_bindingRef (enc_bindingRef x) = Inr x"
  by (simp add: enc_bindingRef_def dec_bindingRef_def del: append_Nil2)


lemma json_cellNetwork [simp]: "dec_cellNetwork (enc_cellNetwork x) = Inr x"
  by (simp add: enc_cellNetwork_def dec_cellNetwork_def del: append_Nil2)


lemma json_volumeRef [simp]: "dec_volumeRef (enc_volumeRef x) = Inr x"
  by (simp add: enc_volumeRef_def dec_volumeRef_def del: append_Nil2)

lemma enc_volumeRef_not_null [simp]: "enc_volumeRef x \<noteq> JsNull"
  by (simp add: enc_volumeRef_def)

lemmas json_volumeRef_ptr [simp] = dec_ptr_enc[of dec_volumeRef enc_volumeRef "\<lambda>x. x",
  OF json_volumeRef enc_volumeRef_not_null, unfolded option.map_ident]

definition js_provenance :: "CellProvenance \<Rightarrow> CellProvenance" where
  "js_provenance x = x\<lparr>cp_Params := canon_params (cp_Params x),
    cp_EnvOverrides := canon_slice (cp_EnvOverrides x)\<rparr>"

lemma json_provenance [simp]: "dec_provenance (enc_provenance x) = Inr (js_provenance x)"
  by (simp add: enc_provenance_def dec_provenance_def js_provenance_def del: append_Nil2)

lemma enc_provenance_not_null [simp]: "enc_provenance x \<noteq> JsNull"
  by (simp add: enc_provenance_def)

lemmas json_provenance_ptr [simp] = dec_ptr_enc[of dec_provenance enc_provenance js_provenance,
  OF json_provenance enc_provenance_not_null]

definition js_realmMetadata :: "RealmMetadata \<Rightarrow> RealmMetadata" where
  "js_realmMetadata x = x\<lparr>reM_Labels := sort_map (reM_Labels x)\<rparr>"

lemma json_realmMetadata [simp]: "dec_realmMetadata (enc_realmMetadata x) = Inr (js_realmMetadata x)"
  by (simp add: enc_realmMetadata_def dec_realmMetadata_def js_realmMetadata_def del: append_Nil2)

definition js_realmSpec :: "RealmSpec \<Rightarrow> RealmSpec" where
  "js_realmSpec x = x\<lparr>reS_RegistryCredentials := canon_slice (reS_RegistryCredentials x)\<rparr>"

lemma json_realmSpec [simp]: "dec_realmSpec (enc_realmSpec x) = Inr (js_realmSpec x)"
  by (simp add: enc_realmSpec_def dec_realmSpec_def js_realmSpec_def del: append_Nil2)

definition js_realmStatus :: "RealmStatus \<Rightarrow> RealmStatus" where
  "js_realmStatus x = x\<lparr>reT_SubtreeControllers := canon_slice (reT_SubtreeControllers x)\<rparr>"

lemma json_realmStatus [simp]: "dec_realmStatus (enc_realmStatus x) = Inr (js_realmStatus x)"
  by (simp add: enc_realmStatus_def dec_realmStatus_def js_realmStatus_def del: append_Nil2)

definition js_spaceMetadata :: "SpaceMetadata \<Rightarrow> SpaceMetadata" where
  "js_spaceMetadata x = x\<lparr>spM_Labels := sort_map (spM_Labels x)\<rparr>"

lemma json_spaceMetadata [simp]: "dec_spaceMetadata (enc_spaceMetadata x) = Inr (js_spaceMetadata x)"
  by (simp add: enc_spaceMetadata_def dec_spaceMetadata_def js_spaceMetadata_def del: append_Nil2)

definition js_spaceSpec :: "extSpaceSpec \<Rightarrow> extSpaceSpec" where
  "js_spaceSpec x = x\<lparr>xspS_Network := map_option js_network (xspS_Network x),
    xspS_Defaults := map_option js_defaults (xspS_Defaults x)\<rparr>"

lemma json_spaceSpec [simp]: "dec_spaceSpec (enc_spaceSpec x) = Inr (js_spaceSpec x)"
  by (simp add: enc_spaceSpec_def dec_spaceSpec_def js_spaceSpec_def del: append_Nil2)

definition js_spaceStatus :: "extSpaceStatus \<Rightarrow> extSpaceStatus" where
  "js_spaceStatus x = x\<lparr>xspT_SubtreeControllers := canon_slice (xspT_SubtreeControllers x)\<rparr>"

lemma json_spaceStatus [simp]: "dec_spaceStatus (enc_spaceStatus x) = Inr (js_spaceStatus x)"
  by (simp add: enc_spaceStatus_def dec_spaceStatus_def js_spaceStatus_def del: append_Nil2)

definition js_stackMetadata :: "StackMetadata \<Rightarrow> StackMetadata" where
  "js_stackMetadata x = x\<lparr>skM_Labels := sort_map (skM_Labels x)\<rparr>"

lemma json_stackMetadata [simp]: "dec_stackMetadata (enc_stackMetadata x) = Inr (js_stackMetadata x)"
  by (simp add: enc_stackMetadata_def dec_stackMetadata_def js_stackMetadata_def del: append_Nil2)

lemma json_stackSpec [simp]: "dec_stackSpec (enc_stackSpec x) = Inr x"
  by (simp add: enc_stackSpec_def dec_stackSpec_def del: append_Nil2)

definition js_stackStatus :: "StackStatus \<Rightarrow> StackStatus" where
  "js_stackStatus x = x\<lparr>skT_SubtreeControllers := canon_slice (skT_SubtreeControllers x)\<rparr>"

lemma json_stackStatus [simp]: "dec_stackStatus (enc_stackStatus x) = Inr (js_stackStatus x)"
  by (simp add: enc_stackStatus_def dec_stackStatus_def js_stackStatus_def del: append_Nil2)

definition js_cellMetadata :: "CellMetadata \<Rightarrow> CellMetadata" where
  "js_cellMetadata x = x\<lparr>ceM_Labels := sort_map (ceM_Labels x),
    ceM_Annotations := sort_map (ceM_Annotations x)\<rparr>"

lemma json_cellMetadata [simp]: "dec_cellMetadata (enc_cellMetadata x) = Inr (js_cellMetadata x)"
  by (simp add: enc_cellMetadata_def dec_cellMetadata_def js_cellMetadata_def del: append_Nil2)

lemma json_repoStatus [simp]: "dec_repoStatus (enc_repoStatus x) = Inr x"
  by (simp add: enc_repoStatus_def dec_repoStatus_def del: append_Nil2)

lemmas opt_repoStatus_slice [simp] = omitempty_slice[where d = dec_repoStatus and e = enc_repoStatus,
  OF _ dec_slice_enc[of dec_repoStatus enc_repoStatus "\<lambda>x. x", OF json_repoStatus],
  unfolded canon_slice_of_id]
lemmas json_repoStatus_slice [simp] = dec_slice_enc[of dec_repoStatus enc_repoStatus "\<lambda>x. x",
  OF json_repoStatus, unfolded list.map_ident option.map_ident]

lemma json_stageStatus [simp]: "dec_stageStatus (enc_stageStatus x) = Inr x"
  by (simp add: enc_stageStatus_def dec_stageStatus_def del: append_Nil2)

lemmas opt_stageStatus_slice [simp] = omitempty_slice[where d = dec_stageStatus and e = enc_stageStatus,
  OF _ dec_slice_enc[of dec_stageStatus enc_stageStatus "\<lambda>x. x", OF json_stageStatus],
  unfolded canon_slice_of_id]
lemmas json_stageStatus_slice [simp] = dec_slice_enc[of dec_stageStatus enc_stageStatus "\<lambda>x. x",
  OF json_stageStatus, unfolded list.map_ident option.map_ident]

definition js_containerStatus :: "ContainerStatus \<Rightarrow> ContainerStatus" where
  "js_containerStatus x = x\<lparr>st_Repos := canon_slice (st_Repos x),
    st_Stages := canon_slice (st_Stages x)\<rparr>"

lemma json_containerStatus [simp]: "dec_containerStatus (enc_containerStatus x) = Inr (js_containerStatus x)"
  by (simp add: enc_containerStatus_def dec_containerStatus_def js_containerStatus_def del: append_Nil2)

lemmas json_containerStatus_list [simp] = dec_list_enc[of dec_containerStatus enc_containerStatus js_containerStatus,
  OF json_containerStatus]

definition js_cellStatus :: "CellStatus \<Rightarrow> CellStatus" where
  "js_cellStatus x = x\<lparr>ceT_SubtreeControllers := canon_slice (ceT_SubtreeControllers x),
    ceT_Containers := map js_containerStatus (ceT_Containers x)\<rparr>"

lemma json_cellStatus [simp]: "dec_cellStatus (enc_cellStatus x) = Inr (js_cellStatus x)"
  by (simp add: enc_cellStatus_def dec_cellStatus_def js_cellStatus_def del: append_Nil2)

lemma json_goptr [simp]: "dec_goptr a (enc_ptr enc_volumeRef (ptr_val p)) = Inr (readdress a p)"
  by (cases p) (simp_all add: dec_goptr_def)

lemma omitempty_goptr [simp]:
  "absent k r \<Longrightarrow> get_field (opt k (ptr_val p = None)
    (enc_ptr enc_volumeRef (ptr_val p)) @ r) k (dec_goptr a) NilPtr
    = Inr (readdress a p)"
  using json_goptr[of a p] by (cases p) (simp_all add: get_field_opt)

definition js_mount :: "nat \<Rightarrow> VolumeMount \<Rightarrow> VolumeMount" where
  "js_mount a x = x\<lparr>vm_VolumeRef := readdress a (vm_VolumeRef x)\<rparr>"

lemma json_mount [simp]: "dec_mount a (enc_mount x) = Inr (js_mount a x)"
  by (simp add: enc_mount_def dec_mount_def js_mount_def del: append_Nil2)

lemma json_mounts [simp]: "dec_mounts al (enc_slice enc_mount vs) = Inr (readdress_mounts al vs)"
  by (cases vs) (simp_all add: dec_mounts_def enc_slice_def readdress_mounts_def js_mount_def
      dec_all_enumerate[of "\<lambda>i. dec_mount (al i)" enc_mount "\<lambda>i. js_mount (al i)"])

definition js_containerSpec :: "(nat \<Rightarrow> nat) \<Rightarrow> extContainerSpec
  \<Rightarrow> extContainerSpec" where
  "js_containerSpec al x = x\<lparr>xcs_Volumes := readdress_mounts al (xcs_Volumes x),
    xcs_Capabilities := map_option js_cap (xcs_Capabilities x),
    xcs_SecurityOpts := canon_slice (xcs_SecurityOpts x), xcs_Devices := canon_slice (xcs_Devices x),
    xcs_Tmpfs := canon_slice_of js_tmpfs (xcs_Tmpfs x), xcs_Secrets := canon_slice (xcs_Secrets x),
    xcs_Repos := canon_slice (xcs_Repos x), xcs_Git := map_option js_git (xcs_Git x),
    xcs_Tty := map_option js_tty (xcs_Tty x)\<rparr>"

lemma json_containerSpec [simp]: "dec_containerSpec al (enc_containerSpec x) = Inr (js_containerSpec al x)"
  by (simp add: enc_containerSpec_def dec_containerSpec_def js_containerSpec_def del: append_Nil2)

definition js_specs :: "(nat \<Rightarrow> nat \<Rightarrow> nat) \<Rightarrow> extContainerSpec list
  \<Rightarrow> extContainerSpec list" where
  "js_specs al cs = map (\<lambda>(i, c). js_containerSpec (al i) c) (enumerate 0 cs)"

lemma json_specs [simp]: "dec_specs al (JsArr (map enc_containerSpec cs)) = Inr (js_specs al cs)"
  by (simp add: dec_specs_def js_specs_def
      dec_all_enumerate[of "\<lambda>i. dec_containerSpec (al i)" enc_containerSpec "\<lambda>i. js_containerSpec (al i)"])

definition js_cellSpec :: "(nat \<Rightarrow> nat \<Rightarrow> nat) \<Rightarrow> extCellSpec
  \<Rightarrow> extCellSpec" where
  "js_cellSpec al x = x\<lparr>xceS_Containers := js_specs al (xceS_Containers x),
    xceS_RuntimeEnv := canon_slice (xceS_RuntimeEnv x),
    xceS_Provenance := map_option js_provenance (xceS_Provenance x)\<rparr>"

lemma json_cellSpec [simp]: "dec_cellSpec al (enc_cellSpec x) = Inr (js_cellSpec al x)"
  by (simp add: enc_cellSpec_def dec_cellSpec_def js_cellSpec_def del: append_Nil2)

definition js_realmDoc :: "RealmDoc \<Rightarrow> RealmDoc" where
  "js_realmDoc x = x\<lparr>rd_Metadata := js_realmMetadata (rd_Metadata x),
    rd_Spec := js_realmSpec (rd_Spec x), rd_Status := js_realmStatus (rd_Status x)\<rparr>"

lemma json_realmDoc [simp]: "dec_realmDoc (enc_realmDoc x) = Inr (js_realmDoc x)"
  by (simp add: enc_realmDoc_def dec_realmDoc_def js_realmDoc_def del: append_Nil2)

definition js_spaceDoc :: "SpaceDoc \<Rightarrow> SpaceDoc" where
  "js_spaceDoc x = x\<lparr>spd_Metadata := js_spaceMetadata (spd_Metadata x),
    spd_Spec := js_spaceSpec (spd_Spec x), spd_Status := js_spaceStatus (spd_Status x)\<rparr>"

lemma json_spaceDoc [simp]: "dec_spaceDoc (enc_spaceDoc x) = Inr (js_spaceDoc x)"
  by (simp add: enc_spaceDoc_def dec_spaceDoc_def js_spaceDoc_def del: append_Nil2)

definition js_stackDoc :: "StackDoc \<Rightarrow> StackDoc" where
  "js_stackDoc x = x\<lparr>skd_Metadata := js_stackMetadata (skd_Metadata x),
    skd_Status := js_stackStatus (skd_Status x)\<rparr>"

lemma json_stackDoc [simp]: "dec_stackDoc (enc_stackDoc x) = Inr (js_stackDoc x)"
  by (simp add: enc_stackDoc_def dec_stackDoc_def js_stackDoc_def del: append_Nil2)

definition js_cellDoc :: "(nat \<Rightarrow> nat \<Rightarrow> nat) \<Rightarrow> CellDoc
  \<Rightarrow> CellDoc" where
  "js_cellDoc al x = x\<lparr>ced_Metadata := js_cellMetadata (ced_Metadata x),
    ced_Spec := js_cellSpec al (ced_Spec x), ced_Status := js_cellStatus (ced_Status x)\<rparr>"

lemma json_cellDoc [simp]: "dec_cellDoc al (enc_cellDoc x) = Inr (js_cellDoc al x)"
  by (simp add: enc_cellDoc_def dec_cellDoc_def js_cellDoc_def del: append_Nil2)

section \<open>Properties\<close>

text \<open>
  C14. Decoding the JSON of a realm, space, stack or cell document always succeeds and gives the
  document back. The only differences are those of the encoding: an empty slice under
  \<^verbatim>\<open>omitempty\<close> reads back nil, label maps come back in key order, and every volume reference is
  a fresh pointer.\<close>
theorem json_documents_roundtrip:
  "dec_realmDoc (enc_realmDoc r) = Inr (js_realmDoc r)
    \<and> dec_spaceDoc (enc_spaceDoc s) = Inr (js_spaceDoc s)
    \<and> dec_stackDoc (enc_stackDoc k) = Inr (js_stackDoc k)
    \<and> dec_cellDoc al (enc_cellDoc c) = Inr (js_cellDoc al c)"
  by simp

end
