(* ===== verification/Go_Fs.thy ===== *)
theory Go_Fs
  imports Api_Json "HOL-Library.AList" "HOL-Library.Sublist"
begin

text \<open>
  The part of the \<^verbatim>\<open>os\<close> and \<^verbatim>\<open>path/filepath\<close> packages that the stores use. A path is the list of
  its components, a file system is the list of its entries with the process umask, and every call
  returns the new file system or an error. Calls fail for structural reasons only (a missing entry,
  a file where a directory is needed, a directory that is not empty): a full disk or a refused
  permission is not represented.
\<close>

section \<open>Entries\<close>

type_synonym path = "string list"

text \<open>
  The bytes of a file. Bytes that \<^verbatim>\<open>encoding/json\<close> produced are kept as the tree together with the
  layout that was asked for; all other bytes are kept as they are and are not JSON.
\<close>

datatype layout = Indented | Compact | OtherLayout nat
datatype content = Json layout json | Raw string

record attr =
  at_mode :: int
  at_uid :: int
  at_gid :: int

datatype node = File attr content | Dir attr

record fsys =
  fs_entries :: "(path \<times> node) list"
  fs_umask :: int

fun IsDir :: "node \<Rightarrow> bool" where
  "IsDir (Dir _) = True"
| "IsDir (File _ _) = False"

fun node_attr :: "node \<Rightarrow> attr" where
  "node_attr (Dir a) = a"
| "node_attr (File a _) = a"

fun with_attr :: "attr \<Rightarrow> node \<Rightarrow> node" where
  "with_attr a (Dir _) = Dir a"
| "with_attr a (File _ c) = File a c"

definition root_attr :: attr where
  "root_attr = \<lparr>at_mode = 493, at_uid = 0, at_gid = 0\<rparr>"

text \<open>The entry at a path; the root directory always exists.\<close>

definition entry :: "fsys \<Rightarrow> path \<Rightarrow> node option" where
  "entry fs p = (if p = [] then Some (Dir root_attr) else map_of (fs_entries fs) p)"

definition put :: "path \<Rightarrow> node \<Rightarrow> fsys \<Rightarrow> fsys" where
  "put p n fs = fs\<lparr>fs_entries := AList.update p n (fs_entries fs)\<rparr>"

definition cut :: "path \<Rightarrow> fsys \<Rightarrow> fsys" where
  "cut p fs = fs\<lparr>fs_entries := filter (\<lambda>(q, _). \<not> prefix p q) (fs_entries fs)\<rparr>"

text \<open>Every entry lies in a directory.\<close>

definition fs_wf :: "fsys \<Rightarrow> bool" where
  "fs_wf fs \<longleftrightarrow> (\<forall>p n. entry fs (p @ [n]) \<noteq> None \<longrightarrow> (\<exists>a. entry fs p = Some (Dir a)))"

section \<open>Calls\<close>

definition Join :: "path \<Rightarrow> string list \<Rightarrow> path" where
  "Join base names = base @ filter (\<lambda>n. n \<noteq> '''') names"

definition through_file :: "fsys \<Rightarrow> path \<Rightarrow> bool" where
  "through_file fs p \<longleftrightarrow>
     list_ex (\<lambda>i. case entry fs (take i p) of Some (File _ _) \<Rightarrow> True | _ \<Rightarrow> False) [0..<length p]"

definition Stat :: "fsys \<Rightarrow> path \<Rightarrow> node result" where
  "Stat fs p = (if through_file fs p then Inl ErrNotDir
     else case entry fs p of None \<Rightarrow> Inl ErrNotExist | Some n \<Rightarrow> Inr n)"

definition ReadFile :: "fsys \<Rightarrow> path \<Rightarrow> content result" where
  "ReadFile fs p = rbind (Stat fs p) (\<lambda>n. case n of File _ c \<Rightarrow> Inr c | Dir _ \<Rightarrow> Inl ErrIsDir)"

definition names_in :: "fsys \<Rightarrow> path \<Rightarrow> string list" where
  "names_in fs p = sort (remdups (map last (filter (\<lambda>q. q \<noteq> [] \<and> butlast q = p) (map fst (fs_entries fs)))))"

definition ReadDir :: "fsys \<Rightarrow> path \<Rightarrow> (string \<times> bool) list result" where
  "ReadDir fs p = rbind (Stat fs p) (\<lambda>n. case n of
     File _ _ \<Rightarrow> Inl ErrNotDir
   | Dir _ \<Rightarrow> Inr (map (\<lambda>c. (c, case entry fs (p @ [c]) of Some m \<Rightarrow> IsDir m | None \<Rightarrow> False)) (names_in fs p)))"

definition RemoveAll :: "path \<Rightarrow> fsys \<Rightarrow> fsys result" where
  "RemoveAll p fs = Inr (cut p fs)"

definition Remove :: "path \<Rightarrow> fsys \<Rightarrow> fsys result" where
  "Remove p fs = rbind (Stat fs p) (\<lambda>n.
     if IsDir n \<and> names_in fs p \<noteq> [] then Inl ErrNotEmpty else Inr (cut p fs))"

definition Chmod :: "path \<Rightarrow> int \<Rightarrow> fsys \<Rightarrow> fsys result" where
  "Chmod p mode fs = rbind (Stat fs p) (\<lambda>n. Inr (put p (with_attr ((node_attr n)\<lparr>at_mode := mode\<rparr>) n) fs))"

text \<open>An owner or group of -1 is left as it is.\<close>

definition Chown :: "path \<Rightarrow> int \<Rightarrow> int \<Rightarrow> fsys \<Rightarrow> fsys result" where
  "Chown p uid gid fs = rbind (Stat fs p) (\<lambda>n. let a = node_attr n in
     Inr (put p (with_attr (a\<lparr>at_uid := (if uid = -1 then at_uid a else uid),
       at_gid := (if gid = -1 then at_gid a else gid)\<rparr>) n) fs))"

text \<open>The group of a new entry is that of a set-group-id directory it is created in.\<close>

definition new_attr :: "fsys \<Rightarrow> path \<Rightarrow> int \<Rightarrow> attr" where
  "new_attr fs p mode = \<lparr>at_mode = mode, at_uid = 0, at_gid =
     (case entry fs (butlast p) of
        Some (Dir a) \<Rightarrow> if at_mode a div 1024 mod 2 = 1 then at_gid a else 0
      | _ \<Rightarrow> 0)\<rparr>"

text \<open>
  \<^verbatim>\<open>MkdirAll\<close> creates the missing directories of the path with the permission bits that the umask
  leaves, and fails when a component is a file.
\<close>

fun mkdirs :: "nat \<Rightarrow> path \<Rightarrow> int \<Rightarrow> fsys \<Rightarrow> fsys result" where
  "mkdirs 0 p mode fs = Inr fs"
| "mkdirs (Suc k) p mode fs = (let q = take (length p - k) p in
     case entry fs q of
       Some (Dir _) \<Rightarrow> mkdirs k p mode fs
     | Some (File _ _) \<Rightarrow> Inl ErrNotDir
     | None \<Rightarrow> mkdirs k p mode (put q (Dir (new_attr fs q (and (and mode 511) (not (fs_umask fs))))) fs))"

definition MkdirAll :: "path \<Rightarrow> int \<Rightarrow> fsys \<Rightarrow> fsys result" where
  "MkdirAll p mode fs = mkdirs (length p) p mode fs"

text \<open>
  A file written under a temporary name in \<^verbatim>\<open>dir\<close>, given its mode, and renamed over \<^verbatim>\<open>path\<close>: the
  rename fails only when a directory is in the way, and the temporary name is gone in either case.
\<close>

definition replace_file :: "path \<Rightarrow> path \<Rightarrow> content \<Rightarrow> int \<Rightarrow> fsys \<Rightarrow> fsys result" where
  "replace_file dir p data mode fs = rbind (Stat fs dir) (\<lambda>d.
     if \<not> IsDir d then Inl ErrNotDir
     else case entry fs p of
       Some (Dir _) \<Rightarrow> Inl ErrExist
     | _ \<Rightarrow> Inr (put p (File (new_attr fs p mode) data) fs))"

section \<open>Laws\<close>

lemma entry_Nil [simp]: "entry fs [] = Some (Dir root_attr)"
  by (simp add: entry_def)

lemma entry_put [simp]: "entry (put p n fs) q = (if q = p \<and> p \<noteq> [] then Some n else entry fs q)"
  by (auto simp: entry_def put_def update_conv')

lemma map_of_filter_key: "map_of (filter (\<lambda>(q, _). P q) xs) p = (if P p then map_of xs p else None)"
  by (induction xs) auto

lemma entry_cut [simp]: "entry (cut p fs) q = (if q \<noteq> [] \<and> prefix p q then None else entry fs q)"
  by (simp add: entry_def cut_def map_of_filter_key)

lemma umask_put_cut [simp]: "fs_umask (put p n fs) = fs_umask fs" "fs_umask (cut p fs) = fs_umask fs"
  by (simp_all add: put_def cut_def)

lemma names_in_iff: "c \<in> set (names_in fs p) \<longleftrightarrow> entry fs (p @ [c]) \<noteq> None"
proof -
  have "c \<in> set (names_in fs p) \<longleftrightarrow> p @ [c] \<in> fst ` set (fs_entries fs)"
  proof
    assume "c \<in> set (names_in fs p)"
    then obtain q where "q \<in> fst ` set (fs_entries fs)" "q \<noteq> []" "butlast q = p" "c = last q"
      by (auto simp: names_in_def image_iff)
    then show "p @ [c] \<in> fst ` set (fs_entries fs)" using append_butlast_last_id by metis
  next
    assume "p @ [c] \<in> fst ` set (fs_entries fs)"
    then show "c \<in> set (names_in fs p)" by (force simp: names_in_def image_iff)
  qed
  then show ?thesis by (simp add: entry_def map_of_eq_None_iff)
qed

lemma distinct_names_in [simp]: "distinct (names_in fs p)"
  by (simp add: names_in_def)

lemma sorted_names_in [simp]: "sorted (names_in fs p)"
  by (simp add: names_in_def)

lemma names_in_empty_iff: "names_in fs p = [] \<longleftrightarrow> (\<forall>c. entry fs (p @ [c]) = None)"
  using names_in_iff[of _ fs p] by (simp flip: set_empty add: set_eq_iff del: set_empty)

text \<open>In a well-formed file system every directory on the way to an entry exists.\<close>

lemma fs_wfD: "fs_wf fs \<Longrightarrow> entry fs (p @ [n]) \<noteq> None \<Longrightarrow> \<exists>a. entry fs p = Some (Dir a)"
  unfolding fs_wf_def by blast

lemma entry_prefix_dir:
  assumes "fs_wf fs" "entry fs q \<noteq> None" "strict_prefix p q"
  shows "\<exists>a. entry fs p = Some (Dir a)"
  using assms(2,3)
proof (induction q rule: rev_induct)
  case (snoc n q)
  then have up: "\<exists>a. entry fs q = Some (Dir a)" using fs_wfD[OF assms(1)] by blast
  show ?case
  proof (cases "p = q")
    case False
    then have "strict_prefix p q" using snoc.prems(2) by (auto simp: strict_prefix_def)
    then show ?thesis using up snoc.IH by auto
  qed (use up in simp)
qed (simp add: strict_prefix_def)

lemma take_strict_prefix: "i < length p \<Longrightarrow> strict_prefix (take i p) p"
  by (metis length_take min.absorb4 nat_neq_iff strict_prefixI take_is_prefix)

lemma through_file_iff: "through_file fs p \<longleftrightarrow> (\<exists>i < length p. \<exists>a c. entry fs (take i p) = Some (File a c))"
  unfolding through_file_def list_ex_iff by (fastforce split: option.splits node.splits)

lemma through_file_entry:
  assumes "fs_wf fs" "entry fs p \<noteq> None"
  shows "\<not> through_file fs p"
proof -
  have "\<exists>a. entry fs (take i p) = Some (Dir a)" if "i < length p" for i
    using entry_prefix_dir[OF assms take_strict_prefix[OF that]] .
  then show ?thesis unfolding through_file_iff by fastforce
qed

lemma through_file_below:
  assumes "fs_wf fs" "entry fs p = Some (Dir a)"
  shows "\<not> through_file fs (p @ [n])"
proof -
  have "entry fs (take i (p @ [n])) = None \<or> (\<exists>b. entry fs (take i (p @ [n])) = Some (Dir b))" if "i < Suc (length p)" for i
  proof (cases "i = length p")
    case False
    with that have "i < length p" by simp
    with entry_prefix_dir[OF assms(1) _ take_strict_prefix, of p i] assms(2) show ?thesis by simp
  qed (simp add: assms)
  then show ?thesis unfolding through_file_iff by fastforce
qed

lemma Stat_Inr: "fs_wf fs \<Longrightarrow> Stat fs p = Inr n \<longleftrightarrow> entry fs p = Some n"
  using through_file_entry[of fs p] by (auto simp: Stat_def split: option.splits)

lemma Stat_missing:
  assumes "fs_wf fs" "entry fs p = Some (Dir a)" "entry fs (p @ [n]) = None"
  shows "Stat fs (p @ [n]) = Inl ErrNotExist"
  using through_file_below[OF assms(1,2)] assms(3) by (simp add: Stat_def)

lemma ReadFile_Inr: "fs_wf fs \<Longrightarrow> ReadFile fs p = Inr c \<longleftrightarrow> (\<exists>a. entry fs p = Some (File a c))"
proof -
  assume "fs_wf fs"
  then show ?thesis
    by (cases "entry fs p"; cases "the (entry fs p)") (auto simp: ReadFile_def rbind_eq_Inr Stat_Inr)
qed

section \<open>Well-formedness is kept\<close>

lemma fs_wf_put:
  assumes "fs_wf fs" "entry fs p = Some (Dir a)"
    and "\<not> IsDir m \<Longrightarrow> (case entry fs (p @ [n]) of Some (Dir _) \<Rightarrow> False | _ \<Rightarrow> True)"
  shows "fs_wf (put (p @ [n]) m fs)"
  unfolding fs_wf_def
proof (intro allI impI)
  fix q c
  let ?fs = "put (p @ [n]) m fs"
  assume "entry ?fs (q @ [c]) \<noteq> None"
  then consider "q @ [c] = p @ [n]" | "entry fs (q @ [c]) \<noteq> None" by (auto split: if_splits)
  then show "\<exists>a. entry ?fs q = Some (Dir a)"
  proof cases
    case 1
    then show ?thesis using assms(2) by auto
  next
    case 2
    from fs_wfD[OF assms(1) this] obtain b where b: "entry fs q = Some (Dir b)" ..
    then show ?thesis using assms(3) by (cases m) (auto split: if_splits)
  qed
qed

lemma fs_wf_cut:
  assumes "fs_wf fs"
  shows "fs_wf (cut p fs)"
  unfolding fs_wf_def
proof (intro allI impI)
  fix q c
  assume a: "entry (cut p fs) (q @ [c]) \<noteq> None"
  then have "entry fs (q @ [c]) \<noteq> None" "\<not> prefix p (q @ [c])" by (auto split: if_splits)
  moreover from this(2) have "\<not> prefix p q" by auto
  ultimately show "\<exists>a. entry (cut p fs) q = Some (Dir a)" using fs_wfD[OF assms, of q c] by simp
qed

text \<open>What \<^verbatim>\<open>MkdirAll\<close> leaves behind: the path is a directory, and nothing else has changed.\<close>

definition dirs_added :: "path \<Rightarrow> fsys \<Rightarrow> fsys \<Rightarrow> bool" where
  "dirs_added p fs fs' \<longleftrightarrow> fs_wf fs' \<and> (\<exists>a. entry fs' p = Some (Dir a)) \<and> fs_umask fs' = fs_umask fs
     \<and> (\<forall>q. entry fs q \<noteq> None \<or> \<not> prefix q p \<longrightarrow> entry fs' q = entry fs q)
     \<and> (\<forall>q. prefix q p \<longrightarrow> (\<exists>a. entry fs' q = Some (Dir a)))"

lemma dirs_added_step:
  assumes "fs_wf fs" "entry fs (butlast q) = Some (Dir a)" "q \<noteq> []" "entry fs q = None" "prefix q p"
    and "dirs_added p (put q (Dir b) fs) fs'"
  shows "dirs_added p fs fs'"
  using assms unfolding dirs_added_def by (metis entry_put option.discI umask_put_cut(1))

lemma mkdirs_added:
  assumes "mkdirs k p mode fs = Inr fs'" "fs_wf fs" "k \<le> length p" "entry fs (take (length p - k) p) = Some (Dir a)"
  shows "dirs_added p fs fs'"
  using assms
proof (induction k p mode fs arbitrary: a rule: mkdirs.induct)
  case (1 p mode fs)
  then have "\<exists>b. entry fs q = Some (Dir b)" if "prefix q p" for q
    using entry_prefix_dir[of fs p q] that by (cases "q = p") (auto simp: strict_prefix_def)
  with 1 show ?case by (auto simp: dirs_added_def)
next
  case (2 k p mode fs)
  let ?q = "take (length p - k) p"
  have q: "?q \<noteq> []" "butlast ?q = take (length p - Suc k) p" "prefix ?q p"
    using 2(5) by (auto simp: butlast_take take_is_prefix)
  have snoc: "?q = take (length p - Suc k) p @ [p ! (length p - Suc k)]"
    using 2(5) by (metis Suc_diff_Suc Suc_le_eq diff_less less_le_trans take_Suc_conv_app_nth zero_less_Suc)
  show ?case
  proof (cases "entry fs ?q")
    case None
    let ?fs = "put ?q (Dir (new_attr fs ?q (and (and mode 511) (not (fs_umask fs))))) fs"
    have wf: "fs_wf ?fs" unfolding snoc by (rule fs_wf_put[OF 2(4) 2(6)]) simp
    have "mkdirs k p mode ?fs = Inr fs'" using 2(3) None by (simp add: Let_def)
    then have "dirs_added p ?fs fs'" using 2(1)[OF refl None _ wf] 2(5) q(1) by simp
    then show ?thesis using dirs_added_step[OF 2(4) _ q(1) None q(3)] q(2) 2(6) by simp
  next
    case (Some n)
    then obtain b where b: "n = Dir b" using 2(3) by (cases n) (auto simp: Let_def)
    then show ?thesis using 2(2)[OF refl Some] 2(3-5) Some by (simp add: Let_def)
  qed
qed

lemma MkdirAll_added: "MkdirAll p mode fs = Inr fs' \<Longrightarrow> fs_wf fs \<Longrightarrow> dirs_added p fs fs'"
  unfolding MkdirAll_def by (rule mkdirs_added) auto

lemma MkdirAll_ok:
  assumes "fs_wf fs" "\<And>q. prefix q p \<Longrightarrow> (case entry fs q of Some (File _ _) \<Rightarrow> False | _ \<Rightarrow> True)"
  shows "\<exists>fs'. MkdirAll p mode fs = Inr fs'"
proof -
  have "\<exists>fs'. mkdirs k p mode fs = Inr fs'"
    if "\<And>q. prefix q p \<Longrightarrow> (case entry fs q of Some (File _ _) \<Rightarrow> False | _ \<Rightarrow> True)" for k fs
    using that
  proof (induction k p mode fs rule: mkdirs.induct)
    case (2 k p mode fs)
    have "prefix (take (length p - k) p) p" by (rule take_is_prefix)
    from 2(3)[OF this] show ?case
    proof (cases "entry fs (take (length p - k) p)")
      case None
      show ?thesis using 2(1)[OF refl None] 2(3) None by (fastforce simp: Let_def split: if_splits)
    next
      case (Some n)
      with 2(3)[OF take_is_prefix[of "length p - k"]] obtain b where "n = Dir b" by (cases n) auto
      then show ?thesis using 2(2)[OF refl Some] 2(3) Some by (simp add: Let_def)
    qed
  qed simp
  then show ?thesis using assms(2) by (simp add: MkdirAll_def)
qed

section \<open>Sequencing\<close>

text \<open>
  An operation returns the file system it leaves behind together with its value or its error: what
  an operation did before it failed stays done.
\<close>

type_synonym 'a io = "fsys \<Rightarrow> fsys \<times> 'a result"

definition ret :: "'a \<Rightarrow> 'a io" where
  "ret x fs = (fs, Inr x)"

definition fail :: "goerror \<Rightarrow> 'a io" where
  "fail e fs = (fs, Inl e)"

definition bind_io :: "'a io \<Rightarrow> ('a \<Rightarrow> 'b io) \<Rightarrow> 'b io" where
  "bind_io m f fs = (case m fs of (fs', Inl e) \<Rightarrow> (fs', Inl e) | (fs', Inr x) \<Rightarrow> f x fs')"

definition call :: "(fsys \<Rightarrow> fsys result) \<Rightarrow> unit io" where
  "call f fs = (case f fs of Inl e \<Rightarrow> (fs, Inl e) | Inr fs' \<Rightarrow> (fs', Inr ()))"

definition query :: "(fsys \<Rightarrow> 'a result) \<Rightarrow> 'a io" where
  "query f fs = (fs, f fs)"

definition wrap_io :: "goerror \<Rightarrow> 'a io \<Rightarrow> 'a io" where
  "wrap_io s m fs = (case m fs of (fs', Inl e) \<Rightarrow> (fs', Inl (Wrapped s e)) | (fs', Inr x) \<Rightarrow> (fs', Inr x))"

lemma bind_io_Inr: "bind_io m f fs = (fs'', Inr y) \<longleftrightarrow> (\<exists>fs' x. m fs = (fs', Inr x) \<and> f x fs' = (fs'', Inr y))"
  by (cases "m fs"; cases "snd (m fs)") (auto simp: bind_io_def)

lemma call_Inr: "call f fs = (fs', Inr u) \<longleftrightarrow> f fs = Inr fs'"
  by (cases "f fs") (auto simp: call_def)

lemma query_Inr: "query f fs = (fs', Inr x) \<longleftrightarrow> fs' = fs \<and> f fs = Inr x"
  by (auto simp: query_def)

lemma ret_Inr: "ret x fs = (fs', Inr y) \<longleftrightarrow> fs' = fs \<and> y = x"
  by (auto simp: ret_def)

lemma wrap_io_Inr [simp]: "wrap_io s m fs = (fs', Inr x) \<longleftrightarrow> m fs = (fs', Inr x)"
  by (cases "m fs"; cases "snd (m fs)") (auto simp: wrap_io_def)

lemmas io_Inr = bind_io_Inr call_Inr query_Inr ret_Inr

end
