(* ===== verification/Fs_Layout.thy ===== *)
theory Fs_Layout
  imports Go_Fs Naming
begin

text \<open>
  Where everything lives on disk: the path functions of \<^verbatim>\<open>internal/util/fs/metadata.go\<close> and the
  names they use from \<^verbatim>\<open>internal/consts/consts.go\<close>. The lemmas give each path as the run path
  followed by its components, and show when two resources can meet in one place.
\<close>

section \<open>Names\<close>

definition KukeonMetadataFile :: string where "KukeonMetadataFile = ''metadata.json''"
definition KukeonMetadataSubdir :: string where "KukeonMetadataSubdir = ''data''"
definition KukeonSecretsSubdir :: string where "KukeonSecretsSubdir = ''secrets''"
definition KukeonBlueprintsSubdir :: string where "KukeonBlueprintsSubdir = ''blueprints''"
definition KukeonConfigsSubdir :: string where "KukeonConfigsSubdir = ''configs''"
definition KukeonVolumesSubdir :: string where "KukeonVolumesSubdir = ''volumes''"
definition KukeonVolumeMetaSubdir :: string where "KukeonVolumeMetaSubdir = ''volume-meta''"
definition KukeonContainerTTYDir :: string where "KukeonContainerTTYDir = ''tty''"
definition KukeonContainerSocketFile :: string where "KukeonContainerSocketFile = ''socket''"
definition KukeonSocketSymlinkSubdir :: string where "KukeonSocketSymlinkSubdir = ''s''"
definition KukeonContainerCaptureFile :: string where "KukeonContainerCaptureFile = ''capture''"
definition KukeonContainerLogFile :: string where "KukeonContainerLogFile = ''log''"
definition KukeonContainerKukettyLogFile :: string where "KukeonContainerKukettyLogFile = ''kuketty.log''"

lemmas layout_names = KukeonMetadataFile_def KukeonMetadataSubdir_def KukeonSecretsSubdir_def KukeonBlueprintsSubdir_def
  KukeonConfigsSubdir_def KukeonVolumesSubdir_def KukeonVolumeMetaSubdir_def
  KukeonContainerTTYDir_def KukeonContainerSocketFile_def KukeonSocketSymlinkSubdir_def
  KukeonContainerCaptureFile_def KukeonContainerLogFile_def KukeonContainerKukettyLogFile_def

section \<open>Paths\<close>

definition MetadataRoot :: "path \<Rightarrow> path" where
  "MetadataRoot base = Join base [KukeonMetadataSubdir]"

definition RealmMetadataDir :: "path \<Rightarrow> string \<Rightarrow> path" where
  "RealmMetadataDir base realmName = Join (MetadataRoot base) [realmName]"

definition RealmMetadataPath :: "path \<Rightarrow> string \<Rightarrow> path" where
  "RealmMetadataPath base realmName = Join (RealmMetadataDir base realmName) [KukeonMetadataFile]"

definition SpaceMetadataDir :: "path \<Rightarrow> string \<Rightarrow> string \<Rightarrow> path" where
  "SpaceMetadataDir base realmName spaceName = Join (RealmMetadataDir base realmName) [spaceName]"

definition SpaceMetadataPath :: "path \<Rightarrow> string \<Rightarrow> string \<Rightarrow> path" where
  "SpaceMetadataPath base realmName spaceName =
     Join (SpaceMetadataDir base realmName spaceName) [KukeonMetadataFile]"

definition StackMetadataDir ::
  "path \<Rightarrow> string \<Rightarrow> string \<Rightarrow> string \<Rightarrow> path" where
  "StackMetadataDir base realmName spaceName stackName =
     Join (SpaceMetadataDir base realmName spaceName) [stackName]"

definition StackMetadataPath ::
  "path \<Rightarrow> string \<Rightarrow> string \<Rightarrow> string \<Rightarrow> path" where
  "StackMetadataPath base realmName spaceName stackName =
     Join (StackMetadataDir base realmName spaceName stackName) [KukeonMetadataFile]"

definition CellMetadataDir ::
  "path \<Rightarrow> string \<Rightarrow> string \<Rightarrow> string \<Rightarrow> string \<Rightarrow> path" where
  "CellMetadataDir base realmName spaceName stackName cellName =
     Join (StackMetadataDir base realmName spaceName stackName) [cellName]"

definition CellMetadataPath ::
  "path \<Rightarrow> string \<Rightarrow> string \<Rightarrow> string \<Rightarrow> string \<Rightarrow> path" where
  "CellMetadataPath base realmName spaceName stackName cellName =
     Join (CellMetadataDir base realmName spaceName stackName cellName) [KukeonMetadataFile]"

definition CellEtcHostsPath ::
  "path \<Rightarrow> string \<Rightarrow> string \<Rightarrow> string \<Rightarrow> string \<Rightarrow> path" where
  "CellEtcHostsPath base realmName spaceName stackName cellName =
     Join (CellMetadataDir base realmName spaceName stackName cellName) [''etc-hosts'']"

definition CellEtcHostnamePath ::
  "path \<Rightarrow> string \<Rightarrow> string \<Rightarrow> string \<Rightarrow> string \<Rightarrow> path" where
  "CellEtcHostnamePath base realmName spaceName stackName cellName =
     Join (CellMetadataDir base realmName spaceName stackName cellName) [''etc-hostname'']"

definition ContainerMetadataDir ::
  "path \<Rightarrow> string \<Rightarrow> string \<Rightarrow> string \<Rightarrow> string \<Rightarrow> string \<Rightarrow> path" where
  "ContainerMetadataDir base realmName spaceName stackName cellName containerName =
     Join (CellMetadataDir base realmName spaceName stackName cellName) [containerName]"

definition ContainerTTYDir ::
  "path \<Rightarrow> string \<Rightarrow> string \<Rightarrow> string \<Rightarrow> string \<Rightarrow> string \<Rightarrow> path" where
  "ContainerTTYDir base realmName spaceName stackName cellName containerName =
     Join (ContainerMetadataDir base realmName spaceName stackName cellName containerName) [KukeonContainerTTYDir]"

definition ContainerSocketPath ::
  "path \<Rightarrow> string \<Rightarrow> string \<Rightarrow> string \<Rightarrow> string \<Rightarrow> string \<Rightarrow> path" where
  "ContainerSocketPath base realmName spaceName stackName cellName containerName =
     Join (ContainerTTYDir base realmName spaceName stackName cellName containerName) [KukeonContainerSocketFile]"

definition ContainerSocketSymlinkDir :: "path \<Rightarrow> path" where
  "ContainerSocketSymlinkDir base = Join base [KukeonSocketSymlinkSubdir]"

text \<open>The digest is an argument: the first sixteen hexadecimal digits of the SHA-256 of a string.\<close>

definition containerSocketShortID ::
  "(string \<Rightarrow> string) \<Rightarrow> string \<Rightarrow> string \<Rightarrow> string \<Rightarrow> string \<Rightarrow> string \<Rightarrow> string" where
  "containerSocketShortID sha256_16 realmName spaceName stackName cellName containerName =
     sha256_16 (realmName @ ''_'' @ spaceName @ ''_'' @ stackName @ ''_'' @ cellName @ ''_'' @ containerName)"

definition ContainerSocketSymlinkPath ::
  "(string \<Rightarrow> string) \<Rightarrow> path \<Rightarrow> string \<Rightarrow> string \<Rightarrow> string \<Rightarrow> string \<Rightarrow> string \<Rightarrow> path" where
  "ContainerSocketSymlinkPath sha256_16 base realmName spaceName stackName cellName containerName =
     Join (ContainerSocketSymlinkDir base)
       [containerSocketShortID sha256_16 realmName spaceName stackName cellName containerName]"

definition ContainerCapturePath ::
  "path \<Rightarrow> string \<Rightarrow> string \<Rightarrow> string \<Rightarrow> string \<Rightarrow> string \<Rightarrow> path" where
  "ContainerCapturePath base realmName spaceName stackName cellName containerName =
     Join (ContainerTTYDir base realmName spaceName stackName cellName containerName) [KukeonContainerCaptureFile]"

definition ContainerKukettyLogPath ::
  "path \<Rightarrow> string \<Rightarrow> string \<Rightarrow> string \<Rightarrow> string \<Rightarrow> string \<Rightarrow> path" where
  "ContainerKukettyLogPath base realmName spaceName stackName cellName containerName =
     Join (ContainerTTYDir base realmName spaceName stackName cellName containerName) [KukeonContainerKukettyLogFile]"

definition ContainerLogPath ::
  "path \<Rightarrow> string \<Rightarrow> string \<Rightarrow> string \<Rightarrow> string \<Rightarrow> string \<Rightarrow> path" where
  "ContainerLogPath base realmName spaceName stackName cellName containerName =
     Join (ContainerMetadataDir base realmName spaceName stackName cellName containerName) [KukeonContainerLogFile]"

definition SecretScopeDir ::
  "path \<Rightarrow> string \<Rightarrow> string \<Rightarrow> string \<Rightarrow> string \<Rightarrow> path" where
  "SecretScopeDir base realmName spaceName stackName cellName = 
     (if cellName \<noteq> '''' then CellMetadataDir base realmName spaceName stackName cellName
      else if stackName \<noteq> '''' then StackMetadataDir base realmName spaceName stackName
      else if spaceName \<noteq> '''' then SpaceMetadataDir base realmName spaceName
      else RealmMetadataDir base realmName)"

definition SecretsDir ::
  "path \<Rightarrow> string \<Rightarrow> string \<Rightarrow> string \<Rightarrow> string \<Rightarrow> path" where
  "SecretsDir base realmName spaceName stackName cellName =
     Join (SecretScopeDir base realmName spaceName stackName cellName) [KukeonSecretsSubdir]"

definition SecretPath ::
  "path \<Rightarrow> string \<Rightarrow> string \<Rightarrow> string \<Rightarrow> string \<Rightarrow> string \<Rightarrow> path" where
  "SecretPath base realmName spaceName stackName cellName secretName =
     Join (SecretsDir base realmName spaceName stackName cellName) [secretName]"

definition BlueprintScopeDir ::
  "path \<Rightarrow> string \<Rightarrow> string \<Rightarrow> string \<Rightarrow> path" where
  "BlueprintScopeDir base realmName spaceName stackName = 
     (if stackName \<noteq> '''' then StackMetadataDir base realmName spaceName stackName
      else if spaceName \<noteq> '''' then SpaceMetadataDir base realmName spaceName
      else RealmMetadataDir base realmName)"

definition BlueprintsDir ::
  "path \<Rightarrow> string \<Rightarrow> string \<Rightarrow> string \<Rightarrow> path" where
  "BlueprintsDir base realmName spaceName stackName =
     Join (BlueprintScopeDir base realmName spaceName stackName) [KukeonBlueprintsSubdir]"

definition BlueprintPath ::
  "path \<Rightarrow> string \<Rightarrow> string \<Rightarrow> string \<Rightarrow> string \<Rightarrow> path" where
  "BlueprintPath base realmName spaceName stackName blueprintName =
     Join (BlueprintsDir base realmName spaceName stackName) [blueprintName]"

definition ConfigScopeDir ::
  "path \<Rightarrow> string \<Rightarrow> string \<Rightarrow> string \<Rightarrow> path" where
  "ConfigScopeDir base realmName spaceName stackName = 
     (if stackName \<noteq> '''' then StackMetadataDir base realmName spaceName stackName
      else if spaceName \<noteq> '''' then SpaceMetadataDir base realmName spaceName
      else RealmMetadataDir base realmName)"

definition ConfigsDir ::
  "path \<Rightarrow> string \<Rightarrow> string \<Rightarrow> string \<Rightarrow> path" where
  "ConfigsDir base realmName spaceName stackName =
     Join (ConfigScopeDir base realmName spaceName stackName) [KukeonConfigsSubdir]"

definition ConfigPath ::
  "path \<Rightarrow> string \<Rightarrow> string \<Rightarrow> string \<Rightarrow> string \<Rightarrow> path" where
  "ConfigPath base realmName spaceName stackName configName =
     Join (ConfigsDir base realmName spaceName stackName) [configName]"

definition VolumeScopeDir ::
  "path \<Rightarrow> string \<Rightarrow> string \<Rightarrow> string \<Rightarrow> path" where
  "VolumeScopeDir base realmName spaceName stackName = 
     (if stackName \<noteq> '''' then StackMetadataDir base realmName spaceName stackName
      else if spaceName \<noteq> '''' then SpaceMetadataDir base realmName spaceName
      else RealmMetadataDir base realmName)"

definition VolumesDir ::
  "path \<Rightarrow> string \<Rightarrow> string \<Rightarrow> string \<Rightarrow> path" where
  "VolumesDir base realmName spaceName stackName =
     Join (VolumeScopeDir base realmName spaceName stackName) [KukeonVolumesSubdir]"

definition VolumePath ::
  "path \<Rightarrow> string \<Rightarrow> string \<Rightarrow> string \<Rightarrow> string \<Rightarrow> path" where
  "VolumePath base realmName spaceName stackName volumeName =
     Join (VolumesDir base realmName spaceName stackName) [volumeName]"

definition VolumeMetaDir ::
  "path \<Rightarrow> string \<Rightarrow> string \<Rightarrow> string \<Rightarrow> path" where
  "VolumeMetaDir base realmName spaceName stackName =
     Join (VolumeScopeDir base realmName spaceName stackName) [KukeonVolumeMetaSubdir]"

definition VolumeMetaPath ::
  "path \<Rightarrow> string \<Rightarrow> string \<Rightarrow> string \<Rightarrow> string \<Rightarrow> path" where
  "VolumeMetaPath base realmName spaceName stackName volumeName =
     Join (VolumeMetaDir base realmName spaceName stackName) [volumeName @ ''.json'']"

lemmas layout_defs =
  MetadataRoot_def RealmMetadataDir_def RealmMetadataPath_def SpaceMetadataDir_def SpaceMetadataPath_def
  StackMetadataDir_def StackMetadataPath_def CellMetadataDir_def CellMetadataPath_def
  CellEtcHostsPath_def CellEtcHostnamePath_def ContainerMetadataDir_def ContainerTTYDir_def
  ContainerSocketPath_def ContainerSocketSymlinkDir_def ContainerSocketSymlinkPath_def
  ContainerCapturePath_def ContainerKukettyLogPath_def ContainerLogPath_def SecretScopeDir_def
  SecretsDir_def SecretPath_def BlueprintScopeDir_def BlueprintsDir_def BlueprintPath_def
  ConfigScopeDir_def ConfigsDir_def ConfigPath_def VolumeScopeDir_def VolumesDir_def VolumePath_def
  VolumeMetaDir_def VolumeMetaPath_def

section \<open>Scopes and resources\<close>

text \<open>
  A scope is a realm, a space, a stack or a cell: its coordinates, outermost first, with the empty
  string for the levels below it.
\<close>

definition coords :: "string \<Rightarrow> string \<Rightarrow> string \<Rightarrow> string \<Rightarrow> string list" where
  "coords r s t c = filter (\<lambda>n. n \<noteq> '''') [r, s, t, c]"

definition scope_complete :: "string \<Rightarrow> string \<Rightarrow> string \<Rightarrow> string \<Rightarrow> bool" where
  "scope_complete r s t c \<longleftrightarrow> r \<noteq> '''' \<and> (s = '''' \<longrightarrow> t = '''') \<and> (t = '''' \<longrightarrow> c = '''')"

lemma coords_inject:
  "scope_complete r s t c \<Longrightarrow> scope_complete r' s' t' c' \<Longrightarrow>
    coords r s t c = coords r' s' t' c' \<longleftrightarrow> r = r' \<and> s = s' \<and> t = t' \<and> c = c'"
  by (auto simp: coords_def scope_complete_def)

lemma scope_dirs:
  "scope_complete r s t c \<Longrightarrow> SecretScopeDir base r s t c = base @ KukeonMetadataSubdir # coords r s t c"
  "scope_complete r s t '''' \<Longrightarrow> BlueprintScopeDir base r s t = base @ KukeonMetadataSubdir # coords r s t ''''"
  "scope_complete r s t '''' \<Longrightarrow> ConfigScopeDir base r s t = base @ KukeonMetadataSubdir # coords r s t ''''"
  "scope_complete r s t '''' \<Longrightarrow> VolumeScopeDir base r s t = base @ KukeonMetadataSubdir # coords r s t ''''"
  by (auto simp: layout_defs Join_def coords_def scope_complete_def KukeonMetadataSubdir_def)

text \<open>What is stored for a scope: its own document, and the resources bound to it.\<close>

datatype resource = Metadata | Secrets string | Blueprints string | Configs string | Volumes string | VolumeMetas string

fun resource_path :: "path \<Rightarrow> string \<Rightarrow> string \<Rightarrow> string \<Rightarrow> string \<Rightarrow> resource \<Rightarrow> path" where
  "resource_path base r s t c Metadata =
     (if c \<noteq> '''' then CellMetadataPath base r s t c
      else if t \<noteq> '''' then StackMetadataPath base r s t
      else if s \<noteq> '''' then SpaceMetadataPath base r s
      else RealmMetadataPath base r)"
| "resource_path base r s t c (Secrets n) = SecretPath base r s t c n"
| "resource_path base r s t c (Blueprints n) = BlueprintPath base r s t n"
| "resource_path base r s t c (Configs n) = ConfigPath base r s t n"
| "resource_path base r s t c (Volumes n) = VolumePath base r s t n"
| "resource_path base r s t c (VolumeMetas n) = VolumeMetaPath base r s t n"

fun resource_leaf :: "resource \<Rightarrow> string list" where
  "resource_leaf Metadata = [KukeonMetadataFile]"
| "resource_leaf (Secrets n) = [KukeonSecretsSubdir, n]"
| "resource_leaf (Blueprints n) = [KukeonBlueprintsSubdir, n]"
| "resource_leaf (Configs n) = [KukeonConfigsSubdir, n]"
| "resource_leaf (Volumes n) = [KukeonVolumesSubdir, n]"
| "resource_leaf (VolumeMetas n) = [KukeonVolumeMetaSubdir, n @ ''.json'']"

text \<open>The names a scope must not have, because they mean something else below its parent.\<close>

definition reserved_names :: "string list" where
  "reserved_names =
     [KukeonSecretsSubdir, KukeonBlueprintsSubdir, KukeonConfigsSubdir, KukeonVolumesSubdir, KukeonVolumeMetaSubdir]"

text \<open>
  A resource that may exist: its scope is complete and unreserved, it has a name, and only secrets
  and metadata live in a cell.
\<close>

fun resource_ok :: "string \<Rightarrow> string \<Rightarrow> string \<Rightarrow> string \<Rightarrow> resource \<Rightarrow> bool" where
  "resource_ok r s t c x \<longleftrightarrow> scope_complete r s t c \<and> list_all (\<lambda>n. n \<notin> set reserved_names) [s, t, c]
     \<and> (case x of Metadata \<Rightarrow> True | Secrets n \<Rightarrow> n \<noteq> ''''
        | Blueprints n \<Rightarrow> n \<noteq> '''' \<and> c = '''' | Configs n \<Rightarrow> n \<noteq> '''' \<and> c = ''''
        | Volumes n \<Rightarrow> n \<noteq> '''' \<and> c = '''' | VolumeMetas n \<Rightarrow> n \<noteq> '''' \<and> c = '''')"

lemma resource_path_split:
  assumes "scope_complete r s t c"
    "case x of Metadata \<Rightarrow> True | Secrets n \<Rightarrow> n \<noteq> ''''
        | Blueprints n \<Rightarrow> n \<noteq> '''' \<and> c = '''' | Configs n \<Rightarrow> n \<noteq> '''' \<and> c = ''''
        | Volumes n \<Rightarrow> n \<noteq> '''' \<and> c = '''' | VolumeMetas n \<Rightarrow> n \<noteq> '''' \<and> c = ''''"
  shows "resource_path base r s t c x = base @ KukeonMetadataSubdir # coords r s t c @ resource_leaf x"
  using assms
  by (cases x) (auto simp: layout_defs Join_def coords_def scope_complete_def layout_names)

lemma resource_leaf_inject [simp]: "resource_leaf x = resource_leaf y \<longleftrightarrow> x = y"
  by (cases x; cases y) (simp_all add: layout_names)

lemma resource_leaf_cases:
  obtains "x = Metadata" "resource_leaf x = [KukeonMetadataFile]"
  | sub n where "sub \<in> set reserved_names" "resource_leaf x = [sub, n]"
  by (cases x) (simp_all add: reserved_names_def)

lemma coords_end:
  assumes "scope_complete r s t c" "list_all (\<lambda>n. n \<notin> set reserved_names) [s, t, c]" "sub \<in> set reserved_names"
    and "coords r s t c = cs @ [sub]"
  shows "cs = []"
  using assms by (cases cs) (auto simp: scope_complete_def coords_def split: if_splits)

lemma coords_nonempty: "scope_complete r s t c \<Longrightarrow> coords r s t c \<noteq> []"
  by (auto simp: scope_complete_def coords_def)

lemma resource_path_inject:
  assumes "resource_ok r s t c x" "resource_ok r' s' t' c' y"
    and "resource_path base r s t c x = resource_path base r' s' t' c' y"
  shows "r = r' \<and> s = s' \<and> t = t' \<and> c = c' \<and> x = y"
proof -
  have ok: "scope_complete r s t c" "scope_complete r' s' t' c'"
    "list_all (\<lambda>n. n \<notin> set reserved_names) [s, t, c]" "list_all (\<lambda>n. n \<notin> set reserved_names) [s', t', c']"
    using assms(1,2) by simp_all
  have eq: "coords r s t c @ resource_leaf x = coords r' s' t' c' @ resource_leaf y"
    using assms by (simp add: resource_path_split del: resource_path.simps)
  note ends = coords_end[OF ok(1,3)] coords_end[OF ok(2,4)] coords_nonempty[OF ok(1)] coords_nonempty[OF ok(2)]
  have "coords r s t c = coords r' s' t' c' \<and> resource_leaf x = resource_leaf y"
  proof (cases rule: resource_leaf_cases[of x]; cases rule: resource_leaf_cases[of y])
    fix sub n assume "resource_leaf x = [KukeonMetadataFile]" "sub \<in> set reserved_names" "resource_leaf y = [sub, n]"
    then show ?thesis using eq ends(1)[of sub "coords r' s' t' c'"] ends(4) by simp
  next
    fix sub n assume "resource_leaf y = [KukeonMetadataFile]" "sub \<in> set reserved_names" "resource_leaf x = [sub, n]"
    then show ?thesis using eq ends(2)[of sub "coords r s t c"] ends(3) by simp
  qed (use eq in auto)
  then show ?thesis using coords_inject[OF ok(1,2)] by simp
qed



text \<open>
  The reservation is needed, and nothing enforces it: \<^verbatim>\<open>secrets\<close> is a valid space name, and the
  document of that space is the file of a realm secret called \<^verbatim>\<open>metadata.json\<close>.
\<close>

lemma reserved_space_collides:
  assumes "r \<noteq> ''''"
  shows "SpaceMetadataPath base r ''secrets'' = SecretPath base r '''' '''' '''' ''metadata.json''
    \<and> ValidateHierarchyName ''space'' ''secrets'' = Inr ()"
proof -
  have "ValidateHierarchyName ''space'' ''secrets'' = Inr ()" by code_simp
  then show ?thesis using assms by (simp add: layout_defs Join_def layout_names)
qed

end
