(* ===== verification/Scope_Store.thy ===== *)
theory Scope_Store
  imports Fs_Layout
begin

text \<open>
  The resources that the daemon keeps as files under the directory of a scope: secrets, blueprints,
  configs and volumes with their reclaim manifests (\<^verbatim>\<open>internal/controller/runner\<close>: secret.go,
  blueprint.go, config.go, volume.go, volume_meta.go, scope_children.go and \<^verbatim>\<open>resolveRealmDirs\<close> of
  get.go). The run path is an argument of every operation. Labels are read from a stored document
  by a YAML parser, which is an argument too.
\<close>

abbreviation ErrWriteSecret :: goerror where "ErrWriteSecret \<equiv> ErrNamed ''ErrWriteSecret''"
abbreviation ErrGetSecret :: goerror where "ErrGetSecret \<equiv> ErrNamed ''ErrGetSecret''"
abbreviation ErrSecretNotFound :: goerror where "ErrSecretNotFound \<equiv> ErrNamed ''ErrSecretNotFound''"
abbreviation ErrListSecrets :: goerror where "ErrListSecrets \<equiv> ErrNamed ''ErrListSecrets''"
abbreviation ErrDeleteSecret :: goerror where "ErrDeleteSecret \<equiv> ErrNamed ''ErrDeleteSecret''"
abbreviation ErrWriteBlueprint :: goerror where "ErrWriteBlueprint \<equiv> ErrNamed ''ErrWriteBlueprint''"
abbreviation ErrGetBlueprint :: goerror where "ErrGetBlueprint \<equiv> ErrNamed ''ErrGetBlueprint''"
abbreviation ErrBlueprintNotFound :: goerror where "ErrBlueprintNotFound \<equiv> ErrNamed ''ErrBlueprintNotFound''"
abbreviation ErrListBlueprints :: goerror where "ErrListBlueprints \<equiv> ErrNamed ''ErrListBlueprints''"
abbreviation ErrDeleteBlueprint :: goerror where "ErrDeleteBlueprint \<equiv> ErrNamed ''ErrDeleteBlueprint''"
abbreviation ErrWriteConfig :: goerror where "ErrWriteConfig \<equiv> ErrNamed ''ErrWriteConfig''"
abbreviation ErrCreateConfig :: goerror where "ErrCreateConfig \<equiv> ErrNamed ''ErrCreateConfig''"
abbreviation ErrConfigExists :: goerror where "ErrConfigExists \<equiv> ErrNamed ''ErrConfigExists''"
abbreviation ErrGetConfig :: goerror where "ErrGetConfig \<equiv> ErrNamed ''ErrGetConfig''"
abbreviation ErrConfigNotFound :: goerror where "ErrConfigNotFound \<equiv> ErrNamed ''ErrConfigNotFound''"
abbreviation ErrListConfigs :: goerror where "ErrListConfigs \<equiv> ErrNamed ''ErrListConfigs''"
abbreviation ErrDeleteConfig :: goerror where "ErrDeleteConfig \<equiv> ErrNamed ''ErrDeleteConfig''"
abbreviation ErrWriteVolume :: goerror where "ErrWriteVolume \<equiv> ErrNamed ''ErrWriteVolume''"
abbreviation ErrGetVolume :: goerror where "ErrGetVolume \<equiv> ErrNamed ''ErrGetVolume''"
abbreviation ErrVolumeNotFound :: goerror where "ErrVolumeNotFound \<equiv> ErrNamed ''ErrVolumeNotFound''"
abbreviation ErrListVolumes :: goerror where "ErrListVolumes \<equiv> ErrNamed ''ErrListVolumes''"
abbreviation ErrDeleteVolume :: goerror where "ErrDeleteVolume \<equiv> ErrNamed ''ErrDeleteVolume''"

section \<open>Scopes\<close>

definition reservedScopeSubdirs :: "string list" where
  "reservedScopeSubdirs =
     [KukeonSecretsSubdir, KukeonBlueprintsSubdir, KukeonConfigsSubdir, KukeonVolumesSubdir, KukeonVolumeMetaSubdir]"

definition childScopeNames :: "fsys \<Rightarrow> path \<Rightarrow> string \<Rightarrow> string list result" where
  "childScopeNames fs dir want =
     (if TrimSpace want \<noteq> '''' then
        (case Stat fs (Join dir [want]) of
           Inl e \<Rightarrow> if errors_Is e ErrNotExist then Inr [] else Inl (errorfw ''failed to stat scope dir'' [] e)
         | Inr info \<Rightarrow> if IsDir info then Inr [want] else Inr [])
      else
        (case ReadDir fs dir of
           Inl e \<Rightarrow> if errors_Is e ErrNotExist then Inr [] else Inl (errorfw ''failed to read scope dir'' [] e)
         | Inr entries \<Rightarrow> Inr (map fst (filter (\<lambda>(n, d). d \<and> n \<notin> set reservedScopeSubdirs) entries))))"

text \<open>The realm directories to search, given by the names of their realms.\<close>

definition resolveRealmDirs :: "fsys \<Rightarrow> path \<Rightarrow> string \<Rightarrow> string list result" where
  "resolveRealmDirs fs base realmName =
     (if TrimSpace realmName \<noteq> '''' then
        (case Stat fs (RealmMetadataDir base realmName) of
           Inl e \<Rightarrow> if errors_Is e ErrNotExist then Inr [] else Inl (errorfw ''failed to stat realm dir'' [] e)
         | Inr info \<Rightarrow> if IsDir info then Inr [realmName] else Inr [])
      else if (case Stat fs (MetadataRoot base) of Inl e \<Rightarrow> errors_Is e ErrNotExist | Inr _ \<Rightarrow> False) then Inr []
      else map_err (errorfw ''failed to read realm directory'' [])
        (rbind (ReadDir fs (MetadataRoot base)) (\<lambda>entries. Inr (map fst (filter snd entries)))))"

text \<open>A loop that appends what each element yields and stops at the first error.\<close>

fun collect :: "('a \<Rightarrow> 'b list result) \<Rightarrow> 'a list \<Rightarrow> 'b list result" where
  "collect f [] = Inr []"
| "collect f (x # xs) = rbind (f x) (\<lambda>ys. rbind (collect f xs) (\<lambda>zs. Inr (ys @ zs)))"

text \<open>
  One level of a walk over the scopes: the level's own resources when the next coordinate of the
  filter is empty, then those of every child that the filter lets through. The walk for blueprints,
  configs and volumes goes down to the stacks, the walk for secrets down to the cells.
\<close>

definition scopeLevel ::
  "fsys \<Rightarrow> path \<Rightarrow> string \<Rightarrow> 'a list result \<Rightarrow> (string \<Rightarrow> 'a list result) \<Rightarrow> 'a list result" where
  "scopeLevel fs dir want own below =
     rbind (if want = '''' then own else Inr []) (\<lambda>out.
     rbind (childScopeNames fs dir want) (\<lambda>names.
     rbind (collect below names) (\<lambda>rest. Inr (out @ rest))))"

definition stackSubtree ::
  "(string \<Rightarrow> string \<Rightarrow> string \<Rightarrow> 'a list result) \<Rightarrow> fsys \<Rightarrow> path \<Rightarrow> string \<Rightarrow> string \<Rightarrow> string \<Rightarrow> 'a list result" where
  "stackSubtree inScope fs base realm space stack =
     scopeLevel fs (RealmMetadataDir base realm) space (inScope realm '''' '''') (\<lambda>sp.
     scopeLevel fs (SpaceMetadataDir base realm sp) stack (inScope realm sp '''') (\<lambda>st.
     inScope realm sp st))"

definition cellSubtree ::
  "(string \<Rightarrow> string \<Rightarrow> string \<Rightarrow> string \<Rightarrow> 'a list result) \<Rightarrow> fsys \<Rightarrow> path \<Rightarrow> string \<Rightarrow> string \<Rightarrow> string \<Rightarrow> string
    \<Rightarrow> 'a list result" where
  "cellSubtree inScope fs base realm space stack cell =
     scopeLevel fs (RealmMetadataDir base realm) space (inScope realm '''' '''' '''') (\<lambda>sp.
     scopeLevel fs (SpaceMetadataDir base realm sp) stack (inScope realm sp '''' '''') (\<lambda>st.
     scopeLevel fs (StackMetadataDir base realm sp st) cell (inScope realm sp st '''') (\<lambda>ce.
     inScope realm sp st ce)))"

text \<open>The entries of a resource directory that is allowed to be missing.\<close>

definition resourceEntries :: "fsys \<Rightarrow> path \<Rightarrow> (string \<times> bool) list result" where
  "resourceEntries fs dir = (case ReadDir fs dir of
     Inl e \<Rightarrow> if errors_Is e ErrNotExist then Inr [] else Inl (errorfw ''failed to read dir'' [] e)
   | Inr entries \<Rightarrow> Inr entries)"

definition temp_name :: "string \<Rightarrow> string \<Rightarrow> bool" where
  "temp_name pre name \<longleftrightarrow> prefix pre name \<and> suffix ''.tmp'' name"

text \<open>Whether a path is free; any failure other than a missing file is reported.\<close>

definition stat_created :: "goerror \<Rightarrow> path \<Rightarrow> bool io" where
  "stat_created sentinel p = query (\<lambda>fs. case Stat fs p of
     Inl e \<Rightarrow> if errors_Is e ErrNotExist then Inr True else Inl (Wrapped sentinel e)
   | Inr _ \<Rightarrow> Inr False)"

section \<open>Secrets\<close>

definition secretsDirMode :: int where "secretsDirMode = 448"
definition secretFileMode :: int where "secretFileMode = 384"

definition atomicWriteSecret :: "path \<Rightarrow> path \<Rightarrow> content \<Rightarrow> fsys \<Rightarrow> fsys result" where
  "atomicWriteSecret dir p data = replace_file dir p data secretFileMode"

definition WriteSecret :: "path \<Rightarrow> Secret \<Rightarrow> bool io" where
  "WriteSecret base secret = (let md = sc_Metadata secret;
       dir = SecretsDir base (scM_Realm md) (scM_Space md) (scM_Stack md) (scM_Cell md);
       p = SecretPath base (scM_Realm md) (scM_Space md) (scM_Stack md) (scM_Cell md) (scM_Name md) in
     bind_io (wrap_io ErrWriteSecret (call (MkdirAll dir secretsDirMode))) (\<lambda>_.
     bind_io (wrap_io ErrWriteSecret (call (Chmod dir secretsDirMode))) (\<lambda>_.
     bind_io (stat_created ErrWriteSecret p) (\<lambda>created.
     bind_io (wrap_io ErrWriteSecret (call (atomicWriteSecret dir p (Raw (scS_Data (sc_Spec secret)))))) (\<lambda>_.
     ret created)))))"

definition GetSecret :: "path \<Rightarrow> SecretMetadata \<Rightarrow> fsys \<Rightarrow> SecretMetadata result" where
  "GetSecret base md fs =
     (case Stat fs (SecretPath base (scM_Realm md) (scM_Space md) (scM_Stack md) (scM_Cell md) (scM_Name md)) of
        Inl e \<Rightarrow> if errors_Is e ErrNotExist then Inl ErrSecretNotFound else Inl (Wrapped ErrGetSecret e)
      | Inr info \<Rightarrow> if IsDir info then Inl ErrSecretNotFound else Inr md)"

definition collectSecretsInScope ::
  "fsys \<Rightarrow> path \<Rightarrow> string \<Rightarrow> string \<Rightarrow> string \<Rightarrow> string \<Rightarrow> SecretMetadata list result" where
  "collectSecretsInScope fs base realm space stack cell =
     rbind (resourceEntries fs (SecretsDir base realm space stack cell)) (\<lambda>entries.
       Inr (map (\<lambda>(n, _). \<lparr>scM_Name = n, scM_Realm = realm, scM_Space = space, scM_Stack = stack, scM_Cell = cell\<rparr>)
         (filter (\<lambda>(n, d). \<not> d \<and> \<not> temp_name ''.secret-'' n) entries)))"

definition collectSecretSubtree ::
  "fsys \<Rightarrow> path \<Rightarrow> string \<Rightarrow> string \<Rightarrow> string \<Rightarrow> string \<Rightarrow> SecretMetadata list result" where
  "collectSecretSubtree fs base = cellSubtree (collectSecretsInScope fs base) fs base"

definition ListSecrets ::
  "path \<Rightarrow> string \<Rightarrow> string \<Rightarrow> string \<Rightarrow> string \<Rightarrow> fsys \<Rightarrow> SecretMetadata list result" where
  "ListSecrets base realmName spaceName stackName cellName fs =
     map_err (Wrapped ErrListSecrets) (rbind (resolveRealmDirs fs base realmName)
       (collect (\<lambda>realm. collectSecretSubtree fs base realm spaceName stackName cellName)))"

definition DeleteSecret :: "path \<Rightarrow> SecretMetadata \<Rightarrow> unit io" where
  "DeleteSecret base md fs =
     (case Remove (SecretPath base (scM_Realm md) (scM_Space md) (scM_Stack md) (scM_Cell md) (scM_Name md)) fs of
        Inl e \<Rightarrow> (fs, Inl (if errors_Is e ErrNotExist then ErrSecretNotFound else Wrapped ErrDeleteSecret e))
      | Inr fs' \<Rightarrow> (fs', Inr ()))"

section \<open>Stored documents\<close>

record CellBlueprintMetadata =
  bpM_Name :: string
  bpM_Realm :: string
  bpM_Space :: string
  bpM_Stack :: string
  bpM_Labels :: "(string, string) gomap"

record CellBlueprint =
  bp_Metadata :: CellBlueprintMetadata
  bp_Document :: content

record CellConfigMetadata =
  cfM_Name :: string
  cfM_Realm :: string
  cfM_Space :: string
  cfM_Stack :: string
  cfM_Labels :: "(string, string) gomap"

record CellConfig =
  cf_Metadata :: CellConfigMetadata
  cf_Document :: content

text \<open>The labels of a stored document; a file that cannot be read or parsed has none.\<close>

definition readLabelsFromDoc :: "(content \<Rightarrow> (string, string) gomap option) \<Rightarrow> fsys \<Rightarrow> path \<Rightarrow> (string, string) gomap" where
  "readLabelsFromDoc yaml fs p = (case ReadFile fs p of
     Inl _ \<Rightarrow> []
   | Inr data \<Rightarrow> (case yaml data of None \<Rightarrow> [] | Some labels \<Rightarrow> labels))"

definition atomicWriteFileMode :: "path \<Rightarrow> path \<Rightarrow> content \<Rightarrow> int \<Rightarrow> fsys \<Rightarrow> fsys result" where
  "atomicWriteFileMode dir p data mode = replace_file dir p data mode"

section \<open>Blueprints\<close>

definition blueprintsDirMode :: int where "blueprintsDirMode = 493"
definition blueprintFileMode :: int where "blueprintFileMode = 420"

definition WriteBlueprint :: "path \<Rightarrow> CellBlueprint \<Rightarrow> bool io" where
  "WriteBlueprint base blueprint = (let md = bp_Metadata blueprint;
       dir = BlueprintsDir base (bpM_Realm md) (bpM_Space md) (bpM_Stack md);
       p = BlueprintPath base (bpM_Realm md) (bpM_Space md) (bpM_Stack md) (bpM_Name md) in
     bind_io (wrap_io ErrWriteBlueprint (call (MkdirAll dir blueprintsDirMode))) (\<lambda>_.
     bind_io (wrap_io ErrWriteBlueprint (call (Chmod dir blueprintsDirMode))) (\<lambda>_.
     bind_io (stat_created ErrWriteBlueprint p) (\<lambda>created.
     bind_io (wrap_io ErrWriteBlueprint (call (atomicWriteFileMode dir p (bp_Document blueprint) blueprintFileMode))) (\<lambda>_.
     ret created)))))"

definition GetBlueprint :: "path \<Rightarrow> CellBlueprintMetadata \<Rightarrow> fsys \<Rightarrow> CellBlueprint result" where
  "GetBlueprint base md fs =
     (case ReadFile fs (BlueprintPath base (bpM_Realm md) (bpM_Space md) (bpM_Stack md) (bpM_Name md)) of
        Inl e \<Rightarrow> if errors_Is e ErrNotExist then Inl ErrBlueprintNotFound else Inl (Wrapped ErrGetBlueprint e)
      | Inr data \<Rightarrow> Inr \<lparr>bp_Metadata = md, bp_Document = data\<rparr>)"

definition collectBlueprintsInScope ::
  "(content \<Rightarrow> (string, string) gomap option) \<Rightarrow> fsys \<Rightarrow> path \<Rightarrow> string \<Rightarrow> string \<Rightarrow> string \<Rightarrow> CellBlueprintMetadata list result" where
  "collectBlueprintsInScope yaml fs base realm space stack =
     rbind (resourceEntries fs (BlueprintsDir base realm space stack)) (\<lambda>entries.
       Inr (map (\<lambda>(n, _). \<lparr>bpM_Name = n, bpM_Realm = realm, bpM_Space = space, bpM_Stack = stack,
           bpM_Labels = readLabelsFromDoc yaml fs (BlueprintPath base realm space stack n)\<rparr>)
         (filter (\<lambda>(n, d). \<not> d \<and> \<not> temp_name ''.blueprint-'' n) entries)))"

definition collectBlueprintSubtree ::
  "(content \<Rightarrow> (string, string) gomap option) \<Rightarrow> fsys \<Rightarrow> path \<Rightarrow> string \<Rightarrow> string \<Rightarrow> string \<Rightarrow> CellBlueprintMetadata list result" where
  "collectBlueprintSubtree yaml fs base = stackSubtree (collectBlueprintsInScope yaml fs base) fs base"

definition ListBlueprints ::
  "(content \<Rightarrow> (string, string) gomap option) \<Rightarrow> path \<Rightarrow> string \<Rightarrow> string \<Rightarrow> string \<Rightarrow> fsys \<Rightarrow> CellBlueprintMetadata list result" where
  "ListBlueprints yaml base realmName spaceName stackName fs =
     map_err (Wrapped ErrListBlueprints) (rbind (resolveRealmDirs fs base realmName)
       (collect (\<lambda>realm. collectBlueprintSubtree yaml fs base realm spaceName stackName)))"

definition DeleteBlueprint :: "path \<Rightarrow> CellBlueprintMetadata \<Rightarrow> unit io" where
  "DeleteBlueprint base md fs =
     (case Remove (BlueprintPath base (bpM_Realm md) (bpM_Space md) (bpM_Stack md) (bpM_Name md)) fs of
        Inl e \<Rightarrow> (fs, Inl (if errors_Is e ErrNotExist then ErrBlueprintNotFound else Wrapped ErrDeleteBlueprint e))
      | Inr fs' \<Rightarrow> (fs', Inr ()))"

section \<open>Configs\<close>

definition configsDirMode :: int where "configsDirMode = 493"
definition configFileMode :: int where "configFileMode = 420"

text \<open>
  The create-only write links the temporary file to its name, which fails when the name is taken,
  whatever it is taken by.
\<close>

definition link_file :: "path \<Rightarrow> path \<Rightarrow> content \<Rightarrow> int \<Rightarrow> fsys \<Rightarrow> fsys result" where
  "link_file dir p data mode fs = rbind (Stat fs dir) (\<lambda>d.
     if \<not> IsDir d then Inl ErrNotDir
     else if entry fs p \<noteq> None then Inl ErrExist
     else Inr (put p (File (new_attr fs p mode) data) fs))"

definition WriteConfigIfAbsent :: "path \<Rightarrow> CellConfig \<Rightarrow> unit io" where
  "WriteConfigIfAbsent base config = (let md = cf_Metadata config;
       dir = ConfigsDir base (cfM_Realm md) (cfM_Space md) (cfM_Stack md);
       p = ConfigPath base (cfM_Realm md) (cfM_Space md) (cfM_Stack md) (cfM_Name md) in
     bind_io (wrap_io ErrCreateConfig (call (MkdirAll dir configsDirMode))) (\<lambda>_.
     bind_io (wrap_io ErrCreateConfig (call (Chmod dir configsDirMode))) (\<lambda>_.
       (\<lambda>fs. case link_file dir p (cf_Document config) configFileMode fs of
          Inl e \<Rightarrow> (fs, Inl (if errors_Is e ErrExist then ErrConfigExists else Wrapped ErrCreateConfig e))
        | Inr fs' \<Rightarrow> (fs', Inr ())))))"

definition WriteConfig :: "path \<Rightarrow> CellConfig \<Rightarrow> bool io" where
  "WriteConfig base config = (let md = cf_Metadata config;
       dir = ConfigsDir base (cfM_Realm md) (cfM_Space md) (cfM_Stack md);
       p = ConfigPath base (cfM_Realm md) (cfM_Space md) (cfM_Stack md) (cfM_Name md) in
     bind_io (wrap_io ErrWriteConfig (call (MkdirAll dir configsDirMode))) (\<lambda>_.
     bind_io (wrap_io ErrWriteConfig (call (Chmod dir configsDirMode))) (\<lambda>_.
     bind_io (stat_created ErrWriteConfig p) (\<lambda>created.
     bind_io (wrap_io ErrWriteConfig (call (atomicWriteFileMode dir p (cf_Document config) configFileMode))) (\<lambda>_.
     ret created)))))"

definition GetConfig :: "path \<Rightarrow> CellConfigMetadata \<Rightarrow> fsys \<Rightarrow> CellConfig result" where
  "GetConfig base md fs =
     (case ReadFile fs (ConfigPath base (cfM_Realm md) (cfM_Space md) (cfM_Stack md) (cfM_Name md)) of
        Inl e \<Rightarrow> if errors_Is e ErrNotExist then Inl ErrConfigNotFound else Inl (Wrapped ErrGetConfig e)
      | Inr data \<Rightarrow> Inr \<lparr>cf_Metadata = md, cf_Document = data\<rparr>)"

definition collectConfigsInScope ::
  "(content \<Rightarrow> (string, string) gomap option) \<Rightarrow> fsys \<Rightarrow> path \<Rightarrow> string \<Rightarrow> string \<Rightarrow> string \<Rightarrow> CellConfigMetadata list result" where
  "collectConfigsInScope yaml fs base realm space stack =
     rbind (resourceEntries fs (ConfigsDir base realm space stack)) (\<lambda>entries.
       Inr (map (\<lambda>(n, _). \<lparr>cfM_Name = n, cfM_Realm = realm, cfM_Space = space, cfM_Stack = stack,
           cfM_Labels = readLabelsFromDoc yaml fs (ConfigPath base realm space stack n)\<rparr>)
         (filter (\<lambda>(n, d). \<not> d \<and> \<not> temp_name ''.config-'' n) entries)))"

definition collectConfigSubtree ::
  "(content \<Rightarrow> (string, string) gomap option) \<Rightarrow> fsys \<Rightarrow> path \<Rightarrow> string \<Rightarrow> string \<Rightarrow> string \<Rightarrow> CellConfigMetadata list result" where
  "collectConfigSubtree yaml fs base = stackSubtree (collectConfigsInScope yaml fs base) fs base"

definition ListConfigs ::
  "(content \<Rightarrow> (string, string) gomap option) \<Rightarrow> path \<Rightarrow> string \<Rightarrow> string \<Rightarrow> string \<Rightarrow> fsys \<Rightarrow> CellConfigMetadata list result" where
  "ListConfigs yaml base realmName spaceName stackName fs =
     map_err (Wrapped ErrListConfigs) (rbind (resolveRealmDirs fs base realmName)
       (collect (\<lambda>realm. collectConfigSubtree yaml fs base realm spaceName stackName)))"

definition DeleteConfig :: "path \<Rightarrow> CellConfigMetadata \<Rightarrow> unit io" where
  "DeleteConfig base md fs =
     (case Remove (ConfigPath base (cfM_Realm md) (cfM_Space md) (cfM_Stack md) (cfM_Name md)) fs of
        Inl e \<Rightarrow> (fs, Inl (if errors_Is e ErrNotExist then ErrConfigNotFound else Wrapped ErrDeleteConfig e))
      | Inr fs' \<Rightarrow> (fs', Inr ()))"

section \<open>Volumes\<close>

definition ReclaimDelete :: string where "ReclaimDelete = ''Delete''"
definition ReclaimRetain :: string where "ReclaimRetain = ''Retain''"

definition volumesDirMode :: int where "volumesDirMode = 493"
definition volumeDirRootMode :: int where "volumeDirRootMode = 1528"
definition volumeDirFallbackMode :: int where "volumeDirFallbackMode = 504"
definition volumeMetaDirMode :: int where "volumeMetaDirMode = 448"
definition volumeMetaFileMode :: int where "volumeMetaFileMode = 384"

definition volumeDirInitialPerms :: "int \<Rightarrow> int \<times> int" where
  "volumeDirInitialPerms kukeonGroupGID =
     (if kukeonGroupGID > 0 then (volumeDirRootMode, kukeonGroupGID) else (volumeDirFallbackMode, 0))"

text \<open>The reclaim manifest of a volume, one string field in JSON.\<close>

definition enc_manifest :: "string \<Rightarrow> json" where
  "enc_manifest policy = JsObj (fld ''reclaimPolicy'' (JsStr policy))"

definition dec_manifest :: "content \<Rightarrow> string result" where
  "dec_manifest c = (case c of
     Json _ j \<Rightarrow> dec_obj (\<lambda>kvs. get_field kvs ''reclaimPolicy'' dec_str '''') '''' j
   | Raw _ \<Rightarrow> Inl ErrDecode)"

definition persistVolumeReclaimPolicy :: "path \<Rightarrow> Volume \<Rightarrow> unit io" where
  "persistVolumeReclaimPolicy base volume = (let md = vo_Metadata volume;
       metaPath = VolumeMetaPath base (voM_Realm md) (voM_Space md) (voM_Stack md) (voM_Name md);
       dir = VolumeMetaDir base (voM_Realm md) (voM_Space md) (voM_Stack md) in
     if voS_ReclaimPolicy (vo_Spec volume) \<noteq> ReclaimRetain then
       (\<lambda>fs. case Remove metaPath fs of
          Inl e \<Rightarrow> if errors_Is e ErrNotExist then (fs, Inr ()) else (fs, Inl (Wrapped ErrWriteVolume e))
        | Inr fs' \<Rightarrow> (fs', Inr ()))
     else
       bind_io (wrap_io ErrWriteVolume (call (MkdirAll dir volumeMetaDirMode))) (\<lambda>_.
       bind_io (wrap_io ErrWriteVolume (call (Chmod dir volumeMetaDirMode))) (\<lambda>_.
       wrap_io ErrWriteVolume (call (atomicWriteFileMode dir metaPath (Json Compact (enc_manifest ReclaimRetain))
         volumeMetaFileMode)))))"

definition readVolumeReclaimPolicy :: "path \<Rightarrow> VolumeMetadata \<Rightarrow> fsys \<Rightarrow> string result" where
  "readVolumeReclaimPolicy base md fs =
     (case ReadFile fs (VolumeMetaPath base (voM_Realm md) (voM_Space md) (voM_Stack md) (voM_Name md)) of
        Inl e \<Rightarrow> if errors_Is e ErrNotExist then Inr '''' else Inl e
      | Inr data \<Rightarrow> map_err (errorfw ''parse reclaim manifest'' []) (dec_manifest data))"

definition removeVolumeReclaimManifest :: "path \<Rightarrow> VolumeMetadata \<Rightarrow> unit io" where
  "removeVolumeReclaimManifest base md fs =
     (case Remove (VolumeMetaPath base (voM_Realm md) (voM_Space md) (voM_Stack md) (voM_Name md)) fs of
        Inl e \<Rightarrow> if errors_Is e ErrNotExist then (fs, Inr ()) else (fs, Inl e)
      | Inr fs' \<Rightarrow> (fs', Inr ()))"

text \<open>A file in the place of a volume is refused.\<close>

definition refuse_file :: "path \<Rightarrow> unit io" where
  "refuse_file p = query (\<lambda>fs. case Stat fs p of
     Inr info \<Rightarrow> if IsDir info then Inr () else Inl (Wrapped ErrWriteVolume (errorf ''exists and is not a directory'' []))
   | Inl _ \<Rightarrow> Inr ())"

definition WriteVolume :: "path \<Rightarrow> int \<Rightarrow> Volume \<Rightarrow> bool io" where
  "WriteVolume base kukeonGroupGID volume = (let md = vo_Metadata volume;
       dir = VolumesDir base (voM_Realm md) (voM_Space md) (voM_Stack md);
       p = VolumePath base (voM_Realm md) (voM_Space md) (voM_Stack md) (voM_Name md);
       (mode, gid) = volumeDirInitialPerms kukeonGroupGID in
     bind_io (wrap_io ErrWriteVolume (call (MkdirAll dir volumesDirMode))) (\<lambda>_.
     bind_io (wrap_io ErrWriteVolume (call (Chmod dir volumesDirMode))) (\<lambda>_.
     bind_io (stat_created ErrWriteVolume p) (\<lambda>created.
     bind_io (refuse_file p) (\<lambda>_.
     bind_io (wrap_io ErrWriteVolume (call (MkdirAll p mode))) (\<lambda>_.
     bind_io (wrap_io ErrWriteVolume (call (Chmod p mode))) (\<lambda>_.
     bind_io (if gid > 0 then wrap_io ErrWriteVolume (call (Chown p 0 gid)) else ret ()) (\<lambda>_.
     bind_io (persistVolumeReclaimPolicy base volume) (\<lambda>_.
     ret created)))))))))"

definition chownVolumeDirToUID :: "int \<Rightarrow> path \<Rightarrow> int \<Rightarrow> unit io" where
  "chownVolumeDirToUID kukeonGroupGID p uid =
     bind_io (wrap_io ErrWriteVolume (call (Chown p uid (-1)))) (\<lambda>_.
     wrap_io ErrWriteVolume (call (Chmod p (fst (volumeDirInitialPerms kukeonGroupGID)))))"

definition GetVolume :: "path \<Rightarrow> VolumeMetadata \<Rightarrow> fsys \<Rightarrow> Volume result" where
  "GetVolume base md fs =
     (case Stat fs (VolumePath base (voM_Realm md) (voM_Space md) (voM_Stack md) (voM_Name md)) of
        Inl e \<Rightarrow> if errors_Is e ErrNotExist then Inl ErrVolumeNotFound else Inl (Wrapped ErrGetVolume e)
      | Inr info \<Rightarrow> if \<not> IsDir info then Inl ErrVolumeNotFound
          else rbind (map_err (Wrapped ErrGetVolume) (readVolumeReclaimPolicy base md fs)) (\<lambda>policy.
            Inr \<lparr>vo_Metadata = md, vo_Spec = \<lparr>voS_ReclaimPolicy = policy\<rparr>\<rparr>))"

definition collectVolumesInScope :: "fsys \<Rightarrow> path \<Rightarrow> string \<Rightarrow> string \<Rightarrow> string \<Rightarrow> Volume list result" where
  "collectVolumesInScope fs base realm space stack =
     rbind (resourceEntries fs (VolumesDir base realm space stack)) (\<lambda>entries.
       collect (\<lambda>(n, _). let md = \<lparr>voM_Name = n, voM_Realm = realm, voM_Space = space, voM_Stack = stack\<rparr> in
           rbind (readVolumeReclaimPolicy base md fs) (\<lambda>policy.
             Inr [\<lparr>vo_Metadata = md, vo_Spec = \<lparr>voS_ReclaimPolicy = policy\<rparr>\<rparr>]))
         (filter snd entries))"

definition collectVolumeSubtree :: "fsys \<Rightarrow> path \<Rightarrow> string \<Rightarrow> string \<Rightarrow> string \<Rightarrow> Volume list result" where
  "collectVolumeSubtree fs base = stackSubtree (collectVolumesInScope fs base) fs base"

definition ListVolumes :: "path \<Rightarrow> string \<Rightarrow> string \<Rightarrow> string \<Rightarrow> fsys \<Rightarrow> Volume list result" where
  "ListVolumes base realmName spaceName stackName fs =
     map_err (Wrapped ErrListVolumes) (rbind (resolveRealmDirs fs base realmName)
       (collect (\<lambda>realm. collectVolumeSubtree fs base realm spaceName stackName)))"

definition DeleteVolume :: "path \<Rightarrow> VolumeMetadata \<Rightarrow> unit io" where
  "DeleteVolume base md = (let p = VolumePath base (voM_Realm md) (voM_Space md) (voM_Stack md) (voM_Name md) in
     bind_io (query (\<lambda>fs. case Stat fs p of
         Inl e \<Rightarrow> if errors_Is e ErrNotExist then Inl ErrVolumeNotFound else Inl (Wrapped ErrDeleteVolume e)
       | Inr info \<Rightarrow> if IsDir info then Inr () else Inl ErrVolumeNotFound)) (\<lambda>_.
     bind_io (wrap_io ErrDeleteVolume (call (RemoveAll p))) (\<lambda>_.
     wrap_io ErrDeleteVolume (removeVolumeReclaimManifest base md))))"

end
