(* ===== verification/Scope_Maps.thy ===== *)
theory Scope_Maps
  imports Scope_Store
begin

text \<open>
  The stores of secrets, blueprints, configs and volumes behave as finite maps. The first part says
  what an operation touches in the file system; the locale \<^verbatim>\<open>scoped_store\<close> is the contract of a store
  (a write is read back, a deletion is not found, other keys are untouched), \<^verbatim>\<open>file_store\<close> derives it
  for stores of one file per resource, and the interpretations discharge it for the four stores.
\<close>

section \<open>What the operations touch\<close>

definition file_at :: "fsys \<Rightarrow> path \<Rightarrow> content option" where
  "file_at fs p = (case entry fs p of Some (File _ c) \<Rightarrow> Some c | _ \<Rightarrow> None)"

definition dir_at :: "fsys \<Rightarrow> path \<Rightarrow> bool" where
  "dir_at fs p \<longleftrightarrow> (case entry fs p of Some (Dir _) \<Rightarrow> True | _ \<Rightarrow> False)"

lemma file_at_Some: "file_at fs p = Some c \<longleftrightarrow> (\<exists>a. entry fs p = Some (File a c))"
  by (auto simp: file_at_def split: option.splits node.splits)

lemma dir_at_iff: "dir_at fs p \<longleftrightarrow> (\<exists>a. entry fs p = Some (Dir a))"
  by (auto simp: dir_at_def split: option.splits node.splits)

lemma file_dir_entry: "entry fs p = None \<longleftrightarrow> file_at fs p = None \<and> \<not> dir_at fs p"
  by (auto simp: file_at_def dir_at_def split: option.splits node.splits)

lemma file_not_dir: "file_at fs p = Some c \<Longrightarrow> \<not> dir_at fs p"
  by (auto simp: file_at_def dir_at_def split: option.splits node.splits)

text \<open>
  A change that touches the paths in \<^term>\<open>P\<close>: other files keep their contents, no other directory is
  lost, and a new directory is one of these paths or lies on the way to one.
\<close>

definition touches :: "path set \<Rightarrow> fsys \<Rightarrow> fsys \<Rightarrow> bool" where
  "touches P fs fs' \<longleftrightarrow> fs_wf fs' \<and> (\<forall>q. q \<notin> P \<longrightarrow> file_at fs' q = file_at fs q)
     \<and> (\<forall>q. q \<notin> P \<longrightarrow> dir_at fs q \<longrightarrow> dir_at fs' q)
     \<and> (\<forall>q. dir_at fs' q \<longrightarrow> dir_at fs q \<or> (\<exists>p \<in> P. prefix q p))"

lemma touches_refl: "fs_wf fs \<Longrightarrow> touches P fs fs"
  by (simp add: touches_def)

lemma touches_trans: "touches P fs fs' \<Longrightarrow> touches P fs' fs'' \<Longrightarrow> touches P fs fs''"
  unfolding touches_def by (metis (full_types))

lemma touches_wf: "touches P fs fs' \<Longrightarrow> fs_wf fs'"
  by (simp add: touches_def)

lemma touches_dir: "touches P fs fs' \<Longrightarrow> dir_at fs q \<Longrightarrow> q \<notin> P \<Longrightarrow> dir_at fs' q"
  by (simp add: touches_def)

lemma touches_file: "touches P fs fs' \<Longrightarrow> q \<notin> P \<Longrightarrow> file_at fs' q = file_at fs q"
  by (simp add: touches_def)

lemma touches_new_dir: "touches P fs fs' \<Longrightarrow> dir_at fs' q \<Longrightarrow> dir_at fs q \<or> (\<exists>p \<in> P. prefix q p)"
  by (simp add: touches_def)

lemma touches_mono: "touches P fs fs' \<Longrightarrow> P \<subseteq> Q \<Longrightarrow> touches Q fs fs'"
  unfolding touches_def by blast

lemma MkdirAll_touches:
  assumes "MkdirAll d mode fs = Inr fs'" "fs_wf fs" "p \<in> P" "prefix d p"
  shows "touches P fs fs' \<and> dir_at fs' d \<and> (\<forall>q. dir_at fs q \<longrightarrow> dir_at fs' q) \<and> (\<forall>q. file_at fs' q = file_at fs q)"
proof -
  have add: "dirs_added d fs fs'" using MkdirAll_added[OF assms(1,2)] .
  have old: "entry fs' q = entry fs q" if "entry fs q \<noteq> None \<or> \<not> prefix q d" for q
    using add that unfolding dirs_added_def by blast
  have new: "entry fs q = None \<Longrightarrow> entry fs' q \<noteq> entry fs q \<Longrightarrow> prefix q d \<and> dir_at fs' q" for q
  proof -
    assume "entry fs q = None" "entry fs' q \<noteq> entry fs q"
    then have "prefix q d" using old[of q] by blast
    then show ?thesis using add unfolding dirs_added_def dir_at_iff by blast
  qed
  have "file_at fs' q = file_at fs q" for q
  proof (cases "entry fs' q = entry fs q")
    case False
    then have "entry fs q = None" using old[of q] by blast
    with new[OF this False] show ?thesis by (auto simp: file_at_def dir_at_iff)
  qed (simp add: file_at_def)
  moreover have "dir_at fs' q" if "dir_at fs q" for q
    using that old[of q] by (auto simp: dir_at_iff)
  moreover have "dir_at fs q \<or> (\<exists>p \<in> P. prefix q p)" if "dir_at fs' q" for q
  proof (cases "entry fs q = None")
    case True
    then have "prefix q d" using that new[of q] by (auto simp: dir_at_iff)
    then show ?thesis using assms(3,4) prefix_order.trans by blast
  qed (use that old[of q] in \<open>simp add: dir_at_def\<close>)
  ultimately show ?thesis using add by (auto simp: touches_def dirs_added_def dir_at_iff)
qed

lemma with_attr_dir [simp]: "IsDir (with_attr a n) = IsDir n"
  by (cases n) simp_all

lemma reattr_touches:
  assumes "fs_wf fs" "entry fs p = Some n"
  shows "touches P fs (put p (with_attr a n) fs)"
proof (cases "p = []")
  case True
  then have "entry (put p (with_attr a n) fs) q = entry fs q" for q by simp
  moreover from this have "fs_wf (put p (with_attr a n) fs)" using assms(1) by (simp add: fs_wf_def)
  ultimately show ?thesis by (simp add: touches_def file_at_def dir_at_def)
next
  case False
  then obtain d c where p: "p = d @ [c]" by (cases p rule: rev_cases) auto
  obtain b where d: "entry fs d = Some (Dir b)" using fs_wfD[OF assms(1), of d c] assms(2) p by auto
  have wf: "fs_wf (put p (with_attr a n) fs)"
    unfolding p by (rule fs_wf_put[OF assms(1) d]) (use assms(2) p in \<open>cases n; auto\<close>)
  have "file_at (put p (with_attr a n) fs) q = file_at fs q" "dir_at (put p (with_attr a n) fs) q = dir_at fs q" for q
    using assms(2) False by (cases n; auto simp: file_at_def dir_at_def)+
  with wf show ?thesis by (simp add: touches_def)
qed

lemma Chmod_touches: "Chmod p mode fs = Inr fs' \<Longrightarrow> fs_wf fs \<Longrightarrow> touches P fs fs'"
  by (auto simp: Chmod_def rbind_eq_Inr Stat_Inr intro: reattr_touches)

lemma Chown_touches: "Chown p u g fs = Inr fs' \<Longrightarrow> fs_wf fs \<Longrightarrow> touches P fs fs'"
  by (auto simp: Chown_def Let_def rbind_eq_Inr Stat_Inr intro: reattr_touches)

lemma replace_file_touches:
  assumes "replace_file d (d @ [n]) data mode fs = Inr fs'" "fs_wf fs" "d @ [n] \<in> P"
  shows "touches P fs fs' \<and> file_at fs' (d @ [n]) = Some data \<and> \<not> dir_at fs (d @ [n])"
proof -
  from assms obtain b where d: "entry fs d = Some (Dir b)" and nd: "\<not> dir_at fs (d @ [n])"
    and fs': "fs' = put (d @ [n]) (File (new_attr fs (d @ [n]) mode) data) fs"
    by (auto simp: replace_file_def rbind_eq_Inr Stat_Inr dir_at_def split: option.splits node.splits if_splits elim: IsDir.elims)
  have "fs_wf fs'" unfolding fs' by (rule fs_wf_put[OF assms(2) d]) (use nd in \<open>auto simp: dir_at_def split: option.splits node.splits\<close>)
  then show ?thesis using nd assms(3) fs' by (auto simp: touches_def file_at_def dir_at_def)
qed

text \<open>The sequence that the file-based stores share: make the directory, then replace the file.\<close>

definition write_resource :: "goerror \<Rightarrow> path \<Rightarrow> path \<Rightarrow> int \<Rightarrow> content \<Rightarrow> int \<Rightarrow> bool io" where
  "write_resource sentinel dir p dmode data fmode =
     bind_io (wrap_io sentinel (call (MkdirAll dir dmode))) (\<lambda>_.
     bind_io (wrap_io sentinel (call (Chmod dir dmode))) (\<lambda>_.
     bind_io (stat_created sentinel p) (\<lambda>created.
     bind_io (wrap_io sentinel (call (replace_file dir p data fmode))) (\<lambda>_.
     ret created))))"

lemma stat_created_Inr:
  "stat_created s p fs = (fs', Inr b) \<longleftrightarrow> fs' = fs \<and>
     (case Stat fs p of Inl e \<Rightarrow> errors_Is e ErrNotExist \<and> b | Inr _ \<Rightarrow> \<not> b)"
  by (auto simp: stat_created_def query_Inr split: sum.splits if_splits)

lemma Stat_under_dir:
  assumes "fs_wf fs" "dir_at fs d"
  shows "Stat fs (d @ [n]) = (case entry fs (d @ [n]) of None \<Rightarrow> Inl ErrNotExist | Some m \<Rightarrow> Inr m)"
  using assms Stat_missing[of fs d _ n] Stat_Inr[of fs "d @ [n]"]
  by (auto simp: dir_at_iff split: option.splits)

lemma through_file_back:
  assumes "\<And>q. file_at fs q \<noteq> None \<Longrightarrow> file_at fs' q \<noteq> None" "through_file fs p"
  shows "through_file fs' p"
  using assms unfolding through_file_iff by (metis file_at_Some not_None_eq)

lemma through_file_dirs:
  assumes "fs_wf fs" "dir_at fs d"
  shows "\<not> through_file fs (d @ [n])"
  using through_file_below[OF assms(1)] assms(2) by (auto simp: dir_at_iff)

text \<open>The directory is made and its mode asserted; no file and no entry of it has changed.\<close>

lemma prepare_dir:
  assumes "MkdirAll d dm fs = Inr fs1" "Chmod d dm fs1 = Inr fs2" "fs_wf fs"
  shows "fs_wf fs2" "dir_at fs2 d" "\<And>q. file_at fs2 q = file_at fs q"
    and "dir_at fs2 (d @ [n]) \<longleftrightarrow> dir_at fs (d @ [n])"
    and "Stat fs2 (d @ [n]) = Inl ErrNotExist \<longleftrightarrow> Stat fs (d @ [n]) = Inl ErrNotExist"
    and "prefix d p \<Longrightarrow> p \<in> P \<Longrightarrow> touches P fs fs2"
proof -
  have t1: "touches {d} fs fs1" and m: "dir_at fs1 d" "\<And>q. dir_at fs q \<Longrightarrow> dir_at fs1 q" "\<And>q. file_at fs1 q = file_at fs q"
    using MkdirAll_touches[OF assms(1,3), of d "{d}"] by simp_all
  have t2: "touches {} fs1 fs2" using Chmod_touches[OF assms(2) touches_wf[OF t1]] .
  show wd: "fs_wf fs2" "dir_at fs2 d" using touches_wf[OF t2] touches_dir[OF t2 m(1)] by simp_all
  show f: "file_at fs2 q = file_at fs q" for q using touches_file[OF t2, of q] m(3)[of q] by simp
  have np: "\<not> prefix (d @ [n]) d" using prefix_length_le[of "d @ [n]" d] by auto
  show d: "dir_at fs2 (d @ [n]) \<longleftrightarrow> dir_at fs (d @ [n])"
    using touches_new_dir[OF t2, of "d @ [n]"] touches_new_dir[OF t1, of "d @ [n]"] touches_dir[OF t2, of "d @ [n]"]
      m(2)[of "d @ [n]"] np by blast
  have "\<not> through_file fs (d @ [n])"
    using through_file_dirs[OF wd, of n] through_file_back[of fs fs2 "d @ [n]"] f by auto
  then have "Stat fs (d @ [n]) = Inl ErrNotExist \<longleftrightarrow> entry fs (d @ [n]) = None"
    by (auto simp: Stat_def split: option.splits)
  moreover have "Stat fs2 (d @ [n]) = Inl ErrNotExist \<longleftrightarrow> entry fs2 (d @ [n]) = None"
    unfolding Stat_under_dir[OF wd] by (auto split: option.splits)
  ultimately show "Stat fs2 (d @ [n]) = Inl ErrNotExist \<longleftrightarrow> Stat fs (d @ [n]) = Inl ErrNotExist"
    using f[of "d @ [n]"] d by (simp add: file_dir_entry)
  show "touches P fs fs2" if "prefix d p" "p \<in> P"
    using touches_trans[OF _ touches_mono[OF t2 empty_subsetI]] MkdirAll_touches[OF assms(1,3) that(2,1)] by blast
qed

lemma write_resource_ok:
  assumes "write_resource s d (d @ [n]) dm data fm fs = (fs', Inr b)" "fs_wf fs" "d @ [n] \<in> P"
  shows "touches P fs fs' \<and> file_at fs' (d @ [n]) = Some data \<and> \<not> dir_at fs (d @ [n])
    \<and> (b \<longleftrightarrow> Stat fs (d @ [n]) = Inl ErrNotExist)"
proof -
  from assms(1) obtain fs1 fs2 where m: "MkdirAll d dm fs = Inr fs1" and c: "Chmod d dm fs1 = Inr fs2"
    and st: "case Stat fs2 (d @ [n]) of Inl e \<Rightarrow> errors_Is e ErrNotExist \<and> b | Inr _ \<Rightarrow> \<not> b"
    and r: "replace_file d (d @ [n]) data fm fs2 = Inr fs'"
    unfolding write_resource_def by (auto simp: io_Inr stat_created_Inr)
  note prep = prepare_dir[OF m c assms(2)]
  have r2: "touches P fs2 fs' \<and> file_at fs' (d @ [n]) = Some data \<and> \<not> dir_at fs2 (d @ [n])"
    using replace_file_touches[OF r prep(1) assms(3)] .
  have "b \<longleftrightarrow> Stat fs2 (d @ [n]) = Inl ErrNotExist"
    using st unfolding Stat_under_dir[OF prep(1,2)] by (auto split: option.splits)
  moreover have "touches P fs fs2" using prep(6)[OF _ assms(3)] by simp
  ultimately show ?thesis using touches_trans[of P fs fs2 fs'] r2 prep(4,5)[of n] by simp
qed

text \<open>Removing a file takes nothing else away.\<close>

definition removes :: "path set \<Rightarrow> fsys \<Rightarrow> fsys \<Rightarrow> bool" where
  "removes P fs fs' \<longleftrightarrow> fs_wf fs' \<and> (\<forall>q. entry fs' q = (if q \<noteq> [] \<and> (\<exists>p \<in> P. prefix p q) then None else entry fs q))"

lemma removes_cut: "fs_wf fs \<Longrightarrow> removes {p} fs (cut p fs)"
  by (simp add: removes_def fs_wf_cut)

lemma Remove_entry:
  assumes "Remove p fs = Inr fs'" "fs_wf fs" "p \<noteq> []"
  shows "fs_wf fs' \<and> entry fs p \<noteq> None \<and> (\<forall>q. entry fs' q = (if q = p then None else entry fs q))"
proof -
  from assms obtain n where n: "entry fs p = Some n" and emp: "IsDir n \<longrightarrow> names_in fs p = []" and fs': "fs' = cut p fs"
    by (auto simp: Remove_def rbind_eq_Inr Stat_Inr split: if_splits)
  have "entry fs q = None" if sp: "strict_prefix p q" for q
  proof (rule ccontr)
    assume "entry fs q \<noteq> None"
    with sp have d: "dir_at fs p" using entry_prefix_dir[OF assms(2) _ sp] by (simp add: dir_at_iff)
    obtain c zs where q: "q = (p @ [c]) @ zs" using sp by (auto elim!: strict_prefixE')
    have "entry fs (p @ [c]) \<noteq> None"
      using \<open>entry fs q \<noteq> None\<close> entry_prefix_dir[OF assms(2) \<open>entry fs q \<noteq> None\<close>, of "p @ [c]"] q
      by (cases "zs = []") (auto simp: strict_prefix_def)
    then show False using emp d n names_in_empty_iff[of fs p] by (cases n) (auto simp: dir_at_iff)
  qed
  then show ?thesis using n fs' assms(3) fs_wf_cut[OF assms(2)] by (auto simp: strict_prefix_def)
qed

text \<open>After a removal the path is free, unless a file was in its way.\<close>

lemma Stat_removed:
  assumes "fs_wf fs" "entry fs p \<noteq> None" "\<And>q. file_at fs' q \<noteq> None \<Longrightarrow> file_at fs q \<noteq> None" "entry fs' p = None"
  shows "Stat fs' p = Inl ErrNotExist"
  using through_file_entry[OF assms(1,2)] through_file_back[of fs' fs p] assms(3,4) by (auto simp: Stat_def)

section \<open>A scoped store is a map\<close>

datatype ('k, 'v) store_op = Put 'k 'v | Del 'k

text \<open>
  A run of operations that all succeed, and its meaning on a finite map, which holds what is stored
  of each value.
\<close>

fun run_ops :: "('k \<Rightarrow> 'v \<Rightarrow> bool io) \<Rightarrow> ('k \<Rightarrow> unit io) \<Rightarrow> ('k, 'v) store_op list \<Rightarrow> fsys \<Rightarrow> fsys option" where
  "run_ops wr del [] fs = Some fs"
| "run_ops wr del (Put k v # ops) fs = (case wr k v fs of (fs', Inr _) \<Rightarrow> run_ops wr del ops fs' | _ \<Rightarrow> None)"
| "run_ops wr del (Del k # ops) fs = (case del k fs of (fs', Inr _) \<Rightarrow> run_ops wr del ops fs' | _ \<Rightarrow> None)"

fun map_ops :: "('v \<Rightarrow> 'w) \<Rightarrow> ('k, 'v) store_op list \<Rightarrow> ('k \<rightharpoonup> 'w) \<Rightarrow> ('k \<rightharpoonup> 'w)" where
  "map_ops stored [] m = m"
| "map_ops stored (Put k v # ops) m = map_ops stored ops (m(k \<mapsto> stored v))"
| "map_ops stored (Del k # ops) m = map_ops stored ops (m(k := None))"

fun op_key :: "('k, 'v) store_op \<Rightarrow> 'k" where
  "op_key (Put k v) = k"
| "op_key (Del k) = k"

definition contents :: "('k \<Rightarrow> bool) \<Rightarrow> ('k \<Rightarrow> fsys \<Rightarrow> 'v result) \<Rightarrow> fsys \<Rightarrow> 'k \<rightharpoonup> 'v" where
  "contents valid get fs k = (if valid k then case get k fs of Inr v \<Rightarrow> Some v | Inl _ \<Rightarrow> None else None)"

locale scoped_store =
  fixes valid :: "'k \<Rightarrow> bool"
    and wr :: "'k \<Rightarrow> 'v \<Rightarrow> bool io"
    and get :: "'k \<Rightarrow> fsys \<Rightarrow> 'w result"
    and del :: "'k \<Rightarrow> unit io"
    and notfound :: goerror
    and stored :: "'v \<Rightarrow> 'w"
  assumes write_get: "fs_wf fs \<Longrightarrow> valid k \<Longrightarrow> wr k v fs = (fs', Inr b) \<Longrightarrow>
      fs_wf fs' \<and> get k fs' = Inr (stored v) \<and> (b \<longleftrightarrow> get k fs = Inl notfound)"
    and write_frame: "fs_wf fs \<Longrightarrow> valid k \<Longrightarrow> wr k v fs = (fs', Inr b) \<Longrightarrow> valid k' \<Longrightarrow> k' \<noteq> k \<Longrightarrow>
      get k' fs' = Inr w \<longleftrightarrow> get k' fs = Inr w"
    and del_get: "fs_wf fs \<Longrightarrow> valid k \<Longrightarrow> del k fs = (fs', Inr u) \<Longrightarrow> fs_wf fs' \<and> get k fs' = Inl notfound"
    and del_frame: "fs_wf fs \<Longrightarrow> valid k \<Longrightarrow> del k fs = (fs', Inr u) \<Longrightarrow> valid k' \<Longrightarrow> k' \<noteq> k \<Longrightarrow>
      get k' fs' = Inr w \<longleftrightarrow> get k' fs = Inr w"
begin

lemma contents_eqI:
  assumes "\<And>w. get k fs' = Inr w \<longleftrightarrow> get k fs = Inr w"
  shows "contents valid get fs' k = contents valid get fs k"
  using assms by (cases "get k fs"; cases "get k fs'") (auto simp: contents_def)

lemma contents_write:
  assumes "fs_wf fs" "valid k" "wr k v fs = (fs', Inr b)"
  shows "contents valid get fs' = (contents valid get fs)(k \<mapsto> stored v)"
proof
  fix k'
  show "contents valid get fs' k' = ((contents valid get fs)(k \<mapsto> stored v)) k'"
    using write_get[OF assms] contents_eqI[OF write_frame[OF assms]] assms(2)
    by (cases "valid k'"; cases "k' = k") (auto simp: contents_def)
qed

lemma contents_del:
  assumes "fs_wf fs" "valid k" "del k fs = (fs', Inr u)"
  shows "contents valid get fs' = (contents valid get fs)(k := None)"
proof
  fix k'
  show "contents valid get fs' k' = ((contents valid get fs)(k := None)) k'"
    using del_get[OF assms] contents_eqI[OF del_frame[OF assms]]
    by (cases "valid k'"; cases "k' = k") (auto simp: contents_def)
qed

lemma run_refines_map:
  assumes "run_ops wr del ops fs = Some fs'" "fs_wf fs" "list_all (\<lambda>op. valid (op_key op)) ops"
  shows "contents valid get fs' = map_ops stored ops (contents valid get fs)"
  using assms
proof (induction ops arbitrary: fs)
  case (Cons op ops)
  show ?case
  proof (cases op)
    case (Put k v)
    with Cons.prems obtain fs1 b where w: "wr k v fs = (fs1, Inr b)" and run: "run_ops wr del ops fs1 = Some fs'"
      by (auto split: prod.splits sum.splits)
    have v: "valid k" "list_all (\<lambda>op. valid (op_key op)) ops" using Cons.prems(3) Put by auto
    show ?thesis
      using Cons.IH[OF run _ v(2)] write_get[OF Cons.prems(2) v(1) w] contents_write[OF Cons.prems(2) v(1) w] Put
      by (simp only: map_ops.simps)
  next
    case (Del k)
    with Cons.prems obtain fs1 u where d: "del k fs = (fs1, Inr u)" and run: "run_ops wr del ops fs1 = Some fs'"
      by (auto split: prod.splits sum.splits)
    have v: "valid k" "list_all (\<lambda>op. valid (op_key op)) ops" using Cons.prems(3) Del by auto
    show ?thesis
      using Cons.IH[OF run _ v(2)] del_get[OF Cons.prems(2) v(1) d] contents_del[OF Cons.prems(2) v(1) d] Del
      by (simp only: map_ops.simps)
  qed
qed simp

lemma write_twice:
  assumes "fs_wf fs" "valid k" "wr k v fs = (fs1, Inr b)" "wr k v' fs1 = (fs2, Inr b')"
  shows "\<not> b' \<and> get k fs2 = Inr (stored v')"
  using write_get[OF assms(1-3)] write_get[OF _ assms(2,4)] by auto

end

section \<open>Paths of distinct resources do not nest\<close>

lemma coords_reserved:
  assumes "scope_complete r s t c" "list_all (\<lambda>n. n \<notin> set reserved_names) [s, t, c]"
    and "0 < i" "i < length (coords r s t c)"
  shows "coords r s t c ! i \<notin> set reserved_names"
proof -
  have "coords r s t c ! i \<in> set (tl (coords r s t c))"
    using assms(3,4) by (cases "coords r s t c"; cases i) auto
  moreover have "set (tl (coords r s t c)) \<subseteq> {s, t, c}"
    using assms(1) by (auto simp: coords_def scope_complete_def)
  ultimately show ?thesis using assms(2) by auto
qed

lemma resource_path_prefix:
  assumes "resource_ok r s t c x" "resource_ok r' s' t' c' y" "x \<noteq> Metadata"
    and "prefix (resource_path base r s t c x) (resource_path base r' s' t' c' y)"
  shows "resource_path base r s t c x = resource_path base r' s' t' c' y"
proof -
  let ?a = "coords r s t c" and ?b = "coords r' s' t' c'"
  have ok: "scope_complete r s t c" "scope_complete r' s' t' c'"
    "list_all (\<lambda>n. n \<notin> set reserved_names) [s, t, c]" "list_all (\<lambda>n. n \<notin> set reserved_names) [s', t', c']"
    using assms(1,2) by simp_all
  obtain sub n where x: "sub \<in> set reserved_names" "resource_leaf x = [sub, n]"
    using assms(3) resource_leaf_cases[of x] by metis
  from assms(4) obtain zs where "resource_path base r' s' t' c' y = resource_path base r s t c x @ zs"
    by (auto elim: prefixE)
  then have eq: "?b @ resource_leaf y = ?a @ [sub, n] @ zs"
    using assms(1,2) x(2) by (simp add: resource_path_split del: resource_path.simps)
  have pos: "0 < length ?a" "0 < length ?b" using coords_nonempty ok(1,2) by auto
  have "\<not> length ?a < length ?b"
    using coords_reserved[OF ok(2,4) pos(1)] x(1) arg_cong[OF eq, of "\<lambda>l. l ! length ?a"]
    by (auto simp: nth_append split: if_splits)
  moreover have "\<not> length ?b < length ?a"
  proof
    assume lt: "length ?b < length ?a"
    have "length (resource_leaf y) = Suc (Suc (length ?a - length ?b + length zs))"
      using lt arg_cong[OF eq, of length] by simp
    then obtain sub' n' where y: "sub' \<in> set reserved_names" "resource_leaf y = [sub', n']"
      using resource_leaf_cases[of y] by (metis length_Cons list.size(3) nat.inject nat.distinct(1))
    moreover have "?a ! length ?b = sub'"
      using lt arg_cong[OF eq, of "\<lambda>l. l ! length ?b"] y(2) by (simp add: nth_append)
    ultimately show False using coords_reserved[OF ok(1,3) pos(2) lt] by simp
  qed
  ultimately have "length ?b = length ?a" by simp
  from append_eq_append_conv[of ?b ?a, THEN iffD1, OF disjI1, OF this eq]
  have ab: "?b = ?a" and leaf: "resource_leaf y = [sub, n] @ zs" by simp_all
  have "length (resource_leaf y) \<le> 2" by (cases y) simp_all
  then have "zs = []" using leaf by simp
  then show ?thesis using assms(1,2) x(2) ab leaf by (simp add: resource_path_split del: resource_path.simps)
qed

section \<open>Stores of files\<close>

text \<open>
  Secrets, blueprints and configs are kept as one file each; what makes such a store a scoped store
  is that distinct keys have distinct paths.
\<close>

definition read_resource :: "goerror \<Rightarrow> (goerror \<Rightarrow> goerror) \<Rightarrow> path \<Rightarrow> fsys \<Rightarrow> content result" where
  "read_resource notfound other p fs = (case ReadFile fs p of
     Inl e \<Rightarrow> Inl (if errors_Is e ErrNotExist then notfound else other e)
   | Inr data \<Rightarrow> Inr data)"

definition remove_resource :: "goerror \<Rightarrow> (goerror \<Rightarrow> goerror) \<Rightarrow> path \<Rightarrow> unit io" where
  "remove_resource notfound other p fs = (case Remove p fs of
     Inl e \<Rightarrow> (fs, Inl (if errors_Is e ErrNotExist then notfound else other e))
   | Inr fs' \<Rightarrow> (fs', Inr ()))"

locale file_store =
  fixes valid :: "'k \<Rightarrow> bool"
    and wr :: "'k \<Rightarrow> 'v \<Rightarrow> bool io"
    and get :: "'k \<Rightarrow> fsys \<Rightarrow> content result"
    and del :: "'k \<Rightarrow> unit io"
    and notfound :: goerror
    and stored :: "'v \<Rightarrow> content"
    and dir :: "'k \<Rightarrow> path"
    and name :: "'k \<Rightarrow> string"
    and sentinel :: goerror
    and dmode :: int
    and fmode :: int
    and geterr :: "'k \<Rightarrow> goerror \<Rightarrow> goerror"
    and delnf :: goerror
    and delerr :: "goerror \<Rightarrow> goerror"
  assumes path_inject: "valid k \<Longrightarrow> valid k' \<Longrightarrow> dir k @ [name k] = dir k' @ [name k'] \<Longrightarrow> k = k'"
    and wr_eq: "valid k \<Longrightarrow> wr k v = write_resource sentinel (dir k) (dir k @ [name k]) dmode (stored v) fmode"
    and get_eq: "valid k \<Longrightarrow> get k = read_resource notfound (geterr k) (dir k @ [name k])"
    and del_eq: "valid k \<Longrightarrow> del k = remove_resource delnf delerr (dir k @ [name k])"
    and geterr_other: "geterr k e \<noteq> notfound"

lemma read_resource_Inr: "fs_wf fs \<Longrightarrow> read_resource nf oth p fs = Inr v \<longleftrightarrow> file_at fs p = Some v"
  using ReadFile_Inr[of fs p v] by (cases "ReadFile fs p") (auto simp: read_resource_def file_at_Some)

lemma ReadFile_not_exist: "ReadFile fs p = Inl e \<Longrightarrow> errors_Is e ErrNotExist \<longleftrightarrow> Stat fs p = Inl ErrNotExist"
  by (auto simp: ReadFile_def Stat_def split: if_splits option.splits node.splits)

sublocale file_store \<subseteq> scoped_store valid wr get del notfound stored
proof
  fix fs k v fs' b
  assume wf: "fs_wf fs" and k: "valid k" and w: "wr k v fs = (fs', Inr b)"
  let ?p = "dir k @ [name k]"
  have ok: "touches {?p} fs fs' \<and> file_at fs' ?p = Some (stored v) \<and> \<not> dir_at fs ?p \<and> (b \<longleftrightarrow> Stat fs ?p = Inl ErrNotExist)"
    using write_resource_ok[OF _ wf, of sentinel "dir k" "name k" dmode "stored v" fmode fs' b "{?p}"] w k by (simp add: wr_eq)
  have "get k fs = Inl notfound \<longleftrightarrow> Stat fs ?p = Inl ErrNotExist"
  proof (cases "ReadFile fs ?p")
    case (Inl e)
    then show ?thesis using ReadFile_not_exist[OF Inl] geterr_other by (auto simp: get_eq[OF k] read_resource_def)
  next
    case (Inr c)
    then show ?thesis using ReadFile_Inr[OF wf, of ?p c] by (auto simp: get_eq[OF k] read_resource_def Stat_Inr[OF wf, symmetric])
  qed
  then show "fs_wf fs' \<and> get k fs' = Inr (stored v) \<and> (b \<longleftrightarrow> get k fs = Inl notfound)"
    using ok touches_wf read_resource_Inr by (auto simp: get_eq[OF k])
next
  fix fs k v fs' b k' w
  assume wf: "fs_wf fs" and k: "valid k" and w: "wr k v fs = (fs', Inr b)" and k': "valid k'" "k' \<noteq> k"
  let ?p = "dir k @ [name k]"
  have ok: "touches {?p} fs fs'"
    using write_resource_ok[OF _ wf, of sentinel "dir k" "name k" dmode "stored v" fmode fs' b "{?p}"] w k by (simp add: wr_eq)
  have "dir k' @ [name k'] \<noteq> ?p" using path_inject[OF k k'(1)] k'(2) by metis
  then have "file_at fs' (dir k' @ [name k']) = file_at fs (dir k' @ [name k'])" using ok unfolding touches_def by blast
  then show "get k' fs' = Inr w \<longleftrightarrow> get k' fs = Inr w"
    by (simp add: get_eq[OF k'(1)] read_resource_Inr[OF wf] read_resource_Inr[OF touches_wf[OF ok]])
next
  fix fs k fs' u
  assume wf: "fs_wf fs" and k: "valid k" and d: "del k fs = (fs', Inr u)"
  let ?p = "dir k @ [name k]"
  have r: "fs_wf fs' \<and> entry fs ?p \<noteq> None \<and> (\<forall>q. entry fs' q = (if q = ?p then None else entry fs q))"
    using Remove_entry[OF _ wf, of ?p fs'] d by (auto simp: del_eq[OF k] remove_resource_def split: sum.splits)
  then have "Stat fs' ?p = Inl ErrNotExist"
    by (intro Stat_removed[OF wf]) (auto simp: file_at_def split: if_splits)
  then show "fs_wf fs' \<and> get k fs' = Inl notfound"
    using r by (simp add: get_eq[OF k] read_resource_def ReadFile_def)
next
  fix fs k fs' u k' w
  assume wf: "fs_wf fs" and k: "valid k" and d: "del k fs = (fs', Inr u)" and k': "valid k'" "k' \<noteq> k"
  let ?p = "dir k @ [name k]"
  have r: "fs_wf fs' \<and> (\<forall>q. entry fs' q = (if q = ?p then None else entry fs q))"
    using Remove_entry[OF _ wf, of ?p fs'] d by (auto simp: del_eq[OF k] remove_resource_def split: sum.splits)
  have "dir k' @ [name k'] \<noteq> ?p" using path_inject[OF k k'(1)] k'(2) by metis
  then have "entry fs' (dir k' @ [name k']) = entry fs (dir k' @ [name k'])" using r by metis
  then have "file_at fs' (dir k' @ [name k']) = file_at fs (dir k' @ [name k'])" by (simp add: file_at_def)
  then show "get k' fs' = Inr w \<longleftrightarrow> get k' fs = Inr w"
    using r by (simp add: get_eq[OF k'(1)] read_resource_Inr[OF wf] read_resource_Inr)
qed

section \<open>The stores of the daemon\<close>

abbreviation ErrSecretRefNotFound :: goerror where "ErrSecretRefNotFound \<equiv> ErrNamed ''ErrSecretRefNotFound''"

text \<open>The value of a secret that a container references (\<^verbatim>\<open>readSecretRefValue\<close> of internal/ctr/secrets.go).\<close>

definition readSecretRefValue :: "path \<Rightarrow> ContainerSecretRef \<Rightarrow> fsys \<Rightarrow> content result" where
  "readSecretRefValue base ref fs =
     (case ReadFile fs (SecretPath base (sr_Realm ref) (sr_Space ref) (sr_Stack ref) (sr_Cell ref) (sr_Name ref)) of
        Inl e \<Rightarrow> if errors_Is e ErrNotExist then Inl ErrSecretRefNotFound
                 else Inl (errorfw ''failed to read referenced secret'' [] e)
      | Inr data \<Rightarrow> Inr data)"

definition secret_of :: "ContainerSecretRef \<Rightarrow> string \<Rightarrow> Secret" where
  "secret_of ref data = \<lparr>sc_Metadata = \<lparr>scM_Name = sr_Name ref, scM_Realm = sr_Realm ref, scM_Space = sr_Space ref,
       scM_Stack = sr_Stack ref, scM_Cell = sr_Cell ref\<rparr>, sc_Spec = \<lparr>scS_Data = data\<rparr>\<rparr>"

definition secret_ok :: "ContainerSecretRef \<Rightarrow> bool" where
  "secret_ok ref \<longleftrightarrow> resource_ok (sr_Realm ref) (sr_Space ref) (sr_Stack ref) (sr_Cell ref) (Secrets (sr_Name ref))"

definition write_secret :: "path \<Rightarrow> ContainerSecretRef \<Rightarrow> string \<Rightarrow> bool io" where
  "write_secret base ref data = WriteSecret base (secret_of ref data)"

definition delete_secret :: "path \<Rightarrow> ContainerSecretRef \<Rightarrow> unit io" where
  "delete_secret base ref = DeleteSecret base (sc_Metadata (secret_of ref ''''))"

definition blueprint_ok :: "CellBlueprintMetadata \<Rightarrow> bool" where
  "blueprint_ok md \<longleftrightarrow> resource_ok (bpM_Realm md) (bpM_Space md) (bpM_Stack md) '''' (Blueprints (bpM_Name md)) \<and> bpM_Labels md = []"

definition write_blueprint :: "path \<Rightarrow> CellBlueprintMetadata \<Rightarrow> content \<Rightarrow> bool io" where
  "write_blueprint base md doc = WriteBlueprint base \<lparr>bp_Metadata = md, bp_Document = doc\<rparr>"

definition blueprint_document :: "path \<Rightarrow> CellBlueprintMetadata \<Rightarrow> fsys \<Rightarrow> content result" where
  "blueprint_document base md fs = rbind (GetBlueprint base md fs) (\<lambda>b. Inr (bp_Document b))"

definition config_ok :: "CellConfigMetadata \<Rightarrow> bool" where
  "config_ok md \<longleftrightarrow> resource_ok (cfM_Realm md) (cfM_Space md) (cfM_Stack md) '''' (Configs (cfM_Name md)) \<and> cfM_Labels md = []"

definition write_config :: "path \<Rightarrow> CellConfigMetadata \<Rightarrow> content \<Rightarrow> bool io" where
  "write_config base md doc = WriteConfig base \<lparr>cf_Metadata = md, cf_Document = doc\<rparr>"

definition config_document :: "path \<Rightarrow> CellConfigMetadata \<Rightarrow> fsys \<Rightarrow> content result" where
  "config_document base md fs = rbind (GetConfig base md fs) (\<lambda>b. Inr (cf_Document b))"

lemma Join_name [simp]: "n \<noteq> '''' \<Longrightarrow> Join d [n] = d @ [n]"
  by (simp add: Join_def)

lemma resource_dirs:
  "n \<noteq> '''' \<Longrightarrow> SecretPath base r s t c n = SecretsDir base r s t c @ [n]"
  "n \<noteq> '''' \<Longrightarrow> BlueprintPath base r s t n = BlueprintsDir base r s t @ [n]"
  "n \<noteq> '''' \<Longrightarrow> ConfigPath base r s t n = ConfigsDir base r s t @ [n]"
  "n \<noteq> '''' \<Longrightarrow> VolumePath base r s t n = VolumesDir base r s t @ [n]"
  "VolumeMetaPath base r s t n = VolumeMetaDir base r s t @ [n @ ''.json'']"
  by (simp_all add: SecretPath_def BlueprintPath_def ConfigPath_def VolumePath_def VolumeMetaPath_def)

interpretation secrets: file_store secret_ok "write_secret base" "readSecretRefValue base" "delete_secret base"
  ErrSecretRefNotFound Raw
  "\<lambda>ref. SecretsDir base (sr_Realm ref) (sr_Space ref) (sr_Stack ref) (sr_Cell ref)" sr_Name ErrWriteSecret
  secretsDirMode secretFileMode "\<lambda>_. errorfw ''failed to read referenced secret'' []" ErrSecretNotFound
  "Wrapped ErrDeleteSecret"
  for base
proof
  fix k k' :: ContainerSecretRef
  assume ok: "secret_ok k" "secret_ok k'" and eq: "SecretsDir base (sr_Realm k) (sr_Space k) (sr_Stack k) (sr_Cell k) @ [sr_Name k]
    = SecretsDir base (sr_Realm k') (sr_Space k') (sr_Stack k') (sr_Cell k') @ [sr_Name k']"
  have n: "sr_Name k \<noteq> ''''" "sr_Name k' \<noteq> ''''" using ok by (simp_all add: secret_ok_def)
  note inj = resource_path_inject[OF ok[unfolded secret_ok_def], where base = base,
      unfolded resource_path.simps resource_dirs(1)[OF n(1)] resource_dirs(1)[OF n(2)], OF eq]
  show "k = k'" using inj ok by (cases k; cases k') simp
next
  fix k :: ContainerSecretRef and v
  assume "secret_ok k"
  then have n: "sr_Name k \<noteq> ''''" by (simp add: secret_ok_def)
  show "write_secret base k v = write_resource ErrWriteSecret (SecretsDir base (sr_Realm k) (sr_Space k) (sr_Stack k) (sr_Cell k))
      (SecretsDir base (sr_Realm k) (sr_Space k) (sr_Stack k) (sr_Cell k) @ [sr_Name k]) secretsDirMode (Raw v) secretFileMode"
    by (simp add: Let_def write_secret_def WriteSecret_def secret_of_def write_resource_def atomicWriteSecret_def resource_dirs(1)[OF n])
next
  fix k :: ContainerSecretRef
  assume "secret_ok k"
  then have n: "sr_Name k \<noteq> ''''" by (simp add: secret_ok_def)
  let ?p = "SecretsDir base (sr_Realm k) (sr_Space k) (sr_Stack k) (sr_Cell k) @ [sr_Name k]"
  show "readSecretRefValue base k = read_resource ErrSecretRefNotFound (errorfw ''failed to read referenced secret'' []) ?p"
    by (rule ext) (simp add: readSecretRefValue_def read_resource_def resource_dirs(1)[OF n] split: sum.split)
  show "delete_secret base k = remove_resource ErrSecretNotFound (Wrapped ErrDeleteSecret) ?p"
    by (rule ext) (simp add: delete_secret_def DeleteSecret_def secret_of_def remove_resource_def resource_dirs(1)[OF n] split: sum.split)
qed (simp add: errorfw_def)

interpretation blueprints: file_store blueprint_ok "write_blueprint base" "blueprint_document base" "DeleteBlueprint base"
  ErrBlueprintNotFound id
  "\<lambda>md. BlueprintsDir base (bpM_Realm md) (bpM_Space md) (bpM_Stack md)" bpM_Name ErrWriteBlueprint
  blueprintsDirMode blueprintFileMode "\<lambda>_. Wrapped ErrGetBlueprint" ErrBlueprintNotFound "Wrapped ErrDeleteBlueprint"
  for base
proof
  fix k k' :: CellBlueprintMetadata
  assume ok: "blueprint_ok k" "blueprint_ok k'" and eq: "BlueprintsDir base (bpM_Realm k) (bpM_Space k) (bpM_Stack k) @ [bpM_Name k]
    = BlueprintsDir base (bpM_Realm k') (bpM_Space k') (bpM_Stack k') @ [bpM_Name k']"
  have n: "bpM_Name k \<noteq> ''''" "bpM_Name k' \<noteq> ''''" using ok by (simp_all add: blueprint_ok_def)
  note inj = resource_path_inject[OF ok[unfolded blueprint_ok_def, THEN conjunct1], where base = base,
      unfolded resource_path.simps resource_dirs(2)[OF n(1)] resource_dirs(2)[OF n(2)], OF eq]
  show "k = k'" using inj ok by (cases k; cases k') (simp add: blueprint_ok_def)
next
  fix k :: CellBlueprintMetadata and v
  assume "blueprint_ok k"
  then have n: "bpM_Name k \<noteq> ''''" by (simp add: blueprint_ok_def)
  let ?d = "BlueprintsDir base (bpM_Realm k) (bpM_Space k) (bpM_Stack k)"
  show "write_blueprint base k v = write_resource ErrWriteBlueprint ?d (?d @ [bpM_Name k]) blueprintsDirMode (id v) blueprintFileMode"
    by (simp add: Let_def write_blueprint_def WriteBlueprint_def write_resource_def atomicWriteFileMode_def resource_dirs(2)[OF n])
next
  fix k :: CellBlueprintMetadata
  assume "blueprint_ok k"
  then have n: "bpM_Name k \<noteq> ''''" by (simp add: blueprint_ok_def)
  let ?p = "BlueprintsDir base (bpM_Realm k) (bpM_Space k) (bpM_Stack k) @ [bpM_Name k]"
  show "blueprint_document base k = read_resource ErrBlueprintNotFound (Wrapped ErrGetBlueprint) ?p"
    by (rule ext) (simp add: blueprint_document_def GetBlueprint_def read_resource_def resource_dirs(2)[OF n] split: sum.split)
  show "DeleteBlueprint base k = remove_resource ErrBlueprintNotFound (Wrapped ErrDeleteBlueprint) ?p"
    by (rule ext) (simp add: DeleteBlueprint_def remove_resource_def resource_dirs(2)[OF n] split: sum.split)
qed simp

interpretation configs: file_store config_ok "write_config base" "config_document base" "DeleteConfig base"
  ErrConfigNotFound id
  "\<lambda>md. ConfigsDir base (cfM_Realm md) (cfM_Space md) (cfM_Stack md)" cfM_Name ErrWriteConfig
  configsDirMode configFileMode "\<lambda>_. Wrapped ErrGetConfig" ErrConfigNotFound "Wrapped ErrDeleteConfig"
  for base
proof
  fix k k' :: CellConfigMetadata
  assume ok: "config_ok k" "config_ok k'" and eq: "ConfigsDir base (cfM_Realm k) (cfM_Space k) (cfM_Stack k) @ [cfM_Name k]
    = ConfigsDir base (cfM_Realm k') (cfM_Space k') (cfM_Stack k') @ [cfM_Name k']"
  have n: "cfM_Name k \<noteq> ''''" "cfM_Name k' \<noteq> ''''" using ok by (simp_all add: config_ok_def)
  note inj = resource_path_inject[OF ok[unfolded config_ok_def, THEN conjunct1], where base = base,
      unfolded resource_path.simps resource_dirs(3)[OF n(1)] resource_dirs(3)[OF n(2)], OF eq]
  show "k = k'" using inj ok by (cases k; cases k') (simp add: config_ok_def)
next
  fix k :: CellConfigMetadata and v
  assume "config_ok k"
  then have n: "cfM_Name k \<noteq> ''''" by (simp add: config_ok_def)
  let ?d = "ConfigsDir base (cfM_Realm k) (cfM_Space k) (cfM_Stack k)"
  show "write_config base k v = write_resource ErrWriteConfig ?d (?d @ [cfM_Name k]) configsDirMode (id v) configFileMode"
    by (simp add: Let_def write_config_def WriteConfig_def write_resource_def atomicWriteFileMode_def resource_dirs(3)[OF n])
next
  fix k :: CellConfigMetadata
  assume "config_ok k"
  then have n: "cfM_Name k \<noteq> ''''" by (simp add: config_ok_def)
  let ?p = "ConfigsDir base (cfM_Realm k) (cfM_Space k) (cfM_Stack k) @ [cfM_Name k]"
  show "config_document base k = read_resource ErrConfigNotFound (Wrapped ErrGetConfig) ?p"
    by (rule ext) (simp add: config_document_def GetConfig_def read_resource_def resource_dirs(3)[OF n] split: sum.split)
  show "DeleteConfig base k = remove_resource ErrConfigNotFound (Wrapped ErrDeleteConfig) ?p"
    by (rule ext) (simp add: DeleteConfig_def remove_resource_def resource_dirs(3)[OF n] split: sum.split)
qed simp

section \<open>The store of volumes\<close>

lemma Stat_obs: "Stat fs p = (if through_file fs p then Inl ErrNotDir
    else case entry fs p of None \<Rightarrow> Inl ErrNotExist | Some n \<Rightarrow> Inr n)"
  by (simp add: Stat_def)

lemma ReadFile_obs: "ReadFile fs p = (if through_file fs p then Inl ErrNotDir
    else case file_at fs p of Some c \<Rightarrow> Inr c | None \<Rightarrow> if dir_at fs p then Inl ErrIsDir else Inl ErrNotExist)"
  by (auto simp: ReadFile_def Stat_def file_at_def dir_at_def split: option.splits node.splits)

lemma through_file_cong:
  assumes "\<And>q. strict_prefix q p \<Longrightarrow> file_at fs' q = file_at fs q"
  shows "through_file fs' p = through_file fs p"
proof -
  have "file_at fs' (take i p) = file_at fs (take i p)" if "i < length p" for i
    using assms take_strict_prefix[OF that] by blast
  then show ?thesis unfolding through_file_iff by (metis file_at_Some)
qed

definition volume_path :: "path \<Rightarrow> VolumeMetadata \<Rightarrow> path" where
  "volume_path base md = VolumePath base (voM_Realm md) (voM_Space md) (voM_Stack md) (voM_Name md)"

definition manifest_path :: "path \<Rightarrow> VolumeMetadata \<Rightarrow> path" where
  "manifest_path base md = VolumeMetaPath base (voM_Realm md) (voM_Space md) (voM_Stack md) (voM_Name md)"

definition volume_ok :: "VolumeMetadata \<Rightarrow> bool" where
  "volume_ok md \<longleftrightarrow> resource_ok (voM_Realm md) (voM_Space md) (voM_Stack md) '''' (Volumes (voM_Name md))"

lemma volume_paths:
  assumes "volume_ok md"
  shows "volume_path base md = resource_path base (voM_Realm md) (voM_Space md) (voM_Stack md) '''' (Volumes (voM_Name md))"
    and "manifest_path base md = resource_path base (voM_Realm md) (voM_Space md) (voM_Stack md) '''' (VolumeMetas (voM_Name md))"
    and "resource_ok (voM_Realm md) (voM_Space md) (voM_Stack md) '''' (VolumeMetas (voM_Name md))"
    and "volume_path base md = VolumesDir base (voM_Realm md) (voM_Space md) (voM_Stack md) @ [voM_Name md]"
    and "manifest_path base md = VolumeMetaDir base (voM_Realm md) (voM_Space md) (voM_Stack md) @ [voM_Name md @ ''.json'']"
  using assms by (simp_all add: volume_ok_def volume_path_def manifest_path_def resource_dirs)

text \<open>The directories and manifests of distinct volumes are apart: none lies on the way to another.\<close>

lemma volumes_apart:
  assumes k: "volume_ok k" and k': "volume_ok k'" and ne: "k' \<noteq> k"
    and "p \<in> {volume_path base k, manifest_path base k}" "q \<in> {volume_path base k', manifest_path base k'}"
  shows "\<not> prefix p q"
proof
  assume pre: "prefix p q"
  note in1 = volume_paths(1,2)[OF k, of base] volume_paths(3)[OF k] and in2 = volume_paths(1,2)[OF k', of base] volume_paths(3)[OF k']
  note k1 = k[unfolded volume_ok_def] and k2 = k'[unfolded volume_ok_def]
  have "p = q"
    using assms(4,5) pre resource_path_prefix[OF k1 k2, of base] resource_path_prefix[OF k1 in2(3), of base]
      resource_path_prefix[OF in1(3) k2, of base] resource_path_prefix[OF in1(3) in2(3), of base]
    unfolding in1(1,2) in2(1,2) by (simp del: resource_ok.simps resource_path.simps) blast
  then show False
    using assms(4,5) ne resource_path_inject[OF k1 k2, of base] resource_path_inject[OF k1 in2(3), of base]
      resource_path_inject[OF in1(3) k2, of base] resource_path_inject[OF in1(3) in2(3), of base]
    unfolding in1(1,2) in2(1,2)
    by (cases k; cases k') (simp del: resource_ok.simps resource_path.simps, blast)
qed

lemma paths_differ: "volume_ok k \<Longrightarrow> \<not> prefix (volume_path base k) (manifest_path base k) \<and> \<not> prefix (manifest_path base k) (volume_path base k)"
  by (simp add: volume_paths(4,5) VolumesDir_def VolumeMetaDir_def layout_names)

lemma GetVolume_cong:
  assumes "\<And>q. prefix q (volume_path base k) \<or> prefix q (manifest_path base k) \<Longrightarrow> file_at fs' q = file_at fs q"
    and "dir_at fs' (volume_path base k) = dir_at fs (volume_path base k)"
    and "dir_at fs' (manifest_path base k) = dir_at fs (manifest_path base k)"
  shows "rbind (GetVolume base k fs') (\<lambda>v. Inr (voS_ReclaimPolicy (vo_Spec v)))
    = rbind (GetVolume base k fs) (\<lambda>v. Inr (voS_ReclaimPolicy (vo_Spec v)))"
proof -
  have t: "through_file fs' (volume_path base k) = through_file fs (volume_path base k)"
    "through_file fs' (manifest_path base k) = through_file fs (manifest_path base k)"
    by (rule through_file_cong, rule assms(1), simp add: strict_prefix_def)+
  have f: "file_at fs' (manifest_path base k) = file_at fs (manifest_path base k)"
    "file_at fs' (volume_path base k) = file_at fs (volume_path base k)" using assms(1) by auto
  have m: "readVolumeReclaimPolicy base k fs' = readVolumeReclaimPolicy base k fs"
    unfolding readVolumeReclaimPolicy_def manifest_path_def[symmetric] ReadFile_obs t f assms(3) ..
  have "(case entry fs' (volume_path base k) of None \<Rightarrow> x | Some n \<Rightarrow> if IsDir n then y else z)
      = (case entry fs (volume_path base k) of None \<Rightarrow> x | Some n \<Rightarrow> if IsDir n then y else z)" for x y z :: "string result"
    using f(2) assms(2) by (auto simp: file_at_def dir_at_def split: option.splits node.splits)
  then show ?thesis
    unfolding GetVolume_def volume_path_def[symmetric] m Stat_obs t
    by (cases "entry fs' (volume_path base k)"; cases "entry fs (volume_path base k)")
       (use f(2) assms(2) in \<open>auto simp: file_at_def dir_at_def split: node.splits\<close>)
qed

definition stored_policy :: "string \<Rightarrow> string" where
  "stored_policy policy = (if policy = ReclaimRetain then ReclaimRetain else '''')"

lemma touches_Remove:
  assumes "Remove p fs = Inr fs'" "fs_wf fs" "p \<noteq> []"
  shows "touches {p} fs fs'"
  using Remove_entry[OF assms] by (auto simp: touches_def file_at_def dir_at_def)

lemma Stat_Remove:
  assumes "Remove p fs = Inr fs'" "fs_wf fs" "p \<noteq> []"
  shows "Stat fs' p = Inl ErrNotExist"
proof -
  note r = Remove_entry[OF assms]
  then have "entry fs p \<noteq> None" "entry fs' p = None" by auto
  moreover have "file_at fs q \<noteq> None" if "file_at fs' q \<noteq> None" for q
    using that r by (cases "q = p") (auto simp: file_at_def)
  ultimately show ?thesis by (intro Stat_removed[OF assms(2)])
qed

lemma dec_enc_manifest [simp]: "dec_manifest (Json l (enc_manifest p)) = Inr p"
  by (simp add: dec_manifest_def enc_manifest_def dec_obj_def get_field_def fld_def dec_str_def)

lemma persist_ok:
  assumes "persistVolumeReclaimPolicy base v fs = (fs', Inr u)" "fs_wf fs" "volume_ok (vo_Metadata v)"
  shows "touches {manifest_path base (vo_Metadata v)} fs fs'
    \<and> readVolumeReclaimPolicy base (vo_Metadata v) fs' = Inr (stored_policy (voS_ReclaimPolicy (vo_Spec v)))"
proof -
  let ?md = "vo_Metadata v" and ?m = "manifest_path base (vo_Metadata v)"
  let ?e = "VolumeMetaDir base (voM_Realm ?md) (voM_Space ?md) (voM_Stack ?md)"
  have m: "?m = ?e @ [voM_Name ?md @ ''.json'']" using volume_paths(5)[OF assms(3)] .
  have read: "readVolumeReclaimPolicy base ?md fs' = (case ReadFile fs' ?m of
      Inl e \<Rightarrow> if errors_Is e ErrNotExist then Inr '''' else Inl e
    | Inr data \<Rightarrow> map_err (errorfw ''parse reclaim manifest'' []) (dec_manifest data))"
    by (simp add: readVolumeReclaimPolicy_def manifest_path_def)
  show ?thesis
  proof (cases "voS_ReclaimPolicy (vo_Spec v) = ReclaimRetain")
    case True
    with assms(1) obtain fs1 fs2 where 1: "MkdirAll ?e volumeMetaDirMode fs = Inr fs1"
      and 2: "Chmod ?e volumeMetaDirMode fs1 = Inr fs2"
      and 3: "replace_file ?e ?m (Json Compact (enc_manifest ReclaimRetain)) volumeMetaFileMode fs2 = Inr fs'"
      by (auto simp: persistVolumeReclaimPolicy_def io_Inr atomicWriteFileMode_def manifest_path_def Let_def)
    have t1: "touches {?m} fs fs1" using MkdirAll_touches[OF 1 assms(2), of ?m "{?m}"] m by simp
    have t2: "touches {?m} fs1 fs2" using Chmod_touches[OF 2 touches_wf[OF t1]] .
    have t3: "touches {?m} fs2 fs' \<and> file_at fs' ?m = Some (Json Compact (enc_manifest ReclaimRetain))"
      using replace_file_touches[of ?e "voM_Name ?md @ ''.json''" _ _ fs2 fs' "{?m}"] 3 m touches_wf[OF t2] by simp
    then have "ReadFile fs' ?m = Inr (Json Compact (enc_manifest ReclaimRetain))"
      using ReadFile_Inr[OF touches_wf, of "{?m}" fs2] by (auto simp: file_at_Some)
    then show ?thesis using touches_trans[OF touches_trans[OF t1 t2]] t3 read True by (simp add: stored_policy_def)
  next
    case False
    have ne: "?m \<noteq> []" by (simp add: m)
    have "touches {?m} fs fs' \<and> Stat fs' ?m = Inl ErrNotExist"
    proof (cases "Remove ?m fs")
      case (Inl e)
      then have fs': "fs' = fs" "errors_Is e ErrNotExist"
        using assms(1) False by (auto simp: persistVolumeReclaimPolicy_def manifest_path_def Let_def split: if_splits)
      then have "Stat fs ?m = Inl ErrNotExist"
        using Inl by (auto simp: Remove_def Stat_def split: if_splits option.splits)
      then show ?thesis using fs' assms(2) touches_refl by simp
    next
      case (Inr fs1)
      then have "fs' = fs1" using assms(1) False by (simp add: persistVolumeReclaimPolicy_def manifest_path_def Let_def)
      then show ?thesis
        using touches_Remove[OF Inr assms(2) ne] Stat_Remove[OF Inr assms(2) ne] by simp
    qed
    then show ?thesis using read False by (simp add: stored_policy_def ReadFile_def)
  qed
qed

lemma GetVolume_value:
  assumes "fs_wf fs"
  shows "rbind (GetVolume base k fs) (\<lambda>v. Inr (voS_ReclaimPolicy (vo_Spec v))) = Inr w
    \<longleftrightarrow> dir_at fs (volume_path base k) \<and> readVolumeReclaimPolicy base k fs = Inr w"
proof (cases "Stat fs (volume_path base k)")
  case (Inl e)
  then have "\<not> dir_at fs (volume_path base k)"
    using Stat_Inr[OF assms, of "volume_path base k"] by (auto simp: dir_at_iff)
  with Inl show ?thesis by (simp add: GetVolume_def volume_path_def[symmetric])
next
  case (Inr n)
  then have "entry fs (volume_path base k) = Some n" using Stat_Inr[OF assms] by blast
  with Inr show ?thesis
    by (cases n; cases "readVolumeReclaimPolicy base k fs")
       (simp_all add: GetVolume_def volume_path_def[symmetric] dir_at_def)
qed

lemma GetVolume_notfound:
  assumes "fs_wf fs"
  shows "rbind (GetVolume base k fs) (\<lambda>v. Inr (voS_ReclaimPolicy (vo_Spec v))) = Inl ErrVolumeNotFound
    \<longleftrightarrow> Stat fs (volume_path base k) = Inl ErrNotExist \<or> file_at fs (volume_path base k) \<noteq> None"
proof (cases "Stat fs (volume_path base k)")
  case (Inl e)
  then have "e = ErrNotExist \<or> e = ErrNotDir" by (auto simp: Stat_def split: if_splits option.splits)
  moreover have "file_at fs (volume_path base k) = None"
    using Inl Stat_Inr[OF assms, of "volume_path base k"] by (auto simp: file_at_def split: option.splits)
  ultimately show ?thesis using Inl by (auto simp: GetVolume_def volume_path_def[symmetric])
next
  case (Inr n)
  then have e: "entry fs (volume_path base k) = Some n" using Stat_Inr[OF assms] by blast
  show ?thesis
  proof (cases n)
    case (Dir a)
    then show ?thesis using Inr e
      by (cases "readVolumeReclaimPolicy base k fs") (auto simp: GetVolume_def volume_path_def[symmetric] file_at_def)
  qed (use Inr e in \<open>auto simp: GetVolume_def volume_path_def[symmetric] file_at_def\<close>)
qed

definition write_volume :: "path \<Rightarrow> int \<Rightarrow> VolumeMetadata \<Rightarrow> string \<Rightarrow> bool io" where
  "write_volume base gid md policy = WriteVolume base gid \<lparr>vo_Metadata = md, vo_Spec = \<lparr>voS_ReclaimPolicy = policy\<rparr>\<rparr>"

definition volume_policy :: "path \<Rightarrow> VolumeMetadata \<Rightarrow> fsys \<Rightarrow> string result" where
  "volume_policy base md fs = rbind (GetVolume base md fs) (\<lambda>v. Inr (voS_ReclaimPolicy (vo_Spec v)))"

lemma refuse_file_Inr:
  "refuse_file p fs = (fs', Inr u) \<longleftrightarrow> fs' = fs \<and> (case Stat fs p of Inr info \<Rightarrow> IsDir info | Inl _ \<Rightarrow> True)"
  by (auto simp: refuse_file_def query_Inr split: sum.splits if_splits)

lemma write_volume_ok:
  assumes "write_volume base gid k policy fs = (fs', Inr b)" "fs_wf fs" "volume_ok k"
  shows "touches {volume_path base k, manifest_path base k} fs fs' \<and> dir_at fs' (volume_path base k)
    \<and> readVolumeReclaimPolicy base k fs' = Inr (stored_policy policy)
    \<and> file_at fs (volume_path base k) = None \<and> (b \<longleftrightarrow> Stat fs (volume_path base k) = Inl ErrNotExist)"
proof -
  let ?p = "volume_path base k" and ?d = "VolumesDir base (voM_Realm k) (voM_Space k) (voM_Stack k)" and ?n = "voM_Name k"
  let ?P = "{volume_path base k, manifest_path base k}" and ?v = "\<lparr>vo_Metadata = k, vo_Spec = \<lparr>voS_ReclaimPolicy = policy\<rparr>\<rparr>"
  let ?mode = "fst (volumeDirInitialPerms gid)" and ?gid = "snd (volumeDirInitialPerms gid)"
  have p: "?p = ?d @ [?n]" using volume_paths(4)[OF assms(3)] .
  from assms(1) obtain fs1 fs2 fs3 fs4 fs5 where 1: "MkdirAll ?d volumesDirMode fs = Inr fs1"
    and 2: "Chmod ?d volumesDirMode fs1 = Inr fs2"
    and st: "case Stat fs2 ?p of Inl e \<Rightarrow> errors_Is e ErrNotExist \<and> b | Inr _ \<Rightarrow> \<not> b"
    and isdir: "case Stat fs2 ?p of Inr info \<Rightarrow> IsDir info | Inl _ \<Rightarrow> True"
    and 3: "MkdirAll ?p ?mode fs2 = Inr fs3" and 4: "Chmod ?p ?mode fs3 = Inr fs4"
    and 5: "(if ?gid > 0 then wrap_io ErrWriteVolume (call (Chown ?p 0 ?gid)) else ret ()) fs4 = (fs5, Inr ())"
    and 6: "persistVolumeReclaimPolicy base ?v fs5 = (fs', Inr ())"
    unfolding write_volume_def WriteVolume_def Let_def case_prod_beta
    unfolding io_Inr wrap_io_Inr stat_created_Inr refuse_file_Inr volume_path_def[symmetric] by (simp cong: if_cong) blast
  note prep = prepare_dir[OF 1 2 assms(2)]
  have t2: "touches ?P fs fs2" using prep(6)[of ?p ?P] p by simp
  have m3: "touches ?P fs2 fs3 \<and> dir_at fs3 ?p" using MkdirAll_touches[OF 3 prep(1), of ?p ?P] by simp
  have c4: "touches {} fs3 fs4" using Chmod_touches[OF 4 touches_wf] m3 by blast
  have c5: "touches {} fs4 fs5"
    using 5 Chown_touches[OF _ touches_wf[OF c4], of ?p 0 ?gid fs5] touches_refl[OF touches_wf[OF c4]]
    by (auto simp: call_Inr ret_Inr split: if_splits)
  have m6: "touches {manifest_path base k} fs5 fs' \<and> readVolumeReclaimPolicy base k fs' = Inr (stored_policy policy)"
    using persist_ok[OF 6 touches_wf[OF c5]] assms(3) by simp
  note t3 = conjunct1[OF m3] and t4 = touches_mono[OF c4 empty_subsetI] and t5 = touches_mono[OF c5 empty_subsetI]
  have t6: "touches ?P fs5 fs'" using touches_mono[OF conjunct1[OF m6]] by blast
  have "touches ?P fs fs'" using touches_trans[OF touches_trans[OF touches_trans[OF touches_trans[OF t2 t3] t4] t5] t6] .
  moreover have "dir_at fs' ?p"
    using touches_dir[OF conjunct1[OF m6] touches_dir[OF c5 touches_dir[OF c4 conjunct2[OF m3]]]]
      paths_differ[OF assms(3), of base] by auto
  moreover have "file_at fs ?p = None"
  proof (rule ccontr)
    assume "file_at fs ?p \<noteq> None"
    then obtain a c where "entry fs2 ?p = Some (File a c)" using prep(3)[of ?p] by (metis file_at_Some not_None_eq)
    then show False using isdir Stat_Inr[OF prep(1), of ?p "File a c"] by simp
  qed
  moreover have "b \<longleftrightarrow> Stat fs2 ?p = Inl ErrNotExist"
    using st unfolding p Stat_under_dir[OF prep(1,2)] by (cases "entry fs2 (?d @ [?n])") simp_all
  then have "b \<longleftrightarrow> Stat fs ?p = Inl ErrNotExist" using prep(5)[of ?n] p by simp
  ultimately show ?thesis using m6 by simp
qed

lemma volume_policy_cong:
  assumes "volume_ok k" "volume_ok k'" "k' \<noteq> k"
    and f: "\<And>q. \<lbrakk>\<And>p. p \<in> {volume_path base k, manifest_path base k} \<Longrightarrow> \<not> prefix p q\<rbrakk> \<Longrightarrow> file_at fs' q = file_at fs q"
    and d: "\<And>q. q \<in> {volume_path base k', manifest_path base k'} \<Longrightarrow> dir_at fs' q = dir_at fs q"
  shows "volume_policy base k' fs' = volume_policy base k' fs"
  unfolding volume_policy_def
proof (rule GetVolume_cong)
  fix q
  assume q: "prefix q (volume_path base k') \<or> prefix q (manifest_path base k')"
  show "file_at fs' q = file_at fs q"
  proof (rule f)
    fix p
    assume "p \<in> {volume_path base k, manifest_path base k}"
    then show "\<not> prefix p q" using volumes_apart[OF assms(1-3), of p base] q by (auto dest: prefix_order.trans)
  qed
qed (use d in auto)

lemma delete_volume_ok:
  assumes "DeleteVolume base k fs = (fs', Inr u)" "fs_wf fs" "volume_ok k"
  shows "fs_wf fs' \<and> dir_at fs (volume_path base k) \<and> Stat fs' (volume_path base k) = Inl ErrNotExist
    \<and> (\<forall>q. \<not> prefix (volume_path base k) q \<and> q \<noteq> manifest_path base k \<longrightarrow> entry fs' q = entry fs q)"
proof -
  let ?p = "volume_path base k" and ?m = "manifest_path base k"
  have ne: "?p \<noteq> []" "?m \<noteq> []" using volume_paths(4,5)[OF assms(3), of base] by simp_all
  from assms(1) obtain n where n: "Stat fs ?p = Inr n" "IsDir n"
    and rm: "removeVolumeReclaimManifest base k (cut ?p fs) = (fs', Inr ())"
    unfolding DeleteVolume_def Let_def volume_path_def[symmetric] io_Inr wrap_io_Inr
    by (auto simp: RemoveAll_def split: sum.splits if_splits)
  have dir: "dir_at fs ?p" using n Stat_Inr[OF assms(2), of ?p n] by (cases n) (auto simp: dir_at_iff)
  have wf: "fs_wf (cut ?p fs)" using fs_wf_cut[OF assms(2)] .
  have "fs_wf fs' \<and> (\<forall>q. q \<noteq> ?m \<longrightarrow> entry fs' q = entry (cut ?p fs) q) \<and> (entry fs' ?m = entry (cut ?p fs) ?m \<or> entry fs' ?m = None)"
  proof (cases "Remove ?m (cut ?p fs)")
    case (Inl e)
    then have "fs' = cut ?p fs" using rm by (auto simp: removeVolumeReclaimManifest_def manifest_path_def split: if_splits)
    then show ?thesis using wf by simp
  next
    case (Inr fs1)
    then have "fs' = fs1" using rm by (simp add: removeVolumeReclaimManifest_def manifest_path_def)
    then show ?thesis using Remove_entry[OF Inr wf ne(2)] by simp
  qed
  moreover from this have "\<not> prefix ?p q \<Longrightarrow> q \<noteq> ?m \<Longrightarrow> entry fs' q = entry fs q" for q by simp
  moreover have "entry fs' ?p = None" using calculation(1) ne paths_differ[OF assms(3), of base] by (cases "?p = ?m") auto
  moreover have "file_at fs q \<noteq> None" if "file_at fs' q \<noteq> None" for q
    using that calculation(1) by (cases "q = ?m") (auto simp: file_at_def split: if_splits)
  ultimately show ?thesis using Stat_removed[OF assms(2), of ?p fs'] dir by (simp add: file_dir_entry)
qed

interpretation volumes: scoped_store volume_ok "write_volume base gid" "volume_policy base" "DeleteVolume base"
  ErrVolumeNotFound stored_policy for base gid
proof
  fix fs k v fs' b
  assume wf: "fs_wf fs" and k: "volume_ok k" and w: "write_volume base gid k v fs = (fs', Inr b)"
  have ok: "fs_wf fs'" using write_volume_ok[OF w wf k] touches_wf by blast
  then show "fs_wf fs' \<and> volume_policy base k fs' = Inr (stored_policy v) \<and> (b \<longleftrightarrow> volume_policy base k fs = Inl ErrVolumeNotFound)"
    unfolding volume_policy_def GetVolume_value[OF ok] GetVolume_notfound[OF wf]
    using write_volume_ok[OF w wf k] by simp
next
  fix fs k v fs' b k' w
  assume wf: "fs_wf fs" and k: "volume_ok k" and wr: "write_volume base gid k v fs = (fs', Inr b)"
    and k': "volume_ok k'" "k' \<noteq> k"
  let ?P = "{volume_path base k, manifest_path base k}"
  have t: "touches ?P fs fs'" using write_volume_ok[OF wr wf k] by simp
  have apart: "\<not> prefix q p" if "p \<in> ?P" "q \<in> {volume_path base k', manifest_path base k'}" for p q
    using volumes_apart[OF k'(1) k k'(2)[symmetric] that(2,1)] .
  have "dir_at fs' q = dir_at fs q" if "q \<in> {volume_path base k', manifest_path base k'}" for q
    using touches_dir[OF t, of q] touches_new_dir[OF t, of q] apart[OF _ that] by blast
  then show "volume_policy base k' fs' = Inr w \<longleftrightarrow> volume_policy base k' fs = Inr w"
    using volume_policy_cong[OF k k', of base fs' fs] touches_file[OF t] by (metis prefix_order.refl)
next
  fix fs k fs' u
  assume wf: "fs_wf fs" and k: "volume_ok k" and d: "DeleteVolume base k fs = (fs', Inr u)"
  show "fs_wf fs' \<and> volume_policy base k fs' = Inl ErrVolumeNotFound"
    using delete_volume_ok[OF d wf k] by (simp add: volume_policy_def GetVolume_notfound)
next
  fix fs k fs' u k' w
  assume wf: "fs_wf fs" and k: "volume_ok k" and d: "DeleteVolume base k fs = (fs', Inr u)"
    and k': "volume_ok k'" "k' \<noteq> k"
  let ?P = "{volume_path base k, manifest_path base k}"
  have e: "entry fs' q = entry fs q" if "\<And>p. p \<in> ?P \<Longrightarrow> \<not> prefix p q" for q
    using delete_volume_ok[OF d wf k] that[of "volume_path base k"] that[of "manifest_path base k"] by auto
  then have "dir_at fs' q = dir_at fs q" if "q \<in> {volume_path base k', manifest_path base k'}" for q
    using volumes_apart[OF k k' _ that] by (simp add: dir_at_def)
  then show "volume_policy base k' fs' = Inr w \<longleftrightarrow> volume_policy base k' fs = Inr w"
    using volume_policy_cong[OF k k', of base fs' fs] e by (simp add: file_at_def)
qed

section \<open>Properties\<close>


lemma fs_wf_code:
  assumes "list_all (\<lambda>(p, _). case entry fs (butlast p) of Some (Dir _) \<Rightarrow> True | _ \<Rightarrow> False) (fs_entries fs)"
  shows "fs_wf fs"
  unfolding fs_wf_def
proof (intro allI impI)
  fix p n
  assume "entry fs (p @ [n]) \<noteq> None"
  then obtain x where "(p @ [n], x) \<in> set (fs_entries fs)" by (auto simp: entry_def dest: map_of_SomeD)
  then have "case entry fs p of Some (Dir _) \<Rightarrow> True | _ \<Rightarrow> False" using assms by (fastforce simp: list_all_iff)
  then show "\<exists>a. entry fs p = Some (Dir a)" by (auto split: option.splits node.splits)
qed

definition empty_fs :: fsys where
  "empty_fs = \<lparr>fs_entries = [], fs_umask = 18\<rparr>"

definition demo_ref :: "string \<Rightarrow> ContainerSecretRef" where
  "demo_ref n = \<lparr>sr_Name = n, sr_Realm = ''r'', sr_Space = ''s'', sr_Stack = '''', sr_Cell = ''''\<rparr>"

definition demo_volume :: "string \<Rightarrow> VolumeMetadata" where
  "demo_volume n = \<lparr>voM_Name = n, voM_Realm = ''r'', voM_Space = ''s'', voM_Stack = ''''\<rparr>"


end
