(* ===== verification/Scope_Lists.thy ===== *)
theory Scope_Lists
  imports Scope_Maps
begin

text \<open>
  The listings of scoped resources: what one level of a walk yields, what the walks to stack and to
  cell depth yield for a filter, and that the listings of volumes and of secrets show exactly what
  can be got by name.
\<close>

section \<open>Listings\<close>

lemma collect_set:
  "collect f xs = Inr ys \<Longrightarrow> y \<in> set ys \<longleftrightarrow> (\<exists>x \<in> set xs. \<exists>zs. f x = Inr zs \<and> y \<in> set zs)"
  by (induction xs arbitrary: ys) (fastforce simp: rbind_eq_Inr)+

lemma collect_ok: "collect f xs = Inr ys \<Longrightarrow> x \<in> set xs \<Longrightarrow> \<exists>zs. f x = Inr zs"
  by (induction xs arbitrary: ys) (auto simp: rbind_eq_Inr)

text \<open>No name is empty, and a filter is empty or has a character that is not white space.\<close>

definition names_ok :: "fsys \<Rightarrow> bool" where
  "names_ok fs \<longleftrightarrow> (\<forall>p n. entry fs (p @ [n]) \<noteq> None \<longrightarrow> n \<noteq> '''')"

definition filter_ok :: "string \<Rightarrow> bool" where
  "filter_ok want \<longleftrightarrow> (TrimSpace want = '''' \<longleftrightarrow> want = '''')"

definition selects :: "string \<Rightarrow> string \<Rightarrow> bool" where
  "selects want n \<longleftrightarrow> (if want = '''' then n \<notin> set reservedScopeSubdirs else n = want)"

lemma ReadDir_set:
  assumes "fs_wf fs" "ReadDir fs p = Inr es"
  shows "(n, d) \<in> set es \<longleftrightarrow> entry fs (p @ [n]) \<noteq> None \<and> d = dir_at fs (p @ [n])"
proof -
  have es: "es = map (\<lambda>c. (c, case entry fs (p @ [c]) of Some m \<Rightarrow> IsDir m | None \<Rightarrow> False)) (names_in fs p)"
  proof -
    from assms(2) obtain m where "Stat fs p = Inr m" by (auto simp: ReadDir_def rbind_eq_Inr)
    with assms(2) show ?thesis by (cases m) (simp_all add: ReadDir_def)
  qed
  have "(case entry fs (p @ [n]) of Some m \<Rightarrow> IsDir m | None \<Rightarrow> False) = dir_at fs (p @ [n])"
    by (cases "entry fs (p @ [n])"; cases "the (entry fs (p @ [n]))") (auto simp: dir_at_def)
  then show ?thesis using names_in_iff[of n fs p] by (auto simp: es image_iff)
qed

lemma ReadDir_missing:
  assumes "fs_wf fs" "ReadDir fs p = Inl e" "errors_Is e ErrNotExist"
  shows "entry fs (p @ [n]) = None"
proof (rule ccontr)
  assume "entry fs (p @ [n]) \<noteq> None"
  from fs_wfD[OF assms(1) this] obtain a where "entry fs p = Some (Dir a)" ..
  then have "Stat fs p = Inr (Dir a)" using Stat_Inr[OF assms(1)] by simp
  then show False using assms(2) by (simp add: ReadDir_def)
qed

lemma childScopeNames_set:
  assumes "fs_wf fs" "names_ok fs" "filter_ok want" "childScopeNames fs dir want = Inr ns"
  shows "n \<in> set ns \<longleftrightarrow> n \<noteq> '''' \<and> selects want n \<and> dir_at fs (dir @ [n])"
proof (cases "want = ''''")
  case True
  then have tr: "TrimSpace want = ''''" using assms(3) by (simp add: filter_ok_def)
  have ne: "n \<noteq> ''''" if "entry fs (dir @ [n]) \<noteq> None" using assms(2) that by (auto simp: names_ok_def)
  show ?thesis
  proof (cases "ReadDir fs dir")
    case (Inl e)
    then have "ns = []" "errors_Is e ErrNotExist" using assms(4) tr by (auto simp: childScopeNames_def split: if_splits)
    then show ?thesis using ReadDir_missing[OF assms(1) Inl, of n] by (simp add: dir_at_def)
  next
    case (Inr es)
    then have "ns = map fst (filter (\<lambda>(n, d). d \<and> n \<notin> set reservedScopeSubdirs) es)"
      using assms(4) tr by (simp add: childScopeNames_def)
    then have "n \<in> set ns \<longleftrightarrow> (n, True) \<in> set es \<and> n \<notin> set reservedScopeSubdirs" by (force simp: image_iff)
    then show ?thesis using ReadDir_set[OF assms(1) Inr, of n True] ne True by (auto simp: selects_def dir_at_def)
  qed
next
  case False
  then have tr: "TrimSpace want \<noteq> ''''" "Join dir [want] = dir @ [want]" using assms(3) by (simp_all add: filter_ok_def)
  have "dir_at fs (dir @ [want]) \<longleftrightarrow> (\<exists>m. Stat fs (dir @ [want]) = Inr m \<and> IsDir m)"
    unfolding Stat_Inr[OF assms(1)] dir_at_iff by (metis IsDir.elims(2) IsDir.simps(1))
  then have "ns = (if dir_at fs (dir @ [want]) then [want] else [])"
    using assms(4) tr by (auto simp: childScopeNames_def split: sum.splits if_splits)
  then show ?thesis using False by (auto simp: selects_def)
qed

lemma resolveRealmDirs_set:
  assumes "fs_wf fs" "names_ok fs" "filter_ok want" "resolveRealmDirs fs base want = Inr ns"
  shows "r \<in> set ns \<longleftrightarrow> r \<noteq> '''' \<and> (want = '''' \<or> r = want) \<and> dir_at fs (MetadataRoot base @ [r])"
proof (cases "want = ''''")
  case True
  then have tr: "TrimSpace want = ''''" using assms(3) by (simp add: filter_ok_def)
  have ne: "r \<noteq> ''''" if "entry fs (MetadataRoot base @ [r]) \<noteq> None" using assms(2) that by (auto simp: names_ok_def)
  show ?thesis
  proof (cases "case Stat fs (MetadataRoot base) of Inl e \<Rightarrow> errors_Is e ErrNotExist | Inr _ \<Rightarrow> False")
    case t: True
    then obtain e where e: "Stat fs (MetadataRoot base) = Inl e" "errors_Is e ErrNotExist" by (auto split: sum.splits)
    then have "ReadDir fs (MetadataRoot base) = Inl e" by (simp add: ReadDir_def)
    with ReadDir_missing[OF assms(1) this e(2), of r] assms(4) tr t True show ?thesis
      by (simp add: resolveRealmDirs_def dir_at_def)
  next
    case False
    then obtain es where es: "ReadDir fs (MetadataRoot base) = Inr es" "ns = map fst (filter snd es)"
      using assms(4) tr by (auto simp: resolveRealmDirs_def rbind_eq_Inr)
    then have "r \<in> set ns \<longleftrightarrow> (r, True) \<in> set es" by (force simp: image_iff)
    then show ?thesis using ReadDir_set[OF assms(1) es(1), of r True] ne True by (auto simp: dir_at_def)
  qed
next
  case False
  then have tr: "TrimSpace want \<noteq> ''''" "RealmMetadataDir base want = MetadataRoot base @ [want]"
    using assms(3) by (simp_all add: filter_ok_def RealmMetadataDir_def)
  have "dir_at fs (MetadataRoot base @ [want]) \<longleftrightarrow> (\<exists>m. Stat fs (MetadataRoot base @ [want]) = Inr m \<and> IsDir m)"
    unfolding Stat_Inr[OF assms(1)] dir_at_iff by (metis IsDir.elims(2) IsDir.simps(1))
  then have "ns = (if dir_at fs (MetadataRoot base @ [want]) then [want] else [])"
    using assms(4) tr by (auto simp: resolveRealmDirs_def split: sum.splits if_splits)
  then show ?thesis using False by auto
qed

text \<open>What a walk yields, and what one level of it yields.\<close>

definition yields :: "'a list result \<Rightarrow> 'a set" where
  "yields r = (case r of Inr xs \<Rightarrow> set xs | Inl _ \<Rightarrow> {})"

lemma yields_simps [simp]: "yields (Inr xs) = set xs" "yields (Inl e) = {}"
  by (simp_all add: yields_def)

lemma yields_collect: "collect f xs = Inr ys \<Longrightarrow> set ys = (\<Union>x \<in> set xs. yields (f x))"
  by (induction xs arbitrary: ys) (auto simp: rbind_eq_Inr)

lemma scopeLevel_set:
  assumes "fs_wf fs" "names_ok fs" "filter_ok want" "scopeLevel fs dir want own below = Inr out"
  shows "set out = (if want = '''' then yields own else {})
    \<union> (\<Union>n \<in> {n. n \<noteq> '''' \<and> selects want n \<and> dir_at fs (dir @ [n])}. yields (below n))"
proof -
  from assms(4) obtain a ns b where a: "(if want = '''' then own else Inr []) = Inr a"
    and ns: "childScopeNames fs dir want = Inr ns" and b: "collect below ns = Inr b" and out: "out = a @ b"
    by (auto simp: scopeLevel_def rbind_eq_Inr)
  have "set a = (if want = '''' then yields own else {})" using a by (auto split: if_splits)
  moreover have "set ns = {n. n \<noteq> '''' \<and> selects want n \<and> dir_at fs (dir @ [n])}"
    using childScopeNames_set[OF assms(1-3) ns] by blast
  ultimately show ?thesis using yields_collect[OF b] by (simp add: out)
qed

lemma scopeLevel_ok:
  assumes "fs_wf fs" "names_ok fs" "filter_ok want" "scopeLevel fs dir want own below = Inr out"
    and "n \<noteq> ''''" "selects want n" "dir_at fs (dir @ [n])"
  shows "\<exists>zs. below n = Inr zs"
proof -
  from assms(4) obtain ns b where ns: "childScopeNames fs dir want = Inr ns" and b: "collect below ns = Inr b"
    by (auto simp: scopeLevel_def rbind_eq_Inr)
  show ?thesis using collect_ok[OF b] childScopeNames_set[OF assms(1-3) ns] assms(5-7) by blast
qed

text \<open>One level of a walk, seen from outside: the resources of the scope itself, or those of a child.\<close>

definition in_level :: "fsys \<Rightarrow> path \<Rightarrow> string \<Rightarrow> bool \<Rightarrow> (string \<Rightarrow> bool) \<Rightarrow> bool" where
  "in_level fs dir want own below \<longleftrightarrow> want = '''' \<and> own
     \<or> (\<exists>n. n \<noteq> '''' \<and> selects want n \<and> dir_at fs (dir @ [n]) \<and> below n)"

lemma scopeLevel_iff:
  assumes "fs_wf fs" "names_ok fs" "filter_ok want" "scopeLevel fs dir want own below = Inr out"
    and "\<And>zs. own = Inr zs \<Longrightarrow> x \<in> set zs \<longleftrightarrow> P" "\<And>n zs. below n = Inr zs \<Longrightarrow> x \<in> set zs \<longleftrightarrow> Q n"
  shows "x \<in> set out \<longleftrightarrow> in_level fs dir want P Q"
proof -
  have "x \<in> yields (below n) \<longleftrightarrow> Q n" if "n \<noteq> ''''" "selects want n" "dir_at fs (dir @ [n])" for n
    using scopeLevel_ok[OF assms(1-4) that] assms(6)[of n] by auto
  moreover have "x \<in> yields own \<longleftrightarrow> P" if "want = ''''"
    using assms(4,5) that by (auto simp: scopeLevel_def rbind_eq_Inr)
  ultimately show ?thesis unfolding scopeLevel_set[OF assms(1-4)] in_level_def by auto
qed

lemma stackSubtree_iff:
  assumes "fs_wf fs" "names_ok fs" "filter_ok space" "filter_ok stack"
    and "stackSubtree inScope fs base r space stack = Inr out"
    and P: "\<And>s t zs. inScope r s t = Inr zs \<Longrightarrow> x \<in> set zs \<longleftrightarrow> P s t"
  shows "x \<in> set out \<longleftrightarrow> in_level fs (RealmMetadataDir base r) space (P '''' '''') (\<lambda>s.
    in_level fs (SpaceMetadataDir base r s) stack (P s '''') (P s))"
  by (rule scopeLevel_iff[OF assms(1-3) assms(5)[unfolded stackSubtree_def] P], assumption)
     (rule scopeLevel_iff[OF assms(1,2,4) _ P P])

lemma cellSubtree_iff:
  assumes "fs_wf fs" "names_ok fs" "filter_ok space" "filter_ok stack" "filter_ok cell"
    and "cellSubtree inScope fs base r space stack cell = Inr out"
    and P: "\<And>s t c zs. inScope r s t c = Inr zs \<Longrightarrow> x \<in> set zs \<longleftrightarrow> P s t c"
  shows "x \<in> set out \<longleftrightarrow> in_level fs (RealmMetadataDir base r) space (P '''' '''' '''') (\<lambda>s.
    in_level fs (SpaceMetadataDir base r s) stack (P s '''' '''') (\<lambda>t.
    in_level fs (StackMetadataDir base r s t) cell (P s t '''') (P s t)))"
  by (rule scopeLevel_iff[OF assms(1-3) assms(6)[unfolded cellSubtree_def] P], assumption)
     (rule scopeLevel_iff[OF assms(1,2,4) _ P], assumption, assumption, rule scopeLevel_iff[OF assms(1,2,5) _ P P])

lemma resourceEntries_set:
  assumes "fs_wf fs" "resourceEntries fs dir = Inr es"
  shows "(n, d) \<in> set es \<longleftrightarrow> entry fs (dir @ [n]) \<noteq> None \<and> d = dir_at fs (dir @ [n])"
  using assms(2) ReadDir_set[OF assms(1), of dir es n d] ReadDir_missing[OF assms(1), of dir _ n]
  by (auto simp: resourceEntries_def split: sum.splits if_splits)

section \<open>The listing of volumes\<close>

text \<open>The scope of a resource is selected by a filter of realm, space and stack.\<close>

definition stack_filter :: "string \<Rightarrow> string \<Rightarrow> string \<Rightarrow> string \<Rightarrow> string \<Rightarrow> string \<Rightarrow> bool" where
  "stack_filter realm space stack r s t \<longleftrightarrow> r \<noteq> '''' \<and> (realm = '''' \<or> r = realm)
     \<and> (if s = '''' then t = '''' \<and> space = ''''
        else selects space s \<and> (if t = '''' then stack = '''' else selects stack t))"

lemma collectVolumes_set:
  assumes "fs_wf fs" "collectVolumesInScope fs base r s t = Inr zs"
  shows "v \<in> set zs \<longleftrightarrow> voM_Realm (vo_Metadata v) = r \<and> voM_Space (vo_Metadata v) = s \<and> voM_Stack (vo_Metadata v) = t
    \<and> dir_at fs (VolumesDir base r s t @ [voM_Name (vo_Metadata v)])
    \<and> readVolumeReclaimPolicy base (vo_Metadata v) fs = Inr (voS_ReclaimPolicy (vo_Spec v))"
proof -
  let ?md = "\<lambda>n. \<lparr>voM_Name = n, voM_Realm = r, voM_Space = s, voM_Stack = t\<rparr>"
  from assms(2) obtain es where es: "resourceEntries fs (VolumesDir base r s t) = Inr es"
    and c: "collect (\<lambda>(n, _). let md = ?md n in rbind (readVolumeReclaimPolicy base md fs) (\<lambda>policy.
        Inr [\<lparr>vo_Metadata = md, vo_Spec = \<lparr>voS_ReclaimPolicy = policy\<rparr>\<rparr>])) (filter snd es) = Inr zs"
    by (auto simp: collectVolumesInScope_def rbind_eq_Inr)
  have "v \<in> set zs \<longleftrightarrow> (\<exists>n policy. (n, True) \<in> set es \<and> readVolumeReclaimPolicy base (?md n) fs = Inr policy
      \<and> v = \<lparr>vo_Metadata = ?md n, vo_Spec = \<lparr>voS_ReclaimPolicy = policy\<rparr>\<rparr>)"
    unfolding collect_set[OF c] by (fastforce simp: Let_def rbind_eq_Inr)
  moreover have "(n, True) \<in> set es \<longleftrightarrow> dir_at fs (VolumesDir base r s t @ [n])" for n
    using resourceEntries_set[OF assms(1) es, of n True] by (auto simp: dir_at_def)
  ultimately show ?thesis by (cases v; cases "vo_Metadata v"; cases "vo_Spec v") auto
qed

lemma dir_at_prefix: "fs_wf fs \<Longrightarrow> dir_at fs q \<Longrightarrow> prefix p q \<Longrightarrow> dir_at fs p"
  using entry_prefix_dir[of fs q p] by (cases "p = q") (auto simp: dir_at_iff strict_prefix_def)

lemma file_at_prefix: "fs_wf fs \<Longrightarrow> file_at fs q = Some c \<Longrightarrow> strict_prefix p q \<Longrightarrow> dir_at fs p"
  using entry_prefix_dir[of fs q p] by (auto simp: dir_at_iff file_at_Some)

lemma collected_realms:
  assumes "fs_wf fs" "names_ok fs" "filter_ok realm"
    and "rbind (resolveRealmDirs fs base realm) (collect f) = Inr out"
    and "\<And>r zs. f r = Inr zs \<Longrightarrow> x \<in> set zs \<longleftrightarrow> r0 = r \<and> Q"
  shows "x \<in> set out \<longleftrightarrow> r0 \<noteq> '''' \<and> (realm = '''' \<or> r0 = realm) \<and> dir_at fs (RealmMetadataDir base r0) \<and> Q"
proof -
  from assms(4) obtain rs where rs: "resolveRealmDirs fs base realm = Inr rs" and c: "collect f rs = Inr out"
    by (auto simp: rbind_eq_Inr)
  have "r \<in> set rs \<longleftrightarrow> r \<noteq> '''' \<and> (realm = '''' \<or> r = realm) \<and> dir_at fs (RealmMetadataDir base r)" for r
    using resolveRealmDirs_set[OF assms(1-3) rs, of r] by (cases "r = ''''") (auto simp: RealmMetadataDir_def)
  moreover have "x \<in> set out \<longleftrightarrow> r0 \<in> set rs \<and> Q"
    unfolding collect_set[OF c] using assms(5) collect_ok[OF c] by blast
  ultimately show ?thesis by blast
qed

lemma scope_dir_simps [simp]:
  "s \<noteq> '''' \<Longrightarrow> SpaceMetadataDir base r s = RealmMetadataDir base r @ [s]"
  "t \<noteq> '''' \<Longrightarrow> StackMetadataDir base r s t = SpaceMetadataDir base r s @ [t]"
  "c \<noteq> '''' \<Longrightarrow> CellMetadataDir base r s t c = StackMetadataDir base r s t @ [c]"
  by (simp_all add: SpaceMetadataDir_def StackMetadataDir_def CellMetadataDir_def)

lemma resource_dir_simps:
  "VolumesDir base r s t = VolumeScopeDir base r s t @ [KukeonVolumesSubdir]"
  "SecretsDir base r s t c = SecretScopeDir base r s t c @ [KukeonSecretsSubdir]"
  by (simp_all add: VolumesDir_def SecretsDir_def layout_names)

lemma in_level_at:
  assumes "\<And>n. Q n \<Longrightarrow> n = n0" "P \<Longrightarrow> n0 = ''''"
  shows "in_level fs dir want P Q \<longleftrightarrow> (if n0 = '''' then want = '''' \<and> P else selects want n0 \<and> dir_at fs (dir @ [n0]) \<and> Q n0)"
proof (cases "n0 = ''''")
  case True
  then show ?thesis using assms(1) unfolding in_level_def by auto
next
  case False
  then show ?thesis using assms unfolding in_level_def by auto
qed

lemma in_two_levels:
  "in_level fs RD space (s0 = '''' \<and> t0 = '''' \<and> X) (\<lambda>s.
      in_level fs (SD s) stack (s0 = s \<and> t0 = '''' \<and> X) (\<lambda>t. s0 = s \<and> t0 = t \<and> X))
    \<longleftrightarrow> X \<and> (if s0 = '''' then space = '''' \<and> t0 = '''' else selects space s0 \<and> dir_at fs (RD @ [s0])
      \<and> (if t0 = '''' then stack = '''' else selects stack t0 \<and> dir_at fs (SD s0 @ [t0])))"
proof -
  have inner: "in_level fs (SD s) stack (s0 = s \<and> t0 = '''' \<and> X) (\<lambda>t. s0 = s \<and> t0 = t \<and> X)
      \<longleftrightarrow> s = s0 \<and> X \<and> (if t0 = '''' then stack = '''' else selects stack t0 \<and> dir_at fs (SD s0 @ [t0]))" for s
    by (subst in_level_at[where ?n0.0 = t0]) auto
  show ?thesis unfolding inner by (subst in_level_at[where ?n0.0 = s0]) auto
qed

lemma stackSubtree_at:
  assumes "fs_wf fs" "names_ok fs" "filter_ok space" "filter_ok stack"
    and "stackSubtree inScope fs base r space stack = Inr out"
    and P: "\<And>s t zs. inScope r s t = Inr zs \<Longrightarrow> x \<in> set zs \<longleftrightarrow> s0 = s \<and> t0 = t \<and> X"
  shows "x \<in> set out \<longleftrightarrow> X \<and> (if s0 = '''' then space = '''' \<and> t0 = ''''
    else selects space s0 \<and> dir_at fs (RealmMetadataDir base r @ [s0])
      \<and> (if t0 = '''' then stack = '''' else selects stack t0 \<and> dir_at fs (SpaceMetadataDir base r s0 @ [t0])))"
  using stackSubtree_iff[OF assms(1-5), where x = x and P = "\<lambda>s t. s0 = s \<and> t0 = t \<and> X", OF P]
  unfolding in_two_levels .

lemma volume_listed:
  assumes wf: "fs_wf fs" and ok: "names_ok fs" "filter_ok realm" "filter_ok space" "filter_ok stack"
    and out: "ListVolumes base realm space stack fs = Inr out"
  shows "v \<in> set out \<longleftrightarrow> stack_filter realm space stack (voM_Realm (vo_Metadata v)) (voM_Space (vo_Metadata v)) (voM_Stack (vo_Metadata v))
    \<and> dir_at fs (VolumesDir base (voM_Realm (vo_Metadata v)) (voM_Space (vo_Metadata v)) (voM_Stack (vo_Metadata v)) @ [voM_Name (vo_Metadata v)])
    \<and> readVolumeReclaimPolicy base (vo_Metadata v) fs = Inr (voS_ReclaimPolicy (vo_Spec v))"
    (is "_ \<longleftrightarrow> _ \<and> dir_at fs (VolumesDir base ?r ?s ?t @ [?n]) \<and> ?pol")
proof -
  note c = out[unfolded ListVolumes_def map_err_eq_Inr]
  let ?X = "dir_at fs (VolumesDir base ?r ?s ?t @ [?n]) \<and> ?pol"
  have sub: "v \<in> set zs \<longleftrightarrow> ?r = r \<and> ?X \<and>
      (if ?s = '''' then space = '''' \<and> ?t = '''' else selects space ?s \<and> dir_at fs (RealmMetadataDir base ?r @ [?s])
        \<and> (if ?t = '''' then stack = '''' else selects stack ?t \<and> dir_at fs (SpaceMetadataDir base ?r ?s @ [?t])))"
    if "collectVolumeSubtree fs base r space stack = Inr zs" for r zs
  proof -
    have "v \<in> set ys \<longleftrightarrow> ?s = s \<and> ?t = t \<and> (?r = r \<and> ?X)" if "collectVolumesInScope fs base r s t = Inr ys" for s t ys
      using collectVolumes_set[OF wf that] by auto
    from stackSubtree_at[OF wf ok(1,3,4) that[unfolded collectVolumeSubtree_def], where x = v and ?s0.0 = ?s and ?t0.0 = ?t and X = "?r = r \<and> ?X", OF this]
    show ?thesis by auto
  qed
  note collected_realms[OF wf ok(1,2) c sub]
  moreover have "dir_at fs q" if "prefix q (VolumeScopeDir base ?r ?s ?t)" "dir_at fs (VolumesDir base ?r ?s ?t @ [?n])" for q
    using dir_at_prefix[OF wf that(2), of q] that(1) by (simp add: resource_dir_simps)
  ultimately show ?thesis
    by (cases "?s = ''''"; cases "?t = ''''") (auto simp: stack_filter_def VolumeScopeDir_def)
qed

section \<open>The listing of secrets\<close>

definition cell_filter :: "string \<Rightarrow> string \<Rightarrow> string \<Rightarrow> string \<Rightarrow> string \<Rightarrow> string \<Rightarrow> string \<Rightarrow> string \<Rightarrow> bool" where
  "cell_filter realm space stack cell r s t c \<longleftrightarrow> r \<noteq> '''' \<and> (realm = '''' \<or> r = realm)
     \<and> (if s = '''' then t = '''' \<and> c = '''' \<and> space = ''''
        else selects space s \<and> (if t = '''' then c = '''' \<and> stack = ''''
          else selects stack t \<and> (if c = '''' then cell = '''' else selects cell c)))"

lemma in_three_levels:
  "in_level fs RD space (s0 = '''' \<and> t0 = '''' \<and> c0 = '''' \<and> X) (\<lambda>s.
      in_level fs (SD s) stack (s0 = s \<and> t0 = '''' \<and> c0 = '''' \<and> X) (\<lambda>t.
      in_level fs (TD s t) cell (s0 = s \<and> t0 = t \<and> c0 = '''' \<and> X) (\<lambda>c. s0 = s \<and> t0 = t \<and> c0 = c \<and> X)))
    \<longleftrightarrow> X \<and> (if s0 = '''' then space = '''' \<and> t0 = '''' \<and> c0 = '''' else selects space s0 \<and> dir_at fs (RD @ [s0])
      \<and> (if t0 = '''' then stack = '''' \<and> c0 = '''' else selects stack t0 \<and> dir_at fs (SD s0 @ [t0])
        \<and> (if c0 = '''' then cell = '''' else selects cell c0 \<and> dir_at fs (TD s0 t0 @ [c0]))))"
proof -
  have 1: "in_level fs (TD s t) cell (s0 = s \<and> t0 = t \<and> c0 = '''' \<and> X) (\<lambda>c. s0 = s \<and> t0 = t \<and> c0 = c \<and> X)
      \<longleftrightarrow> s0 = s \<and> t0 = t \<and> X \<and> (if c0 = '''' then cell = '''' else selects cell c0 \<and> dir_at fs (TD s0 t0 @ [c0]))" for s t
    by (subst in_level_at[where ?n0.0 = c0]) auto
  have 2: "in_level fs (SD s) stack (s0 = s \<and> t0 = '''' \<and> c0 = '''' \<and> X) (\<lambda>t. s0 = s \<and> t0 = t \<and> X \<and> Y)
      \<longleftrightarrow> s0 = s \<and> X \<and> (if t0 = '''' then stack = '''' \<and> c0 = '''' else selects stack t0 \<and> dir_at fs (SD s0 @ [t0]) \<and> Y)" for s Y
    by (subst in_level_at[where ?n0.0 = t0]) auto
  show ?thesis unfolding 1 2 by (subst in_level_at[where ?n0.0 = s0]) auto
qed

lemma cellSubtree_at:
  assumes "fs_wf fs" "names_ok fs" "filter_ok space" "filter_ok stack" "filter_ok cell"
    and "cellSubtree inScope fs base r space stack cell = Inr out"
    and P: "\<And>s t c zs. inScope r s t c = Inr zs \<Longrightarrow> x \<in> set zs \<longleftrightarrow> s0 = s \<and> t0 = t \<and> c0 = c \<and> X"
  shows "x \<in> set out \<longleftrightarrow> X \<and> (if s0 = '''' then space = '''' \<and> t0 = '''' \<and> c0 = ''''
    else selects space s0 \<and> dir_at fs (RealmMetadataDir base r @ [s0])
      \<and> (if t0 = '''' then stack = '''' \<and> c0 = '''' else selects stack t0 \<and> dir_at fs (SpaceMetadataDir base r s0 @ [t0])
        \<and> (if c0 = '''' then cell = '''' else selects cell c0 \<and> dir_at fs (StackMetadataDir base r s0 t0 @ [c0]))))"
  using cellSubtree_iff[OF assms(1-6), where x = x and P = "\<lambda>s t c. s0 = s \<and> t0 = t \<and> c0 = c \<and> X", OF P]
  unfolding in_three_levels .

lemma collectSecrets_set:
  assumes "fs_wf fs" "collectSecretsInScope fs base r s t c = Inr zs"
  shows "md \<in> set zs \<longleftrightarrow> scM_Realm md = r \<and> scM_Space md = s \<and> scM_Stack md = t \<and> scM_Cell md = c
    \<and> file_at fs (SecretsDir base r s t c @ [scM_Name md]) \<noteq> None \<and> \<not> temp_name ''.secret-'' (scM_Name md)"
proof -
  from assms(2) obtain es where es: "resourceEntries fs (SecretsDir base r s t c) = Inr es"
    and zs: "zs = map (\<lambda>(n, _). \<lparr>scM_Name = n, scM_Realm = r, scM_Space = s, scM_Stack = t, scM_Cell = c\<rparr>)
      (filter (\<lambda>(n, d). \<not> d \<and> \<not> temp_name ''.secret-'' n) es)"
    by (auto simp: collectSecretsInScope_def rbind_eq_Inr)
  have "md \<in> set zs \<longleftrightarrow> (\<exists>n. (n, False) \<in> set es \<and> \<not> temp_name ''.secret-'' n
      \<and> md = \<lparr>scM_Name = n, scM_Realm = r, scM_Space = s, scM_Stack = t, scM_Cell = c\<rparr>)"
    by (force simp: zs image_iff)
  moreover have "(n, False) \<in> set es \<longleftrightarrow> file_at fs (SecretsDir base r s t c @ [n]) \<noteq> None" for n
    using resourceEntries_set[OF assms(1) es, of n False] file_dir_entry[of fs "SecretsDir base r s t c @ [n]"]
      file_not_dir[of fs "SecretsDir base r s t c @ [n]"] by auto
  ultimately show ?thesis by (cases md) auto
qed

lemma secret_listed:
  assumes wf: "fs_wf fs" and ok: "names_ok fs" "filter_ok realm" "filter_ok space" "filter_ok stack" "filter_ok cell"
    and out: "ListSecrets base realm space stack cell fs = Inr out"
  shows "md \<in> set out \<longleftrightarrow> cell_filter realm space stack cell (scM_Realm md) (scM_Space md) (scM_Stack md) (scM_Cell md)
    \<and> file_at fs (SecretsDir base (scM_Realm md) (scM_Space md) (scM_Stack md) (scM_Cell md) @ [scM_Name md]) \<noteq> None
    \<and> \<not> temp_name ''.secret-'' (scM_Name md)"
    (is "_ \<longleftrightarrow> _ \<and> file_at fs (SecretsDir base ?r ?s ?t ?c @ [?n]) \<noteq> None \<and> ?nt")
proof -
  note lst = out[unfolded ListSecrets_def map_err_eq_Inr]
  let ?X = "file_at fs (SecretsDir base ?r ?s ?t ?c @ [?n]) \<noteq> None \<and> ?nt"
  let ?F = "if ?s = '''' then space = '''' \<and> ?t = '''' \<and> ?c = ''''
    else selects space ?s \<and> dir_at fs (RealmMetadataDir base ?r @ [?s])
      \<and> (if ?t = '''' then stack = '''' \<and> ?c = '''' else selects stack ?t \<and> dir_at fs (SpaceMetadataDir base ?r ?s @ [?t])
        \<and> (if ?c = '''' then cell = '''' else selects cell ?c \<and> dir_at fs (StackMetadataDir base ?r ?s ?t @ [?c])))"
  have sub: "md \<in> set zs \<longleftrightarrow> ?r = r \<and> ?X \<and> ?F" if "collectSecretSubtree fs base r space stack cell = Inr zs" for r zs
  proof -
    have "md \<in> set ys \<longleftrightarrow> ?s = s \<and> ?t = t \<and> ?c = c \<and> (?r = r \<and> ?X)" if "collectSecretsInScope fs base r s t c = Inr ys" for s t c ys
      using collectSecrets_set[OF wf that] by auto
    from cellSubtree_at[OF wf ok(1,3,4,5) that[unfolded collectSecretSubtree_def], where x = md and ?s0.0 = ?s and ?t0.0 = ?t
        and ?c0.0 = ?c and X = "?r = r \<and> ?X", OF this]
    show ?thesis by auto
  qed
  note collected_realms[OF wf ok(1,2) lst sub]
  moreover have "dir_at fs q" if "prefix q (SecretScopeDir base ?r ?s ?t ?c)" ?X for q
  proof -
    from that(2) obtain x where x: "file_at fs (SecretsDir base ?r ?s ?t ?c @ [?n]) = Some x" by auto
    have "strict_prefix q (SecretsDir base ?r ?s ?t ?c @ [?n])"
      using that(1) prefix_length_le[OF that(1)] by (auto simp: resource_dir_simps strict_prefix_def)
    then show ?thesis using file_at_prefix[OF wf x] by blast
  qed
  ultimately show ?thesis
    by (cases "?s = ''''"; cases "?t = ''''"; cases "?c = ''''") (auto simp: cell_filter_def SecretScopeDir_def)
qed

section \<open>Properties\<close>

lemma GetVolume_Inr:
  assumes "fs_wf fs"
  shows "GetVolume base (vo_Metadata v) fs = Inr v \<longleftrightarrow> dir_at fs (volume_path base (vo_Metadata v))
    \<and> readVolumeReclaimPolicy base (vo_Metadata v) fs = Inr (voS_ReclaimPolicy (vo_Spec v))"
proof -
  have "GetVolume base (vo_Metadata v) fs = Inr v \<longleftrightarrow>
      rbind (GetVolume base (vo_Metadata v) fs) (\<lambda>v. Inr (voS_ReclaimPolicy (vo_Spec v))) = Inr (voS_ReclaimPolicy (vo_Spec v))"
    by (cases v; cases "vo_Spec v") (auto simp: GetVolume_def rbind_eq_Inr split: sum.splits if_splits)
  then show ?thesis unfolding GetVolume_value[OF assms] .
qed

lemma GetSecret_Inr:
  assumes "fs_wf fs"
  shows "GetSecret base md fs = Inr md
    \<longleftrightarrow> file_at fs (SecretPath base (scM_Realm md) (scM_Space md) (scM_Stack md) (scM_Cell md) (scM_Name md)) \<noteq> None"
    (is "_ \<longleftrightarrow> file_at fs ?p \<noteq> None")
proof (cases "Stat fs ?p")
  case (Inl e)
  then have "file_at fs ?p = None" using Stat_Inr[OF assms, of ?p] by (auto simp: file_at_def split: option.splits)
  then show ?thesis using Inl by (simp add: GetSecret_def)
next
  case (Inr n)
  then have "entry fs ?p = Some n" using Stat_Inr[OF assms] by blast
  then show ?thesis using Inr by (cases n) (simp_all add: GetSecret_def file_at_def)
qed

text \<open>
  C16. A listing shows exactly what can be got. A volume is in the result of a successful listing
  with a filter of realm, space and stack if and only if getting it by name returns it, policy
  included, and its scope is one the filter selects: an empty coordinate selects the scope itself
  and every child but the reserved directories, a given one that child alone. The same holds for
  secrets down to the cells, except that files that are still being written are left out.
\<close>
theorem listings_exact:
  assumes "fs_wf fs" "names_ok fs" "filter_ok realm" "filter_ok space" "filter_ok stack" "filter_ok cell"
  shows "(\<forall>out. ListVolumes base realm space stack fs = Inr out \<longrightarrow> (\<forall>v. v \<in> set out \<longleftrightarrow>
        stack_filter realm space stack (voM_Realm (vo_Metadata v)) (voM_Space (vo_Metadata v)) (voM_Stack (vo_Metadata v))
        \<and> voM_Name (vo_Metadata v) \<noteq> '''' \<and> GetVolume base (vo_Metadata v) fs = Inr v))
    \<and> (\<forall>out. ListSecrets base realm space stack cell fs = Inr out \<longrightarrow> (\<forall>md. md \<in> set out \<longleftrightarrow>
        cell_filter realm space stack cell (scM_Realm md) (scM_Space md) (scM_Stack md) (scM_Cell md)
        \<and> scM_Name md \<noteq> '''' \<and> GetSecret base md fs = Inr md \<and> \<not> temp_name ''.secret-'' (scM_Name md)))"
proof -
  have ne: "n \<noteq> ''''" if "dir_at fs (p @ [n]) \<or> file_at fs (p @ [n]) \<noteq> None" for p n
    using assms(2) that by (auto simp: names_ok_def file_dir_entry)
  have vol: "dir_at fs (VolumesDir base (voM_Realm md) (voM_Space md) (voM_Stack md) @ [voM_Name md]) \<longleftrightarrow>
      voM_Name md \<noteq> '''' \<and> dir_at fs (volume_path base md)" for md
    using ne[of "VolumesDir base (voM_Realm md) (voM_Space md) (voM_Stack md)" "voM_Name md"]
    by (cases "voM_Name md = ''''") (auto simp: volume_path_def resource_dirs)
  have sec: "file_at fs (SecretsDir base (scM_Realm md) (scM_Space md) (scM_Stack md) (scM_Cell md) @ [scM_Name md]) \<noteq> None \<longleftrightarrow>
      scM_Name md \<noteq> '''' \<and> GetSecret base md fs = Inr md" for md
    unfolding GetSecret_Inr[OF assms(1)] using ne resource_dirs(1)[of "scM_Name md"] by metis
  have "v \<in> set out \<longleftrightarrow> stack_filter realm space stack (voM_Realm (vo_Metadata v)) (voM_Space (vo_Metadata v)) (voM_Stack (vo_Metadata v))
      \<and> voM_Name (vo_Metadata v) \<noteq> '''' \<and> GetVolume base (vo_Metadata v) fs = Inr v" if "ListVolumes base realm space stack fs = Inr out" for v out
    unfolding volume_listed[OF assms(1-5) that] vol GetVolume_Inr[OF assms(1)] by auto
  moreover have "md \<in> set out \<longleftrightarrow> cell_filter realm space stack cell (scM_Realm md) (scM_Space md) (scM_Stack md) (scM_Cell md)
      \<and> scM_Name md \<noteq> '''' \<and> GetSecret base md fs = Inr md \<and> \<not> temp_name ''.secret-'' (scM_Name md)"
    if "ListSecrets base realm space stack cell fs = Inr out" for md out
    unfolding secret_listed[OF assms that] sec by auto
  ultimately show ?thesis by blast
qed

lemma names_ok_code:
  assumes "list_all (\<lambda>(p, _). last p \<noteq> '''') (fs_entries fs)"
  shows "names_ok fs"
  using assms by (fastforce simp: names_ok_def entry_def list_all_iff dest: map_of_SomeD)

definition demo_fs :: fsys where
  "demo_fs = fst (write_secret [''run''] (demo_ref ''k'') ''one'' (fst (write_volume [''run''] 7 (demo_volume ''v'') ''Retain'' empty_fs)))"

theorem listings_exact_witness:
  "\<exists>out. ListVolumes [''run''] '''' ''s'' '''' demo_fs = Inr out
    \<and> (\<lparr>vo_Metadata = demo_volume ''v'', vo_Spec = \<lparr>voS_ReclaimPolicy = ''Retain''\<rparr>\<rparr> \<in> set out \<longleftrightarrow>
        GetVolume [''run''] (demo_volume ''v'') demo_fs = Inr \<lparr>vo_Metadata = demo_volume ''v'', vo_Spec = \<lparr>voS_ReclaimPolicy = ''Retain''\<rparr>\<rparr>)"
proof -
  have wf: "fs_wf demo_fs" by (rule fs_wf_code) code_simp
  have ok: "names_ok demo_fs" by (rule names_ok_code) code_simp
  have f: "filter_ok ''''" "filter_ok ''s''" "stack_filter '''' ''s'' '''' ''r'' ''s'' ''''" by code_simp+
  have "\<not> isl (ListVolumes [''run''] '''' ''s'' '''' demo_fs)" by code_simp
  then obtain out where "ListVolumes [''run''] '''' ''s'' '''' demo_fs = Inr out"
    by (cases "ListVolumes [''run''] '''' ''s'' '''' demo_fs") auto
  with listings_exact[OF wf ok f(1) f(2) f(1) f(1)] f(3) show ?thesis
    by (auto simp: demo_volume_def)
qed

end
