(* ===== verification/Volume_Reclaim.thy ===== *)
theory Volume_Reclaim
  imports Scope_Lists
begin

text \<open>
  The purge of a scope's directory tree (\<^verbatim>\<open>internal/controller/runner/reclaim_scope.go\<close>): the walk that
  collects what retained volumes need, the climb to their ancestors and the selective removal, with
  what is left afterwards and that it always ends. The two recursions carry fuel, which the depth of
  the tree provides.
\<close>

section \<open>What a purge keeps\<close>

text \<open>The length of a path as a string, and its last component.\<close>

definition path_len :: "path \<Rightarrow> nat" where
  "path_len p = (if p = [] then 1 else sum_list (map (\<lambda>c. Suc (length c)) p))"

definition base_name :: "path \<Rightarrow> string" where
  "base_name p = (if p = [] then ''/'' else last p)"

lemma path_len_pos: "0 < path_len p"
  by (cases p) (auto simp: path_len_def)

text \<open>
  The loop that climbs from a leaf to the scope directory. It ends because \<^verbatim>\<open>filepath.Dir\<close> drops a
  component until at most the root is left, which is never longer than the scope directory.
\<close>

function addAncestors :: "path \<Rightarrow> path \<Rightarrow> path list" where
  "addAncestors scopeDir dir =
     (if dir = scopeDir \<or> path_len dir \<le> path_len scopeDir then [dir]
      else dir # addAncestors scopeDir (butlast dir))"
  by auto

termination addAncestors
proof (relation "measure (\<lambda>(scopeDir, dir). length dir)")
  fix scopeDir dir :: path
  assume "\<not> (dir = scopeDir \<or> path_len dir \<le> path_len scopeDir)"
  then have "dir \<noteq> []" using path_len_pos[of scopeDir] by (auto simp: path_len_def split: if_splits)
  then show "((scopeDir, butlast dir), scopeDir, dir) \<in> measure (\<lambda>(scopeDir, dir). length dir)"
    by (simp add: length_butlast)
qed simp

declare addAncestors.simps [simp del]

text \<open>
  The manifests of a \<^verbatim>\<open>volume-meta\<close> directory that mark a volume as retained: the manifest and the
  volume directory beside it, each with the directories above it.
\<close>

definition retained_leaves :: "fsys \<Rightarrow> path \<Rightarrow> string \<Rightarrow> path list result" where
  "retained_leaves fs metaDir name =
     rbind (map_err (errorfw ''read reclaim manifest'' []) (ReadFile fs (metaDir @ [name]))) (\<lambda>data.
     rbind (map_err (errorfw ''parse reclaim manifest'' []) (dec_manifest data)) (\<lambda>policy.
     if policy \<noteq> ReclaimRetain then Inr []
     else Inr [metaDir @ [name],
       Join (butlast metaDir @ [KukeonVolumesSubdir]) [take (length name - length ''.json'') name]]))"

definition collectRetainedInMetaDir :: "fsys \<Rightarrow> path \<Rightarrow> path \<Rightarrow> (path \<times> path list) list result" where
  "collectRetainedInMetaDir fs metaDir scopeDir =
     rbind (map_err (errorfw ''read volume-meta dir'' []) (ReadDir fs metaDir)) (\<lambda>entries.
     rbind (collect (retained_leaves fs metaDir) (map fst (filter (\<lambda>(name, isDir). \<not> isDir \<and> suffix ''.json'' name) entries)))
       (\<lambda>leaves. Inr (map (\<lambda>leaf. (leaf, addAncestors scopeDir (butlast leaf))) leaves)))"

text \<open>A loop over a computation that may run out of fuel.\<close>

fun collect_opt :: "('a \<Rightarrow> 'b list result option) \<Rightarrow> 'a list \<Rightarrow> 'b list result option" where
  "collect_opt f [] = Some (Inr [])"
| "collect_opt f (x # xs) = (case f x of
     None \<Rightarrow> None
   | Some (Inl e) \<Rightarrow> Some (Inl e)
   | Some (Inr ys) \<Rightarrow> map_option (\<lambda>r. rbind r (\<lambda>zs. Inr (ys @ zs))) (collect_opt f xs))"

fun walkRetained :: "nat \<Rightarrow> fsys \<Rightarrow> path \<Rightarrow> path \<Rightarrow> (path \<times> path list) list result option" where
  "walkRetained 0 fs scopeDir p = None"
| "walkRetained (Suc fuel) fs scopeDir p = (case entry fs p of
     Some (Dir _) \<Rightarrow>
       if base_name p = KukeonVolumesSubdir then Some (Inr [])
       else if base_name p = KukeonVolumeMetaSubdir then Some (collectRetainedInMetaDir fs p scopeDir)
       else collect_opt (\<lambda>c. walkRetained fuel fs scopeDir (p @ [c])) (names_in fs p)
   | _ \<Rightarrow> Some (Inr []))"

definition fs_depth :: "fsys \<Rightarrow> nat" where
  "fs_depth fs = foldr (\<lambda>(p, _) n. max (length p) n) (fs_entries fs) 0"

definition collectRetainedPreserveSet :: "fsys \<Rightarrow> path \<Rightarrow> (path list \<times> path list) result option" where
  "collectRetainedPreserveSet fs scopeDir = (case Stat fs scopeDir of
     Inl e \<Rightarrow> Some (Inl (errorfw ''scan scope for retained volumes'' [] e))
   | Inr _ \<Rightarrow> map_option (\<lambda>r. map_err (errorfw ''scan scope for retained volumes'' [])
       (rbind r (\<lambda>found. Inr (map fst found, concat (map snd found))))) (walkRetained (Suc (fs_depth fs)) fs scopeDir scopeDir))"

fun pruneExcept :: "nat \<Rightarrow> path \<Rightarrow> path list \<Rightarrow> path list \<Rightarrow> fsys \<Rightarrow> (fsys \<times> unit result) option"
  and prune_entries :: "nat \<Rightarrow> path \<Rightarrow> path list \<Rightarrow> path list \<Rightarrow> string list \<Rightarrow> fsys \<Rightarrow> (fsys \<times> unit result) option" where
  "pruneExcept 0 dir leaves ancestors fs = None"
| "pruneExcept (Suc fuel) dir leaves ancestors fs = (case ReadDir fs dir of
     Inl e \<Rightarrow> Some (fs, Inl (errorfw ''read dir during selective reclaim'' [] e))
   | Inr entries \<Rightarrow> prune_entries fuel dir leaves ancestors (map fst entries) fs)"
| "prune_entries fuel dir leaves ancestors [] fs = Some (fs, Inr ())"
| "prune_entries fuel dir leaves ancestors (name # names) fs =
     (let full = dir @ [name] in
      if full \<in> set leaves then prune_entries fuel dir leaves ancestors names fs
      else if full \<in> set ancestors then
        (case pruneExcept fuel full leaves ancestors fs of
           Some (fs', Inr _) \<Rightarrow> prune_entries fuel dir leaves ancestors names fs'
         | r \<Rightarrow> r)
      else (case RemoveAll full fs of
           Inl e \<Rightarrow> Some (fs, Inl (errorfw ''remove during selective reclaim'' [] e))
         | Inr fs' \<Rightarrow> prune_entries fuel dir leaves ancestors names fs'))"

text \<open>
  The recursion of \<^verbatim>\<open>pruneExcept\<close> enters ancestors only, so the longest of them bounds its depth; that
  of the walk enters existing directories only.
\<close>

definition reclaimScopeMetadata :: "path \<Rightarrow> fsys \<Rightarrow> (fsys \<times> unit result) option" where
  "reclaimScopeMetadata scopeDir fs = (case collectRetainedPreserveSet fs scopeDir of
     None \<Rightarrow> None
   | Some (Inl e) \<Rightarrow> Some (fs, Inl e)
   | Some (Inr (leaves, ancestors)) \<Rightarrow>
       if leaves = [] then (case RemoveAll scopeDir fs of Inl e \<Rightarrow> Some (fs, Inl e) | Inr fs' \<Rightarrow> Some (fs', Inr ()))
       else pruneExcept (Suc (foldr (\<lambda>p n. max (length p) n) ancestors 0)) scopeDir leaves ancestors fs)"

section \<open>The walk and the removal end\<close>

lemma collect_opt_total: "(\<And>x. x \<in> set xs \<Longrightarrow> f x \<noteq> None) \<Longrightarrow> collect_opt f xs \<noteq> None"
  by (induction xs) (fastforce split: option.splits sum.splits)+

lemma entry_depth: "entry fs p \<noteq> None \<Longrightarrow> length p \<le> fs_depth fs"
proof -
  have "map_of xs p \<noteq> None \<Longrightarrow> length p \<le> foldr (\<lambda>(p, _) n. max (length p) n) xs 0" for xs :: "(path \<times> node) list"
    by (induction xs) (auto split: if_splits)
  then show "entry fs p \<noteq> None \<Longrightarrow> length p \<le> fs_depth fs"
    by (cases "p = []") (simp_all add: entry_def fs_depth_def)
qed

lemma walk_ends: "fs_depth fs < fuel + length p \<Longrightarrow> 0 < fuel \<Longrightarrow> walkRetained fuel fs scopeDir p \<noteq> None"
proof (induction fuel arbitrary: p)
  case (Suc fuel)
  have below: "walkRetained fuel fs scopeDir (p @ [c]) \<noteq> None" if "c \<in> set (names_in fs p)" for c
  proof (rule Suc.IH)
    have "entry fs (p @ [c]) \<noteq> None" using that names_in_iff by blast
    then show "0 < fuel" "fs_depth fs < fuel + length (p @ [c])" using entry_depth[of fs "p @ [c]"] Suc.prems(1) by auto
  qed
  show ?case using collect_opt_total[of "names_in fs p", OF below] by (simp split: option.splits node.splits)
qed simp

lemma max_length: "p \<in> set ps \<Longrightarrow> length p \<le> foldr (\<lambda>p n. max (length p) n) ps (0::nat)"
  by (induction ps) auto

lemma prune_ends:
  "\<lbrakk>\<forall>p \<in> set ancestors. length p \<le> D; D < fuel + length dir; 0 < fuel\<rbrakk> \<Longrightarrow> pruneExcept fuel dir leaves ancestors fs \<noteq> None"
  "\<lbrakk>\<forall>p \<in> set ancestors. length p \<le> D; D < Suc (fuel + length dir)\<rbrakk> \<Longrightarrow> prune_entries fuel dir leaves ancestors names fs \<noteq> None"
proof (induction fuel dir leaves ancestors fs and fuel dir leaves ancestors names fs rule: pruneExcept_prune_entries.induct)
  case (2 fuel dir leaves ancestors fs)
  then show ?case by (cases "ReadDir fs dir") auto
next
  case (4 fuel dir leaves ancestors name names fs)
  consider "dir @ [name] \<in> set leaves"
    | "dir @ [name] \<notin> set leaves" "dir @ [name] \<in> set ancestors"
    | "dir @ [name] \<notin> set leaves" "dir @ [name] \<notin> set ancestors" by blast
  then show ?case
  proof cases
    case 2
    have len: "Suc (length dir) \<le> D" using 4(5) 2(2) by fastforce
    then have "pruneExcept fuel (dir @ [name]) leaves ancestors fs \<noteq> None"
      using 4(2)[OF refl 2] 4(5,6) by simp
    then obtain fs' r where p: "pruneExcept fuel (dir @ [name]) leaves ancestors fs = Some (fs', r)" by auto
    then show ?thesis using 2 4(3)[OF refl 2 p] 4(5,6) by (cases r) (simp_all add: Let_def)
  qed (use 4 in \<open>simp_all add: Let_def RemoveAll_def\<close>)
qed simp_all

lemma reclaim_ends: "reclaimScopeMetadata scopeDir fs \<noteq> None"
proof -
  have "walkRetained (Suc (fs_depth fs)) fs scopeDir scopeDir \<noteq> None" by (rule walk_ends) simp_all
  then have "collectRetainedPreserveSet fs scopeDir \<noteq> None"
    by (simp add: collectRetainedPreserveSet_def split: sum.splits)
  then obtain r where r: "collectRetainedPreserveSet fs scopeDir = Some r" by blast
  show ?thesis
  proof (cases r)
    case (Inr la)
    have "pruneExcept (Suc (foldr (\<lambda>p n. max (length p) n) (snd la) 0)) scopeDir (fst la) (snd la) fs \<noteq> None"
      by (rule prune_ends(1)[where D = "foldr (\<lambda>p n. max (length p) n) (snd la) 0"]) (simp_all add: max_length)
    then show ?thesis using r Inr by (cases la) (simp add: reclaimScopeMetadata_def RemoveAll_def)
  qed (simp add: reclaimScopeMetadata_def r)
qed

section \<open>What the removal leaves\<close>

text \<open>An entry is kept when it lies on the way to a leaf or inside one.\<close>

definition kept :: "path list \<Rightarrow> path \<Rightarrow> bool" where
  "kept leaves q \<longleftrightarrow> (\<exists>l \<in> set leaves. prefix l q \<or> prefix q l)"

definition pruned :: "path list \<Rightarrow> path list \<Rightarrow> fsys \<Rightarrow> fsys \<Rightarrow> bool" where
  "pruned leaves tops fs fs' \<longleftrightarrow> fs_wf fs' \<and>
     (\<forall>q. entry fs' q = (if (\<exists>d \<in> set tops. prefix d q) \<and> \<not> kept leaves q then None else entry fs q))"

lemma pruned_refl: "fs_wf fs \<Longrightarrow> pruned leaves [] fs fs"
  by (simp add: pruned_def)

lemma pruned_entry: "pruned leaves tops fs fs' \<Longrightarrow>
    entry fs' q = (if (\<exists>d \<in> set tops. prefix d q) \<and> \<not> kept leaves q then None else entry fs q)"
  by (simp add: pruned_def)

lemma pruned_trans:
  assumes "pruned leaves ds fs fs'" "pruned leaves es fs' fs''"
  shows "pruned leaves (ds @ es) fs fs''"
  using assms unfolding pruned_def by auto

lemma pruned_kept: "fs_wf fs \<Longrightarrow> d \<in> set leaves \<Longrightarrow> pruned leaves [d] fs fs"
  by (auto simp: pruned_def kept_def)

lemma pruned_cut:
  assumes "fs_wf fs" "d \<noteq> []" "\<not> (\<exists>l \<in> set leaves. prefix l d \<or> prefix d l)"
  shows "pruned leaves [d] fs (cut d fs)"
proof -
  have "\<not> kept leaves q" if "prefix d q" for q
    using that assms(3) unfolding kept_def by (meson prefix_order.trans prefix_same_cases)
  then show ?thesis using assms(1,2) fs_wf_cut[OF assms(1)] by (auto simp: pruned_def)
qed

text \<open>The ancestors are the directories between the scope directory and a leaf.\<close>

definition ancestors_ok :: "path \<Rightarrow> path list \<Rightarrow> path list \<Rightarrow> bool" where
  "ancestors_ok dir leaves ancestors \<longleftrightarrow>
     (\<forall>p. prefix dir p \<longrightarrow> (p \<in> set ancestors \<longleftrightarrow> (\<exists>l \<in> set leaves. strict_prefix p l)))"

lemma ancestors_ok_below: "ancestors_ok dir leaves ancestors \<Longrightarrow> prefix dir p \<Longrightarrow> ancestors_ok p leaves ancestors"
  by (auto simp: ancestors_ok_def)

lemma ReadDir_dir:
  assumes "fs_wf fs" "dir_at fs dir"
  shows "\<exists>entries. ReadDir fs dir = Inr entries \<and> map fst entries = names_in fs dir"
proof -
  obtain a where "entry fs dir = Some (Dir a)" using assms(2) dir_at_iff by blast
  then show ?thesis by (simp add: ReadDir_def Stat_Inr[OF assms(1), THEN iffD2] comp_def)
qed

lemma pruned_children:
  assumes "fs_wf fs" "pruned leaves (map (\<lambda>c. dir @ [c]) (names_in fs dir)) fs fs'"
    and "\<exists>l \<in> set leaves. strict_prefix dir l"
  shows "pruned leaves [dir] fs fs'"
proof -
  have "entry fs' q = (if prefix dir q \<and> \<not> kept leaves q then None else entry fs q)" for q
  proof (cases "q = dir \<or> \<not> prefix dir q")
    case True
    then have "(\<exists>d \<in> set (map (\<lambda>c. dir @ [c]) (names_in fs dir)). prefix d q) = False"
      by (auto dest: append_prefixD prefix_length_le)
    moreover have "kept leaves dir" using assms(3) by (auto simp: kept_def strict_prefix_def)
    ultimately show ?thesis using True assms(2) by (auto simp: pruned_def)
  next
    case False
    then obtain c r where q: "q = (dir @ [c]) @ r" by (metis append_Cons append_Nil append_assoc neq_Nil_conv prefix_def append_Nil2)
    show ?thesis
    proof (cases "entry fs q")
      case None
      then show ?thesis using pruned_entry[OF assms(2), of q] by simp
    next
      case (Some n)
      have "entry fs (dir @ [c]) \<noteq> None"
        using Some entry_prefix_dir[OF assms(1), of q "dir @ [c]"] unfolding q by (cases "r = []") (auto simp: strict_prefix_def)
      then have "c \<in> set (names_in fs dir)" using names_in_iff by blast
      then show ?thesis using pruned_entry[OF assms(2), of q] unfolding q by auto
    qed
  qed
  then show ?thesis using assms(2) by (simp add: pruned_def)
qed

text \<open>
  What the removal needs at a directory: it exists, leaves lie below it and none on the way to it,
  and every ancestor below it that exists is a directory.
\<close>

definition prunable :: "path \<Rightarrow> path list \<Rightarrow> path list \<Rightarrow> fsys \<Rightarrow> bool" where
  "prunable dir leaves ancestors fs \<longleftrightarrow> fs_wf fs \<and> dir_at fs dir \<and> ancestors_ok dir leaves ancestors
     \<and> \<not> (\<exists>l \<in> set leaves. prefix l dir) \<and> (\<exists>l \<in> set leaves. strict_prefix dir l)
     \<and> (\<forall>p \<in> set ancestors. prefix dir p \<longrightarrow> file_at fs p = None)"

lemma prunable_child:
  assumes "prunable dir leaves ancestors fs" "entry fs (dir @ [c]) \<noteq> None" "dir @ [c] \<in> set ancestors" "dir @ [c] \<notin> set leaves"
  shows "prunable (dir @ [c]) leaves ancestors fs"
proof -
  have "file_at fs (dir @ [c]) = None" using assms(1,3) by (simp add: prunable_def)
  then have "dir_at fs (dir @ [c])" using assms(2) by (simp add: file_dir_entry)
  moreover have "\<not> (\<exists>l \<in> set leaves. prefix l (dir @ [c]))" using assms(1,4) by (auto simp: prunable_def)
  moreover have "\<exists>l \<in> set leaves. strict_prefix (dir @ [c]) l"
    using assms(1,3) unfolding prunable_def ancestors_ok_def by (metis prefix_append prefix_order.refl)
  ultimately show ?thesis
    using assms(1) ancestors_ok_below[of dir leaves ancestors "dir @ [c]"] by (auto simp: prunable_def dest: append_prefixD)
qed

lemma prunable_pruned:
  assumes "prunable dir leaves ancestors fs" "pruned leaves [dir @ [c]] fs fs'"
  shows "prunable dir leaves ancestors fs'"
proof -
  have "entry fs' dir = entry fs dir" using pruned_entry[OF assms(2), of dir] by (auto dest: prefix_length_le)
  moreover have "file_at fs' p = None" if "file_at fs p = None" for p
    using that pruned_entry[OF assms(2), of p] by (auto simp: file_at_def)
  ultimately show ?thesis using assms(1,2) by (auto simp: prunable_def pruned_def dir_at_def)
qed

lemma prune_ok:
  "\<lbrakk>\<forall>p \<in> set ancestors. length p \<le> D; D < fuel + length dir; 0 < fuel; prunable dir leaves ancestors fs\<rbrakk> \<Longrightarrow>
    \<exists>fs'. pruneExcept fuel dir leaves ancestors fs = Some (fs', Inr ()) \<and> pruned leaves [dir] fs fs'"
  "\<lbrakk>\<forall>p \<in> set ancestors. length p \<le> D; D < Suc (fuel + length dir); prunable dir leaves ancestors fs;
     \<forall>c \<in> set names. entry fs (dir @ [c]) \<noteq> None; distinct names\<rbrakk> \<Longrightarrow>
    \<exists>fs'. prune_entries fuel dir leaves ancestors names fs = Some (fs', Inr ())
      \<and> pruned leaves (map (\<lambda>c. dir @ [c]) names) fs fs'"
proof (induction fuel dir leaves ancestors fs and fuel dir leaves ancestors names fs rule: pruneExcept_prune_entries.induct)
  case (2 fuel dir leaves ancestors fs)
  have wf: "fs_wf fs" and d: "dir_at fs dir" and b: "\<exists>l \<in> set leaves. strict_prefix dir l"
    using 2(5) by (simp_all add: prunable_def)
  from ReadDir_dir[OF wf d] obtain entries where r: "ReadDir fs dir = Inr entries" "map fst entries = names_in fs dir" by blast
  have "\<forall>c \<in> set (map fst entries). entry fs (dir @ [c]) \<noteq> None" "distinct (map fst entries)"
    unfolding r(2) using names_in_iff by (blast, simp)
  then obtain fs' where "prune_entries fuel dir leaves ancestors (map fst entries) fs = Some (fs', Inr ())"
    "pruned leaves (map (\<lambda>c. dir @ [c]) (map fst entries)) fs fs'"
    using 2(1)[OF r(1) 2(2) _ 2(5)] 2(3) by auto
  then show ?case using pruned_children[OF wf, of leaves dir fs'] b r by auto
next
  case (4 fuel dir leaves ancestors name names fs)
  let ?full = "dir @ [name]"
  have wf: "fs_wf fs" using 4(7) by (simp add: prunable_def)
  have rest: "\<exists>fs''. prune_entries fuel dir leaves ancestors names fs' = Some (fs'', Inr ())
      \<and> pruned leaves (map (\<lambda>c. dir @ [c]) (name # names)) fs fs''"
    if ih: "prunable dir leaves ancestors fs' \<Longrightarrow> \<forall>c \<in> set names. entry fs' (dir @ [c]) \<noteq> None \<Longrightarrow>
        \<exists>fs''. prune_entries fuel dir leaves ancestors names fs' = Some (fs'', Inr ())
          \<and> pruned leaves (map (\<lambda>c. dir @ [c]) names) fs' fs''"
      and p: "pruned leaves [?full] fs fs'" for fs'
  proof -
    have "entry fs' (dir @ [c]) \<noteq> None" if "c \<in> set names" for c
      using that 4(8,9) pruned_entry[OF p, of "dir @ [c]"] by auto
    with ih prunable_pruned[OF 4(7) p] obtain fs'' where
      "prune_entries fuel dir leaves ancestors names fs' = Some (fs'', Inr ())"
      "pruned leaves (map (\<lambda>c. dir @ [c]) names) fs' fs''" by blast
    then show ?thesis using pruned_trans[OF p] by fastforce
  qed
  consider "?full \<in> set leaves" | "?full \<notin> set leaves" "?full \<in> set ancestors" | "?full \<notin> set leaves" "?full \<notin> set ancestors" by blast
  then show ?case
  proof cases
    case 1
    then show ?thesis using rest[OF _ pruned_kept[OF wf 1]] 4(1)[OF refl 1 4(5,6)] 4(9) by (simp add: Let_def)
  next
    case 2
    have "Suc (length dir) \<le> D" using 4(5) 2(2) by fastforce
    moreover have "prunable ?full leaves ancestors fs" using prunable_child[OF 4(7) _ 2(2,1)] 4(8) by simp
    ultimately obtain fs' where p: "pruneExcept fuel ?full leaves ancestors fs = Some (fs', Inr ())" "pruned leaves [?full] fs fs'"
      using 4(2)[OF refl 2 4(5)] 4(6) by auto
    show ?thesis using rest[OF _ p(2)] 4(3)[OF refl 2 p(1) refl refl 4(5,6)] 4(9) 2 p(1) by (simp add: Let_def)
  next
    case 3
    have "\<not> (\<exists>l \<in> set leaves. prefix l ?full \<or> prefix ?full l)"
      using 3 4(7) unfolding prunable_def ancestors_ok_def
      by (metis prefix_append prefix_order.refl prefix_snoc prefix_order.le_neq_trans strict_prefix_def)
    then have q: "pruned leaves [?full] fs (cut ?full fs)" by (intro pruned_cut[OF wf]) auto
    have ra: "RemoveAll ?full fs = Inr (cut ?full fs)" by (simp add: RemoveAll_def)
    have "\<exists>fs''. prune_entries fuel dir leaves ancestors names (cut ?full fs) = Some (fs'', Inr ())
        \<and> pruned leaves (map (\<lambda>c. dir @ [c]) (name # names)) fs fs''"
      by (rule rest[OF _ q], rule 4(4)[OF refl 3 ra 4(5,6)]) (use 4(9) in auto)
    then show ?thesis using 3 by (simp add: Let_def ra)
  qed
qed (auto simp: prunable_def pruned_refl)

section \<open>What the walk finds\<close>

lemma collect_opt_Inr:
  assumes "collect_opt f xs = Some (Inr zs)"
  shows "(\<forall>x \<in> set xs. \<exists>ys. f x = Some (Inr ys)) \<and> (\<forall>z. z \<in> set zs \<longleftrightarrow> (\<exists>x \<in> set xs. \<exists>ys. f x = Some (Inr ys) \<and> z \<in> set ys))"
  using assms
proof (induction xs arbitrary: zs)
  case (Cons x xs)
  then obtain ys zs' where "f x = Some (Inr ys)" "collect_opt f xs = Some (Inr zs')" "zs = ys @ zs'"
    by (fastforce simp: rbind_eq_Inr split: option.splits sum.splits)
  then show ?case using Cons.IH by auto
qed simp

text \<open>The \<^verbatim>\<open>volume-meta\<close> directories that the walk reaches, and the manifests in them that say Retain.\<close>

definition meta_dir :: "fsys \<Rightarrow> path \<Rightarrow> path \<Rightarrow> bool" where
  "meta_dir fs p m \<longleftrightarrow> prefix p m \<and> dir_at fs m \<and> base_name m = KukeonVolumeMetaSubdir
     \<and> (\<forall>q. prefix p q \<and> strict_prefix q m \<longrightarrow> base_name q \<noteq> KukeonVolumesSubdir \<and> base_name q \<noteq> KukeonVolumeMetaSubdir)"

definition says_retain :: "fsys \<Rightarrow> path \<Rightarrow> string \<Rightarrow> bool" where
  "says_retain fs m n \<longleftrightarrow> suffix ''.json'' n \<and> (\<exists>c. file_at fs (m @ [n]) = Some c \<and> dec_manifest c = Inr ReclaimRetain)"

definition leaf_of :: "path \<Rightarrow> string \<Rightarrow> path \<Rightarrow> bool" where
  "leaf_of m n l \<longleftrightarrow> l = m @ [n] \<or> l = Join (butlast m @ [KukeonVolumesSubdir]) [take (length n - length ''.json'') n]"

lemma meta_dir_self:
  assumes "base_name p = KukeonVolumesSubdir \<or> base_name p = KukeonVolumeMetaSubdir"
  shows "meta_dir fs p m \<longleftrightarrow> m = p \<and> dir_at fs p \<and> base_name p = KukeonVolumeMetaSubdir"
  using assms by (auto simp: meta_dir_def strict_prefix_def)

lemma prefix_proper: "prefix p m \<Longrightarrow> p \<noteq> m \<Longrightarrow> \<exists>c. prefix (p @ [c]) m"
  by (metis append_Cons append_Nil append_Nil2 append_assoc neq_Nil_conv prefix_def)

lemma meta_dir_step:
  assumes "fs_wf fs" "base_name p \<noteq> KukeonVolumesSubdir" "base_name p \<noteq> KukeonVolumeMetaSubdir"
  shows "meta_dir fs p m \<longleftrightarrow> (\<exists>c \<in> set (names_in fs p). meta_dir fs (p @ [c]) m)"
proof
  assume m: "meta_dir fs p m"
  then have "prefix p m" "p \<noteq> m" using assms(3) by (auto simp: meta_dir_def)
  then obtain c where c: "prefix (p @ [c]) m" using prefix_proper by blast
  have "dir_at fs m" using m by (simp add: meta_dir_def)
  then have "entry fs (p @ [c]) \<noteq> None"
    using c entry_prefix_dir[OF assms(1), of m "p @ [c]"] by (cases "m = p @ [c]") (auto simp: dir_at_iff strict_prefix_def)
  then have "c \<in> set (names_in fs p)" using names_in_iff by blast
  moreover have "meta_dir fs (p @ [c]) m" using m c by (auto simp: meta_dir_def dest: append_prefixD)
  ultimately show "\<exists>c \<in> set (names_in fs p). meta_dir fs (p @ [c]) m" by blast
next
  assume "\<exists>c \<in> set (names_in fs p). meta_dir fs (p @ [c]) m"
  then obtain c where c: "meta_dir fs (p @ [c]) m" by blast
  have "base_name q \<noteq> KukeonVolumesSubdir \<and> base_name q \<noteq> KukeonVolumeMetaSubdir" if "prefix p q" "strict_prefix q m" for q
  proof (cases "q = p")
    case False
    then obtain d where "prefix (p @ [d]) q" using prefix_proper \<open>prefix p q\<close> by metis
    then have "prefix (p @ [c]) q"
      using c \<open>strict_prefix q m\<close> prefix_same_cases[of "p @ [c]" m "p @ [d]"]
      by (auto simp: meta_dir_def strict_prefix_def dest: prefix_order.trans)
    then show ?thesis using c \<open>strict_prefix q m\<close> by (simp add: meta_dir_def)
  qed (use assms in simp)
  then show "meta_dir fs p m" using c by (auto simp: meta_dir_def dest: append_prefixD)
qed

lemma retained_leaves_iff:
  assumes "fs_wf fs"
  shows "(\<exists>zs. retained_leaves fs m n = Inr zs \<and> l \<in> set zs) \<longleftrightarrow>
    (\<exists>c. file_at fs (m @ [n]) = Some c \<and> dec_manifest c = Inr ReclaimRetain) \<and> leaf_of m n l"
proof -
  have "ReadFile fs (m @ [n]) = Inr c \<longleftrightarrow> file_at fs (m @ [n]) = Some c" for c
    using ReadFile_Inr[OF assms] file_at_Some by blast
  then show ?thesis
    by (auto simp: retained_leaves_def rbind_eq_Inr map_err_eq_Inr leaf_of_def split: if_splits)
qed

lemma metaDir_found:
  assumes "fs_wf fs" "dir_at fs m" "collectRetainedInMetaDir fs m scopeDir = Inr found"
  shows "(l, a) \<in> set found \<longleftrightarrow> a = addAncestors scopeDir (butlast l) \<and> (\<exists>n. says_retain fs m n \<and> leaf_of m n l)"
proof -
  obtain b where "entry fs m = Some (Dir b)" using assms(2) dir_at_iff by blast
  then have rd: "ReadDir fs m = Inr (map (\<lambda>c. (c, dir_at fs (m @ [c]))) (names_in fs m))"
    by (auto simp: ReadDir_def Stat_Inr[OF assms(1), THEN iffD2] dir_at_def split: option.splits node.splits)
  let ?ns = "filter (\<lambda>n. \<not> dir_at fs (m @ [n]) \<and> suffix ''.json'' n) (names_in fs m)"
  obtain leaves where leaves: "collect (retained_leaves fs m) ?ns = Inr leaves"
    "found = map (\<lambda>leaf. (leaf, addAncestors scopeDir (butlast leaf))) leaves"
    using assms(3) by (auto simp: collectRetainedInMetaDir_def rd rbind_eq_Inr filter_map comp_def)
  have "n \<in> set ?ns" if "says_retain fs m n" for n
    using that names_in_iff[of n fs m] file_not_dir by (auto simp: says_retain_def file_dir_entry)
  then have "l \<in> set leaves \<longleftrightarrow> (\<exists>n. says_retain fs m n \<and> leaf_of m n l)" for l
    unfolding collect_set[OF leaves(1)] retained_leaves_iff[OF assms(1)] says_retain_def by auto
  then show ?thesis using leaves(2) by auto
qed

lemma walk_found:
  assumes "fs_wf fs" "walkRetained fuel fs scopeDir p = Some (Inr found)"
  shows "(l, a) \<in> set found \<longleftrightarrow> a = addAncestors scopeDir (butlast l) \<and> (\<exists>m n. meta_dir fs p m \<and> says_retain fs m n \<and> leaf_of m n l)"
  using assms(2)
proof (induction fuel arbitrary: p found)
  case (Suc fuel)
  show ?case
  proof (cases "dir_at fs p")
    case False
    then have "\<not> meta_dir fs p m" for m
      using entry_prefix_dir[OF assms(1), of m p] by (cases "m = p") (auto simp: meta_dir_def dir_at_iff strict_prefix_def)
    moreover have "found = []" using Suc.prems False by (auto simp: dir_at_def split: option.splits node.splits)
    ultimately show ?thesis by simp
  next
    case True
    then obtain b where e: "entry fs p = Some (Dir b)" using dir_at_iff by blast
    consider "base_name p = KukeonVolumesSubdir" | "base_name p = KukeonVolumeMetaSubdir" "base_name p \<noteq> KukeonVolumesSubdir"
      | "base_name p \<noteq> KukeonVolumesSubdir" "base_name p \<noteq> KukeonVolumeMetaSubdir" by blast
    then show ?thesis
    proof cases
      case 1
      then show ?thesis using Suc.prems e meta_dir_self[of p fs] by (auto simp: layout_names)
    next
      case 2
      then have "collectRetainedInMetaDir fs p scopeDir = Inr found" using Suc.prems e by simp
      from metaDir_found[OF assms(1) True this] show ?thesis using meta_dir_self[of p fs] 2 True by auto
    next
      case 3
      then have "collect_opt (\<lambda>c. walkRetained fuel fs scopeDir (p @ [c])) (names_in fs p) = Some (Inr found)"
        using Suc.prems e by simp
      note c = collect_opt_Inr[OF this]
      have "(l, a) \<in> set found \<longleftrightarrow> (\<exists>c \<in> set (names_in fs p). \<exists>ys. walkRetained fuel fs scopeDir (p @ [c]) = Some (Inr ys) \<and> (l, a) \<in> set ys)"
        using c by blast
      also have "\<dots> \<longleftrightarrow> (\<exists>c \<in> set (names_in fs p). a = addAncestors scopeDir (butlast l)
          \<and> (\<exists>m n. meta_dir fs (p @ [c]) m \<and> says_retain fs m n \<and> leaf_of m n l))"
        using c Suc.IH by blast
      finally show ?thesis using meta_dir_step[OF assms(1) 3] by blast
    qed
  qed
qed simp

section \<open>The whole purge of a scope\<close>

lemma path_len_prefix: "prefix p q \<Longrightarrow> p \<noteq> [] \<Longrightarrow> path_len q \<le> path_len p \<Longrightarrow> q = p"
  by (auto simp: path_len_def prefix_def split: if_splits)

lemma addAncestors_set:
  assumes "scopeDir \<noteq> []" "prefix scopeDir dir"
  shows "set (addAncestors scopeDir dir) = {q. prefix scopeDir q \<and> prefix q dir}"
  using assms
proof (induction scopeDir dir rule: addAncestors.induct)
  case (1 scopeDir dir)
  show ?case
  proof (cases "dir = scopeDir")
    case True
    then show ?thesis by (subst addAncestors.simps) auto
  next
    case False
    then have far: "\<not> (dir = scopeDir \<or> path_len dir \<le> path_len scopeDir)" using 1(2,3) path_len_prefix by blast
    obtain d c where dir: "dir = d @ [c]" using 1(2,3) by (cases dir rule: rev_cases) auto
    then have "prefix scopeDir d" using 1(3) False by auto
    then show ?thesis using 1(1)[OF far] 1(2) far unfolding dir by (subst addAncestors.simps) auto
  qed
qed

lemma leaf_below:
  assumes "meta_dir fs scopeDir m" "base_name scopeDir \<noteq> KukeonVolumeMetaSubdir" "leaf_of m n l"
  shows "strict_prefix scopeDir l"
proof -
  have "prefix scopeDir m" "m \<noteq> scopeDir" using assms(1,2) by (auto simp: meta_dir_def)
  then have "prefix scopeDir (butlast m)" by (cases m rule: rev_cases) auto
  then show ?thesis using assms(3) \<open>prefix scopeDir m\<close>
    by (auto simp: leaf_of_def Join_def strict_prefix_def intro: prefix_order.trans dest: prefix_length_le)
qed

lemma preserve_set:
  assumes "fs_wf fs" "collectRetainedPreserveSet fs scopeDir = Some (Inr (leaves, ancestors))"
    and "scopeDir \<noteq> []" "base_name scopeDir \<noteq> KukeonVolumeMetaSubdir"
  shows "l \<in> set leaves \<longleftrightarrow> (\<exists>m n. meta_dir fs scopeDir m \<and> says_retain fs m n \<and> leaf_of m n l)"
    and "ancestors_ok scopeDir leaves ancestors"
    and "a \<in> set ancestors \<Longrightarrow> \<exists>l \<in> set leaves. strict_prefix a l"
proof -
  obtain i where i: "Stat fs scopeDir = Inr i"
    using assms(2) by (cases "Stat fs scopeDir") (simp_all add: collectRetainedPreserveSet_def)
  obtain r where r: "walkRetained (Suc (fs_depth fs)) fs scopeDir scopeDir = Some r"
    using walk_ends[of fs "Suc (fs_depth fs)" scopeDir scopeDir] by fastforce
  have "map_err (errorfw ''scan scope for retained volumes'' []) (rbind r (\<lambda>found. Inr (map fst found, concat (map snd found))))
      = Inr (leaves, ancestors)"
    using assms(2) unfolding collectRetainedPreserveSet_def i r by simp
  then obtain found where w: "walkRetained (Suc (fs_depth fs)) fs scopeDir scopeDir = Some (Inr found)"
    and f: "leaves = map fst found" "ancestors = concat (map snd found)"
    using r unfolding map_err_eq_Inr rbind_eq_Inr by blast
  note found = walk_found[OF assms(1) w]
  have fl: "l \<in> set leaves \<longleftrightarrow> (\<exists>a. (l, a) \<in> set found)" for l unfolding f by force
  then show leaves: "l \<in> set leaves \<longleftrightarrow> (\<exists>m n. meta_dir fs scopeDir m \<and> says_retain fs m n \<and> leaf_of m n l)" for l
    using found by blast
  have anc: "a \<in> set ancestors \<longleftrightarrow> (\<exists>l \<in> set leaves. prefix scopeDir a \<and> strict_prefix a l)" for a
  proof -
    have "a \<in> set ancestors \<longleftrightarrow> (\<exists>l \<in> set leaves. a \<in> set (addAncestors scopeDir (butlast l)))"
    proof -
      have "a \<in> set ancestors \<longleftrightarrow> (\<exists>l as. (l, as) \<in> set found \<and> a \<in> set as)" unfolding f by force
      moreover have "as = addAncestors scopeDir (butlast l)" if "(l, as) \<in> set found" for l as using that found by blast
      ultimately show ?thesis using fl by metis
    qed
    moreover have "set (addAncestors scopeDir (butlast l)) = {q. prefix scopeDir q \<and> strict_prefix q l}" if "l \<in> set leaves" for l
    proof -
      have s: "strict_prefix scopeDir l" using that leaves leaf_below[OF _ assms(4)] by blast
      then obtain d c where l: "l = d @ [c]" by (cases l rule: rev_cases) auto
      then have "prefix scopeDir d" using s by (auto simp: strict_prefix_def)
      from addAncestors_set[OF assms(3) this] show ?thesis unfolding l by (auto simp: strict_prefix_def)
    qed
    ultimately show ?thesis by auto
  qed
  then show "ancestors_ok scopeDir leaves ancestors" by (auto simp: ancestors_ok_def)
  show "a \<in> set ancestors \<Longrightarrow> \<exists>l \<in> set leaves. strict_prefix a l" using anc by blast
qed

lemma prefix_two: "prefix a (p @ [b, c]) \<longleftrightarrow> a = p @ [b, c] \<or> a = p @ [b] \<or> prefix a p"
  using prefix_snoc[of a "p @ [b]" c] prefix_snoc[of a p b] by auto

lemma ancestor_no_file:
  assumes "fs_wf fs" "meta_dir fs scopeDir m" "says_retain fs m n" "leaf_of m n l" "strict_prefix a l"
    and "file_at fs (butlast m @ [KukeonVolumesSubdir]) = None"
  shows "file_at fs a = None"
proof -
  have m: "dir_at fs m" "m \<noteq> []" using assms(2) by (auto simp: meta_dir_def base_name_def layout_names)
  have up: "file_at fs q = None" if "prefix q m" for q
    using m(1) that entry_prefix_dir[OF assms(1), of m q]
    by (cases "q = m") (auto simp: dir_at_iff file_at_def strict_prefix_def)
  have "prefix (butlast m) m" by (metis append_butlast_last_id m(2) prefixI)
  then have b: "file_at fs q = None" if "prefix q (butlast m)" for q using that up prefix_order.trans by blast
  have "prefix a m \<or> prefix a (butlast m) \<or> a = butlast m @ [KukeonVolumesSubdir]"
    using assms(4,5) by (auto simp: leaf_of_def Join_def strict_prefix_def prefix_two split: if_splits)
  then show ?thesis using up b assms(6) by blast
qed

lemma reclaim_pruned:
  assumes wf: "fs_wf fs" and scan: "collectRetainedPreserveSet fs scopeDir = Some (Inr (leaves, ancestors))"
    and dir: "scopeDir \<noteq> []" "base_name scopeDir \<noteq> KukeonVolumeMetaSubdir" "dir_at fs scopeDir"
    and vols: "\<And>m. meta_dir fs scopeDir m \<Longrightarrow> file_at fs (butlast m @ [KukeonVolumesSubdir]) = None"
  shows "\<exists>fs'. reclaimScopeMetadata scopeDir fs = Some (fs', Inr ()) \<and> pruned leaves [scopeDir] fs fs'"
proof (cases "leaves = []")
  case True
  then show ?thesis using scan pruned_cut[OF wf dir(1), of leaves] by (simp add: reclaimScopeMetadata_def RemoveAll_def)
next
  case False
  note p = preserve_set[OF wf scan dir(1,2)]
  have below: "strict_prefix scopeDir l" if "l \<in> set leaves" for l using that p(1) leaf_below[OF _ dir(2)] by blast
  have "\<not> prefix l scopeDir" if "l \<in> set leaves" for l using below[OF that] by (auto simp: strict_prefix_def)
  moreover have "file_at fs a = None" if "a \<in> set ancestors" for a
    using p(3)[OF that] p(1) ancestor_no_file[OF wf] vols by metis
  moreover have "\<exists>l \<in> set leaves. strict_prefix scopeDir l" using False below by (cases leaves) auto
  ultimately have "prunable scopeDir leaves ancestors fs" using wf dir(3) p(2) by (auto simp: prunable_def)
  then have "\<exists>fs'. pruneExcept (Suc (foldr (\<lambda>p n. max (length p) n) ancestors 0)) scopeDir leaves ancestors fs = Some (fs', Inr ())
      \<and> pruned leaves [scopeDir] fs fs'"
    by (intro prune_ok(1)[where D = "foldr (\<lambda>p n. max (length p) n) ancestors 0"]) (simp_all add: max_length)
  then show ?thesis using False scan by (simp add: reclaimScopeMetadata_def del: pruneExcept.simps)
qed

definition in_scope :: "string \<Rightarrow> string \<Rightarrow> string \<Rightarrow> string \<Rightarrow> string \<Rightarrow> string \<Rightarrow> bool" where
  "in_scope r s t r' s' t' \<longleftrightarrow> r' = r \<and> (s = '''' \<or> s' = s) \<and> (t = '''' \<or> t' = t)"

definition scope_dir :: "path \<Rightarrow> string \<Rightarrow> string \<Rightarrow> string \<Rightarrow> string \<Rightarrow> path" where
  "scope_dir base r s t c = base @ KukeonMetadataSubdir # coords r s t c"

lemma in_scope_prefix:
  assumes "scope_complete r s t ''''" "scope_complete r' s' t' c'" "in_scope r s t r' s' t'"
  shows "prefix (scope_dir base r s t '''') (scope_dir base r' s' t' c')"
  using assms by (auto simp: scope_dir_def in_scope_def scope_complete_def coords_def)

text \<open>A component below a scope directory that still belongs to the coordinates of a scope is one of its names.\<close>

lemma component_is_name:
  assumes "r \<noteq> ''''" "prefix (scope_dir base r s t '''') p" "prefix (p @ [a]) (scope_dir base r' s' t' c')"
  shows "a \<in> set (coords r' s' t' c')"
proof -
  obtain xs where "p = base @ KukeonMetadataSubdir # xs" using assms(2) by (auto simp: scope_dir_def prefix_def)
  then show ?thesis using assms(3) by (auto simp: scope_dir_def prefix_def)
qed

text \<open>The two shapes of a leaf: below a directory that the walk passes, in one of the two reserved directories.\<close>

lemma leaf_shape:
  assumes "fs_wf fs" "meta_dir fs d m" "base_name d \<noteq> KukeonVolumeMetaSubdir" "leaf_of m n l"
  obtains p sub xs where "prefix d p" "dir_at fs p" "m = p @ [KukeonVolumeMetaSubdir]" "l = p @ sub # xs"
    "sub = KukeonVolumeMetaSubdir \<and> xs = [n] \<or> sub = KukeonVolumesSubdir \<and> xs = filter (\<lambda>x. x \<noteq> '''') [take (length n - length ''.json'') n]"
    "\<forall>q. prefix d q \<and> prefix q p \<longrightarrow> base_name q \<noteq> KukeonVolumesSubdir \<and> base_name q \<noteq> KukeonVolumeMetaSubdir"
proof -
  have m: "prefix d m" "m \<noteq> d" "m \<noteq> []" "base_name m = KukeonVolumeMetaSubdir" "dir_at fs m"
    using assms(2,3) by (auto simp: meta_dir_def base_name_def layout_names)
  define p where "p = butlast m"
  have mp: "m = p @ [KukeonVolumeMetaSubdir]" using m(3,4) append_butlast_last_id[of m] by (simp add: p_def base_name_def)
  have pre: "prefix d p" using m(1,2) mp by auto
  have dir: "dir_at fs p" using m(5) fs_wfD[OF assms(1), of p] unfolding mp dir_at_iff by blast
  have names: "base_name q \<noteq> KukeonVolumesSubdir \<and> base_name q \<noteq> KukeonVolumeMetaSubdir" if "prefix d q" "prefix q p" for q
  proof -
    have "strict_prefix q m" using that(2) unfolding mp by (auto simp: strict_prefix_def dest: prefix_length_le)
    then show ?thesis using assms(2) that(1) unfolding meta_dir_def by blast
  qed
  from assms(4) consider "l = p @ KukeonVolumeMetaSubdir # [n]"
    | "l = p @ KukeonVolumesSubdir # filter (\<lambda>x. x \<noteq> '''') [take (length n - length ''.json'') n]"
    unfolding leaf_of_def mp Join_def by auto
  then show ?thesis using that[OF pre dir mp] names by cases blast+
qed

lemma last_base_name: "base_name (p @ [a]) = a"
  by (simp add: base_name_def)

lemma prefix_cons: "prefix (p @ a # xs) q \<Longrightarrow> prefix (p @ [a]) q"
  by (auto simp: prefix_def)

text \<open>The document of a scope is never kept: it is neither a leaf nor a directory on the way to one.\<close>

lemma document_not_kept:
  assumes wf: "fs_wf fs" and r: "r \<noteq> ''''" "base_name (scope_dir base r s t '''') \<noteq> KukeonVolumeMetaSubdir"
    and names: "list_all (\<lambda>n. n \<notin> set reserved_names) (coords r' s' t' c')"
    and doc: "file_at fs (scope_dir base r' s' t' c' @ [KukeonMetadataFile]) \<noteq> None"
    and leaf: "meta_dir fs (scope_dir base r s t '''') m" "leaf_of m n l"
  shows "\<not> (prefix l (scope_dir base r' s' t' c' @ [KukeonMetadataFile]) \<or> prefix (scope_dir base r' s' t' c' @ [KukeonMetadataFile]) l)"
proof -
  let ?S = "scope_dir base r' s' t' c'"
  obtain p sub xs where l: "prefix (scope_dir base r s t '''') p" "dir_at fs p" "l = p @ sub # xs"
    "sub = KukeonVolumeMetaSubdir \<and> xs = [n] \<or> sub = KukeonVolumesSubdir \<and> xs = filter (\<lambda>x. x \<noteq> '''') [take (length n - length ''.json'') n]"
    by (rule leaf_shape[OF wf leaf(1) r(2) leaf(2)]) blast
  have sub: "sub \<in> set reserved_names" "sub \<noteq> KukeonMetadataFile" using l(4) by (auto simp: reserved_names_def layout_names)
  have no: "\<not> prefix (p @ [sub]) ?S"
    using component_is_name[OF r(1) l(1)] names sub(1) by (auto simp: list_all_iff)
  have dir: "\<not> prefix (?S @ [KukeonMetadataFile]) p"
  proof
    assume pre: "prefix (?S @ [KukeonMetadataFile]) p"
    then have "dir_at fs (?S @ [KukeonMetadataFile])"
      using l(2) entry_prefix_dir[OF wf, of p "?S @ [KukeonMetadataFile]"]
      by (cases "p = ?S @ [KukeonMetadataFile]") (auto simp: dir_at_iff strict_prefix_def)
    then show False using doc file_not_dir by blast
  qed
  have "\<not> prefix l (?S @ [KukeonMetadataFile])"
  proof
    assume "prefix l (?S @ [KukeonMetadataFile])"
    then have "prefix (p @ [sub]) (?S @ [KukeonMetadataFile])" using prefix_cons[of p sub xs] unfolding l(3) by blast
    then show False using no sub(2) by auto
  qed
  moreover have "\<not> prefix (?S @ [KukeonMetadataFile]) l"
  proof
    assume "prefix (?S @ [KukeonMetadataFile]) l"
    moreover have "xs = [] \<or> (\<exists>x. xs = [x])" using l(4) by (auto split: if_splits)
    ultimately have "?S @ [KukeonMetadataFile] = p @ [sub] \<or> ?S = p @ [sub] \<or> prefix (?S @ [KukeonMetadataFile]) p"
      unfolding l(3) by (auto simp: prefix_two)
    then show False using sub(2) no dir by auto
  qed
  ultimately show ?thesis by blast
qed

text \<open>A volume that has no manifest saying Retain is not kept.\<close>

lemma volume_not_kept:
  assumes wf: "fs_wf fs" and r: "r \<noteq> ''''" "base_name (scope_dir base r s t '''') \<noteq> KukeonVolumeMetaSubdir"
    and names: "list_all (\<lambda>n. n \<notin> set reserved_names) (coords r' s' t' '''')"
    and pre: "prefix (scope_dir base r s t '''') (scope_dir base r' s' t' '''')" and v: "v \<noteq> ''''"
    and leaf: "meta_dir fs (scope_dir base r s t '''') m" "leaf_of m n l" "says_retain fs m n" "n \<noteq> ''.json''"
    and policy: "\<not> says_retain fs (scope_dir base r' s' t' '''' @ [KukeonVolumeMetaSubdir]) (v @ ''.json'')"
  shows "\<not> (prefix l (scope_dir base r' s' t' '''' @ [KukeonVolumesSubdir, v]) \<or> prefix (scope_dir base r' s' t' '''' @ [KukeonVolumesSubdir, v]) l)"
proof
  let ?S = "scope_dir base r' s' t' ''''" let ?P = "?S @ [KukeonVolumesSubdir, v]"
  assume both: "prefix l ?P \<or> prefix ?P l"
  obtain p sub xs where l: "prefix (scope_dir base r s t '''') p" "m = p @ [KukeonVolumeMetaSubdir]" "l = p @ sub # xs"
    "sub = KukeonVolumeMetaSubdir \<and> xs = [n] \<or> sub = KukeonVolumesSubdir \<and> xs = filter (\<lambda>x. x \<noteq> '''') [take (length n - length ''.json'') n]"
    and clean: "\<forall>q. prefix (scope_dir base r s t '''') q \<and> prefix q p \<longrightarrow> base_name q \<noteq> KukeonVolumesSubdir \<and> base_name q \<noteq> KukeonVolumeMetaSubdir"
    by (rule leaf_shape[OF wf leaf(1) r(2) leaf(2)]) blast
  obtain w where n: "n = w @ ''.json''" using leaf(3) by (auto simp: says_retain_def suffix_def)
  then have w: "w \<noteq> ''''" "take (length n - length ''.json'') n = w" using leaf(4) by auto
  then obtain x where xs: "xs = [x]" and x: "sub = KukeonVolumesSubdir \<Longrightarrow> x = w" using l(4) by (auto simp: layout_names)
  have sub: "sub \<in> set reserved_names" using l(4) by (auto simp: reserved_names_def)
  have no: "\<not> prefix (p @ [sub]) ?S"
    using component_is_name[OF r(1) l(1)] names sub by (auto simp: list_all_iff)
  have past: "\<not> prefix (?S @ [KukeonVolumesSubdir]) p"
  proof
    assume "prefix (?S @ [KukeonVolumesSubdir]) p"
    moreover have "prefix (scope_dir base r s t '''') (?S @ [KukeonVolumesSubdir])" using pre by auto
    ultimately show False using clean last_base_name by blast
  qed
  have "l = ?P"
  proof (cases "prefix l ?P")
    case True
    then show ?thesis using no past unfolding l(3) xs prefix_two by (auto dest: prefix_cons)
  next
    case False
    then have "prefix ?P l" using both by blast
    then show ?thesis using no past unfolding l(3) xs by (auto simp: prefix_two dest: prefix_cons)
  qed
  then have "p = ?S" "sub = KukeonVolumesSubdir" "x = v" unfolding l(3) xs by auto
  then show False using policy leaf(3) x l(2) n by simp
qed

text \<open>
  What the purge relies on in the \<^verbatim>\<open>volume-meta\<close> directories it reaches: no manifest without a name,
  and no file in the place of the \<^verbatim>\<open>volumes\<close> directory beside one.
\<close>

definition metas_sound :: "fsys \<Rightarrow> path \<Rightarrow> bool" where
  "metas_sound fs d \<longleftrightarrow> (\<forall>m. meta_dir fs d m \<longrightarrow> file_at fs (m @ [''.json'']) = None \<and> file_at fs (butlast m @ [KukeonVolumesSubdir]) = None)"

definition scope_ok :: "string \<Rightarrow> string \<Rightarrow> string \<Rightarrow> bool" where
  "scope_ok r s t \<longleftrightarrow> scope_complete r s t '''' \<and> list_all (\<lambda>n. n \<notin> set reserved_names) [r, s, t]"

lemma scope_name:
  assumes "scope_ok r s t"
  shows "base_name (scope_dir base r s t '''') \<notin> set reserved_names"
    and "r \<noteq> ''''" "scope_dir base r s t '''' \<noteq> []"
  using assms by (auto simp: scope_ok_def scope_complete_def base_name_def scope_dir_def coords_def)

lemma volume_at:
  assumes "volume_ok k"
  shows "volume_path base k = scope_dir base (voM_Realm k) (voM_Space k) (voM_Stack k) '''' @ [KukeonVolumesSubdir, voM_Name k]"
    and "manifest_path base k = (scope_dir base (voM_Realm k) (voM_Space k) (voM_Stack k) '''' @ [KukeonVolumeMetaSubdir]) @ [voM_Name k @ ''.json'']"
    and "scope_complete (voM_Realm k) (voM_Space k) (voM_Stack k) ''''" "voM_Name k \<noteq> ''''"
    and "list_all (\<lambda>n. n \<notin> set reserved_names) [voM_Space k, voM_Stack k]"
  using assms volume_paths(1,2)[OF assms, of base] volume_paths(3)[OF assms]
    resource_path_split[of "voM_Realm k" "voM_Space k" "voM_Stack k" "''''" "Volumes (voM_Name k)" base]
    resource_path_split[of "voM_Realm k" "voM_Space k" "voM_Stack k" "''''" "VolumeMetas (voM_Name k)" base]
  by (simp_all add: volume_ok_def scope_dir_def)

lemma coords_unreserved:
  assumes "list_all (\<lambda>n. n \<notin> set reserved_names) [r, s, t, c]"
  shows "list_all (\<lambda>n. n \<notin> set reserved_names) (coords r s t c)"
  using assms by (auto simp: coords_def)

lemma policy_says_retain:
  assumes "fs_wf fs" "volume_ok k" "volume_policy base k fs = Inr p"
  shows "dir_at fs (volume_path base k)"
    and "p = ReclaimRetain \<longleftrightarrow> says_retain fs (scope_dir base (voM_Realm k) (voM_Space k) (voM_Stack k) '''' @ [KukeonVolumeMetaSubdir]) (voM_Name k @ ''.json'')"
proof -
  note v = assms(3)[unfolded volume_policy_def GetVolume_value[OF assms(1)] readVolumeReclaimPolicy_def manifest_path_def[symmetric]]
  show "dir_at fs (volume_path base k)" using v by blast
  have rf: "ReadFile fs (manifest_path base k) = Inr c \<longleftrightarrow> file_at fs (manifest_path base k) = Some c" for c
    using ReadFile_Inr[OF assms(1)] file_at_Some by blast
  show "p = ReclaimRetain \<longleftrightarrow> says_retain fs (scope_dir base (voM_Realm k) (voM_Space k) (voM_Stack k) '''' @ [KukeonVolumeMetaSubdir]) (voM_Name k @ ''.json'')"
    unfolding says_retain_def volume_at(2)[OF assms(2), symmetric] rf[symmetric]
    using v by (cases "ReadFile fs (manifest_path base k)") (auto simp: ReclaimRetain_def suffix_def split: if_splits)
qed

definition volume_in :: "string \<Rightarrow> string \<Rightarrow> string \<Rightarrow> VolumeMetadata \<Rightarrow> bool" where
  "volume_in r s t k \<longleftrightarrow> volume_ok k \<and> in_scope r s t (voM_Realm k) (voM_Space k) (voM_Stack k)"

lemma retained_leaf:
  assumes wf: "fs_wf fs" and ok: "scope_ok r s t" and k: "volume_in r s t k"
    and m: "says_retain fs (scope_dir base (voM_Realm k) (voM_Space k) (voM_Stack k) '''' @ [KukeonVolumeMetaSubdir]) (voM_Name k @ ''.json'')"
  shows "meta_dir fs (scope_dir base r s t '''') (scope_dir base (voM_Realm k) (voM_Space k) (voM_Stack k) '''' @ [KukeonVolumeMetaSubdir])"
proof -
  let ?S = "scope_dir base (voM_Realm k) (voM_Space k) (voM_Stack k) ''''" and ?d = "scope_dir base r s t ''''"
  have vk: "volume_ok k" and r: "voM_Realm k = r" using k by (simp_all add: volume_in_def in_scope_def)
  have pre: "prefix ?d ?S"
    using in_scope_prefix volume_at(3)[OF vk] k ok by (simp add: volume_in_def scope_ok_def)
  have "file_at fs ((?S @ [KukeonVolumeMetaSubdir]) @ [voM_Name k @ ''.json'']) \<noteq> None" using m by (auto simp: says_retain_def)
  then have "entry fs ((?S @ [KukeonVolumeMetaSubdir]) @ [voM_Name k @ ''.json'']) \<noteq> None" using file_dir_entry by metis
  then have "dir_at fs (?S @ [KukeonVolumeMetaSubdir])" using fs_wfD[OF wf] dir_at_iff by blast
  moreover have "base_name q \<notin> set reserved_names" if "prefix ?d q" "strict_prefix q (?S @ [KukeonVolumeMetaSubdir])" for q
  proof (cases "q = ?d")
    case False
    have "q \<noteq> []" using that(1) scope_name(3)[OF ok, of base] by auto
    then obtain q' a where q: "q = q' @ [a]" by (cases q rule: rev_cases) auto
    have "prefix ?d q'" using that(1) False unfolding q by auto
    moreover have "prefix (q' @ [a]) ?S" using that(2) unfolding q by (auto simp: strict_prefix_def)
    ultimately have "a \<in> set (coords (voM_Realm k) (voM_Space k) (voM_Stack k) '''')"
      using component_is_name scope_name(2)[OF ok] by blast
    then show ?thesis
      using volume_at(5)[OF vk] ok r unfolding q by (auto simp: coords_def base_name_def scope_ok_def split: if_splits)
  qed (use scope_name(1)[OF ok] in simp)
  ultimately show ?thesis using pre by (auto simp: meta_dir_def base_name_def reserved_names_def)
qed

text \<open>The three parts of the purge's contract, for the leaves that the scan returned.\<close>

definition leaves_of :: "fsys \<Rightarrow> path \<Rightarrow> path list \<Rightarrow> bool" where
  "leaves_of fs d leaves \<longleftrightarrow> (\<forall>l. l \<in> set leaves \<longleftrightarrow> (\<exists>m n. meta_dir fs d m \<and> says_retain fs m n \<and> leaf_of m n l))"

lemma retained_stays:
  assumes wf: "fs_wf fs" and ok: "scope_ok r s t" and k: "volume_in r s t k"
    and p: "volume_policy base k fs = Inr ReclaimRetain"
    and ps: "leaves_of fs (scope_dir base r s t '''') leaves" and pr: "pruned leaves [scope_dir base r s t ''''] fs fs'"
  shows "volume_policy base k fs' = Inr ReclaimRetain \<and> (\<forall>q. prefix (volume_path base k) q \<longrightarrow> entry fs' q = entry fs q)"
proof -
  have vk: "volume_ok k" using k by (simp add: volume_in_def)
  let ?m = "scope_dir base (voM_Realm k) (voM_Space k) (voM_Stack k) '''' @ [KukeonVolumeMetaSubdir]" and ?n = "voM_Name k @ ''.json''"
  have says: "says_retain fs ?m ?n" using policy_says_retain(2)[OF wf vk p] by simp
  have "leaf_of ?m ?n (volume_path base k)" "leaf_of ?m ?n (manifest_path base k)"
    using volume_at(4)[OF vk] by (simp_all add: leaf_of_def Join_def volume_at(1,2)[OF vk])
  then have "volume_path base k \<in> set leaves" "manifest_path base k \<in> set leaves"
    using ps retained_leaf[OF wf ok k says] says unfolding leaves_of_def by blast+
  then have same: "entry fs' q = entry fs q"
    if "prefix q (volume_path base k) \<or> prefix q (manifest_path base k) \<or> prefix (volume_path base k) q" for q
    using pruned_entry[OF pr, of q] that by (auto simp: kept_def)
  then have "volume_policy base k fs' = volume_policy base k fs"
    unfolding volume_policy_def by (intro GetVolume_cong) (auto simp: file_at_def dir_at_def same)
  then show ?thesis using p same by simp
qed

lemma other_volume_gone:
  assumes wf: "fs_wf fs" and ok: "scope_ok r s t" and k: "volume_in r s t k"
    and p: "volume_policy base k fs = Inr p" "p \<noteq> ReclaimRetain" and sound: "metas_sound fs (scope_dir base r s t '''')"
    and ps: "leaves_of fs (scope_dir base r s t '''') leaves" and pr: "pruned leaves [scope_dir base r s t ''''] fs fs'"
  shows "volume_policy base k fs' = Inl ErrVolumeNotFound"
proof -
  let ?S = "scope_dir base (voM_Realm k) (voM_Space k) (voM_Stack k) ''''" and ?d = "scope_dir base r s t ''''"
  have vk: "volume_ok k" and r: "voM_Realm k = r" using k by (simp_all add: volume_in_def in_scope_def)
  have nm: "base_name ?d \<noteq> KukeonVolumeMetaSubdir" using scope_name(1)[OF ok, of base] by (auto simp: reserved_names_def)
  have pre: "prefix ?d ?S"
    using in_scope_prefix volume_at(3)[OF vk] k ok by (simp add: volume_in_def scope_ok_def)
  have names: "list_all (\<lambda>n. n \<notin> set reserved_names) (coords (voM_Realm k) (voM_Space k) (voM_Stack k) '''')"
    using volume_at(5)[OF vk] ok r by (auto simp: coords_def scope_ok_def)
  have policy: "\<not> says_retain fs (?S @ [KukeonVolumeMetaSubdir]) (voM_Name k @ ''.json'')"
    using policy_says_retain(2)[OF wf vk p(1)] p(2) by simp
  have named: "n \<noteq> ''.json''" if "meta_dir fs ?d m" "says_retain fs m n" for m n
    using that sound unfolding metas_sound_def says_retain_def by fastforce
  have "\<not> kept leaves (volume_path base k)"
    unfolding kept_def volume_at(1)[OF vk]
    using volume_not_kept[OF wf scope_name(2)[OF ok] nm names pre volume_at(4)[OF vk] _ _ _ named policy] ps
    unfolding leaves_of_def by blast
  moreover have "prefix ?d (volume_path base k)" unfolding volume_at(1)[OF vk] using pre by auto
  ultimately have gone: "entry fs' (volume_path base k) = None" using pruned_entry[OF pr, of "volume_path base k"] by simp
  have "file_at fs q \<noteq> None" if "file_at fs' q \<noteq> None" for q
    using that pruned_entry[OF pr, of q] by (auto simp: file_at_def split: if_splits)
  moreover have "entry fs (volume_path base k) \<noteq> None" using policy_says_retain(1)[OF wf vk p(1)] by (auto simp: dir_at_iff)
  ultimately have "Stat fs' (volume_path base k) = Inl ErrNotExist" by (intro Stat_removed[OF wf]) (use gone in auto)
  then show ?thesis
    unfolding volume_policy_def using GetVolume_notfound pr unfolding pruned_def by blast
qed

lemma document_gone:
  assumes wf: "fs_wf fs" and ok: "scope_ok r s t" and res: "resource_ok r s' t' c Metadata" "in_scope r s t r s' t'"
    and ps: "leaves_of fs (scope_dir base r s t '''') leaves" and pr: "pruned leaves [scope_dir base r s t ''''] fs fs'"
  shows "file_at fs' (resource_path base r s' t' c Metadata) = None"
proof -
  let ?d = "scope_dir base r s t ''''" and ?P = "scope_dir base r s' t' c @ [KukeonMetadataFile]"
  have path: "resource_path base r s' t' c Metadata = ?P"
    using resource_path_split[of r s' t' c Metadata base] res(1) by (simp add: scope_dir_def)
  have nm: "base_name ?d \<noteq> KukeonVolumeMetaSubdir" using scope_name(1)[OF ok, of base] by (auto simp: reserved_names_def)
  have names: "list_all (\<lambda>n. n \<notin> set reserved_names) (coords r s' t' c)"
    using res(1) ok by (auto simp: coords_def scope_ok_def)
  have "prefix ?d (scope_dir base r s' t' c)"
    using in_scope_prefix[of r s t r s' t' c base] res ok by (simp add: scope_ok_def)
  then have pre: "prefix ?d ?P" by auto
  show ?thesis
  proof (cases "file_at fs ?P = None")
    case True
    then show ?thesis using pruned_entry[OF pr, of ?P] unfolding path by (auto simp: file_at_def)
  next
    case False
    then have "\<not> kept leaves ?P"
      using document_not_kept[OF wf scope_name(2)[OF ok] nm names False] ps unfolding kept_def leaves_of_def by blast
    then show ?thesis using pruned_entry[OF pr, of ?P] pre unfolding path by (simp add: file_at_def)
  qed
qed

text \<open>
  C18. Purging a scope removes everything in it but the retained volumes. For a scope with unreserved
  names whose scan succeeds, the purge succeeds; every volume of the scope or of a scope below it
  that is stored as Retain can be got afterwards, with the same policy and with its directory tree
  unchanged; every other volume and every realm, space, stack and cell document below is gone;
  nothing outside the scope changes.
\<close>
theorem purge_keeps_retained_volumes:
  assumes wf: "fs_wf fs" and ok: "scope_ok r s t" and dir: "dir_at fs (VolumeScopeDir base r s t)"
    and scan: "collectRetainedPreserveSet fs (VolumeScopeDir base r s t) = Some (Inr found)"
    and sound: "metas_sound fs (VolumeScopeDir base r s t)"
  shows "\<exists>fs'. reclaimScopeMetadata (VolumeScopeDir base r s t) fs = Some (fs', Inr ())
    \<and> (\<forall>k. volume_in r s t k \<and> volume_policy base k fs = Inr ReclaimRetain \<longrightarrow>
          volume_policy base k fs' = Inr ReclaimRetain \<and> (\<forall>q. prefix (volume_path base k) q \<longrightarrow> entry fs' q = entry fs q))
    \<and> (\<forall>k p. volume_in r s t k \<and> volume_policy base k fs = Inr p \<and> p \<noteq> ReclaimRetain \<longrightarrow>
          volume_policy base k fs' = Inl ErrVolumeNotFound)
    \<and> (\<forall>s' t' c. resource_ok r s' t' c Metadata \<and> in_scope r s t r s' t' \<longrightarrow>
          file_at fs' (resource_path base r s' t' c Metadata) = None)
    \<and> (\<forall>q. \<not> prefix (VolumeScopeDir base r s t) q \<longrightarrow> entry fs' q = entry fs q)"
proof -
  let ?d = "scope_dir base r s t ''''"
  have sd: "VolumeScopeDir base r s t = ?d" using scope_dirs(4) ok by (simp add: scope_dir_def scope_ok_def)
  note scan = scan[unfolded sd] and dir = dir[unfolded sd] and sound = sound[unfolded sd]
  obtain leaves ancestors where f: "found = (leaves, ancestors)" by (cases found)
  have nm: "base_name ?d \<noteq> KukeonVolumeMetaSubdir" using scope_name(1)[OF ok, of base] by (auto simp: reserved_names_def)
  note ps = preserve_set(1)[OF wf scan[unfolded f] scope_name(3)[OF ok] nm]
  obtain fs' where run: "reclaimScopeMetadata ?d fs = Some (fs', Inr ())" and pr: "pruned leaves [?d] fs fs'"
    using reclaim_pruned[OF wf scan[unfolded f] scope_name(3)[OF ok] nm dir] sound unfolding metas_sound_def by blast
  have out: "entry fs' q = entry fs q" if "\<not> prefix ?d q" for q using pruned_entry[OF pr, of q] that by simp
  have lo: "leaves_of fs ?d leaves" using ps by (simp add: leaves_of_def)
  show ?thesis
    unfolding sd using run retained_stays[OF wf ok _ _ lo pr] other_volume_gone[OF wf ok _ _ _ sound lo pr]
      document_gone[OF wf ok _ _ lo pr] out by blast
qed

lemma metas_sound_code:
  assumes "list_all (\<lambda>(m, _). base_name m = KukeonVolumeMetaSubdir \<longrightarrow> file_at fs (m @ [''.json'']) = None \<and> file_at fs (butlast m @ [KukeonVolumesSubdir]) = None)
    (fs_entries fs)"
  shows "metas_sound fs d"
proof -
  have "\<exists>x. (m, x) \<in> set (fs_entries fs)" if "dir_at fs m" "m \<noteq> []" for m
    using that by (auto simp: dir_at_iff entry_def dest: map_of_SomeD)
  moreover have "m \<noteq> []" if "meta_dir fs d m" for m using that by (auto simp: meta_dir_def base_name_def layout_names)
  ultimately show ?thesis using assms unfolding metas_sound_def meta_dir_def list_all_iff by fastforce
qed

text \<open>A realm with a space that holds a retained volume with a file in it and another volume.\<close>

definition purge_fs :: fsys where
  "purge_fs = (let d = Dir root_attr; f = (\<lambda>c. File root_attr c) in
     \<lparr>fs_entries = [([''run''], d), ([''run'', ''data''], d), ([''run'', ''data'', ''r''], d),
        ([''run'', ''data'', ''r'', ''metadata.json''], f (Raw ''realm'')), ([''run'', ''data'', ''r'', ''s''], d),
        ([''run'', ''data'', ''r'', ''s'', ''metadata.json''], f (Raw ''space'')), ([''run'', ''data'', ''r'', ''s'', ''volumes''], d),
        ([''run'', ''data'', ''r'', ''s'', ''volumes'', ''keep''], d), ([''run'', ''data'', ''r'', ''s'', ''volumes'', ''keep'', ''x''], f (Raw ''data'')),
        ([''run'', ''data'', ''r'', ''s'', ''volumes'', ''lose''], d), ([''run'', ''data'', ''r'', ''s'', ''volume-meta''], d),
        ([''run'', ''data'', ''r'', ''s'', ''volume-meta'', ''keep.json''], f (Json Compact (enc_manifest ReclaimRetain)))],
      fs_umask = 18\<rparr>)"

theorem purge_keeps_retained_volumes_witness:
  "\<exists>fs'. reclaimScopeMetadata (VolumeScopeDir [''run''] ''r'' '''' '''') purge_fs = Some (fs', Inr ())
    \<and> volume_policy [''run''] (demo_volume ''keep'') fs' = Inr ReclaimRetain
    \<and> entry fs' [''run'', ''data'', ''r'', ''s'', ''volumes'', ''keep'', ''x''] = Some (File root_attr (Raw ''data''))
    \<and> volume_policy [''run''] (demo_volume ''lose'') fs' = Inl ErrVolumeNotFound
    \<and> file_at fs' (SpaceMetadataPath [''run''] ''r'' ''s'') = None"
proof -
  have wf: "fs_wf purge_fs" by (rule fs_wf_code) code_simp
  have sound: "metas_sound purge_fs (VolumeScopeDir [''run''] ''r'' '''' '''')" by (rule metas_sound_code) code_simp
  have ok: "scope_ok ''r'' '''' ''''" "dir_at purge_fs (VolumeScopeDir [''run''] ''r'' '''' '''')" by code_simp+
  have "case collectRetainedPreserveSet purge_fs (VolumeScopeDir [''run''] ''r'' '''' '''') of Some r \<Rightarrow> \<not> isl r | None \<Rightarrow> False" by code_simp
  then obtain found where scan: "collectRetainedPreserveSet purge_fs (VolumeScopeDir [''run''] ''r'' '''' '''') = Some (Inr found)"
    by (metis (no_types, lifting) option.case_eq_if option.collapse sum.collapse(2))
  have vs: "volume_in ''r'' '''' '''' (demo_volume ''keep'')" "volume_in ''r'' '''' '''' (demo_volume ''lose'')"
    "volume_policy [''run''] (demo_volume ''keep'') purge_fs = Inr ReclaimRetain"
    "volume_policy [''run''] (demo_volume ''lose'') purge_fs = Inr ''''" "'''' \<noteq> ReclaimRetain"
    "resource_ok ''r'' ''s'' '''' '''' Metadata" "in_scope ''r'' '''' '''' ''r'' ''s'' ''''"
    "prefix (volume_path [''run''] (demo_volume ''keep'')) [''run'', ''data'', ''r'', ''s'', ''volumes'', ''keep'', ''x'']"
    "entry purge_fs [''run'', ''data'', ''r'', ''s'', ''volumes'', ''keep'', ''x''] = Some (File root_attr (Raw ''data''))"
    by code_simp+
  have path: "resource_path [''run''] ''r'' ''s'' '''' '''' Metadata = SpaceMetadataPath [''run''] ''r'' ''s''" by code_simp
  from purge_keeps_retained_volumes[OF wf ok scan sound] show ?thesis using vs path by metis
qed

text \<open>
  C19. The purge of a scope always returns. The walk descends one component at a time and only into
  directories that exist, the removal only into ancestors of a leaf, and the climb from a leaf stops
  at the root at the latest; so the depth of the file system and the longest ancestor are fuel enough,
  whatever the tree holds.
\<close>
theorem purge_returns: "\<exists>fs' r. reclaimScopeMetadata scopeDir fs = Some (fs', r)"
  using reclaim_ends[of scopeDir fs] by auto

text \<open>
  The walk also skips the scope it starts from when that scope is called \<^verbatim>\<open>volumes\<close>, and then the
  purge removes a retained volume with everything else.
\<close>

lemma reserved_realm_loses_retained:
  "(case write_volume [''run''] 7 \<lparr>voM_Name = ''v'', voM_Realm = ''volumes'', voM_Space = '''', voM_Stack = ''''\<rparr> ReclaimRetain empty_fs of
     (fs, Inr _) \<Rightarrow> (case reclaimScopeMetadata (RealmMetadataDir [''run''] ''volumes'') fs of
        Some (fs', Inr _) \<Rightarrow> entry fs' (VolumePath [''run''] ''volumes'' '''' '''' ''v'') = None
      | _ \<Rightarrow> False)
   | _ \<Rightarrow> False)"
  by code_simp

end
