(* ===== verification/Doc_Json.thy ===== *)
theory Doc_Json
  imports Api_Json
begin

text \<open>
  The JSON of the specs of stored documents: what decoding normalises does not show when the spec is
  encoded again.
\<close>

section \<open>The JSON of a spec survives storage\<close>

lemma opt_canon_slice [simp]:
  "opt k (elems xs = []) (enc_slice f (canon_slice xs)) = opt k (elems xs = []) (enc_slice f xs)"
  by (cases xs) (simp_all add: opt_def canon_slice_def)

lemma opt_canon_slice_of:
  assumes "\<And>x. f (g x) = f x"
  shows "opt k (elems (canon_slice_of g xs) = []) (enc_slice f (canon_slice_of g xs)) = opt k (elems xs = []) (enc_slice f xs)"
  using assms by (cases xs) (auto simp: opt_def canon_slice_of_def canon_slice_def enc_slice_def)

lemma enc_ptr_map: "(\<And>x. f (g x) = f x) \<Longrightarrow> enc_ptr f (map_option g p) = enc_ptr f p"
  by (cases p) (simp_all add: enc_ptr_def)

lemma enc_cap_js: "enc_cap (js_cap x) = enc_cap x"
  by (simp add: enc_cap_def js_cap_def)

lemma enc_tmpfs_js: "enc_tmpfs (js_tmpfs x) = enc_tmpfs x"
  by (simp add: enc_tmpfs_def js_tmpfs_def)

lemma enc_git_js: "enc_git (js_git x) = enc_git x"
  by (simp add: enc_git_def js_git_def)

lemma enc_tty_js: "enc_tty (js_tty x) = enc_tty x"
  by (simp add: enc_tty_def js_tty_def)

lemma enc_rule_js: "enc_rule (js_rule x) = enc_rule x"
  by (simp add: enc_rule_def js_rule_def)

lemma enc_egress_js: "enc_egress (js_egress x) = enc_egress x"
  by (simp add: enc_egress_def js_egress_def opt_canon_slice_of enc_rule_js)

lemma enc_network_js: "enc_network (js_network x) = enc_network x"
  by (simp add: enc_network_def js_network_def enc_ptr_map enc_egress_js)

lemma enc_containerDefaults_js: "enc_containerDefaults (js_containerDefaults x) = enc_containerDefaults x"
  by (simp add: enc_containerDefaults_def js_containerDefaults_def opt_canon_slice_of enc_ptr_map enc_tmpfs_js enc_cap_js)

lemma enc_defaults_js: "enc_defaults (js_defaults x) = enc_defaults x"
  by (simp add: enc_defaults_def js_defaults_def enc_ptr_map enc_containerDefaults_js)

lemma sort_map_idem [simp]: "sort_map (sort_map m) = sort_map m"
proof -
  have "sort_key f xs = xs" if "sorted (map f xs)" for f :: "string \<times> string \<Rightarrow> string" and xs
    using that by (induction xs) (simp_all add: insort_is_Cons)
  then show ?thesis by (simp add: sort_map_def)
qed

lemma enc_provenance_js: "enc_provenance (js_provenance x) = enc_provenance x"
proof -
  have "opt k (case canon_params p of None \<Rightarrow> True | Some m \<Rightarrow> m = []) (enc_ptr enc_map (canon_params p))
      = opt k (case p of None \<Rightarrow> True | Some m \<Rightarrow> m = []) (enc_ptr enc_map p)" for k p
    by (cases p) (simp_all add: opt_def canon_params_def enc_ptr_def enc_map_def)
  then show ?thesis by (simp add: enc_provenance_def js_provenance_def)
qed

lemma enc_realmSpec_js: "enc_realmSpec (js_realmSpec x) = enc_realmSpec x"
  by (simp add: enc_realmSpec_def js_realmSpec_def)

lemma enc_spaceSpec_js: "enc_spaceSpec (js_spaceSpec x) = enc_spaceSpec x"
  by (simp add: enc_spaceSpec_def js_spaceSpec_def enc_ptr_map enc_network_js enc_defaults_js)

lemma enc_mounts_readdress: "enc_slice enc_mount (readdress_mounts al vs) = enc_slice enc_mount vs"
proof -
  have "ptr_val (readdress a r) = ptr_val r" for a and r :: "VolumeRef goptr" by (cases r) simp_all
  then have "enc_mount (v\<lparr>vm_VolumeRef := readdress a (vm_VolumeRef v)\<rparr>) = enc_mount v" for a v
    by (simp add: enc_mount_def)
  then have "map enc_mount (map (\<lambda>(i, v). v\<lparr>vm_VolumeRef := readdress (al i) (vm_VolumeRef v)\<rparr>) (enumerate 0 xs)) = map enc_mount xs" for xs
    by (simp add: comp_def case_prod_unfold list_eq_iff_nth_eq nth_enumerate_eq)
  then show ?thesis by (cases vs) (simp_all add: readdress_mounts_def enc_slice_def)
qed

lemma enc_containerSpec_js: "enc_containerSpec (js_containerSpec al x) = enc_containerSpec x"
  by (simp add: enc_containerSpec_def js_containerSpec_def opt_canon_slice_of enc_ptr_map
      enc_tmpfs_js enc_cap_js enc_git_js enc_tty_js enc_mounts_readdress)

lemma enc_specs_js: "map enc_containerSpec (js_specs al cs) = map enc_containerSpec cs"
  by (simp add: js_specs_def comp_def case_prod_unfold enc_containerSpec_js list_eq_iff_nth_eq nth_enumerate_eq)

lemma enc_cellSpec_js: "enc_cellSpec (js_cellSpec al x) = enc_cellSpec x"
  by (simp add: enc_cellSpec_def js_cellSpec_def enc_ptr_map enc_specs_js enc_provenance_js)

end
