(* ===== verification/Metadata_Store.thy ===== *)
theory Metadata_Store
  imports Doc_Json Scope_Maps
begin

text \<open>
  The metadata files of realms, spaces, stacks and cells (\<^verbatim>\<open>internal/metadata\<close> and
  \<^verbatim>\<open>internal/controller/runner/metadata.go\<close>, \<^verbatim>\<open>read.go\<close>): the sidecar lock, the atomic and the comparing
  write, generations as optimistic tokens, the lifecycle stamps, and the readers. Writers that
  interleave are a step relation; the locale \<^verbatim>\<open>versioned_doc\<close> is what the writer needs of a kind of
  document, interpreted for the four of them.
\<close>

section \<open>The metadata files\<close>

text \<open>The permission bits \<^verbatim>\<open>os.ModeSetgid | 0o0750\<close>, \<^verbatim>\<open>0o644\<close> and \<^verbatim>\<open>0o644\<close>.\<close>

definition metadataDirMode :: int where "metadataDirMode = 1512"
definition lockFilePerm :: int where "lockFilePerm = 420"
definition filePerm :: int where "filePerm = 420"

definition LockFileSuffix :: string where "LockFileSuffix = ''.lock''"

definition LockFilePath :: "path \<Rightarrow> path" where
  "LockFilePath p = butlast p @ [last p @ LockFileSuffix]"

definition existsFilePath :: "fsys \<Rightarrow> path \<Rightarrow> bool" where
  "existsFilePath fs p = (case Stat fs p of Inr _ \<Rightarrow> True | Inl e \<Rightarrow> \<not> errors_Is e ErrNotExist)"

text \<open>\<^verbatim>\<open>os.OpenFile\<close> for reading and writing, with or without \<^verbatim>\<open>O_CREATE\<close>.\<close>

definition OpenFile :: "path \<Rightarrow> bool \<Rightarrow> int \<Rightarrow> fsys \<Rightarrow> fsys result" where
  "OpenFile p create perm fs = (case Stat fs p of
     Inr n \<Rightarrow> if IsDir n then Inl ErrIsDir else Inr fs
   | Inl e \<Rightarrow> if create \<and> errors_Is e ErrNotExist
       then rbind (Stat fs (butlast p)) (\<lambda>d. if IsDir d
         then Inr (put p (File (new_attr fs p (and perm (not (fs_umask fs)))) (Raw '''')) fs) else Inl ErrNotDir)
       else Inl e)"

text \<open>
  Taking the lock, when nobody holds it: the writer makes sure of the directory and of the sidecar
  file, the reader only of the sidecar of a document that is there.
\<close>

definition acquireFlock :: "path \<Rightarrow> bool \<Rightarrow> unit io" where
  "acquireFlock p exclusive =
     bind_io (if exclusive then wrap_io (ErrMsg (Msg ''mkdir lock parent'')) (call (MkdirAll (butlast p) metadataDirMode)) else ret ()) (\<lambda>_.
       (\<lambda>fs. case OpenFile (LockFilePath p) exclusive lockFilePerm fs of
          Inr fs' \<Rightarrow> (fs', Inr ())
        | Inl e \<Rightarrow> if \<not> exclusive \<and> errors_Is e ErrNotExist then
              if \<not> existsFilePath fs p then (fs, Inl (errorfw ''sidecar lock file missing for %s'' [] ErrMissingMetadataFile))
              else (case OpenFile (LockFilePath p) True lockFilePerm fs of
                Inr fs' \<Rightarrow> (fs', Inr ())
              | Inl e \<Rightarrow> (fs, Inl (errorfw ''open lock file %s'' [] e)))
            else (fs, Inl (errorfw ''open lock file %s'' [] e))))"

definition WithExclusiveLock :: "path \<Rightarrow> 'a io \<Rightarrow> 'a io" where
  "WithExclusiveLock p fn = bind_io (wrap_io (ErrMsg (Msg ''acquire exclusive lock'')) (acquireFlock p True)) (\<lambda>_. fn)"

definition WithSharedLock :: "path \<Rightarrow> 'a io \<Rightarrow> 'a io" where
  "WithSharedLock p fn = bind_io (wrap_io (ErrMsg (Msg ''acquire shared lock'')) (acquireFlock p False)) (\<lambda>_. fn)"

definition ReadRawNoLock :: "path \<Rightarrow> fsys \<Rightarrow> content result" where
  "ReadRawNoLock p fs =
     (if \<not> existsFilePath fs p then Inl (errorfw ''metadata file does not exist'' [] ErrMissingMetadataFile)
      else map_err (errorfw ''read %s'' []) (ReadFile fs p))"

definition ReadRaw :: "path \<Rightarrow> content io" where
  "ReadRaw p = (\<lambda>fs. if \<not> existsFilePath fs p then (fs, Inl (errorfw ''metadata file does not exist'' [] ErrMissingMetadataFile))
     else WithSharedLock p (query (ReadRawNoLock p)) fs)"

definition atomicWriteFile :: "path \<Rightarrow> content \<Rightarrow> int \<Rightarrow> fsys \<Rightarrow> fsys result" where
  "atomicWriteFile p data mode = replace_file (butlast p) p data mode"

definition writeMetadataFile :: "json \<Rightarrow> path \<Rightarrow> unit io" where
  "writeMetadataFile doc p = wrap_io (ErrMsg (Msg ''write'')) (call (atomicWriteFile p (Json Indented doc) filePerm))"

definition writeMetadataUnlocked :: "json \<Rightarrow> path \<Rightarrow> unit io" where
  "writeMetadataUnlocked doc p = (\<lambda>fs.
     if existsFilePath fs p then wrap_io (ErrMsg (Msg ''failed to write metadata file'')) (writeMetadataFile doc p) fs
     else bind_io (wrap_io (ErrMsg (Msg ''mkdir terminal dir'')) (call (MkdirAll (butlast p) metadataDirMode))) (\<lambda>_.
          bind_io (wrap_io (ErrMsg (Msg ''chmod metadata dir'')) (call (Chmod (butlast p) metadataDirMode))) (\<lambda>_.
          wrap_io (ErrMsg (Msg ''failed to write metadata file'')) (writeMetadataFile doc p))) fs)"

definition WriteMetadata :: "json \<Rightarrow> path \<Rightarrow> unit io" where
  "WriteMetadata doc p = WithExclusiveLock p (writeMetadataUnlocked doc p)"

text \<open>\<^verbatim>\<open>bytes.Equal\<close>, for which nil is the empty slice.\<close>

definition bytes_Equal :: "content option \<Rightarrow> content option \<Rightarrow> bool" where
  "bytes_Equal a b \<longleftrightarrow> (case a of None \<Rightarrow> Raw '''' | Some c \<Rightarrow> c) = (case b of None \<Rightarrow> Raw '''' | Some c \<Rightarrow> c)"

definition WriteMetadataCAS :: "content option \<Rightarrow> json \<Rightarrow> path \<Rightarrow> unit io" where
  "WriteMetadataCAS prior doc p = WithExclusiveLock p
     (bind_io (query (\<lambda>fs. if existsFilePath fs p then rbind (map_err (errorfw ''read %s for cas'' []) (ReadFile fs p)) (\<lambda>d. Inr (Some d)) else Inr None)) (\<lambda>current.
      if \<not> bytes_Equal prior current then fail (errorfw ''cas check failed for %s'' [] ErrStaleResource)
      else writeMetadataUnlocked doc p))"

definition remove_quietly :: "path \<Rightarrow> fsys \<Rightarrow> fsys" where
  "remove_quietly p fs = (case Remove p fs of Inl _ \<Rightarrow> fs | Inr fs' \<Rightarrow> fs')"

definition DeleteMetadata :: "path \<Rightarrow> unit io" where
  "DeleteMetadata p = (\<lambda>fs. if \<not> existsFilePath fs p then (fs, Inr ())
     else WithExclusiveLock p (\<lambda>fs. case Remove p fs of
       Inl e \<Rightarrow> if errors_Is e ErrNotExist then (remove_quietly (butlast p) (remove_quietly (LockFilePath p) fs), Inr ())
                else (fs, Inl (errorfw ''failed to delete metadata file %s'' [] e))
     | Inr fs' \<Rightarrow> (remove_quietly (butlast p) (remove_quietly (LockFilePath p) fs'), Inr ())) fs)"

section \<open>Generations\<close>

definition unmarshal :: "(json \<Rightarrow> 'd result) \<Rightarrow> content \<Rightarrow> 'd result" where
  "unmarshal dec c = (case c of Json _ j \<Rightarrow> dec j | Raw _ \<Rightarrow> Inl ErrDecode)"

definition firstGeneration :: int where "firstGeneration = 1"

text \<open>
  What the writer decides after it has read the document: the write it will attempt, with the bytes
  that must still be there.
\<close>

definition next_doc ::
  "(json \<Rightarrow> 'd result) \<Rightarrow> ('d \<Rightarrow> int) \<Rightarrow> ('d \<Rightarrow> int \<Rightarrow> 'd) \<Rightarrow> ('d \<Rightarrow> json) \<Rightarrow> 'd \<Rightarrow> content \<Rightarrow> 'd result" where
  "next_doc dec getGeneration setGeneration specOf doc prior =
     rbind (map_err (errorfw ''decode prior metadata %s'' []) (unmarshal dec prior)) (\<lambda>priorDoc.
       let onDiskGeneration = getGeneration priorDoc; incoming = getGeneration doc in
       if incoming > 0 \<and> onDiskGeneration > incoming
       then Inl (errorfw ''write %s: caller observed generation %d, on-disk is %d'' [DInt incoming, DInt onDiskGeneration] ErrStaleResource)
       else Inr (setGeneration doc
         (if specOf priorDoc = specOf doc then onDiskGeneration else wrap64 (onDiskGeneration + 1))))"

definition write_begin ::
  "(json \<Rightarrow> 'd result) \<Rightarrow> ('d \<Rightarrow> int) \<Rightarrow> ('d \<Rightarrow> int \<Rightarrow> 'd) \<Rightarrow> ('d \<Rightarrow> json) \<Rightarrow> path \<Rightarrow> 'd \<Rightarrow> (content option \<times> 'd) io" where
  "write_begin dec getGeneration setGeneration specOf p doc = (\<lambda>fs. case ReadRaw p fs of
     (fs', Inl e) \<Rightarrow> if errors_Is e ErrMissingMetadataFile then (fs', Inr (None, setGeneration doc firstGeneration)) else (fs', Inl e)
   | (fs', Inr prior) \<Rightarrow> (fs', rbind (next_doc dec getGeneration setGeneration specOf doc prior) (\<lambda>d. Inr (Some prior, d))))"

definition writeDocWithGeneration ::
  "('d \<Rightarrow> json) \<Rightarrow> (json \<Rightarrow> 'd result) \<Rightarrow> ('d \<Rightarrow> int) \<Rightarrow> ('d \<Rightarrow> int \<Rightarrow> 'd) \<Rightarrow> ('d \<Rightarrow> json) \<Rightarrow> path \<Rightarrow> 'd \<Rightarrow> unit io" where
  "writeDocWithGeneration enc dec getGeneration setGeneration specOf p doc =
     bind_io (write_begin dec getGeneration setGeneration specOf p doc) (\<lambda>(prior, d). WriteMetadataCAS prior (enc d) p)"

section \<open>Lifecycle stamps\<close>

definition stampRealmLifecycle :: "Realm \<Rightarrow> gotime \<Rightarrow> Realm" where
  "stampRealmLifecycle r now = (let t = re_Status r;
     t = (if IsZero (reT_CreatedAt t) then t\<lparr>reT_CreatedAt := now\<rparr> else t);
     t = t\<lparr>reT_UpdatedAt := now\<rparr>;
     t = (if IsZero (reT_ReadyAt t) \<and> reT_State t = RealmStateReady then t\<lparr>reT_ReadyAt := now\<rparr> else t) in
     r\<lparr>re_Status := t\<rparr>)"

definition stampSpaceLifecycle :: "Space \<Rightarrow> gotime \<Rightarrow> Space" where
  "stampSpaceLifecycle s now = (let t = sp_Status s;
     t = (if IsZero (spT_CreatedAt t) then t\<lparr>spT_CreatedAt := now\<rparr> else t);
     t = t\<lparr>spT_UpdatedAt := now\<rparr>;
     t = (if IsZero (spT_ReadyAt t) \<and> spT_State t = SpaceStateReady then t\<lparr>spT_ReadyAt := now\<rparr> else t) in
     s\<lparr>sp_Status := t\<rparr>)"

definition stampStackLifecycle :: "Stack \<Rightarrow> gotime \<Rightarrow> Stack" where
  "stampStackLifecycle s now = (let t = sk_Status s;
     t = (if IsZero (skT_CreatedAt t) then t\<lparr>skT_CreatedAt := now\<rparr> else t);
     t = t\<lparr>skT_UpdatedAt := now\<rparr>;
     t = (if IsZero (skT_ReadyAt t) \<and> skT_State t = StackStateReady then t\<lparr>skT_ReadyAt := now\<rparr> else t) in
     s\<lparr>sk_Status := t\<rparr>)"

definition stampCellLifecycle :: "Cell \<Rightarrow> gotime \<Rightarrow> Cell" where
  "stampCellLifecycle c now = (let t = ce_Status c;
     t = (if IsZero (ceT_CreatedAt t) then t\<lparr>ceT_CreatedAt := now\<rparr> else t);
     t = t\<lparr>ceT_UpdatedAt := now\<rparr>;
     t = (if IsZero (ceT_ReadyAt t) \<and> ceT_State t = CellStateReady then t\<lparr>ceT_ReadyAt := now\<rparr> else t) in
     c\<lparr>ce_Status := t\<rparr>)"

section \<open>Update and read\<close>

definition realm_gen :: "RealmDoc \<Rightarrow> int" where "realm_gen d = reM_Generation (rd_Metadata d)"
definition realm_set_gen :: "RealmDoc \<Rightarrow> int \<Rightarrow> RealmDoc" where
  "realm_set_gen d g = d\<lparr>rd_Metadata := (rd_Metadata d)\<lparr>reM_Generation := g\<rparr>\<rparr>"
definition space_gen :: "SpaceDoc \<Rightarrow> int" where "space_gen d = spM_Generation (spd_Metadata d)"
definition space_set_gen :: "SpaceDoc \<Rightarrow> int \<Rightarrow> SpaceDoc" where
  "space_set_gen d g = d\<lparr>spd_Metadata := (spd_Metadata d)\<lparr>spM_Generation := g\<rparr>\<rparr>"
definition stack_gen :: "StackDoc \<Rightarrow> int" where "stack_gen d = skM_Generation (skd_Metadata d)"
definition stack_set_gen :: "StackDoc \<Rightarrow> int \<Rightarrow> StackDoc" where
  "stack_set_gen d g = d\<lparr>skd_Metadata := (skd_Metadata d)\<lparr>skM_Generation := g\<rparr>\<rparr>"
definition cell_gen :: "CellDoc \<Rightarrow> int" where "cell_gen d = ceM_Generation (ced_Metadata d)"
definition cell_set_gen :: "CellDoc \<Rightarrow> int \<Rightarrow> CellDoc" where
  "cell_set_gen d g = d\<lparr>ced_Metadata := (ced_Metadata d)\<lparr>ceM_Generation := g\<rparr>\<rparr>"

definition with_doc :: "'d result \<Rightarrow> ('d \<Rightarrow> unit io) \<Rightarrow> unit io" where
  "with_doc r f = (case r of Inl e \<Rightarrow> fail (Wrapped ErrConversionFailed e) | Inr d \<Rightarrow> wrap_io ErrWriteMetadata (f d))"

definition UpdateRealmMetadata :: "path \<Rightarrow> gotime \<Rightarrow> Realm \<Rightarrow> unit io" where
  "UpdateRealmMetadata base now realm =
     with_doc (BuildRealmExternalFromInternal (stampRealmLifecycle realm now) APIVersionV1Beta1) (\<lambda>d.
       writeDocWithGeneration enc_realmDoc dec_realmDoc realm_gen realm_set_gen (\<lambda>d. enc_realmSpec (rd_Spec d))
         (RealmMetadataPath base (reM_Name (rd_Metadata d))) d)"

definition UpdateSpaceMetadata :: "path \<Rightarrow> gotime \<Rightarrow> Space \<Rightarrow> unit io" where
  "UpdateSpaceMetadata base now space =
     with_doc (BuildSpaceExternalFromInternal (stampSpaceLifecycle space now) APIVersionV1Beta1) (\<lambda>d.
       writeDocWithGeneration enc_spaceDoc dec_spaceDoc space_gen space_set_gen (\<lambda>d. enc_spaceSpec (spd_Spec d))
         (SpaceMetadataPath base (xspS_RealmID (spd_Spec d)) (spM_Name (spd_Metadata d))) d)"

definition UpdateStackMetadata :: "path \<Rightarrow> gotime \<Rightarrow> Stack \<Rightarrow> unit io" where
  "UpdateStackMetadata base now stack =
     with_doc (BuildStackExternalFromInternal (stampStackLifecycle stack now) APIVersionV1Beta1) (\<lambda>d.
       writeDocWithGeneration enc_stackDoc dec_stackDoc stack_gen stack_set_gen (\<lambda>d. enc_stackSpec (skd_Spec d))
         (StackMetadataPath base (xskS_RealmID (skd_Spec d)) (xskS_SpaceID (skd_Spec d)) (skM_Name (skd_Metadata d))) d)"

definition UpdateCellMetadata :: "(nat \<Rightarrow> nat \<Rightarrow> nat) \<Rightarrow> path \<Rightarrow> gotime \<Rightarrow> Cell \<Rightarrow> unit io" where
  "UpdateCellMetadata al base now cell =
     with_doc (BuildCellExternalFromInternal al (stampCellLifecycle cell now) APIVersionV1Beta1) (\<lambda>d.
       writeDocWithGeneration enc_cellDoc (dec_cellDoc al) cell_gen cell_set_gen (\<lambda>d. enc_cellSpec (ced_Spec d))
         (CellMetadataPath base (xceS_RealmID (ced_Spec d)) (xceS_SpaceID (ced_Spec d)) (xceS_StackID (ced_Spec d))
           (ceM_Name (ced_Metadata d))) d)"

definition DetectMetadataVersion :: "content \<Rightarrow> string result" where
  "DetectMetadataVersion raw =
     rbind (map_err (errorfw ''metadata header'' []) (unmarshal (dec_obj (\<lambda>kvs.
       rbind (get_field kvs ''apiVersion'' dec_str '''') (\<lambda>v.
       rbind (get_field kvs ''kind'' dec_str '''') (\<lambda>_. Inr v))) '''') raw)) (\<lambda>v. Inr (DefaultVersion v))"

definition wrapConversionErr :: "goerror \<Rightarrow> goerror" where
  "wrapConversionErr e = Wrapped ErrConversionFailed e"

definition read_internal :: "(json \<Rightarrow> 'd result) \<Rightarrow> ('d \<Rightarrow> 'a result) \<Rightarrow> path \<Rightarrow> 'a io" where
  "read_internal dec conv p = bind_io (ReadRaw p) (\<lambda>raw. query (\<lambda>_.
     map_err wrapConversionErr (rbind (DetectMetadataVersion raw) (\<lambda>version.
       if version = APIVersionV1Beta1 then rbind (unmarshal dec raw) conv
       else Inl (errorf ''unsupported apiVersion %q'' [QStr version])))))"

definition readRealmInternal :: "path \<Rightarrow> Realm io" where
  "readRealmInternal = read_internal dec_realmDoc ConvertRealmDocToInternal"

definition readSpaceInternal :: "path \<Rightarrow> Space io" where
  "readSpaceInternal = read_internal dec_spaceDoc ConvertSpaceDocToInternal"

definition readStackInternal :: "path \<Rightarrow> Stack io" where
  "readStackInternal = read_internal dec_stackDoc ConvertStackDocToInternal"

definition readCellInternal :: "(nat \<Rightarrow> nat \<Rightarrow> nat) \<Rightarrow> path \<Rightarrow> Cell io" where
  "readCellInternal al = read_internal (dec_cellDoc al) (ConvertCellDocToInternal al)"

definition refreshCellGeneration :: "(nat \<Rightarrow> nat \<Rightarrow> nat) \<Rightarrow> path \<Rightarrow> Cell \<Rightarrow> fsys \<Rightarrow> fsys \<times> Cell" where
  "refreshCellGeneration al base cell fs =
     (case readCellInternal al (CellMetadataPath base (ceS_RealmName (ce_Spec cell)) (ceS_SpaceName (ce_Spec cell))
         (ceS_StackName (ce_Spec cell)) (ceM_Name (ce_Metadata cell))) fs of
        (fs', Inr onDisk) \<Rightarrow> (fs', cell\<lparr>ce_Metadata := (ce_Metadata cell)\<lparr>ceM_Generation := ceM_Generation (ce_Metadata onDisk)\<rparr>\<rparr>)
      | (fs', Inl _) \<Rightarrow> (fs', cell))"

section \<open>What the file operations touch\<close>

text \<open>An operation that touches the paths in \<^term>\<open>P\<close> only, whether it succeeds or fails.\<close>

definition stays :: "path set \<Rightarrow> 'a io \<Rightarrow> bool" where
  "stays P m \<longleftrightarrow> (\<forall>fs. fs_wf fs \<longrightarrow> touches P fs (fst (m fs)))"

lemma staysD: "stays P m \<Longrightarrow> m fs = (fs', r) \<Longrightarrow> fs_wf fs \<Longrightarrow> touches P fs fs'"
  unfolding stays_def by (metis fst_conv)

lemma stays_ret [simp]: "stays P (ret x)" "stays P (fail e)" "stays P (query f)"
  by (simp_all add: stays_def ret_def fail_def query_def touches_refl)

lemma stays_bind: "stays P m \<Longrightarrow> (\<And>x. stays P (f x)) \<Longrightarrow> stays P (bind_io m f)"
  unfolding stays_def
proof (intro allI impI)
  fix fs
  assume m: "\<forall>fs. fs_wf fs \<longrightarrow> touches P fs (fst (m fs))" and f: "\<And>x. \<forall>fs. fs_wf fs \<longrightarrow> touches P fs (fst (f x fs))" and wf: "fs_wf fs"
  obtain fs1 r where r: "m fs = (fs1, r)" by (cases "m fs")
  then have t: "touches P fs fs1" using m wf by (metis fst_conv)
  then show "touches P fs (fst (bind_io m f fs))"
    using r f touches_wf[OF t] touches_trans[OF t] by (cases r) (simp_all add: bind_io_def)
qed

lemma stays_wrap [simp]: "stays P m \<Longrightarrow> stays P (wrap_io e m)"
proof -
  have "fst (wrap_io e m fs) = fst (m fs)" for fs
    by (cases "m fs"; cases "snd (m fs)") (simp_all add: wrap_io_def)
  then show "stays P m \<Longrightarrow> stays P (wrap_io e m)" by (simp add: stays_def)
qed

lemma stays_call: "(\<And>fs fs'. f fs = Inr fs' \<Longrightarrow> fs_wf fs \<Longrightarrow> touches P fs fs') \<Longrightarrow> stays P (call f)"
  by (auto simp: stays_def call_def touches_refl split: sum.splits)

lemma stays_mono: "stays P m \<Longrightarrow> P \<subseteq> Q \<Longrightarrow> stays Q m"
  unfolding stays_def using touches_mono by blast

lemma stays_if: "stays P m \<Longrightarrow> stays P n \<Longrightarrow> stays P (\<lambda>fs. if c fs then m fs else n fs)"
  by (simp add: stays_def)

lemma lock_path: "LockFilePath (d @ [n]) = d @ [n @ ''.lock'']"
  by (simp add: LockFilePath_def LockFileSuffix_def)

lemma OpenFile_touches:
  assumes "OpenFile (d @ [n]) create perm fs = Inr fs'" "fs_wf fs" "d @ [n] \<in> P"
  shows "touches P fs fs'"
proof (cases "Stat fs (d @ [n])")
  case (Inr x)
  then show ?thesis using assms by (auto simp: OpenFile_def touches_refl split: if_splits)
next
  case (Inl e)
  from assms(1) Inl obtain x where x: "Stat fs d = Inr x" "IsDir x"
    and fs': "fs' = put (d @ [n]) (File (new_attr fs (d @ [n]) (and perm (not (fs_umask fs)))) (Raw '''')) fs"
    by (auto simp: OpenFile_def rbind_eq_Inr split: if_splits)
  obtain b where d: "entry fs d = Some (Dir b)" using x Stat_Inr[OF assms(2)] by (cases x) auto
  have none: "entry fs (d @ [n]) = None" using Inl Stat_Inr[OF assms(2), of "d @ [n]"] by (cases "entry fs (d @ [n])") auto
  have "fs_wf fs'" unfolding fs' by (rule fs_wf_put[OF assms(2) d]) (simp add: none)
  then show ?thesis using assms(3) none fs' by (auto simp: touches_def file_at_def dir_at_def)
qed

lemma stays_acquire: "stays {LockFilePath (d @ [n])} (acquireFlock (d @ [n]) exclusive)"
proof -
  have mk: "stays {LockFilePath (d @ [n])} (call (MkdirAll d metadataDirMode))"
    by (rule stays_call) (use MkdirAll_touches in \<open>fastforce simp: lock_path\<close>)
  have op: "touches {LockFilePath (d @ [n])} fs fs'" if "OpenFile (LockFilePath (d @ [n])) c perm fs = Inr fs'" "fs_wf fs" for c perm fs fs'
    using OpenFile_touches[OF that[unfolded lock_path]] by (simp add: lock_path)
  show ?thesis
    unfolding acquireFlock_def
  proof (rule stays_bind)
    show "stays {LockFilePath (d @ [n])} (if exclusive then wrap_io (ErrMsg (Msg ''mkdir lock parent''))
        (call (MkdirAll (butlast (d @ [n])) metadataDirMode)) else ret ())" by (simp add: mk)
  qed (auto simp: stays_def touches_refl op split: sum.splits)
qed

lemma stays_locked:
  assumes "stays P fn" "LockFilePath (d @ [n]) \<in> P"
  shows "stays P (WithExclusiveLock (d @ [n]) fn)" "stays P (WithSharedLock (d @ [n]) fn)"
  unfolding WithExclusiveLock_def WithSharedLock_def
  using assms stays_mono[OF stays_acquire, of d n P] by (auto intro!: stays_bind)

lemma stays_write: "stays {d @ [n]} (writeMetadataUnlocked j (d @ [n]))"
proof -
  have w: "stays {d @ [n]} (writeMetadataFile j (d @ [n]))"
    unfolding writeMetadataFile_def
    by (intro stays_wrap stays_call) (use replace_file_touches in \<open>fastforce simp: atomicWriteFile_def\<close>)
  have mk: "stays {d @ [n]} (call (MkdirAll d metadataDirMode))"
    by (rule stays_call) (use MkdirAll_touches in fastforce)
  have ch: "stays {d @ [n]} (call (Chmod d metadataDirMode))" by (rule stays_call) (rule Chmod_touches)
  show ?thesis
    unfolding writeMetadataUnlocked_def by (intro stays_if stays_wrap w stays_bind) (simp_all add: w mk ch)
qed

lemma stays_ReadRaw: "stays {LockFilePath (d @ [n])} (ReadRaw (d @ [n]))"
proof -
  have "stays {LockFilePath (d @ [n])} (WithSharedLock (d @ [n]) (query (ReadRawNoLock (d @ [n]))))"
    by (rule stays_locked) simp_all
  then show ?thesis by (simp add: ReadRaw_def stays_def touches_refl)
qed

lemma stays_CAS: "stays {LockFilePath (d @ [n]), d @ [n]} (WriteMetadataCAS prior j (d @ [n]))"
  unfolding WriteMetadataCAS_def
  by (intro stays_locked stays_bind) (auto intro: stays_mono[OF stays_write])

lemma exists_file: "fs_wf fs \<Longrightarrow> \<not> existsFilePath fs p \<Longrightarrow> entry fs p = None"
proof (cases "entry fs p")
  case (Some n)
  then show "fs_wf fs \<Longrightarrow> \<not> existsFilePath fs p \<Longrightarrow> entry fs p = None"
    using Stat_Inr[of fs p n] by (simp add: existsFilePath_def)
qed simp

lemma ReadFile_at: "fs_wf fs \<Longrightarrow> ReadFile fs p = Inr c \<longleftrightarrow> file_at fs p = Some c"
  using ReadFile_Inr file_at_Some by blast

lemma Stat_error: "Stat fs p = Inl e \<Longrightarrow> e = ErrNotExist \<or> e = ErrNotDir"
  by (auto simp: Stat_def split: if_splits option.splits)

lemma ReadFile_error: "ReadFile fs p = Inl e \<Longrightarrow> e = ErrNotExist \<or> e = ErrNotDir \<or> e = ErrIsDir"
  using Stat_error[of fs p] by (cases "Stat fs p") (auto simp: ReadFile_def split: node.splits)

lemma OpenFile_error: "OpenFile p c perm fs = Inl e \<Longrightarrow> e = ErrNotExist \<or> e = ErrNotDir \<or> e = ErrIsDir"
proof (cases "Stat fs p")
  case (Inl e')
  then show "OpenFile p c perm fs = Inl e \<Longrightarrow> ?thesis"
    using Stat_error[of fs p e'] Stat_error[of fs "butlast p"]
    by (cases "Stat fs (butlast p)") (auto simp: OpenFile_def split: if_splits)
qed (auto simp: OpenFile_def split: if_splits)

lemma acquire_missing:
  assumes "acquireFlock (d @ [n]) False fs = (fs', Inl e)" "errors_Is e ErrMissingMetadataFile"
  shows "\<not> existsFilePath fs (d @ [n])"
proof (rule ccontr)
  assume "\<not> \<not> existsFilePath fs (d @ [n])"
  then show False
    using assms by (auto simp: acquireFlock_def bind_io_def ret_def errorfw_def split: sum.splits if_splits dest: OpenFile_error)
qed

lemma ReadRaw_found:
  assumes "ReadRaw (d @ [n]) fs = (fs', Inr c)" "fs_wf fs"
  shows "file_at fs (d @ [n]) = Some c"
proof -
  from assms(1) obtain fs1 where a: "acquireFlock (d @ [n]) False fs = (fs1, Inr ())" and r: "ReadRawNoLock (d @ [n]) fs1 = Inr c"
    by (auto simp: ReadRaw_def WithSharedLock_def io_Inr split: if_splits)
  have t: "touches {LockFilePath (d @ [n])} fs fs1" using staysD[OF stays_acquire a assms(2)] .
  have "file_at fs1 (d @ [n]) = Some c" using r ReadFile_at[OF touches_wf[OF t]] by (auto simp: ReadRawNoLock_def split: if_splits)
  then show ?thesis using touches_file[OF t, of "d @ [n]"] by (simp add: lock_path)
qed

lemma ReadRaw_missing:
  assumes "ReadRaw (d @ [n]) fs = (fs', Inl e)" "errors_Is e ErrMissingMetadataFile" "fs_wf fs"
  shows "file_at fs (d @ [n]) = None"
proof (cases "existsFilePath fs (d @ [n])")
  case False
  then show ?thesis using exists_file[OF assms(3) False] by (simp add: file_at_def)
next
  case True
  obtain fs1 r where a: "acquireFlock (d @ [n]) False fs = (fs1, r)" by (cases "acquireFlock (d @ [n]) False fs")
  have "r = Inr ()"
  proof (cases r)
    case (Inl e')
    then have "e = Wrapped (ErrMsg (Msg ''acquire shared lock'')) e'"
      using assms(1) True a by (simp add: ReadRaw_def WithSharedLock_def bind_io_def wrap_io_def)
    then show ?thesis using acquire_missing[of d n fs fs1 e'] a Inl True assms(2) by simp
  qed simp
  then have e: "ReadRawNoLock (d @ [n]) fs1 = Inl e"
    using assms(1) True a by (auto simp: ReadRaw_def WithSharedLock_def bind_io_def wrap_io_def query_def)
  have t: "touches {LockFilePath (d @ [n])} fs fs1" using staysD[OF stays_acquire a assms(3)] .
  have "\<not> existsFilePath fs1 (d @ [n])"
  proof
    assume "existsFilePath fs1 (d @ [n])"
    then obtain e' where "ReadFile fs1 (d @ [n]) = Inl e'" "e = errorfw ''read %s'' [] e'"
      using e by (cases "ReadFile fs1 (d @ [n])") (auto simp: ReadRawNoLock_def)
    then show False using ReadFile_error[of fs1 "d @ [n]" e'] assms(2) by (auto simp: errorfw_def)
  qed
  then have "file_at fs1 (d @ [n]) = None" using exists_file[OF touches_wf[OF t]] by (simp add: file_at_def)
  then show ?thesis using touches_file[OF t, of "d @ [n]"] by (simp add: lock_path)
qed

lemma write_ok:
  assumes "writeMetadataUnlocked j (d @ [n]) fs = (fs', Inr u)" "fs_wf fs"
  shows "file_at fs' (d @ [n]) = Some (Json Indented j)"
proof -
  have last: "file_at fs' (d @ [n]) = Some (Json Indented j)"
    if "writeMetadataFile j (d @ [n]) fs1 = (fs', Inr u)" "fs_wf fs1" for fs1
    using that replace_file_touches[of d n _ _ fs1 fs' "{d @ [n]}"] by (auto simp: writeMetadataFile_def io_Inr atomicWriteFile_def)
  show ?thesis
  proof (cases "existsFilePath fs (d @ [n])")
    case True
    then show ?thesis using assms last by (simp add: writeMetadataUnlocked_def)
  next
    case False
    then obtain fs1 fs2 where s: "MkdirAll d metadataDirMode fs = Inr fs1" "Chmod d metadataDirMode fs1 = Inr fs2"
      "writeMetadataFile j (d @ [n]) fs2 = (fs', Inr u)"
      using assms(1) by (auto simp: writeMetadataUnlocked_def io_Inr)
    have "fs_wf fs1" using MkdirAll_touches[OF s(1) assms(2), of "d @ [n]" "{d @ [n]}"] touches_wf by auto
    then have "fs_wf fs2" using Chmod_touches[OF s(2)] touches_wf by blast
    then show ?thesis using last s(3) by blast
  qed
qed

lemma write_fails:
  assumes "writeMetadataUnlocked j (d @ [n]) fs = (fs', Inl e)" "fs_wf fs"
  shows "file_at fs' q = file_at fs q"
proof -
  have last: "fs' = fs1" if "wrap_io x (writeMetadataFile j (d @ [n])) fs1 = (fs', Inl e)" for fs1 x
    using that by (auto simp: writeMetadataFile_def wrap_io_def call_def split: sum.splits)
  show ?thesis
  proof (cases "existsFilePath fs (d @ [n])")
    case True
    then have "fs' = fs" by (intro last) (use assms(1) in \<open>simp add: writeMetadataUnlocked_def\<close>)
    then show ?thesis by simp
  next
    case False
    show ?thesis
    proof (cases "MkdirAll d metadataDirMode fs")
      case (Inl x)
      then show ?thesis using assms(1) False by (simp add: writeMetadataUnlocked_def bind_io_def wrap_io_def call_def)
    next
      case (Inr fs1)
      note mk = MkdirAll_touches[OF Inr assms(2), of "d @ [n]" "{d @ [n]}"]
      show ?thesis
      proof (cases "Chmod d metadataDirMode fs1")
        case (Inl x)
        then show ?thesis using assms(1) False Inr mk by (simp add: writeMetadataUnlocked_def bind_io_def wrap_io_def call_def)
      next
        case (Inr fs2)
        have "fs' = fs2" by (rule last[where x = "ErrMsg (Msg ''failed to write metadata file'')"])
          (use assms(1) False Inr \<open>MkdirAll d metadataDirMode fs = Inr fs1\<close> in \<open>auto simp: writeMetadataUnlocked_def bind_io_def wrap_io_def call_def split: prod.splits sum.splits\<close>)
        then show ?thesis using mk Chmod_touches[OF Inr, of "{}"] touches_wf touches_file[of "{}" fs1 fs2] by auto
      qed
    qed
  qed
qed

text \<open>
  The write that compares: it succeeds only if the document still has the expected bytes, and then
  the document is the new one; if it fails the document is as it was.
\<close>

lemma CAS_cases:
  assumes "WriteMetadataCAS prior j (d @ [n]) fs = (fs', r)" "fs_wf fs"
  shows "case r of Inr _ \<Rightarrow> bytes_Equal prior (file_at fs (d @ [n])) \<and> file_at fs' (d @ [n]) = Some (Json Indented j)
    | Inl _ \<Rightarrow> file_at fs' (d @ [n]) = file_at fs (d @ [n])"
proof -
  let ?p = "d @ [n]"
  obtain fs1 ra where a: "acquireFlock ?p True fs = (fs1, ra)" by (cases "acquireFlock ?p True fs")
  have t: "touches {LockFilePath ?p} fs fs1" using staysD[OF stays_acquire a assms(2)] .
  have same: "file_at fs1 ?p = file_at fs ?p" using touches_file[OF t, of ?p] by (simp add: lock_path)
  show ?thesis
  proof (cases ra)
    case (Inl e)
    then show ?thesis using assms(1) a same by (auto simp: WriteMetadataCAS_def WithExclusiveLock_def bind_io_def wrap_io_def)
  next
    case (Inr u)
    let ?cur = "if existsFilePath fs1 ?p then rbind (map_err (errorfw ''read %s for cas'' []) (ReadFile fs1 ?p)) (\<lambda>d. Inr (Some d)) else Inr None"
    have run: "(fs', r) = (case ?cur of Inl e \<Rightarrow> (fs1, Inl e) | Inr current \<Rightarrow>
        (if \<not> bytes_Equal prior current then fail (errorfw ''cas check failed for %s'' [] ErrStaleResource) else writeMetadataUnlocked j ?p) fs1)"
      using assms(1) a Inr by (simp add: WriteMetadataCAS_def WithExclusiveLock_def bind_io_def wrap_io_def query_def)
    show ?thesis
    proof (cases ?cur)
      case (Inl e)
      then show ?thesis using run same by simp
    next
      case (Inr current)
      have cur: "current = file_at fs ?p"
        using Inr ReadFile_at[OF touches_wf[OF t], of ?p] exists_file[OF touches_wf[OF t], of ?p] same
        by (auto simp: rbind_eq_Inr file_at_def split: if_splits)
      show ?thesis
      proof (cases "bytes_Equal prior current")
        case False
        then show ?thesis using run Inr same by (simp add: fail_def)
      next
        case True
        then have w: "writeMetadataUnlocked j ?p fs1 = (fs', r)" using run Inr by simp
        show ?thesis
        proof (cases r)
          case (Inl e)
          then show ?thesis using write_fails[OF w[unfolded Inl] touches_wf[OF t], of ?p] same by simp
        next
          case (Inr v)
          then show ?thesis using write_ok[OF w[unfolded Inr] touches_wf[OF t]] True cur by simp
        qed
      qed
    qed
  qed
qed

section \<open>Documents with a generation\<close>

text \<open>The write as one step on the stored bytes.\<close>

definition atomic_write ::
  "('d \<Rightarrow> json) \<Rightarrow> (json \<Rightarrow> 'd result) \<Rightarrow> ('d \<Rightarrow> int) \<Rightarrow> ('d \<Rightarrow> int \<Rightarrow> 'd) \<Rightarrow> ('d \<Rightarrow> json) \<Rightarrow> 'd \<Rightarrow> content option \<Rightarrow> content result" where
  "atomic_write enc dec gen set_gen spec doc prior = (case prior of
     None \<Rightarrow> Inr (Json Indented (enc (set_gen doc firstGeneration)))
   | Some c \<Rightarrow> rbind (next_doc dec gen set_gen spec doc c) (\<lambda>d. Inr (Json Indented (enc d))))"

lemma begin_value:
  assumes "write_begin dec gen set_gen spec (p @ [n]) doc fs = (fs', Inr (prior, d))" "fs_wf fs"
  shows "prior = file_at fs (p @ [n]) \<and> atomic_write enc dec gen set_gen spec doc prior = Inr (Json Indented (enc d))"
proof -
  obtain fs1 r where rr: "ReadRaw (p @ [n]) fs = (fs1, r)" by (cases "ReadRaw (p @ [n]) fs")
  show ?thesis
  proof (cases r)
    case (Inl e)
    then show ?thesis using assms ReadRaw_missing[OF rr[unfolded Inl]] rr
      by (auto simp: write_begin_def atomic_write_def split: if_splits)
  next
    case (Inr c)
    have f: "file_at fs (p @ [n]) = Some c" using ReadRaw_found[OF rr[unfolded Inr] assms(2)] .
    have "prior = Some c" "next_doc dec gen set_gen spec doc c = Inr d"
      using assms(1) by (auto simp: write_begin_def rr Inr rbind_eq_Inr)
    then show ?thesis by (simp add: f atomic_write_def)
  qed
qed

section \<open>Writers that interleave\<close>

text \<open>
  Any number of writers of one document, in the daemon or beside it. A writer reads and decides
  (\<open>Begin\<close>), and later compares and writes (\<open>Commit\<close>); between the two, others may do the same, the
  document may be deleted, and anything may happen to other paths. The state is the file system, the
  writes that are under way with the document each was called with, and the changes that succeeded,
  latest first.
\<close>

datatype 'd change = Wrote 'd | Deleted

record 'd writers =
  wr_fs :: fsys
  wr_pending :: "nat \<Rightarrow> ('d \<times> content option \<times> 'd) option"
  wr_done :: "'d change list"

inductive wstep ::
  "('d \<Rightarrow> json) \<Rightarrow> (json \<Rightarrow> 'd result) \<Rightarrow> ('d \<Rightarrow> int) \<Rightarrow> ('d \<Rightarrow> int \<Rightarrow> 'd) \<Rightarrow> ('d \<Rightarrow> json) \<Rightarrow> path \<Rightarrow> 'd writers \<Rightarrow> 'd writers \<Rightarrow> bool"
  for enc dec gen set_gen spec p where
  Begin: "write_begin dec gen set_gen spec p doc (wr_fs w) = (fs', Inr (prior, d)) \<Longrightarrow>
    wstep enc dec gen set_gen spec p w (w\<lparr>wr_fs := fs', wr_pending := (wr_pending w)(i := Some (doc, prior, d))\<rparr>)"
| BeginFails: "write_begin dec gen set_gen spec p doc (wr_fs w) = (fs', Inl e) \<Longrightarrow>
    wstep enc dec gen set_gen spec p w (w\<lparr>wr_fs := fs'\<rparr>)"
| Commit: "wr_pending w i = Some (doc, prior, d) \<Longrightarrow> WriteMetadataCAS prior (enc d) p (wr_fs w) = (fs', Inr u) \<Longrightarrow>
    wstep enc dec gen set_gen spec p w
      (w\<lparr>wr_fs := fs', wr_pending := (wr_pending w)(i := None), wr_done := Wrote doc # wr_done w\<rparr>)"
| CommitFails: "wr_pending w i = Some (doc, prior, d) \<Longrightarrow> WriteMetadataCAS prior (enc d) p (wr_fs w) = (fs', Inl e) \<Longrightarrow>
    wstep enc dec gen set_gen spec p w (w\<lparr>wr_fs := fs', wr_pending := (wr_pending w)(i := None)\<rparr>)"
| Delete: "DeleteMetadata p (wr_fs w) = (fs', Inr u) \<Longrightarrow>
    wstep enc dec gen set_gen spec p w (w\<lparr>wr_fs := fs', wr_done := Deleted # wr_done w\<rparr>)"
| DeleteFails: "DeleteMetadata p (wr_fs w) = (fs', Inl e) \<Longrightarrow> wstep enc dec gen set_gen spec p w (w\<lparr>wr_fs := fs'\<rparr>)"
| Elsewhere: "touches P (wr_fs w) fs' \<Longrightarrow> p \<notin> P \<Longrightarrow> wstep enc dec gen set_gen spec p w (w\<lparr>wr_fs := fs'\<rparr>)"

text \<open>The same writes, one after the other and each in one step.\<close>

fun atomic_change ::
  "('d \<Rightarrow> json) \<Rightarrow> (json \<Rightarrow> 'd result) \<Rightarrow> ('d \<Rightarrow> int) \<Rightarrow> ('d \<Rightarrow> int \<Rightarrow> 'd) \<Rightarrow> ('d \<Rightarrow> json) \<Rightarrow> 'd change \<Rightarrow> content option \<Rightarrow> content option result" where
  "atomic_change enc dec gen set_gen spec (Wrote doc) c = rbind (atomic_write enc dec gen set_gen spec doc c) (\<lambda>c. Inr (Some c))"
| "atomic_change enc dec gen set_gen spec Deleted c = Inr None"

fun atomic_run ::
  "('d \<Rightarrow> json) \<Rightarrow> (json \<Rightarrow> 'd result) \<Rightarrow> ('d \<Rightarrow> int) \<Rightarrow> ('d \<Rightarrow> int \<Rightarrow> 'd) \<Rightarrow> ('d \<Rightarrow> json) \<Rightarrow> 'd change list \<Rightarrow> content option \<Rightarrow> content option result" where
  "atomic_run enc dec gen set_gen spec [] c = Inr c"
| "atomic_run enc dec gen set_gen spec (ch # chs) c =
     rbind (atomic_run enc dec gen set_gen spec chs c) (atomic_change enc dec gen set_gen spec ch)"

definition writers_inv ::
  "('d \<Rightarrow> json) \<Rightarrow> (json \<Rightarrow> 'd result) \<Rightarrow> ('d \<Rightarrow> int) \<Rightarrow> ('d \<Rightarrow> int \<Rightarrow> 'd) \<Rightarrow> ('d \<Rightarrow> json) \<Rightarrow> path \<Rightarrow> content option \<Rightarrow> 'd writers \<Rightarrow> bool" where
  "writers_inv enc dec gen set_gen spec p c0 w \<longleftrightarrow> fs_wf (wr_fs w) \<and> file_at (wr_fs w) p \<noteq> Some (Raw '''')
     \<and> atomic_run enc dec gen set_gen spec (wr_done w) c0 = Inr (file_at (wr_fs w) p)
     \<and> (\<forall>i doc prior d. wr_pending w i = Some (doc, prior, d) \<longrightarrow>
          prior \<noteq> Some (Raw '''') \<and> atomic_write enc dec gen set_gen spec doc prior = Inr (Json Indented (enc d)))"

lemma begin_stays: "stays {LockFilePath (d @ [n])} (write_begin dec gen set_gen spec (d @ [n]) doc)"
proof -
  have "fst (write_begin dec gen set_gen spec (d @ [n]) doc fs) = fst (ReadRaw (d @ [n]) fs)" for fs
    by (auto simp: write_begin_def split: prod.splits sum.splits)
  then show ?thesis using stays_ReadRaw[of d n] by (simp add: stays_def)
qed

lemma bytes_Equal_same: "bytes_Equal a b \<Longrightarrow> a \<noteq> Some (Raw '''') \<Longrightarrow> b \<noteq> Some (Raw '''') \<Longrightarrow> a = b"
  by (auto simp: bytes_Equal_def split: option.splits)

lemma quiet_wf: "fs_wf fs \<Longrightarrow> fs_wf (remove_quietly p fs)"
  by (auto simp: remove_quietly_def Remove_def rbind_eq_Inr split: sum.splits if_splits intro: fs_wf_cut)

lemma quiet_None: "file_at fs q = None \<Longrightarrow> file_at (remove_quietly p fs) q = None"
  by (auto simp: remove_quietly_def Remove_def rbind_eq_Inr file_at_def split: sum.splits if_splits)

lemma delete_cases:
  assumes "DeleteMetadata (d @ [n]) fs = (fs', r)" "fs_wf fs"
  shows "fs_wf fs' \<and> (case r of Inr _ \<Rightarrow> file_at fs' (d @ [n]) = None | Inl _ \<Rightarrow> file_at fs' (d @ [n]) = file_at fs (d @ [n]))"
proof (cases "existsFilePath fs (d @ [n])")
  case False
  then show ?thesis using assms exists_file[OF assms(2) False] by (auto simp: DeleteMetadata_def file_at_def)
next
  case True
  let ?p = "d @ [n]"
  obtain fs1 ra where a: "acquireFlock ?p True fs = (fs1, ra)" by (cases "acquireFlock ?p True fs")
  have t: "touches {LockFilePath ?p} fs fs1" using staysD[OF stays_acquire a assms(2)] .
  have wf: "fs_wf fs1" using touches_wf[OF t] .
  have same: "file_at fs1 ?p = file_at fs ?p" using touches_file[OF t, of ?p] by (simp add: lock_path)
  show ?thesis
  proof (cases ra)
    case (Inl e)
    then show ?thesis using assms(1) True a same wf by (auto simp: DeleteMetadata_def WithExclusiveLock_def bind_io_def wrap_io_def)
  next
    case (Inr u)
    have run: "(case Remove ?p fs1 of
       Inl e \<Rightarrow> if errors_Is e ErrNotExist then (remove_quietly (butlast ?p) (remove_quietly (LockFilePath ?p) fs1), Inr ())
                else (fs1, Inl (errorfw ''failed to delete metadata file %s'' [] e))
     | Inr fs' \<Rightarrow> (remove_quietly (butlast ?p) (remove_quietly (LockFilePath ?p) fs'), Inr ())) = (fs', r)"
      using assms(1) True a Inr by (simp add: DeleteMetadata_def WithExclusiveLock_def bind_io_def wrap_io_def)
    have gone: "file_at fs1 ?p = None" if "Remove ?p fs1 = Inl e" "errors_Is e ErrNotExist" for e
      using that Stat_Inr[OF wf, of ?p] by (cases "Stat fs1 ?p") (auto simp: Remove_def file_at_def split: option.splits if_splits)
    have cut: "fs_wf fs2 \<and> file_at fs2 ?p = None" if "Remove ?p fs1 = Inr fs2" for fs2
      using that fs_wf_cut[OF wf] by (auto simp: Remove_def rbind_eq_Inr file_at_def split: if_splits)
    show ?thesis
    proof (cases "Remove ?p fs1")
      case (Inl e)
      then show ?thesis using run gone quiet_wf[OF quiet_wf[OF wf]] quiet_None[OF quiet_None] wf same by (auto split: if_splits)
    next
      case (Inr fs2)
      then show ?thesis using run cut[OF Inr] quiet_wf[OF quiet_wf] quiet_None[OF quiet_None] by auto
    qed
  qed
qed

lemma wstep_inv:
  assumes "wstep enc dec gen set_gen spec (d @ [n]) w w'" "writers_inv enc dec gen set_gen spec (d @ [n]) c0 w"
  shows "writers_inv enc dec gen set_gen spec (d @ [n]) c0 w'"
  using assms(1)
proof (cases rule: wstep.cases)
  case (Begin doc fs' prior x i)
  have wf: "fs_wf (wr_fs w)" using assms(2) by (simp add: writers_inv_def)
  have t: "touches {LockFilePath (d @ [n])} (wr_fs w) fs'" using staysD[OF begin_stays Begin(2) wf] .
  then have "file_at fs' (d @ [n]) = file_at (wr_fs w) (d @ [n])" using touches_file[OF t] by (simp add: lock_path)
  moreover have "prior = file_at (wr_fs w) (d @ [n])" "atomic_write enc dec gen set_gen spec doc prior = Inr (Json Indented (enc x))"
    using begin_value[OF Begin(2) wf] by blast+
  ultimately show ?thesis using assms(2) touches_wf[OF t] unfolding Begin(1) writers_inv_def by auto
next
  case (BeginFails doc fs' e)
  have wf: "fs_wf (wr_fs w)" using assms(2) by (simp add: writers_inv_def)
  have t: "touches {LockFilePath (d @ [n])} (wr_fs w) fs'" using staysD[OF begin_stays BeginFails(2) wf] .
  then show ?thesis using assms(2) touches_wf[OF t] touches_file[OF t, of "d @ [n]"] unfolding BeginFails(1) writers_inv_def by (auto simp: lock_path)
next
  case (Commit i doc prior x fs' u)
  have wf: "fs_wf (wr_fs w)" using assms(2) by (simp add: writers_inv_def)
  have eq: "prior = file_at (wr_fs w) (d @ [n])"
    using CAS_cases[OF Commit(3) wf] bytes_Equal_same assms(2) Commit(2) unfolding writers_inv_def by auto
  have "fs_wf fs'" using staysD[OF stays_CAS Commit(3) wf] touches_wf by blast
  moreover have "file_at fs' (d @ [n]) = Some (Json Indented (enc x))" using CAS_cases[OF Commit(3) wf] by simp
  moreover have "atomic_write enc dec gen set_gen spec doc prior = Inr (Json Indented (enc x))"
    using assms(2) Commit(2) unfolding writers_inv_def by blast
  ultimately show ?thesis using assms(2) eq unfolding Commit(1) writers_inv_def by auto
next
  case (CommitFails i doc prior x fs' e)
  have wf: "fs_wf (wr_fs w)" using assms(2) by (simp add: writers_inv_def)
  have "fs_wf fs'" using staysD[OF stays_CAS CommitFails(3) wf] touches_wf by blast
  then show ?thesis using assms(2) CAS_cases[OF CommitFails(3) wf] unfolding CommitFails(1) writers_inv_def by auto
next
  case (Delete fs' u)
  have wf: "fs_wf (wr_fs w)" using assms(2) by (simp add: writers_inv_def)
  show ?thesis using assms(2) delete_cases[OF Delete(2) wf] unfolding Delete(1) writers_inv_def by auto
next
  case (DeleteFails fs' e)
  have wf: "fs_wf (wr_fs w)" using assms(2) by (simp add: writers_inv_def)
  show ?thesis using assms(2) delete_cases[OF DeleteFails(2) wf] unfolding DeleteFails(1) writers_inv_def by auto
next
  case (Elsewhere P fs')
  then show ?thesis using assms(2) touches_wf[OF Elsewhere(2)] touches_file[OF Elsewhere(2,3)] unfolding Elsewhere(1) writers_inv_def by auto
qed

lemma wsteps_inv:
  assumes "(wstep enc dec gen set_gen spec (d @ [n]))\<^sup>*\<^sup>* w w'" "writers_inv enc dec gen set_gen spec (d @ [n]) c0 w"
  shows "writers_inv enc dec gen set_gen spec (d @ [n]) c0 w'"
  using assms by (induction rule: rtranclp_induct) (blast intro: wstep_inv)+

definition writers_start :: "fsys \<Rightarrow> 'd writers" where
  "writers_start fs = \<lparr>wr_fs = fs, wr_pending = (\<lambda>_. None), wr_done = []\<rparr>"

lemma writers_linear:
  assumes "fs_wf fs" "file_at fs (d @ [n]) \<noteq> Some (Raw '''')" "(wstep enc dec gen set_gen spec (d @ [n]))\<^sup>*\<^sup>* (writers_start fs) w"
  shows "atomic_run enc dec gen set_gen spec (wr_done w) (file_at fs (d @ [n])) = Inr (file_at (wr_fs w) (d @ [n]))"
proof -
  have "writers_inv enc dec gen set_gen spec (d @ [n]) (file_at fs (d @ [n])) (writers_start fs)"
    using assms(1,2) by (simp add: writers_inv_def writers_start_def)
  from wsteps_inv[OF assms(3) this] show ?thesis by (simp add: writers_inv_def)
qed

section \<open>Generations along a run\<close>

text \<open>
  What the writer relies on for a kind of document: encoding keeps the generation and the bytes of the
  spec, and setting the generation sets nothing else.
\<close>

locale versioned_doc =
  fixes enc :: "'d \<Rightarrow> json" and dec :: "json \<Rightarrow> 'd result"
    and gen :: "'d \<Rightarrow> int" and set_gen :: "'d \<Rightarrow> int \<Rightarrow> 'd" and spec :: "'d \<Rightarrow> json"
  assumes dec_enc: "\<exists>d'. dec (enc d) = Inr d' \<and> gen d' = gen d \<and> spec d' = spec d"
    and gen_set_gen: "gen (set_gen d g) = g"
    and spec_set_gen: "spec (set_gen d g) = spec d"
begin

lemma enc_gen_inject: "enc (set_gen d g) = enc (set_gen d g') \<Longrightarrow> g = g'"
  using dec_enc[of "set_gen d g"] dec_enc[of "set_gen d g'"] unfolding gen_set_gen by (metis sum.inject(2))

lemma write_over:
  assumes "atomic_write enc dec gen set_gen spec doc (Some c) = Inr c'" "unmarshal dec c = Inr d"
    and "- (2 ^ 63) \<le> gen d" "gen d + 1 < 2 ^ 63"
  shows "\<exists>d'. unmarshal dec c' = Inr d' \<and> spec d' = spec doc \<and> gen d' = (if spec d = spec doc then gen d else gen d + 1)
    \<and> (0 < gen doc \<longrightarrow> gen d \<le> gen doc)"
proof -
  let ?g = "if spec d = spec doc then gen d else wrap64 (gen d + 1)"
  have c': "c' = Json Indented (enc (set_gen doc ?g))" and stale: "0 < gen doc \<longrightarrow> gen d \<le> gen doc"
    using assms(1,2) by (auto simp: atomic_write_def next_doc_def Let_def split: if_splits)
  moreover have "?g = (if spec d = spec doc then gen d else gen d + 1)" using assms(3,4) by (simp add: wrap64_id)
  moreover obtain d' where "dec (enc (set_gen doc ?g)) = Inr d'" "gen d' = ?g" "spec d' = spec doc"
    using dec_enc[of "set_gen doc ?g"] gen_set_gen spec_set_gen by auto
  ultimately show ?thesis by (simp add: unmarshal_def)
qed

lemma run_gen:
  assumes "atomic_run enc dec gen set_gen spec chs (Some c0) = Inr c" "unmarshal dec c0 = Inr d0" "Deleted \<notin> set chs"
    and "- (2 ^ 63) \<le> gen d0" "gen d0 + int (length chs) < 2 ^ 63"
  shows "\<exists>c1 d. c = Some c1 \<and> unmarshal dec c1 = Inr d \<and> gen d0 \<le> gen d \<and> gen d \<le> gen d0 + int (length chs)
    \<and> (gen d = gen d0 \<longrightarrow> spec d = spec d0)"
  using assms(1,3,5)
proof (induction chs arbitrary: c)
  case Nil
  then show ?case using assms(2) by auto
next
  case (Cons ch chs)
  obtain doc where ch: "ch = Wrote doc" using Cons.prems(2) by (cases ch) auto
  obtain c1 c2 where run: "atomic_run enc dec gen set_gen spec chs (Some c0) = Inr c1"
    and w: "atomic_write enc dec gen set_gen spec doc c1 = Inr c2" "c = Some c2"
    using Cons.prems(1) by (auto simp: ch rbind_eq_Inr)
  obtain c1' d where d: "c1 = Some c1'" "unmarshal dec c1' = Inr d" "gen d0 \<le> gen d" "gen d \<le> gen d0 + int (length chs)"
    "gen d = gen d0 \<longrightarrow> spec d = spec d0"
    using Cons.IH[OF run] Cons.prems(2,3) by auto
  obtain d' where "unmarshal dec c2 = Inr d'" "spec d' = spec doc" "gen d' = (if spec d = spec doc then gen d else gen d + 1)"
    using write_over[OF w(1)[unfolded d(1)] d(2)] d(3,4) assms(4) Cons.prems(3) by auto
  then show ?case using d(3-5) w(2) by (auto split: if_splits)
qed

lemma commit_value:
  assumes "writeDocWithGeneration enc dec gen set_gen spec (p @ [n]) doc fs = (fs', Inr u)" "fs_wf fs"
  shows "\<exists>c. atomic_write enc dec gen set_gen spec doc (file_at fs (p @ [n])) = Inr c \<and> file_at fs' (p @ [n]) = Some c"
proof -
  from assms(1) obtain fs1 prior d where b: "write_begin dec gen set_gen spec (p @ [n]) doc fs = (fs1, Inr (prior, d))"
    and w: "WriteMetadataCAS prior (enc d) (p @ [n]) fs1 = (fs', Inr u)"
    by (auto simp: writeDocWithGeneration_def io_Inr)
  have t: "touches {LockFilePath (p @ [n])} fs fs1" using staysD[OF begin_stays b assms(2)] .
  show ?thesis using begin_value[OF b assms(2), of enc] CAS_cases[OF w touches_wf[OF t]] by auto
qed

text \<open>A versioned write replaces a spec that its writer has seen, whatever happened in between.\<close>

lemma no_lost_update:
  assumes "fs_wf fs" "file_at fs (p @ [n]) = Some c0" "unmarshal dec c0 = Inr seen" "0 < gen seen"
    and "(wstep enc dec gen set_gen spec (p @ [n]))\<^sup>*\<^sup>* (writers_start fs) w"
    and "Deleted \<notin> set (wr_done w)" "gen seen + int (length (wr_done w)) + 1 < 2 ^ 63" "gen doc = gen seen"
    and "writeDocWithGeneration enc dec gen set_gen spec (p @ [n]) doc (wr_fs w) = (fs', Inr u)"
  shows "\<exists>c1 d1 c2 d2. file_at (wr_fs w) (p @ [n]) = Some c1 \<and> unmarshal dec c1 = Inr d1 \<and> spec d1 = spec seen \<and> gen d1 = gen seen
    \<and> file_at fs' (p @ [n]) = Some c2 \<and> unmarshal dec c2 = Inr d2 \<and> spec d2 = spec doc
    \<and> gen d2 = (if spec seen = spec doc then gen seen else gen seen + 1)"
proof -
  have ne: "c0 \<noteq> Raw ''''" using assms(3) by (auto simp: unmarshal_def)
  have inv: "writers_inv enc dec gen set_gen spec (p @ [n]) (file_at fs (p @ [n])) w"
    using wsteps_inv[OF assms(5)] assms(1,2) ne by (simp add: writers_inv_def writers_start_def)
  then have wf: "fs_wf (wr_fs w)"
    and run: "atomic_run enc dec gen set_gen spec (wr_done w) (Some c0) = Inr (file_at (wr_fs w) (p @ [n]))"
    by (simp_all add: writers_inv_def assms(2))
  obtain c1 d1 where d1: "file_at (wr_fs w) (p @ [n]) = Some c1" "unmarshal dec c1 = Inr d1" "gen seen \<le> gen d1"
    "gen d1 \<le> gen seen + int (length (wr_done w))" "gen d1 = gen seen \<longrightarrow> spec d1 = spec seen"
    using run_gen[OF run assms(3,6)] assms(4,7) by auto
  obtain c2 where c2: "atomic_write enc dec gen set_gen spec doc (Some c1) = Inr c2" "file_at fs' (p @ [n]) = Some c2"
    using commit_value[OF assms(9) wf] d1(1) by auto
  obtain d2 where "unmarshal dec c2 = Inr d2" "spec d2 = spec doc"
    "gen d2 = (if spec d1 = spec doc then gen d1 else gen d1 + 1)" "gen d1 \<le> gen doc"
    using write_over[OF c2(1) d1(2)] d1(3,4) assms(4,7,8) by auto
  then show ?thesis using d1 c2(2) assms(8) by auto
qed

end

interpretation realm_docs: versioned_doc enc_realmDoc dec_realmDoc realm_gen realm_set_gen "\<lambda>d. enc_realmSpec (rd_Spec d)"
  by unfold_locales (simp_all add: realm_gen_def realm_set_gen_def js_realmDoc_def js_realmMetadata_def enc_realmSpec_js)

interpretation space_docs: versioned_doc enc_spaceDoc dec_spaceDoc space_gen space_set_gen "\<lambda>d. enc_spaceSpec (spd_Spec d)"
  by unfold_locales (simp_all add: space_gen_def space_set_gen_def js_spaceDoc_def js_spaceMetadata_def enc_spaceSpec_js)

interpretation stack_docs: versioned_doc enc_stackDoc dec_stackDoc stack_gen stack_set_gen "\<lambda>d. enc_stackSpec (skd_Spec d)"
  by unfold_locales (simp_all add: stack_gen_def stack_set_gen_def js_stackDoc_def js_stackMetadata_def)

interpretation cell_docs: versioned_doc enc_cellDoc "dec_cellDoc al" cell_gen cell_set_gen "\<lambda>d. enc_cellSpec (ced_Spec d)" for al
  by unfold_locales (simp_all add: cell_gen_def cell_set_gen_def js_cellDoc_def js_cellMetadata_def enc_cellSpec_js)

lemma document_path: "CellMetadataPath base r s t c = CellMetadataDir base r s t c @ [KukeonMetadataFile]"
  "StackMetadataPath base r s t = StackMetadataDir base r s t @ [KukeonMetadataFile]"
  "SpaceMetadataPath base r s = SpaceMetadataDir base r s @ [KukeonMetadataFile]"
  "RealmMetadataPath base r = RealmMetadataDir base r @ [KukeonMetadataFile]"
  by (simp_all add: layout_defs Join_def layout_names)

abbreviation cell_writers :: "(nat \<Rightarrow> nat \<Rightarrow> nat) \<Rightarrow> path \<Rightarrow> CellDoc writers \<Rightarrow> CellDoc writers \<Rightarrow> bool" where
  "cell_writers al \<equiv> wstep enc_cellDoc (dec_cellDoc al) cell_gen cell_set_gen (\<lambda>d. enc_cellSpec (ced_Spec d))"

abbreviation stack_writers :: "path \<Rightarrow> StackDoc writers \<Rightarrow> StackDoc writers \<Rightarrow> bool" where
  "stack_writers \<equiv> wstep enc_stackDoc dec_stackDoc stack_gen stack_set_gen (\<lambda>d. enc_stackSpec (skd_Spec d))"



definition demo_stack :: "string \<Rightarrow> StackDoc" where
  "demo_stack i = zero_stackDoc\<lparr>skd_Spec := \<lparr>xskS_ID = i, xskS_RealmID = ''r'', xskS_SpaceID = ''s''\<rparr>\<rparr>"

abbreviation demo_dir :: path where "demo_dir \<equiv> [''run'', ''data'', ''r'', ''s'', ''t'']"

abbreviation demo_begin :: "StackDoc \<Rightarrow> (content option \<times> StackDoc) io" where
  "demo_begin \<equiv> write_begin dec_stackDoc stack_gen stack_set_gen (\<lambda>d. enc_stackSpec (skd_Spec d)) (demo_dir @ [''metadata.json''])"

abbreviation demo_commit :: "StackDoc \<Rightarrow> unit io" where
  "demo_commit d \<equiv> WriteMetadataCAS None (enc_stackDoc (stack_set_gen d 1)) (demo_dir @ [''metadata.json''])"

lemma pair_snd: "snd x = y \<Longrightarrow> x = (fst x, y)"
  by (cases x) simp


text \<open>A cell document of generation 3, a status update by one writer, and a change of the spec by another.\<close>

definition demo_cell :: "string \<Rightarrow> string \<Rightarrow> CellDoc" where
  "demo_cell i reason = zero_cellDoc\<lparr>ced_Metadata := (ced_Metadata zero_cellDoc)\<lparr>ceM_Generation := 3\<rparr>,
     ced_Spec := (ced_Spec zero_cellDoc)\<lparr>xceS_ID := i\<rparr>, ced_Status := (ced_Status zero_cellDoc)\<lparr>ceT_Reason := reason\<rparr>\<rparr>"

abbreviation demo_path :: path where "demo_path \<equiv> CellMetadataPath [''run''] ''r'' ''s'' ''t'' ''c''"

definition demo_cell_fs :: fsys where
  "demo_cell_fs = (let d = Dir root_attr in \<lparr>fs_entries =
     [([''run''], d), ([''run'', ''data''], d), ([''run'', ''data'', ''r''], d), ([''run'', ''data'', ''r'', ''s''], d),
      ([''run'', ''data'', ''r'', ''s'', ''t''], d), ([''run'', ''data'', ''r'', ''s'', ''t'', ''c''], d),
      ([''run'', ''data'', ''r'', ''s'', ''t'', ''c'', ''metadata.json''], File root_attr (Json Indented (enc_cellDoc (demo_cell ''c'' ''''))))],
     fs_umask = 18\<rparr>)"

abbreviation demo_cell_begin :: "CellDoc \<Rightarrow> (content option \<times> CellDoc) io" where
  "demo_cell_begin \<equiv> write_begin (dec_cellDoc (\<lambda>_ _. 0)) cell_gen cell_set_gen (\<lambda>d. enc_cellSpec (ced_Spec d)) demo_path"

abbreviation demo_cell_write :: "CellDoc \<Rightarrow> unit io" where
  "demo_cell_write \<equiv> writeDocWithGeneration enc_cellDoc (dec_cellDoc (\<lambda>_ _. 0)) cell_gen cell_set_gen (\<lambda>d. enc_cellSpec (ced_Spec d)) demo_path"


end
