(* ===== verification/Metadata_Roundtrip.thy ===== *)
theory Metadata_Roundtrip
  imports Metadata_Store
begin

text \<open>
  What is read back after a cell was written: the document goes through the conversion, its JSON and
  the file, and comes back as the same cell; a status update keeps the generation.
\<close>

section \<open>Reading what was written\<close>

lemma acquired_sidecar:
  assumes "acquireFlock (d @ [n]) True fs = (fs', Inr u)" "fs_wf fs"
  shows "file_at fs' (LockFilePath (d @ [n])) \<noteq> None"
proof -
  obtain fs1 where m: "MkdirAll d metadataDirMode fs = Inr fs1"
    and c: "(case OpenFile (LockFilePath (d @ [n])) True lockFilePerm fs1 of Inl e \<Rightarrow> (fs1, Inl (errorfw ''open lock file %s'' [] e))
      | Inr fs' \<Rightarrow> (fs', Inr ())) = (fs', Inr ())"
    using assms(1) by (auto simp: acquireFlock_def io_Inr cong: sum.case_cong)
  have o: "OpenFile (LockFilePath (d @ [n])) True lockFilePerm fs1 = Inr fs'"
    using c by (cases "OpenFile (LockFilePath (d @ [n])) True lockFilePerm fs1") auto
  have wf: "fs_wf fs1" using MkdirAll_touches[OF m assms(2), of d "{d}"] touches_wf by auto
  show ?thesis
  proof (cases "Stat fs1 (LockFilePath (d @ [n]))")
    case (Inl e)
    then show ?thesis using o by (auto simp: OpenFile_def rbind_eq_Inr file_at_def lock_path split: if_splits)
  next
    case (Inr x)
    then have "entry fs1 (LockFilePath (d @ [n])) = Some x" using Stat_Inr[OF wf] by blast
    then show ?thesis using o unfolding OpenFile_def Inr by (cases x) (auto simp: file_at_def)
  qed
qed

lemma ReadRaw_plain:
  assumes "fs_wf fs" "file_at fs (d @ [n]) = Some c" "file_at fs (LockFilePath (d @ [n])) \<noteq> None"
  shows "ReadRaw (d @ [n]) fs = (fs, Inr c)"
proof -
  obtain a b where "entry fs (d @ [n]) = Some (File a c)" using assms(2) file_at_Some by blast
  then have s: "Stat fs (d @ [n]) = Inr (File a c)" using Stat_Inr[OF assms(1)] by blast
  obtain b x where "entry fs (LockFilePath (d @ [n])) = Some (File b x)" using assms(3) file_at_Some by blast
  then have "Stat fs (LockFilePath (d @ [n])) = Inr (File b x)" using Stat_Inr[OF assms(1)] by blast
  then show ?thesis
    using s by (simp add: ReadRaw_def WithSharedLock_def acquireFlock_def OpenFile_def existsFilePath_def ReadRawNoLock_def ReadFile_def
        bind_io_def wrap_io_def ret_def query_def)
qed

lemma CAS_sidecar:
  assumes "WriteMetadataCAS prior j (d @ [n]) fs = (fs', Inr u)" "fs_wf fs"
  shows "fs_wf fs' \<and> file_at fs' (LockFilePath (d @ [n])) \<noteq> None"
proof -
  obtain fs1 where a: "acquireFlock (d @ [n]) True fs = (fs1, Inr ())" and w: "writeMetadataUnlocked j (d @ [n]) fs1 = (fs', Inr u)"
    using assms(1) by (auto simp: WriteMetadataCAS_def WithExclusiveLock_def io_Inr fail_def split: if_splits)
  have wf: "fs_wf fs1" using staysD[OF stays_acquire a assms(2)] touches_wf by blast
  have t: "touches {d @ [n]} fs1 fs'" using staysD[OF stays_write w wf] .
  then show ?thesis using acquired_sidecar[OF a assms(2)] touches_file[OF t, of "LockFilePath (d @ [n])"] touches_wf[OF t] by (simp add: lock_path)
qed

lemma write_then_read:
  assumes "writeDocWithGeneration enc dec gen set_gen spec (d @ [n]) doc fs = (fs', Inr u)" "fs_wf fs"
  shows "\<exists>g. fs_wf fs' \<and> file_at fs' (d @ [n]) = Some (Json Indented (enc (set_gen doc g)))
    \<and> ReadRaw (d @ [n]) fs' = (fs', Inr (Json Indented (enc (set_gen doc g))))"
proof -
  from assms(1) obtain fs1 prior x where b: "write_begin dec gen set_gen spec (d @ [n]) doc fs = (fs1, Inr (prior, x))"
    and w: "WriteMetadataCAS prior (enc x) (d @ [n]) fs1 = (fs', Inr u)"
    by (auto simp: writeDocWithGeneration_def io_Inr)
  have wf: "fs_wf fs1" using staysD[OF begin_stays b assms(2)] touches_wf by blast
  obtain g where x: "x = set_gen doc g"
    using b by (auto simp: write_begin_def next_doc_def Let_def rbind_eq_Inr split: prod.splits sum.splits if_splits)
  show ?thesis using ReadRaw_plain CAS_cases[OF w wf] CAS_sidecar[OF w wf] unfolding x by auto
qed

lemma version_of_document:
  "DetectMetadataVersion (Json l (enc_cellDoc d)) = Inr (DefaultVersion (ced_APIVersion d))"
  by (simp add: DetectMetadataVersion_def unmarshal_def enc_cellDoc_def dec_obj_def get_field_def fld_def dec_str_def)

text \<open>
  A container spec as the daemon writes it, read from its JSON and converted in and out again, has the
  JSON it had.
\<close>

lemma opt_canon_of:
  assumes "\<And>x. f (g x) = f x"
  shows "opt k (elems xs = []) (enc_slice f (canon_slice_of g (canon_slice xs))) = opt k (elems xs = []) (enc_slice f (canon_slice xs))"
  using assms by (cases xs) (auto simp: opt_def canon_slice_of_def canon_slice_def enc_slice_def)

lemma elems_canon_of [simp]: "elems (canon_slice_of g xs) = map g (elems xs)"
  by (cases xs) (simp_all add: canon_slice_of_def)

lemma canon_canon_of [simp]: "canon_slice (canon_slice_of g xs) = canon_slice_of g xs"
  by (simp add: canon_slice_of_def)

lemma git_stored: "enc_ptr enc_git (canon_git (map_option js_git (canon_git g))) = enc_ptr enc_git (canon_git g)"
  by (cases g) (simp_all add: canon_git_def js_git_def)

lemma tty_stored:
  "canon_tty (map_option js_tty (canon_tty t)) = canon_tty t"
  by (cases t) (simp_all add: canon_tty_def js_tty_def ContainerTty_IsEmpty_def)

lemma git_None: "(canon_git (map_option js_git (canon_git g)) = None) = (canon_git g = None)"
  by (cases g) (simp_all add: canon_git_def)

lemma spec_json_stored:
  "enc_containerSpec (BuildContainerSpecExternalFromInternal a1 (convertContainerSpecToInternal a2
     (js_containerSpec a3 (BuildContainerSpecExternalFromInternal a4 (convertContainerSpecToInternal a5 s)))))
   = enc_containerSpec (BuildContainerSpecExternalFromInternal a4 (convertContainerSpecToInternal a5 s))"
  by (simp add: enc_containerSpec_def js_containerSpec_def scheme_spec_defs enc_mounts_readdress enc_ptr_map enc_cap_js
      git_stored tty_stored git_None opt_canon_of enc_tmpfs_js)

lemma specs_json_stored:
  "map enc_containerSpec (map (\<lambda>(i, c). BuildContainerSpecExternalFromInternal (a1 i) c) (enumerate 0
     (map (\<lambda>(i, c). convertContainerSpecToInternal (a2 i) c) (enumerate 0
       (js_specs a3 (map (\<lambda>(i, c). BuildContainerSpecExternalFromInternal (a4 i) c) (enumerate 0
         (map (\<lambda>(i, c). convertContainerSpecToInternal (a5 i) c) (enumerate 0 cs)))))))))
   = map enc_containerSpec (map (\<lambda>(i, c). BuildContainerSpecExternalFromInternal (a4 i) c) (enumerate 0
         (map (\<lambda>(i, c). convertContainerSpecToInternal (a5 i) c) (enumerate 0 cs))))"
  by (rule nth_equalityI) (simp_all add: js_specs_def nth_enumerate_eq spec_json_stored)

lemma provenance_stored:
  "enc_ptr enc_provenance (canon_prov (map_option js_provenance (canon_prov p))) = enc_ptr enc_provenance (canon_prov p)"
proof (cases "canon_prov p")
  case (Some y)
  have "canon_prov (Some (js_provenance y)) = Some (js_provenance y)" by (simp add: canon_prov_def js_provenance_def)
  then show ?thesis using Some by (simp add: enc_ptr_def enc_provenance_js)
qed (simp add: canon_prov_def)

lemma cell_spec_json_stored:
  assumes "e = cellSpecToExternal a4 ((cellSpecToInternal a5 s)\<lparr>ceS_RootContainerID := r\<rparr>)"
  shows "enc_cellSpec (cellSpecToExternal a1 ((cellSpecToInternal a2 (js_cellSpec a3 e))\<lparr>ceS_RootContainerID := r\<rparr>)) = enc_cellSpec e"
proof -
  have "(canon_prov (map_option js_provenance (canon_prov p)) = None) = (canon_prov p = None)" for p
    by (cases p) (simp_all add: canon_prov_def)
  then show ?thesis
    unfolding assms
    using specs_json_stored[of a1 a2 a3 a4 a5 "xceS_Containers s"] provenance_stored[of "xceS_Provenance s"]
    by (simp add: enc_cellSpec_def js_cellSpec_def cellSpecToExternal_def cellSpecToInternal_def)
qed

text \<open>What JSON does to a container spec does not matter to its validation.\<close>

lemma validateContainerTty_js:
  assumes "xcs_Attachable s' = xcs_Attachable s" "xcs_Tty s' = map_option js_tty (xcs_Tty s)" "xcs_Volumes s' = readdress_mounts al (xcs_Volumes s)"
  shows "validateContainerTty s' = Inr () \<longleftrightarrow> validateContainerTty s = Inr ()"
proof -
  have v: "list_ex P (elems (xcs_Volumes s')) = list_ex P (elems (xcs_Volumes s))" if "\<And>v a. P (v\<lparr>vm_VolumeRef := a\<rparr>) = P v" for P
    unfolding assms(3) by (rule list_ex_readdress[OF that])
  have "ContainerTty_IsEmpty (Some (t\<lparr>tty_OnInit := canon_slice (tty_OnInit t)\<rparr>)) = ContainerTty_IsEmpty (Some t)" for t
    by (simp add: ContainerTty_IsEmpty_def)
  then show ?thesis
    unfolding validateContainerTty_iff persistence_iff assms(1,2)
    by (cases "xcs_Tty s") (simp_all add: js_tty_def v)
qed

lemma validateContainerSpec_js: "validateContainerSpec (js_containerSpec al s) = Inr () \<longleftrightarrow> validateContainerSpec s = Inr ()"
proof -
  let ?s = "js_containerSpec al s"
  have f: "xcs_ID ?s = xcs_ID s" "xcs_Attachable ?s = xcs_Attachable s" "xcs_Tty ?s = map_option js_tty (xcs_Tty s)"
    "xcs_Git ?s = canon_git (xcs_Git s)" "xcs_Volumes ?s = readdress_mounts al (xcs_Volumes s)"
    by (simp_all add: js_containerSpec_def) (cases "xcs_Git s"; simp add: canon_git_def js_git_def)
  have g: "xcs_RestartPolicy ?s = xcs_RestartPolicy s" "xcs_RestartBackoffSeconds ?s = xcs_RestartBackoffSeconds s"
    "xcs_RestartMaxRetries ?s = xcs_RestartMaxRetries s" by (simp_all add: js_containerSpec_def)
  have "validateContainerRestart ?s = validateContainerRestart s"
    unfolding validateContainerRestart_def f(1) g ..
  then show ?thesis
    using validateContainerTty_js[OF f(2,3,5)] validateContainerGit_reconvert[OF f(1,4)] validateContainerVolumes_reconvert[OF f(1,5)]
    unfolding validateContainerSpec_iff by simp
qed

lemma valid_js:
  "list_all (\<lambda>s. validateContainerSpec s = Inr ()) (xceS_Containers (js_cellSpec al e)) \<longleftrightarrow>
     list_all (\<lambda>s. validateContainerSpec s = Inr ()) (xceS_Containers e)"
  "validateCellTty (js_cellSpec al e) = Inr () \<longleftrightarrow> validateCellTty e = Inr ()"
proof -
  show "list_all (\<lambda>s. validateContainerSpec s = Inr ()) (xceS_Containers (js_cellSpec al e)) \<longleftrightarrow>
     list_all (\<lambda>s. validateContainerSpec s = Inr ()) (xceS_Containers e)"
    by (simp add: js_cellSpec_def js_specs_def list_all_length nth_enumerate_eq validateContainerSpec_js)
  have "xcs_ID (js_containerSpec (al i) c) = xcs_ID c" "xcs_Attachable (js_containerSpec (al i) c) = xcs_Attachable c" for i c
    by (simp_all add: js_containerSpec_def)
  note find = find_attachable_map[where f = "\<lambda>i. js_containerSpec (al i)", OF this]
  show "validateCellTty (js_cellSpec al e) = Inr () \<longleftrightarrow> validateCellTty e = Inr ()"
  proof -
    have c: "xceS_Containers (js_cellSpec al e) = map (\<lambda>(i, c). js_containerSpec (al i) c) (enumerate 0 (xceS_Containers e))"
      "xceS_Tty (js_cellSpec al e) = xceS_Tty e" by (simp_all add: js_cellSpec_def js_specs_def)
    show ?thesis unfolding validateCellTty_iff c find ..
  qed
qed

lemma resolve_js:
  assumes "ceS_RootContainerID s' = ceS_RootContainerID s"
    and "map (\<lambda>c. (cs_ID c, cs_Root c)) (ceS_Containers s') = map (\<lambda>c. (cs_ID c, cs_Root c)) (ceS_Containers s)"
  shows "resolveCellRootContainer s' = resolveCellRootContainer s"
proof -
  have r: "roots x = map fst (filter snd (map (\<lambda>c. (cs_ID c, cs_Root c)) (ceS_Containers x)))" for x
    by (simp add: roots_def filter_map comp_def)
  have h: "hasID i x = list_ex (\<lambda>y. fst y = i) (map (\<lambda>c. (cs_ID c, cs_Root c)) (ceS_Containers x))" for i x
    by (simp add: hasID_def list_ex_iff)
  show ?thesis unfolding resolve_alt r h assms ..
qed

text \<open>
  The document the daemon wrote, decoded and converted: the same metadata with its maps in the order of
  their keys, a spec with the JSON it had, and the state and the stamps it had.
\<close>

lemma stored_document_converts:
  assumes "ConvertCellDocToInternal al d0 = Inr origin" "ce_Spec cell = ce_Spec origin"
    and "BuildCellExternalFromInternal al' cell APIVersionV1Beta1 = Inr d"
  shows "\<exists>c'. ConvertCellDocToInternal al'' (js_cellDoc al'' (cell_set_gen d g)) = Inr c'
    \<and> ce_Metadata c' = \<lparr>ceM_Name = ceM_Name (ce_Metadata cell), ceM_Labels = sort_map (ceM_Labels (ce_Metadata cell)),
        ceM_Annotations = sort_map (ceM_Annotations (ce_Metadata cell)), ceM_Generation = g\<rparr>
    \<and> enc_cellSpec (cellSpecToExternal al3 (ce_Spec c')) = enc_cellSpec (ced_Spec d)
    \<and> ceS_RealmName (ce_Spec c') = ceS_RealmName (ce_Spec cell) \<and> ceS_SpaceName (ce_Spec c') = ceS_SpaceName (ce_Spec cell)
    \<and> ceS_StackName (ce_Spec c') = ceS_StackName (ce_Spec cell)
    \<and> ceT_State (ce_Status c') = ceT_State (ce_Status cell) \<and> ceT_CreatedAt (ce_Status c') = ceT_CreatedAt (ce_Status cell)
    \<and> ceT_UpdatedAt (ce_Status c') = ceT_UpdatedAt (ce_Status cell) \<and> ceT_ReadyAt (ce_Status c') = ceT_ReadyAt (ce_Status cell)"
proof -
  from assms(1) obtain r where val: "list_all (\<lambda>s. validateContainerSpec s = Inr ()) (xceS_Containers (ced_Spec d0))"
    and tty: "validateCellTty (ced_Spec d0) = Inr ()"
    and r: "resolveCellRootContainer (cellSpecToInternal al (ced_Spec d0)) = Inr r"
    and spec: "ce_Spec cell = (cellSpecToInternal al (ced_Spec d0))\<lparr>ceS_RootContainerID := r\<rparr>"
    unfolding convert_cell_iff assms(2) by auto
  have d: "d = \<lparr>ced_APIVersion = APIVersionV1Beta1, ced_Kind = KindCell, ced_Metadata = ce_Metadata cell,
     ced_Spec = cellSpecToExternal al' (ce_Spec cell), ced_Status = cellStatusToExternal (ce_Status cell)\<rparr>"
    using assms(3) unfolding build_cell_iff by blast
  let ?e = "cellSpecToExternal al' (ce_Spec cell)" and ?S = "cellSpecToInternal al'' (js_cellSpec al'' (cellSpecToExternal al' (ce_Spec cell)))"
  have valid: "list_all (\<lambda>s. validateContainerSpec s = Inr ()) (xceS_Containers (js_cellSpec al'' ?e))" "validateCellTty (js_cellSpec al'' ?e) = Inr ()"
    using stored_spec_valid[OF val tty, where s' = ?e and al' = al' and al = al and r = r] unfolding valid_js by (simp_all add: spec)
  have "resolveCellRootContainer ?S = resolveCellRootContainer (ce_Spec cell)"
  proof (rule resolve_js)
    show "map (\<lambda>c. (cs_ID c, cs_Root c)) (ceS_Containers ?S) = map (\<lambda>c. (cs_ID c, cs_Root c)) (ceS_Containers (ce_Spec cell))"
      by (rule nth_equalityI) (simp_all add: cellSpecToInternal_def cellSpecToExternal_def js_cellSpec_def js_specs_def
          js_containerSpec_def scheme_spec_defs nth_enumerate_eq)
  qed (simp add: cellSpecToInternal_def cellSpecToExternal_def js_cellSpec_def)
  then have res: "resolveCellRootContainer ?S = Inr r" using resolve_again[OF r] by (simp add: spec)
  define c' where "c' = \<lparr>ce_Metadata = js_cellMetadata ((ce_Metadata cell)\<lparr>ceM_Generation := g\<rparr>), ce_Spec = ?S\<lparr>ceS_RootContainerID := r\<rparr>,
     ce_Status = cellStatusToInternal (js_cellStatus (cellStatusToExternal (ce_Status cell)))\<rparr>"
  have "ConvertCellDocToInternal al'' (js_cellDoc al'' (cell_set_gen d g)) = Inr c'"
    unfolding convert_cell_iff using valid res
    by (simp add: d cell_set_gen_def js_cellDoc_def c'_def supported_def)
  moreover have "enc_cellSpec (cellSpecToExternal al3 (ce_Spec c')) = enc_cellSpec (ced_Spec d)"
    using cell_spec_json_stored[OF arg_cong[OF spec, of "cellSpecToExternal al'"], of al3 al'' al''] by (simp add: c'_def d)
  ultimately show ?thesis
    by (intro exI[of _ c']) (simp add: c'_def js_cellMetadata_def js_cellSpec_def cellSpecToInternal_def cellSpecToExternal_def cellStatusToInternal_def cellStatusToExternal_def js_cellStatus_def)
qed

definition cell_file :: "path \<Rightarrow> Cell \<Rightarrow> path" where
  "cell_file base c = CellMetadataPath base (ceS_RealmName (ce_Spec c)) (ceS_SpaceName (ce_Spec c)) (ceS_StackName (ce_Spec c)) (ceM_Name (ce_Metadata c))"

lemma stamp_keeps [simp]:
  "ce_Spec (stampCellLifecycle c now) = ce_Spec c" "ce_Metadata (stampCellLifecycle c now) = ce_Metadata c"
  "ceT_State (ce_Status (stampCellLifecycle c now)) = ceT_State (ce_Status c)"
  "ceT_UpdatedAt (ce_Status (stampCellLifecycle c now)) = now"
  "ceT_CreatedAt (ce_Status (stampCellLifecycle c now)) = (if ceT_CreatedAt (ce_Status c) = 0 then now else ceT_CreatedAt (ce_Status c))"
  "ceT_ReadyAt (ce_Status (stampCellLifecycle c now)) =
     (if ceT_ReadyAt (ce_Status c) = 0 \<and> ceT_State (ce_Status c) = CellStateReady then now else ceT_ReadyAt (ce_Status c))"
  by (auto simp: stampCellLifecycle_def Let_def IsZero_def)

lemma update_steps:
  assumes "UpdateCellMetadata al base now cell fs = (fs', Inr u)"
  obtains d where "BuildCellExternalFromInternal al (stampCellLifecycle cell now) APIVersionV1Beta1 = Inr d"
    "d = \<lparr>ced_APIVersion = APIVersionV1Beta1, ced_Kind = KindCell, ced_Metadata = ce_Metadata cell,
       ced_Spec = cellSpecToExternal al (ce_Spec cell), ced_Status = cellStatusToExternal (ce_Status (stampCellLifecycle cell now))\<rparr>"
    "writeDocWithGeneration enc_cellDoc (dec_cellDoc al) cell_gen cell_set_gen (\<lambda>d. enc_cellSpec (ced_Spec d)) (cell_file base cell) d fs = (fs', Inr u)"
proof -
  obtain d where b: "BuildCellExternalFromInternal al (stampCellLifecycle cell now) APIVersionV1Beta1 = Inr d"
    using assms by (cases "BuildCellExternalFromInternal al (stampCellLifecycle cell now) APIVersionV1Beta1")
      (simp_all add: UpdateCellMetadata_def with_doc_def fail_def)
  then have d: "d = \<lparr>ced_APIVersion = APIVersionV1Beta1, ced_Kind = KindCell, ced_Metadata = ce_Metadata cell,
       ced_Spec = cellSpecToExternal al (ce_Spec cell), ced_Status = cellStatusToExternal (ce_Status (stampCellLifecycle cell now))\<rparr>"
    unfolding build_cell_iff by simp
  have "cell_file base cell = CellMetadataPath base (xceS_RealmID (ced_Spec d)) (xceS_SpaceID (ced_Spec d)) (xceS_StackID (ced_Spec d)) (ceM_Name (ced_Metadata d))"
    by (simp add: d cell_file_def cellSpecToExternal_def)
  then show ?thesis using assms b that[OF b d] by (simp add: UpdateCellMetadata_def with_doc_def)
qed

lemma read_written:
  assumes "ReadRaw p fs = (fs, Inr (Json Indented (enc_cellDoc d)))" "ced_APIVersion d = APIVersionV1Beta1"
    and "ConvertCellDocToInternal al (js_cellDoc al d) = Inr c"
  shows "readCellInternal al p fs = (fs, Inr c)"
  using assms by (simp add: readCellInternal_def read_internal_def bind_io_def query_def version_of_document unmarshal_def DefaultVersion_def)

lemma updated_cell:
  assumes "fs_wf fs" "ConvertCellDocToInternal al d0 = Inr origin" "ce_Spec cell = ce_Spec origin"
    and "UpdateCellMetadata al base now cell fs = (fs', Inr ())"
  shows "\<exists>d g c'. fs_wf fs' \<and> file_at fs' (cell_file base cell) = Some (Json Indented (enc_cellDoc (cell_set_gen d g)))
    \<and> readCellInternal al (cell_file base cell) fs' = (fs', Inr c') \<and> ConvertCellDocToInternal al (js_cellDoc al (cell_set_gen d g)) = Inr c'
    \<and> atomic_write enc_cellDoc (dec_cellDoc al) cell_gen cell_set_gen (\<lambda>d. enc_cellSpec (ced_Spec d)) d (file_at fs (cell_file base cell))
      = Inr (Json Indented (enc_cellDoc (cell_set_gen d g)))
    \<and> BuildCellExternalFromInternal al (stampCellLifecycle cell now) APIVersionV1Beta1 = Inr d
    \<and> ced_Metadata d = ce_Metadata cell \<and> ced_Spec d = cellSpecToExternal al (ce_Spec cell)"
proof -
  obtain d where b: "BuildCellExternalFromInternal al (stampCellLifecycle cell now) APIVersionV1Beta1 = Inr d"
    and d: "d = \<lparr>ced_APIVersion = APIVersionV1Beta1, ced_Kind = KindCell, ced_Metadata = ce_Metadata cell,
       ced_Spec = cellSpecToExternal al (ce_Spec cell), ced_Status = cellStatusToExternal (ce_Status (stampCellLifecycle cell now))\<rparr>"
    and w: "writeDocWithGeneration enc_cellDoc (dec_cellDoc al) cell_gen cell_set_gen (\<lambda>d. enc_cellSpec (ced_Spec d)) (cell_file base cell) d fs = (fs', Inr ())"
    using update_steps[OF assms(4)] .
  obtain g where wf: "fs_wf fs'" and fa: "file_at fs' (cell_file base cell) = Some (Json Indented (enc_cellDoc (cell_set_gen d g)))"
    and rd: "ReadRaw (cell_file base cell) fs' = (fs', Inr (Json Indented (enc_cellDoc (cell_set_gen d g))))"
    using write_then_read[OF w[unfolded cell_file_def document_path] assms(1)] unfolding cell_file_def document_path by blast
  have at: "atomic_write enc_cellDoc (dec_cellDoc al) cell_gen cell_set_gen (\<lambda>d. enc_cellSpec (ced_Spec d)) d (file_at fs (cell_file base cell))
      = Inr (Json Indented (enc_cellDoc (cell_set_gen d g)))"
    using cell_docs.commit_value[OF w[unfolded cell_file_def document_path] assms(1)] fa unfolding cell_file_def document_path by auto
  have "ce_Spec (stampCellLifecycle cell now) = ce_Spec origin" using assms(3) by simp
  then obtain c' where c': "ConvertCellDocToInternal al (js_cellDoc al (cell_set_gen d g)) = Inr c'"
    using stored_document_converts[OF assms(2) _ b, of al g al] by blast
  have "readCellInternal al (cell_file base cell) fs' = (fs', Inr c')"
    by (rule read_written[OF rd _ c']) (simp add: d cell_set_gen_def)
  then show ?thesis using wf fa at c' b by (intro exI[of _ d] exI[of _ g] exI[of _ c']) (simp add: d)
qed

text \<open>
  C22. What the daemon stores of a cell is what it reads back. After a successful update of a cell
  whose spec came from an accepted document, reading the file returns the cell: the name, the labels
  and annotations in the order of their keys, a spec that has the same JSON when it is written again,
  the state, and the stamps: the update time is now, the creation and ready times are kept once set.
\<close>
theorem cell_read_after_write:
  assumes "fs_wf fs" "ConvertCellDocToInternal al d0 = Inr origin" "ce_Spec cell = ce_Spec origin"
    and "UpdateCellMetadata al base now cell fs = (fs', Inr ())"
  shows "\<exists>c'. readCellInternal al (cell_file base cell) fs' = (fs', Inr c')
    \<and> ceM_Name (ce_Metadata c') = ceM_Name (ce_Metadata cell)
    \<and> ceM_Labels (ce_Metadata c') = sort_map (ceM_Labels (ce_Metadata cell))
    \<and> ceM_Annotations (ce_Metadata c') = sort_map (ceM_Annotations (ce_Metadata cell))
    \<and> enc_cellSpec (cellSpecToExternal al (ce_Spec c')) = enc_cellSpec (cellSpecToExternal al (ce_Spec cell))
    \<and> ceT_State (ce_Status c') = ceT_State (ce_Status cell) \<and> ceT_UpdatedAt (ce_Status c') = now
    \<and> ceT_CreatedAt (ce_Status c') = (if ceT_CreatedAt (ce_Status cell) = 0 then now else ceT_CreatedAt (ce_Status cell))
    \<and> ceT_ReadyAt (ce_Status c') = (if ceT_ReadyAt (ce_Status cell) = 0 \<and> ceT_State (ce_Status cell) = CellStateReady
         then now else ceT_ReadyAt (ce_Status cell))"
proof -
  obtain d g c' where u: "readCellInternal al (cell_file base cell) fs' = (fs', Inr c')"
    "ConvertCellDocToInternal al (js_cellDoc al (cell_set_gen d g)) = Inr c'"
    "BuildCellExternalFromInternal al (stampCellLifecycle cell now) APIVersionV1Beta1 = Inr d"
    "ced_Spec d = cellSpecToExternal al (ce_Spec cell)"
    using updated_cell[OF assms] by blast
  have "ce_Spec (stampCellLifecycle cell now) = ce_Spec origin" using assms(3) by simp
  from stored_document_converts[OF assms(2) this u(3), of al g al] show ?thesis using u by simp
qed

text \<open>
  C23. A status update does not bump the generation. When a cell was stored, read back, changed in its
  status only and stored again, the document still has the generation it had: the spec that was read
  has, byte for byte, the JSON of the stored one, although reading normalises it.
\<close>
theorem status_write_keeps_generation:
  assumes "fs_wf fs" "ConvertCellDocToInternal al d0 = Inr origin" "ce_Spec cell = ce_Spec origin"
    and "UpdateCellMetadata al base now cell fs = (fs1, Inr ())"
    and "readCellInternal al (cell_file base cell) fs1 = (fs1, Inr c1)"
    and "ce_Spec c2 = ce_Spec c1" "ce_Metadata c2 = ce_Metadata c1"
    and "UpdateCellMetadata al base now' c2 fs1 = (fs2, Inr ())"
  shows "\<exists>c3. readCellInternal al (cell_file base cell) fs2 = (fs2, Inr c3) \<and> ceM_Generation (ce_Metadata c3) = ceM_Generation (ce_Metadata c1)"
proof -
  obtain d g where u: "fs_wf fs1" "file_at fs1 (cell_file base cell) = Some (Json Indented (enc_cellDoc (cell_set_gen d g)))"
    "ConvertCellDocToInternal al (js_cellDoc al (cell_set_gen d g)) = Inr c1"
    "BuildCellExternalFromInternal al (stampCellLifecycle cell now) APIVersionV1Beta1 = Inr d"
    using updated_cell[OF assms(1-4)] assms(5) by auto
  have "ce_Spec (stampCellLifecycle cell now) = ce_Spec origin" using assms(3) by simp
  from stored_document_converts[OF assms(2) this u(4), of al g al]
  have c1: "ceM_Generation (ce_Metadata c1) = g" "cell_file base c1 = cell_file base cell"
    "enc_cellSpec (cellSpecToExternal al (ce_Spec c1)) = enc_cellSpec (ced_Spec d)"
    using u(3) by (simp_all add: cell_file_def)
  have path: "cell_file base c2 = cell_file base cell" using c1(2) assms(6,7) by (simp add: cell_file_def)
  obtain d2 g2 c3 where v: "readCellInternal al (cell_file base cell) fs2 = (fs2, Inr c3)"
    "ConvertCellDocToInternal al (js_cellDoc al (cell_set_gen d2 g2)) = Inr c3"
    "atomic_write enc_cellDoc (dec_cellDoc al) cell_gen cell_set_gen (\<lambda>d. enc_cellSpec (ced_Spec d)) d2 (file_at fs1 (cell_file base cell))
      = Inr (Json Indented (enc_cellDoc (cell_set_gen d2 g2)))"
    "BuildCellExternalFromInternal al (stampCellLifecycle c2 now') APIVersionV1Beta1 = Inr d2"
    "ced_Metadata d2 = ce_Metadata c2" "ced_Spec d2 = cellSpecToExternal al (ce_Spec c2)"
    using updated_cell[OF u(1,3) assms(6,8)] unfolding path by blast
  have g3: "ceM_Generation (ce_Metadata c3) = g2"
    using stored_document_converts[OF u(3) _ v(4), of al g2 al] v(2) assms(6) by simp
  have j: "unmarshal (dec_cellDoc al) (Json Indented (enc_cellDoc (cell_set_gen d g))) = Inr (js_cellDoc al (cell_set_gen d g))"
    "cell_gen (js_cellDoc al (cell_set_gen d g)) = g"
    "enc_cellSpec (ced_Spec (js_cellDoc al (cell_set_gen d g))) = enc_cellSpec (ced_Spec d2)"
    using c1(3) assms(6) v(6) by (simp_all add: unmarshal_def cell_gen_def js_cellDoc_def js_cellMetadata_def cell_set_gen_def enc_cellSpec_js)
  have "enc_cellDoc (cell_set_gen d2 g2) = enc_cellDoc (cell_set_gen d2 g)"
    using v(3) unfolding u(2) atomic_write_def next_doc_def by (auto simp: j Let_def split: if_splits)
  then have "g2 = g" by (rule cell_docs.enc_gen_inject)
  then show ?thesis using v(1) g3 c1(1) by auto
qed

lemma demo_origin:
  obtains origin fs1 fs2 where "ConvertCellDocToInternal (\<lambda>_ _. 0) demo_doc = Inr origin"
    "UpdateCellMetadata (\<lambda>_ _. 0) [''run''] 5 origin empty_fs = (fs1, Inr ())"
    "snd (readCellInternal (\<lambda>_ _. 0) (cell_file [''run''] origin) fs1) = Inr (origin\<lparr>ce_Spec := persistedSpec (ce_Spec origin),
       ce_Metadata := (ce_Metadata origin)\<lparr>ceM_Generation := 1\<rparr>, ce_Status := (ce_Status (stampCellLifecycle origin 5))\<rparr>)"
    "UpdateCellMetadata (\<lambda>_ _. 0) [''run''] 9 (origin\<lparr>ce_Spec := persistedSpec (ce_Spec origin),
       ce_Metadata := (ce_Metadata origin)\<lparr>ceM_Generation := 1\<rparr>\<rparr>) fs1 = (fs2, Inr ())"
proof -
  have all: "(case ConvertCellDocToInternal (\<lambda>_ _. 0) demo_doc of Inl _ \<Rightarrow> False | Inr origin \<Rightarrow>
    (case UpdateCellMetadata (\<lambda>_ _. 0) [''run''] 5 origin empty_fs of (fs1, r1) \<Rightarrow> r1 = Inr ()
      \<and> snd (readCellInternal (\<lambda>_ _. 0) (cell_file [''run''] origin) fs1) = Inr (origin\<lparr>ce_Spec := persistedSpec (ce_Spec origin),
       ce_Metadata := (ce_Metadata origin)\<lparr>ceM_Generation := 1\<rparr>, ce_Status := (ce_Status (stampCellLifecycle origin 5))\<rparr>)
      \<and> snd (UpdateCellMetadata (\<lambda>_ _. 0) [''run''] 9 (origin\<lparr>ce_Spec := persistedSpec (ce_Spec origin),
         ce_Metadata := (ce_Metadata origin)\<lparr>ceM_Generation := 1\<rparr>\<rparr>) fs1) = Inr ()))"
    by code_simp
  then obtain origin where o: "ConvertCellDocToInternal (\<lambda>_ _. 0) demo_doc = Inr origin"
    by (cases "ConvertCellDocToInternal (\<lambda>_ _. 0) demo_doc") auto
  obtain fs1 r1 where u: "UpdateCellMetadata (\<lambda>_ _. 0) [''run''] 5 origin empty_fs = (fs1, r1)" by fastforce
  note all' = all[unfolded o sum.case u prod.case]
  show ?thesis using that[OF o _ _ pair_snd] u all' by blast
qed

text \<open>The cell of the demonstration document, stored for the first time and then with a new status.\<close>

theorem cell_read_after_write_witness:
  "\<exists>origin fs' c'. ConvertCellDocToInternal (\<lambda>_ _. 0) demo_doc = Inr origin
    \<and> UpdateCellMetadata (\<lambda>_ _. 0) [''run''] 5 origin empty_fs = (fs', Inr ())
    \<and> readCellInternal (\<lambda>_ _. 0) (cell_file [''run''] origin) fs' = (fs', Inr c')
    \<and> ceM_Name (ce_Metadata c') = ceM_Name (ce_Metadata origin) \<and> ceT_UpdatedAt (ce_Status c') = 5"
proof -
  have wf: "fs_wf empty_fs" by (rule fs_wf_code) (simp add: empty_fs_def)
  obtain origin fs1 where o: "ConvertCellDocToInternal (\<lambda>_ _. 0) demo_doc = Inr origin"
    "UpdateCellMetadata (\<lambda>_ _. 0) [''run''] 5 origin empty_fs = (fs1, Inr ())" by (rule demo_origin) blast
  from cell_read_after_write[OF wf o(1) refl o(2)] show ?thesis using o by blast
qed

theorem status_write_keeps_generation_witness:
  "\<exists>origin fs1 c1 fs2 c3. ConvertCellDocToInternal (\<lambda>_ _. 0) demo_doc = Inr origin
    \<and> UpdateCellMetadata (\<lambda>_ _. 0) [''run''] 5 origin empty_fs = (fs1, Inr ())
    \<and> readCellInternal (\<lambda>_ _. 0) (cell_file [''run''] origin) fs1 = (fs1, Inr c1) \<and> ceM_Generation (ce_Metadata c1) = 1
    \<and> UpdateCellMetadata (\<lambda>_ _. 0) [''run''] 9 (c1\<lparr>ce_Status := ce_Status origin\<rparr>) fs1 = (fs2, Inr ())
    \<and> readCellInternal (\<lambda>_ _. 0) (cell_file [''run''] origin) fs2 = (fs2, Inr c3) \<and> ceM_Generation (ce_Metadata c3) = 1"
proof -
  have wf: "fs_wf empty_fs" by (rule fs_wf_code) (simp add: empty_fs_def)
  let ?a = "\<lambda>_ _. 0 :: nat"
  obtain origin fs1 fs2 where o: "ConvertCellDocToInternal ?a demo_doc = Inr origin"
    "UpdateCellMetadata ?a [''run''] 5 origin empty_fs = (fs1, Inr ())"
    and rd: "snd (readCellInternal ?a (cell_file [''run''] origin) fs1) = Inr (origin\<lparr>ce_Spec := persistedSpec (ce_Spec origin),
       ce_Metadata := (ce_Metadata origin)\<lparr>ceM_Generation := 1\<rparr>, ce_Status := (ce_Status (stampCellLifecycle origin 5))\<rparr>)"
    and u: "UpdateCellMetadata ?a [''run''] 9 (origin\<lparr>ce_Spec := persistedSpec (ce_Spec origin),
       ce_Metadata := (ce_Metadata origin)\<lparr>ceM_Generation := 1\<rparr>\<rparr>) fs1 = (fs2, Inr ())" by (rule demo_origin) blast
  obtain c1 where c1: "readCellInternal ?a (cell_file [''run''] origin) fs1 = (fs1, Inr c1)"
    using updated_cell[OF wf o(1) refl o(2)] by blast
  have eq: "c1\<lparr>ce_Status := ce_Status origin\<rparr> = origin\<lparr>ce_Spec := persistedSpec (ce_Spec origin), ce_Metadata := (ce_Metadata origin)\<lparr>ceM_Generation := 1\<rparr>\<rparr>"
    and g: "ceM_Generation (ce_Metadata c1) = 1" using rd unfolding c1 by (auto simp: Cell.equality)
  note u' = u[folded eq]
  from status_write_keeps_generation[OF wf o(1) refl o(2) c1 _ _ u'] show ?thesis using o c1 g u' by auto
qed

text \<open>
  A create finds nothing wrong with an empty file: the comparison with nil bytes does not see that a
  file is there.
\<close>

lemma create_over_empty_file:
  "(case WriteMetadataCAS None j [''metadata.json''] \<lparr>fs_entries = [([''metadata.json''], File root_attr (Raw ''''))], fs_umask = 18\<rparr> of
     (fs', r) \<Rightarrow> r = Inr () \<and> file_at fs' [''metadata.json''] = Some (Json Indented j))"
  by code_simp

text \<open>
  Generations start again after a deletion: a writer that read the deleted document at any generation
  overwrites the new one without being told, the comparison against the bytes it has just read being
  no help.
\<close>

lemma recreated_cell_is_overwritten:
  assumes "atomic_run enc_cellDoc (dec_cellDoc al) cell_gen cell_set_gen (\<lambda>d. enc_cellSpec (ced_Spec d)) [Wrote new, Deleted] (Some c0) = Inr c1" "0 < cell_gen stale"
  shows "\<exists>c2. atomic_write enc_cellDoc (dec_cellDoc al) cell_gen cell_set_gen (\<lambda>d. enc_cellSpec (ced_Spec d)) stale c1 = Inr c2"
proof -
  have c1: "c1 = Some (Json Indented (enc_cellDoc (cell_set_gen new firstGeneration)))"
    using assms(1) by (simp add: atomic_write_def)
  have "cell_gen (js_cellDoc al (cell_set_gen new firstGeneration)) = 1"
    by (simp add: cell_gen_def js_cellDoc_def js_cellMetadata_def cell_set_gen_def firstGeneration_def)
  then show ?thesis using assms(2) by (simp add: c1 atomic_write_def next_doc_def unmarshal_def Let_def)
qed

end
