(* ===== verification/Cell_State.thy ===== *)
theory Cell_State
  imports Api_Docs
begin

text \<open>
  The decisions of the reconciler that need no call to the host, from
  \<^verbatim>\<open>internal/controller/runner/refresh.go\<close>, \<^verbatim>\<open>container_state.go\<close>, \<^verbatim>\<open>stage_status.go\<close> and the status
  mapping of \<^verbatim>\<open>setup_status_client.go\<close> and \<^verbatim>\<open>internal/ctr/task.go\<close>: the state of a cell from the statuses
  of its containers, the restart and reap policies, the failure breadcrumb, and the stages that run
  once. The lemmas characterise the derived state on populated statuses and show that a create
  stage runs once per content.
\<close>

section \<open>Maps built by a loop\<close>

text \<open>\<^verbatim>\<open>for _, x := range xs { m[key(x)] = x }\<close>: the last element with a key stays.\<close>

definition by_key :: "('a \<Rightarrow> 'k) \<Rightarrow> 'a list \<Rightarrow> ('k, 'a) gomap" where
  "by_key key xs = foldl (\<lambda>m x. map_put (key x) x m) [] xs"

section \<open>Run-once stages\<close>

definition stageHashLen :: nat where "stageHashLen = 16"

definition StageDone :: string where "StageDone = ''done''"

text \<open>The digest is a parameter: the hexadecimal SHA-256 of a byte string.\<close>

definition stageContentHash :: "(string \<Rightarrow> string) \<Rightarrow> TtyStage \<Rightarrow> string" where
  "stageContentHash sha256 stage = take stageHashLen (sha256 (ts_Script stage @ CHR 0x00 # ts_RunOn stage))"

text \<open>One iteration of the merge: the record kept for the stage at a position of \<^verbatim>\<open>OnInit\<close>.\<close>

definition merged_stage ::
  "(string \<Rightarrow> string) \<Rightarrow> (int, StageStatus) gomap \<Rightarrow> (int, StageStatus) gomap \<Rightarrow> nat \<times> TtyStage \<Rightarrow> StageStatus list" where
  "merged_stage sha256 liveByIndex priorByIndex = (\<lambda>(i, stage).
     if ts_RunOn stage \<noteq> RunOnCreate then []
     else let hash = stageContentHash sha256 stage in
       case map_of liveByIndex (int i) of
         Some liveStat \<Rightarrow> [liveStat\<lparr>ss_Hash := hash\<rparr>]
       | None \<Rightarrow>
           (case map_of priorByIndex (int i) of
              Some priorStat \<Rightarrow>
                if ss_Hash priorStat = hash \<and> ss_State priorStat = StageDone then [priorStat] else []
            | None \<Rightarrow> []))"

definition mergeStageStatuses ::
  "(string \<Rightarrow> string) \<Rightarrow> ContainerSpec \<Rightarrow> StageStatus slice \<Rightarrow> StageStatus slice \<Rightarrow> StageStatus slice" where
  "mergeStageStatuses sha256 spec prior live =
     (case cs_Tty spec of
        None \<Rightarrow> None
      | Some tty \<Rightarrow>
          let out = concat (map (merged_stage sha256 (by_key ss_Index (elems live)) (by_key ss_Index (elems prior)))
                (enumerate 0 (elems (tty_OnInit tty))))
          in if out = [] then None else Some out)"

definition priorStagesForContainer :: "Cell \<Rightarrow> string \<Rightarrow> StageStatus slice" where
  "priorStagesForContainer cell containerID =
     (case find (\<lambda>s. st_ID s = containerID) (ceT_Containers (ce_Status cell)) of
        Some s \<Rightarrow> st_Stages s
      | None \<Rightarrow> None)"

text \<open>The gate rewrites the rendered stages in place; the model returns the new list.\<close>

definition applyStageRenderGate ::
  "(string \<Rightarrow> string) \<Rightarrow> TtyStage list \<Rightarrow> StageStatus slice \<Rightarrow> TtyStage list" where
  "applyStageRenderGate sha256 onInit priorStages =
     (if onInit = [] \<or> elems priorStages = [] then onInit
      else let doneHashes = map ss_Hash (filter (\<lambda>st. \<not> (ss_State st \<noteq> StageDone \<or> ss_Hash st = '''')) (elems priorStages))
        in if doneHashes = [] then onInit
        else map (\<lambda>stage. if ts_RunOn stage \<noteq> RunOnCreate then stage
               else if stageContentHash sha256 stage \<in> set doneHashes then stage\<lparr>ts_Script := ''''\<rparr>
               else stage) onInit)"

definition hasCreateStages :: "ContainerSpec \<Rightarrow> bool" where
  "hasCreateStages containerSpec =
     (case cs_Tty containerSpec of
        None \<Rightarrow> False
      | Some tty \<Rightarrow> list_ex (\<lambda>s. ts_RunOn s = RunOnCreate) (elems (tty_OnInit tty)))"

section \<open>Setup status over the wire\<close>

record setup_Repo =
  wr_Name :: string
  wr_Target :: string
  wr_State :: string
  wr_Commit :: string
  wr_Error :: string

record setup_Stage =
  ws_Index :: int
  ws_State :: string
  ws_Error :: string
  ws_Hash :: string

record setup_Reply =
  wp_Repos :: "setup_Repo slice"
  wp_Stages :: "setup_Stage slice"

definition repoStatusToInternal :: "setup_Repo slice \<Rightarrow> RepoStatus slice" where
  "repoStatusToInternal repos =
     (if elems repos = [] then None
      else Some (map (\<lambda>r. \<lparr>rs_Name = wr_Name r, rs_Target = wr_Target r, rs_State = wr_State r,
             rs_Commit = wr_Commit r, rs_Error = wr_Error r\<rparr>) (elems repos)))"

definition stageStatusToInternal :: "setup_Stage slice \<Rightarrow> StageStatus slice" where
  "stageStatusToInternal stages =
     (if elems stages = [] then None
      else Some (map (\<lambda>s. \<lparr>ss_Index = ws_Index s, ss_State = ws_State s, ss_Error = ws_Error s,
             ss_Hash = ''''\<rparr>) (elems stages)))"

section \<open>Exit codes\<close>

definition exitSignalCodeBase :: int where "exitSignalCodeBase = 128"
definition maxSignalNumber :: int where "maxSignalNumber = 64"

definition exitSignalName :: "(int \<Rightarrow> string) \<Rightarrow> int \<Rightarrow> string" where
  "exitSignalName SignalName exitCode =
     (let signum = exitCode - exitSignalCodeBase in
      if signum \<le> 0 \<or> signum > maxSignalNumber then '''' else SignalName signum)"

text \<open>The status of a containerd task, with the exit status as the \<^verbatim>\<open>uint32\<close> it is.\<close>

datatype ProcessStatus = Running | Created | Stopped | Paused | Pausing | Unknown | OtherStatus string

record TaskStatus =
  tk_Status :: ProcessStatus
  tk_ExitStatus :: "32 word"
  tk_ExitTime :: gotime

definition ConvertContainerdStatusToContainerState :: "TaskStatus \<Rightarrow> ContainerState" where
  "ConvertContainerdStatusToContainerState status =
     (case tk_Status status of
        Running \<Rightarrow> ContainerStateReady
      | Stopped \<Rightarrow> if tk_ExitStatus status \<noteq> 0 then ContainerStateError else ContainerStateExited
      | Created \<Rightarrow> ContainerStatePending
      | Unknown \<Rightarrow> ContainerStateUnknown
      | Paused \<Rightarrow> ContainerStatePaused
      | Pausing \<Rightarrow> ContainerStatePausing
      | OtherStatus _ \<Rightarrow> ContainerStateUnknown)"

record ContainerObservation =
  ob_State :: ContainerState
  ob_ExitCode :: int
  ob_ExitTime :: gotime

definition unobserved :: "ContainerState \<Rightarrow> ContainerObservation" where
  "unobserved s = \<lparr>ob_State = s, ob_ExitCode = 0, ob_ExitTime = 0\<rparr>"

section \<open>Predicates on states\<close>

definition observedGenerationBehind :: "CellStatus \<Rightarrow> int \<Rightarrow> bool" where
  "observedGenerationBehind status generation \<longleftrightarrow> ceT_ObservedGeneration status \<noteq> generation"

definition cellStateIsSticky :: "CellState \<Rightarrow> bool" where
  "cellStateIsSticky s \<longleftrightarrow> s = CellStateFailed \<or> s = CellStateError"

definition cellStateAutoDeleteTriggers :: "CellState \<Rightarrow> bool" where
  "cellStateAutoDeleteTriggers s \<longleftrightarrow> s = CellStateExited"

definition latchReadyObserved :: "bool \<Rightarrow> CellState \<Rightarrow> CellState \<Rightarrow> bool" where
  "latchReadyObserved prior originalState newState \<longleftrightarrow>
     prior \<or> newState = CellStateReady \<or> originalState = CellStateReady
     \<or> newState = CellStateDegraded \<or> originalState = CellStateDegraded"

definition shouldAutoDeleteCell :: "bool \<Rightarrow> CellState \<Rightarrow> bool \<Rightarrow> bool" where
  "shouldAutoDeleteCell autoDelete newState readyObserved \<longleftrightarrow>
     autoDelete \<and> cellStateAutoDeleteTriggers newState \<and> readyObserved"

fun containerStateIsTerminal :: "ContainerState \<Rightarrow> bool" where
  "containerStateIsTerminal ContainerStateStopped = True"
| "containerStateIsTerminal ContainerStateExited = True"
| "containerStateIsTerminal ContainerStateError = True"
| "containerStateIsTerminal ContainerStateFailed = True"
| "containerStateIsTerminal ContainerStateNotCreated = True"
| "containerStateIsTerminal _ = False"

text \<open>The four states the switches treat as a live task.\<close>

fun containerStateIsActive :: "ContainerState \<Rightarrow> bool" where
  "containerStateIsActive ContainerStateReady = True"
| "containerStateIsActive ContainerStatePending = True"
| "containerStateIsActive ContainerStatePaused = True"
| "containerStateIsActive ContainerStatePausing = True"
| "containerStateIsActive _ = False"

definition restartPolicyPermitsContainerReap :: "string \<Rightarrow> int \<Rightarrow> bool" where
  "restartPolicyPermitsContainerReap policy exitCode =
     (if policy = RestartPolicyAlways then True
      else if policy = RestartPolicyOnFailure then exitCode \<noteq> 0
      else if policy = '''' \<or> policy = RestartPolicyNever then False
      else True)"

definition restartPolicyRequiresRestart :: "string \<Rightarrow> int \<Rightarrow> bool" where
  "restartPolicyRequiresRestart policy exitCode =
     (if policy = RestartPolicyAlways then True
      else if policy = RestartPolicyOnFailure then exitCode \<noteq> 0
      else if policy = '''' \<or> policy = RestartPolicyNever then False
      else True)"

definition containerExitedNonZero :: "ContainerStatus \<Rightarrow> bool" where
  "containerExitedNonZero status \<longleftrightarrow>
     st_State status = ContainerStateFailed \<or> st_State status = ContainerStateError \<or> st_ExitCode status \<noteq> 0"

definition nonRootWorkloadDegraded :: "ContainerSpec \<Rightarrow> ContainerStatus \<Rightarrow> bool" where
  "nonRootWorkloadDegraded spec status \<longleftrightarrow>
     containerExitedNonZero status \<or> restartPolicyRequiresRestart (cs_RestartPolicy spec) (st_ExitCode status)"

definition hasNonRootContainerSpec :: "ContainerSpec list \<Rightarrow> bool" where
  "hasNonRootContainerSpec specs = list_ex (\<lambda>s. \<not> cs_Root s) specs"

definition findRootContainerSpec :: "Cell \<Rightarrow> ContainerSpec option" where
  "findRootContainerSpec cell =
     (case find cs_Root (ceS_Containers (ce_Spec cell)) of
        Some s \<Rightarrow> Some s
      | None \<Rightarrow>
          if ceS_RootContainerID (ce_Spec cell) \<noteq> ''''
          then find (\<lambda>s. cs_ID s = ceS_RootContainerID (ce_Spec cell)) (ceS_Containers (ce_Spec cell))
          else None)"

definition rootContainerStillRunning :: "string \<Rightarrow> ContainerStatus list \<Rightarrow> bool" where
  "rootContainerStillRunning rootID statuses =
     (case find (\<lambda>s. st_ID s = rootID) statuses of
        Some s \<Rightarrow> containerStateIsActive (st_State s)
      | None \<Rightarrow> False)"

definition rootContainerExitedNonZero :: "string \<Rightarrow> ContainerStatus list \<Rightarrow> bool" where
  "rootContainerExitedNonZero rootID statuses =
     (case find (\<lambda>s. st_ID s = rootID) statuses of
        Some s \<Rightarrow> containerExitedNonZero s
      | None \<Rightarrow> False)"

definition containerStatusesEqual :: "ContainerStatus list \<Rightarrow> ContainerStatus list \<Rightarrow> bool" where
  "containerStatusesEqual a b \<longleftrightarrow>
     length a = length b \<and> list_all (\<lambda>(x, y). st_ID x = st_ID y \<and> st_State x = st_State y) (zip a b)"

definition countContainerStatusChanges :: "ContainerStatus list \<Rightarrow> ContainerStatus list \<Rightarrow> nat" where
  "countContainerStatusChanges orig next =
     (let prevByID = foldl (\<lambda>m s. map_put (st_ID s) (st_State s) m) [] orig
      in length (filter (\<lambda>s. map_of prevByID (st_ID s) \<noteq> Some (st_State s)) next))"

section \<open>The state of a cell from its containers\<close>

record tally =
  ta_seen :: nat
  ta_anyActive :: bool
  ta_anyUnknown :: bool
  ta_anyFailed :: bool
  ta_anyDegraded :: bool

definition tally_status :: "(string, ContainerSpec) gomap \<Rightarrow> tally \<Rightarrow> ContainerStatus \<Rightarrow> tally" where
  "tally_status nonRootSpecs t status =
     (case map_of nonRootSpecs (st_ID status) of
        None \<Rightarrow> t
      | Some spec \<Rightarrow>
          let t = t\<lparr>ta_seen := Suc (ta_seen t)\<rparr> in
          if containerStateIsActive (st_State status) then t\<lparr>ta_anyActive := True\<rparr>
          else if st_State status = ContainerStateUnknown then t\<lparr>ta_anyUnknown := True\<rparr>
          else t\<lparr>ta_anyFailed := ta_anyFailed t \<or> containerExitedNonZero status,
                 ta_anyDegraded := ta_anyDegraded t \<or> nonRootWorkloadDegraded spec status\<rparr>)"

definition no_tally :: tally where
  "no_tally = \<lparr>ta_seen = 0, ta_anyActive = False, ta_anyUnknown = False, ta_anyFailed = False, ta_anyDegraded = False\<rparr>"

definition deriveCellStateFromNonRootContainerStatuses ::
  "ContainerSpec list \<Rightarrow> ContainerStatus list \<Rightarrow> CellState" where
  "deriveCellStateFromNonRootContainerStatuses specs statuses =
     (let nonRootSpecs = by_key cs_ID (filter (\<lambda>s. \<not> cs_Root s) specs);
          t = foldl (tally_status nonRootSpecs) no_tally statuses in
      if ta_seen t < length nonRootSpecs then CellStateUnknown
      else if ta_anyActive t then (if ta_anyDegraded t then CellStateDegraded else CellStateReady)
      else if ta_anyUnknown t then CellStateUnknown
      else if ta_anyFailed t then CellStateError
      else CellStateExited)"

section \<open>The failure breadcrumb\<close>

definition reasonWorkloadFailed :: string where "reasonWorkloadFailed = ''WorkloadFailed''"

definition formatContainerFailure :: "ContainerStatus \<Rightarrow> message" where
  "formatContainerFailure st =
     (if st_ExitSignal st \<noteq> ''''
      then Sprintf ''container %q terminated by %s (exit code %d)'' [QStr (st_ID st), QStr (st_ExitSignal st), DInt (st_ExitCode st)]
      else Sprintf ''container %q exited with code %d'' [QStr (st_ID st), DInt (st_ExitCode st)])"

definition describeCellFailure :: "Cell \<Rightarrow> message" where
  "describeCellFailure cell =
     (let statusByID = by_key st_ID (ceT_Containers (ce_Status cell)) in
      if hasNonRootContainerSpec (ceS_Containers (ce_Spec cell)) then
        (case List.map_filter (\<lambda>spec. if cs_Root spec then None
             else case map_of statusByID (cs_ID spec) of
                 Some st \<Rightarrow> if containerStateIsTerminal (st_State st) \<and> containerExitedNonZero st then Some st else None
               | None \<Rightarrow> None) (ceS_Containers (ce_Spec cell)) of
           st # _ \<Rightarrow> formatContainerFailure st
         | [] \<Rightarrow> Msg '''')
      else
        (case findRootContainerSpec cell of
           Some rootSpec \<Rightarrow>
             (case map_of statusByID (cs_ID rootSpec) of
                Some st \<Rightarrow> if containerExitedNonZero st then formatContainerFailure st else Msg ''''
              | None \<Rightarrow> Msg '''')
         | None \<Rightarrow> Msg ''''))"

definition cellFailureBreadcrumb :: "Cell \<Rightarrow> string \<times> message" where
  "cellFailureBreadcrumb cell =
     (let msg = describeCellFailure cell in
      (reasonWorkloadFailed, if msg = Msg '''' then Msg ''workload exited with a non-zero status'' else msg))"

definition stampCellFailure :: "Cell \<Rightarrow> Cell" where
  "stampCellFailure cell =
     cell\<lparr>ce_Status := (ce_Status cell)\<lparr>ceT_Reason := fst (cellFailureBreadcrumb cell),
       ceT_Message := snd (cellFailureBreadcrumb cell)\<rparr>\<rparr>"

definition markCellReady :: "Cell \<Rightarrow> Cell" where
  "markCellReady cell =
     cell\<lparr>ce_Status := (ce_Status cell)\<lparr>ceT_State := CellStateReady, ceT_ReadyObserved := True,
       ceT_Reason := '''', ceT_Message := Msg ''''\<rparr>\<rparr>"

section \<open>Reaping\<close>

definition shouldWindDownCell :: "Cell \<Rightarrow> CellState \<Rightarrow> bool" where
  "shouldWindDownCell cell newState =
     (if \<not> cellStateAutoDeleteTriggers newState \<or> \<not> ceT_ReadyObserved (ce_Status cell) then False
      else if \<not> hasNonRootContainerSpec (ceS_Containers (ce_Spec cell)) then False
      else case findRootContainerSpec cell of
          None \<Rightarrow> False
        | Some rootSpec \<Rightarrow> rootContainerStillRunning (cs_ID rootSpec) (ceT_Containers (ce_Status cell)))"

definition restartPolicyPermitsCellReap :: "Cell \<Rightarrow> bool" where
  "restartPolicyPermitsCellReap cell =
     (let statusByID = by_key st_ID (ceT_Containers (ce_Status cell)) in
      list_all (\<lambda>spec. cs_Root spec
        \<or> (case map_of statusByID (cs_ID spec) of
             None \<Rightarrow> True
           | Some status \<Rightarrow> \<not> containerStateIsTerminal (st_State status)
               \<or> restartPolicyPermitsContainerReap (cs_RestartPolicy spec) (st_ExitCode status)))
        (ceS_Containers (ce_Spec cell)))"

section \<open>Restart tuning\<close>

definition restartBackoff :: int where "restartBackoff = 30 * time_Second"
definition onFailureMaxRestarts :: int where "onFailureMaxRestarts = 5"

definition effectiveRestartBackoff :: "ContainerSpec \<Rightarrow> int" where
  "effectiveRestartBackoff spec =
     (case cs_RestartBackoffSeconds spec of
        Some s \<Rightarrow> wrap64 (s * time_Second)
      | None \<Rightarrow> restartBackoff)"

definition effectiveOnFailureMaxRestarts :: "ContainerSpec \<Rightarrow> int" where
  "effectiveOnFailureMaxRestarts spec =
     (case cs_RestartMaxRetries spec of
        Some n \<Rightarrow> n
      | None \<Rightarrow> onFailureMaxRestarts)"

fun update_first :: "('a \<Rightarrow> bool) \<Rightarrow> ('a \<Rightarrow> 'a) \<Rightarrow> 'a list \<Rightarrow> 'a list" where
  "update_first P f [] = []"
| "update_first P f (x # xs) = (if P x then f x # xs else x # update_first P f xs)"

definition stampContainerRestart :: "Cell \<Rightarrow> string \<Rightarrow> gotime \<Rightarrow> Cell" where
  "stampContainerRestart cell containerID now =
     cell\<lparr>ce_Status := (ce_Status cell)\<lparr>ceT_Containers :=
       update_first (\<lambda>s. st_ID s = containerID)
         (\<lambda>s. s\<lparr>st_RestartCount := wrap64 (st_RestartCount s + 1), st_RestartTime := now\<rparr>)
         (ceT_Containers (ce_Status cell))\<rparr>\<rparr>"

section \<open>Lookups in the maps a loop builds\<close>

lemma by_key_snoc: "by_key f (xs @ [x]) = map_put (f x) x (by_key f xs)"
  by (simp add: by_key_def)

lemma map_of_by_key: "map_of (by_key f xs) k = find (\<lambda>x. f x = k) (rev xs)"
  by (induction xs rule: rev_induct) (auto simp: by_key_snoc map_of_map_put, simp add: by_key_def)

lemma by_key_SomeD: "map_of (by_key f xs) k = Some x \<Longrightarrow> x \<in> set xs \<and> f x = k"
  by (induction xs rule: rev_induct) (auto simp: by_key_snoc split: if_splits, simp add: by_key_def)

lemma by_key_None_iff: "map_of (by_key f xs) k = None \<longleftrightarrow> k \<notin> f ` set xs"
  by (auto simp: map_of_by_key find_None_iff)

lemma keys_by_key: "fst ` set (by_key f xs) = f ` set xs"
  by (induction xs rule: rev_induct) (auto simp: by_key_snoc keys_map_put, simp_all add: by_key_def)

lemma gomap_ok_by_key: "gomap_ok (by_key f xs)"
  by (induction xs rule: rev_induct) (auto simp: by_key_snoc gomap_ok_map_put, simp add: by_key_def gomap_ok_def)

lemma length_by_key: "length (by_key f xs) = card (f ` set xs)"
proof -
  have "card (set (map fst (by_key f xs))) = length (map fst (by_key f xs))"
    using gomap_ok_by_key[of f xs] by (intro distinct_card) (simp add: gomap_ok_def)
  then show ?thesis by (simp add: keys_by_key)
qed

lemma by_key_distinct:
  assumes "distinct (map f xs)" "x \<in> set xs"
  shows "map_of (by_key f xs) (f x) = Some x"
proof -
  obtain y where y: "map_of (by_key f xs) (f x) = Some y"
    using assms(2) by_key_None_iff[of f xs "f x"] by fastforce
  with by_key_SomeD[OF y] assms have "y = x" by (auto simp: distinct_map inj_on_def)
  with y show ?thesis by simp
qed

section \<open>The verdict on the workloads\<close>

lemma terminal_not_active: "containerStateIsTerminal s \<longleftrightarrow> \<not> containerStateIsActive s \<and> s \<noteq> ContainerStateUnknown"
  by (cases s) simp_all

lemma tally_unknown_id: "map_of m (st_ID s) = None \<Longrightarrow> tally_status m t s = t"
  by (simp add: tally_status_def)

lemma tally_known_id:
  assumes "map_of m (st_ID s) = Some spec"
  shows "ta_seen (tally_status m t s) = Suc (ta_seen t)"
    "ta_anyActive (tally_status m t s) \<longleftrightarrow> ta_anyActive t \<or> containerStateIsActive (st_State s)"
    "ta_anyUnknown (tally_status m t s) \<longleftrightarrow> ta_anyUnknown t \<or> st_State s = ContainerStateUnknown"
    "ta_anyFailed (tally_status m t s) \<longleftrightarrow> ta_anyFailed t \<or> containerStateIsTerminal (st_State s) \<and> containerExitedNonZero s"
    "ta_anyDegraded (tally_status m t s) \<longleftrightarrow>
       ta_anyDegraded t \<or> containerStateIsTerminal (st_State s) \<and> nonRootWorkloadDegraded spec s"
  using assms by (cases "st_State s"; simp add: tally_status_def Let_def)+

text \<open>The flags of the loop over the statuses, for the statuses of known workloads.\<close>

definition known_statuses :: "(string, ContainerSpec) gomap \<Rightarrow> ContainerStatus list \<Rightarrow> ContainerStatus list" where
  "known_statuses m ss = filter (\<lambda>s. map_of m (st_ID s) \<noteq> None) ss"

lemma tally_fold:
  "ta_seen (foldl (tally_status m) no_tally ss) = length (known_statuses m ss)
    \<and> (ta_anyActive (foldl (tally_status m) no_tally ss) \<longleftrightarrow> (\<exists>s\<in>set (known_statuses m ss). containerStateIsActive (st_State s)))
    \<and> (ta_anyUnknown (foldl (tally_status m) no_tally ss) \<longleftrightarrow> (\<exists>s\<in>set (known_statuses m ss). st_State s = ContainerStateUnknown))
    \<and> (ta_anyFailed (foldl (tally_status m) no_tally ss) \<longleftrightarrow>
        (\<exists>s\<in>set (known_statuses m ss). containerStateIsTerminal (st_State s) \<and> containerExitedNonZero s))
    \<and> (ta_anyDegraded (foldl (tally_status m) no_tally ss) \<longleftrightarrow>
        (\<exists>s\<in>set (known_statuses m ss). containerStateIsTerminal (st_State s)
          \<and> nonRootWorkloadDegraded (the (map_of m (st_ID s))) s))"
proof (induction ss rule: rev_induct)
  case Nil
  show ?case by (simp add: no_tally_def known_statuses_def)
next
  case (snoc s ss)
  obtain t where t: "foldl (tally_status m) no_tally ss = t" by simp
  show ?case
  proof (cases "map_of m (st_ID s)")
    case None
    then have "known_statuses m (ss @ [s]) = known_statuses m ss" by (simp add: known_statuses_def)
    with snoc.IH None show ?thesis by (simp only: foldl_append foldl.simps tally_unknown_id)
  next
    case (Some spec)
    then have k: "known_statuses m (ss @ [s]) = known_statuses m ss @ [s]" by (simp add: known_statuses_def)
    have step: "foldl (tally_status m) no_tally (ss @ [s]) = tally_status m t s" using t by simp
    note ih = snoc.IH[unfolded t]
    have in_k: "(\<exists>x\<in>set (known_statuses m (ss @ [s])). P x) \<longleftrightarrow> (\<exists>x\<in>set (known_statuses m ss). P x) \<or> P s" for P
      unfolding k by auto
    show ?thesis
      unfolding step in_k tally_known_id[OF Some] using ih by (simp only: k length_append Some option.sel) simp
  qed
qed

lemma derive_alt:
  fixes specs statuses
  defines "m \<equiv> by_key cs_ID (filter (\<lambda>s. \<not> cs_Root s) specs)"
  shows "deriveCellStateFromNonRootContainerStatuses specs statuses =
    (if length (known_statuses m statuses) < card (cs_ID ` set (filter (\<lambda>s. \<not> cs_Root s) specs)) then CellStateUnknown
     else if \<exists>s\<in>set (known_statuses m statuses). containerStateIsActive (st_State s) then
       (if \<exists>s\<in>set (known_statuses m statuses). containerStateIsTerminal (st_State s)
            \<and> nonRootWorkloadDegraded (the (map_of m (st_ID s))) s then CellStateDegraded else CellStateReady)
     else if \<exists>s\<in>set (known_statuses m statuses). st_State s = ContainerStateUnknown then CellStateUnknown
     else if \<exists>s\<in>set (known_statuses m statuses). containerStateIsTerminal (st_State s) \<and> containerExitedNonZero s
     then CellStateError else CellStateExited)"
  unfolding deriveCellStateFromNonRootContainerStatuses_def Let_def m_def[symmetric]
  using tally_fold[of m statuses] length_by_key[of cs_ID "filter (\<lambda>s. \<not> cs_Root s) specs", folded m_def] by simp

text \<open>The workloads of a cell with the statuses a populate pass gave them.\<close>

definition workloads :: "ContainerSpec list \<Rightarrow> ContainerStatus list \<Rightarrow> (ContainerSpec \<times> ContainerStatus) list" where
  "workloads specs statuses = filter (\<lambda>(c, s). \<not> cs_Root c) (zip specs statuses)"

lemma workloads_known:
  assumes ids: "map st_ID statuses = map cs_ID specs" and d: "distinct (map cs_ID specs)"
  shows "known_statuses (by_key cs_ID (filter (\<lambda>s. \<not> cs_Root s) specs)) statuses = map snd (workloads specs statuses)"
    and "card (cs_ID ` set (filter (\<lambda>s. \<not> cs_Root s) specs)) = length (workloads specs statuses)"
    and "(c, s) \<in> set (workloads specs statuses) \<Longrightarrow>
      map_of (by_key cs_ID (filter (\<lambda>s. \<not> cs_Root s) specs)) (st_ID s) = Some c"
proof -
  let ?N = "filter (\<lambda>s. \<not> cs_Root s) specs"
  let ?m = "by_key cs_ID ?N"
  have len: "length statuses = length specs" using arg_cong[OF ids, of length] by simp
  have pair: "st_ID s = cs_ID c \<and> c \<in> set specs" if "(c, s) \<in> set (zip specs statuses)" for c s
  proof -
    from that obtain i where "i < length specs" "specs ! i = c" "statuses ! i = s" using len by (auto simp: set_zip)
    then show ?thesis using ids len by (metis nth_map nth_mem)
  qed
  have dN: "distinct (map cs_ID ?N)" using d by (simp add: distinct_map_filter)
  have known: "map_of ?m (cs_ID c) = (if cs_Root c then None else Some c)" if "c \<in> set specs" for c
  proof (cases "cs_Root c")
    case True
    then have "cs_ID c \<notin> cs_ID ` set ?N" using d that by (auto simp: distinct_map inj_on_def)
    then show ?thesis using True by_key_None_iff[of cs_ID ?N "cs_ID c"] by auto
  next
    case False
    then show ?thesis using by_key_distinct[OF dN, of c] that by simp
  qed
  have "known_statuses ?m (map snd (zip specs statuses)) = map snd (filter (\<lambda>(c, s). map_of ?m (st_ID s) \<noteq> None) (zip specs statuses))"
    by (simp add: known_statuses_def filter_map o_def case_prod_unfold)
  then have "known_statuses ?m statuses = map snd (filter (\<lambda>(c, s). map_of ?m (st_ID s) \<noteq> None) (zip specs statuses))"
    using len by simp
  also have "filter (\<lambda>(c, s). map_of ?m (st_ID s) \<noteq> None) (zip specs statuses) = workloads specs statuses"
    unfolding workloads_def by (rule filter_cong) (auto simp: pair known)
  finally show "known_statuses ?m statuses = map snd (workloads specs statuses)" .
  have "map fst (workloads specs statuses) = filter (\<lambda>s. \<not> cs_Root s) (map fst (zip specs statuses))"
    by (simp add: workloads_def filter_map o_def case_prod_unfold)
  then have "map fst (workloads specs statuses) = ?N" using len by simp
  then have "length (workloads specs statuses) = length ?N" by (metis length_map)
  then show "card (cs_ID ` set ?N) = length (workloads specs statuses)"
    using distinct_card[OF dN] by simp
  show "map_of ?m (st_ID s) = Some c" if "(c, s) \<in> set (workloads specs statuses)"
    using that pair known by (auto simp: workloads_def)
qed

lemma ex_snd: "(\<exists>s\<in>set (map snd xs). P s) \<longleftrightarrow> (\<exists>(c, s)\<in>set xs. P s)"
  by (auto simp: case_prod_unfold)

lemma derive_workloads:
  assumes "map st_ID statuses = map cs_ID specs" "distinct (map cs_ID specs)"
  shows "deriveCellStateFromNonRootContainerStatuses specs statuses =
    (if \<exists>(c, s)\<in>set (workloads specs statuses). containerStateIsActive (st_State s) then
       (if \<exists>(c, s)\<in>set (workloads specs statuses). containerStateIsTerminal (st_State s) \<and> nonRootWorkloadDegraded c s
        then CellStateDegraded else CellStateReady)
     else if \<exists>(c, s)\<in>set (workloads specs statuses). st_State s = ContainerStateUnknown then CellStateUnknown
     else if \<exists>(c, s)\<in>set (workloads specs statuses). containerStateIsTerminal (st_State s) \<and> containerExitedNonZero s
     then CellStateError else CellStateExited)"
proof -
  let ?m = "by_key cs_ID (filter (\<lambda>s. \<not> cs_Root s) specs)"
  have "(\<exists>(c, s)\<in>set (workloads specs statuses). containerStateIsTerminal (st_State s) \<and> nonRootWorkloadDegraded (the (map_of ?m (st_ID s))) s)
    \<longleftrightarrow> (\<exists>(c, s)\<in>set (workloads specs statuses). containerStateIsTerminal (st_State s) \<and> nonRootWorkloadDegraded c s)"
    by (rule bex_cong[OF refl]) (auto simp: workloads_known(3)[OF assms])
  then show ?thesis
    unfolding derive_alt workloads_known(1,2)[OF assms] ex_snd by simp
qed


definition demo_workload :: "string \<Rightarrow> string \<Rightarrow> ContainerSpec" where
  "demo_workload name policy = zeroContainerSpec\<lparr>cs_ID := name, cs_RestartPolicy := policy\<rparr>"

definition demo_status :: "string \<Rightarrow> ContainerState \<Rightarrow> int \<Rightarrow> ContainerStatus" where
  "demo_status name state code = zeroContainerStatus\<lparr>st_Name := name, st_ID := name, st_State := state, st_ExitCode := code\<rparr>"


section \<open>Stages run once\<close>

text \<open>A create stage recorded as done: by the live report, else by an earlier record of the same content.\<close>

definition stage_done :: "(string \<Rightarrow> string) \<Rightarrow> StageStatus slice \<Rightarrow> StageStatus slice \<Rightarrow> nat \<Rightarrow> TtyStage \<Rightarrow> bool" where
  "stage_done sha256 prior live i stage \<longleftrightarrow> ts_RunOn stage = RunOnCreate
     \<and> (case map_of (by_key ss_Index (elems live)) (int i) of
          Some l \<Rightarrow> ss_State l = StageDone
        | None \<Rightarrow>
            (case map_of (by_key ss_Index (elems prior)) (int i) of
               Some p \<Rightarrow> ss_State p = StageDone \<and> ss_Hash p = stageContentHash sha256 stage
             | None \<Rightarrow> False))"

lemma merged_stage_done:
  "(\<exists>st\<in>set (merged_stage sha256 (by_key ss_Index (elems live)) (by_key ss_Index (elems prior)) (i, stage)).
      ss_State st = StageDone \<and> ss_Hash st = h)
    \<longleftrightarrow> stage_done sha256 prior live i stage \<and> h = stageContentHash sha256 stage"
  by (auto simp: merged_stage_def stage_done_def Let_def split: option.splits)

lemma merged_done:
  assumes "cs_Tty spec = Some tty"
  shows "(\<exists>st\<in>set (elems (mergeStageStatuses sha256 spec prior live)). ss_State st = StageDone \<and> ss_Hash st = h)
    \<longleftrightarrow> (\<exists>i < length (elems (tty_OnInit tty)). stage_done sha256 prior live i (elems (tty_OnInit tty) ! i)
          \<and> h = stageContentHash sha256 (elems (tty_OnInit tty) ! i))"
proof -
  let ?f = "merged_stage sha256 (by_key ss_Index (elems live)) (by_key ss_Index (elems prior))"
  have "elems (mergeStageStatuses sha256 spec prior live) = concat (map ?f (enumerate 0 (elems (tty_OnInit tty))))"
    using assms by (simp add: mergeStageStatuses_def Let_def)
  then have "(\<exists>st\<in>set (elems (mergeStageStatuses sha256 spec prior live)). ss_State st = StageDone \<and> ss_Hash st = h)
      \<longleftrightarrow> (\<exists>x\<in>set (enumerate 0 (elems (tty_OnInit tty))). \<exists>st\<in>set (?f x). ss_State st = StageDone \<and> ss_Hash st = h)"
    by auto
  also have "\<dots> \<longleftrightarrow> (\<exists>(i, stage)\<in>set (enumerate 0 (elems (tty_OnInit tty))). stage_done sha256 prior live i stage \<and> h = stageContentHash sha256 stage)"
  proof (rule bex_cong[OF refl], goal_cases)
    case (1 x)
    show ?case by (cases x) (simp only: merged_stage_done prod.case)
  qed
  also have "\<dots> \<longleftrightarrow> (\<exists>i < length (elems (tty_OnInit tty)). stage_done sha256 prior live i (elems (tty_OnInit tty) ! i)
          \<and> h = stageContentHash sha256 (elems (tty_OnInit tty) ! i))"
    by (auto simp: in_set_enumerate_eq)
  finally show ?thesis .
qed

lemma gate_nth:
  assumes "i < length onInit"
  shows "applyStageRenderGate sha256 onInit stages ! i =
    (if ts_RunOn (onInit ! i) = RunOnCreate \<and> stageContentHash sha256 (onInit ! i) \<noteq> ''''
        \<and> (\<exists>st\<in>set (elems stages). ss_State st = StageDone \<and> ss_Hash st = stageContentHash sha256 (onInit ! i))
     then (onInit ! i)\<lparr>ts_Script := ''''\<rparr> else onInit ! i)"
  using assms by (auto simp: applyStageRenderGate_def Let_def image_iff filter_empty_conv)

lemma gate_length: "length (applyStageRenderGate sha256 onInit stages) = length onInit"
  by (simp add: applyStageRenderGate_def Let_def)


lemma by_key_Nil [simp]: "by_key f [] = []"
  by (simp add: by_key_def)

lemma merged_stage_index:
  "st \<in> set (merged_stage sha256 (by_key ss_Index lv) (by_key ss_Index pr) (i, stage)) \<Longrightarrow> ss_Index st = int i"
  by (auto simp: merged_stage_def Let_def split: option.splits if_splits dest!: by_key_SomeD sym[of "Some _"])

lemma merged_stage_short: "length (merged_stage sha256 lv pr x) \<le> 1"
  by (cases x) (auto simp: merged_stage_def Let_def split: option.splits)

lemma merged_distinct:
  "distinct (map ss_Index (concat (map (merged_stage sha256 (by_key ss_Index lv) (by_key ss_Index pr)) (enumerate n xs))))"
proof (induction xs arbitrary: n)
  case (Cons x xs)
  let ?f = "merged_stage sha256 (by_key ss_Index lv) (by_key ss_Index pr)"
  have "int n \<notin> ss_Index ` set (concat (map ?f (enumerate (Suc n) xs)))"
  proof
    assume "int n \<in> ss_Index ` set (concat (map ?f (enumerate (Suc n) xs)))"
    then obtain i s st where "(i, s) \<in> set (enumerate (Suc n) xs)" "st \<in> set (?f (i, s))" "ss_Index st = int n" by force
    then show False using merged_stage_index by (fastforce simp: in_set_enumerate_eq)
  qed
  moreover have "?f (n, x) = [] \<or> (\<exists>st. ?f (n, x) = [st] \<and> ss_Index st = int n)"
    using merged_stage_short[of sha256 "by_key ss_Index lv" "by_key ss_Index pr" "(n, x)"]
      merged_stage_index[of _ sha256 lv pr n x]
    by (cases "?f (n, x)"; cases "tl (?f (n, x))") auto
  ultimately show ?case using Cons.IH by auto
qed simp

lemma stage_done_kept:
  assumes "cs_Tty spec = Some tty" "j < length (elems (tty_OnInit tty))"
  shows "stage_done sha256 (mergeStageStatuses sha256 spec prior live) None j (elems (tty_OnInit tty) ! j)
    \<longleftrightarrow> stage_done sha256 prior live j (elems (tty_OnInit tty) ! j)"
proof -
  let ?f = "merged_stage sha256 (by_key ss_Index (elems live)) (by_key ss_Index (elems prior))"
  let ?s = "elems (tty_OnInit tty) ! j"
  let ?out = "concat (map ?f (enumerate 0 (elems (tty_OnInit tty))))"
  have out: "elems (mergeStageStatuses sha256 spec prior live) = ?out"
    using assms(1) by (simp add: mergeStageStatuses_def Let_def)
  have d: "distinct (map ss_Index ?out)" by (rule merged_distinct)
  have at: "st \<in> set ?out \<and> ss_Index st = int j \<longleftrightarrow> st \<in> set (?f (j, ?s))" for st
  proof
    assume "st \<in> set (?f (j, ?s))"
    then show "st \<in> set ?out \<and> ss_Index st = int j"
      using assms(2) merged_stage_index[of st] by (auto simp: in_set_enumerate_eq intro!: bexI[of _ "(j, ?s)"])
  next
    assume "st \<in> set ?out \<and> ss_Index st = int j"
    then obtain i where "i < length (elems (tty_OnInit tty))" "st \<in> set (?f (i, elems (tty_OnInit tty) ! i))" "ss_Index st = int j"
      by (auto simp: in_set_enumerate_eq)
    with merged_stage_index[of st] show "st \<in> set (?f (j, ?s))" by force
  qed
  have look: "map_of (by_key ss_Index ?out) (int j) = Some st \<longleftrightarrow> st \<in> set (?f (j, ?s))" for st
    using at[of st] by_key_SomeD[of ss_Index ?out "int j" st] by_key_distinct[OF d, of st] by metis
  have "stage_done sha256 (mergeStageStatuses sha256 spec prior live) None j ?s \<longleftrightarrow>
      ts_RunOn ?s = RunOnCreate \<and> (\<exists>st. st \<in> set (?f (j, ?s)) \<and> ss_State st = StageDone \<and> ss_Hash st = stageContentHash sha256 ?s)"
  proof (cases "map_of (by_key ss_Index ?out) (int j)")
    case None
    then show ?thesis unfolding stage_done_def out elems_simps by_key_Nil using look by auto
  next
    case (Some p)
    then have "st \<in> set (?f (j, ?s)) \<longleftrightarrow> st = p" for st using look[of st] by auto
    with Some show ?thesis unfolding stage_done_def out elems_simps by_key_Nil by auto
  qed
  also have "\<dots> \<longleftrightarrow> stage_done sha256 prior live j ?s"
    using merged_stage_done[of sha256 live prior j ?s "stageContentHash sha256 ?s"] by (auto simp: stage_done_def)
  finally show ?thesis .
qed



end
