(* ===== verification/Runner_World.thy ===== *)
theory Runner_World
  imports Metadata_Roundtrip Cell_State "HOL-Library.State_Monad"
begin

text \<open>
  The state the runner works on and its reads: the world (file system, restart bookkeeping, host),
  the calls to the host, the reads of realms, spaces, stacks and cells
  (\<^verbatim>\<open>internal/controller/runner/get.go\<close>), the existence checks (\<^verbatim>\<open>exists.go\<close>), the observation of a
  container (\<^verbatim>\<open>container_state.go\<close>) and the populate pass over the containers of a cell
  (\<^verbatim>\<open>helpers.go\<close>). Operations are values of the state monad; the host is a parameter whose state
  every call may change.
\<close>

section \<open>The state of the runner\<close>

text \<open>
  What an operation of the runner reads and changes: the file system, the bookkeeping of the restart
  pass, and the rest of the host (containerd, the cgroup hierarchy, the clock), whose type is left
  open.
\<close>

record containerRestartState =
  cr_attempts :: int
  cr_lastAttempt :: gotime

record 'h world =
  w_fs :: fsys
  w_restartStates :: "(string, containerRestartState) gomap"
  w_host :: 'h

type_synonym ('h, 'a) proc = "('h world, 'a) state"

text \<open>
  The runner: its options, and the calls it makes to code outside the model. A call to the host
  takes the host state and returns the next one, so that time passes and containers come and go
  between any two calls. The four last fields are operations of the runner itself that are not
  modelled; they may change everything.
\<close>

record 'h Exec =
  r_RunPath :: path
  r_ContainerdSocket :: path
  r_RealmNamespaceSuffix :: string
  r_KukeonCgroupRoot :: string
  r_address :: "nat \<Rightarrow> nat \<Rightarrow> nat"
  r_sha256 :: "string \<Rightarrow> string"
  r_SignalName :: "int \<Rightarrow> string"
  r_nowUTC :: "'h \<Rightarrow> gotime \<times> 'h"
  r_Connect :: "'h \<Rightarrow> unit result \<times> 'h"
  r_ExistsNamespace :: "string \<Rightarrow> 'h \<Rightarrow> bool result \<times> 'h"
  r_CreateNamespace :: "string \<Rightarrow> 'h \<Rightarrow> unit result \<times> 'h"
  r_ListNamespaces :: "'h \<Rightarrow> string slice result \<times> 'h"
  r_ExistsContainer :: "string \<Rightarrow> string \<Rightarrow> 'h \<Rightarrow> bool result \<times> 'h"
  r_TaskStatus :: "string \<Rightarrow> string \<Rightarrow> 'h \<Rightarrow> TaskStatus result \<times> 'h"
  r_pullSetupStatus :: "path \<Rightarrow> 'h \<Rightarrow> setup_Reply result \<times> 'h"
  r_GetCgroupMountpoint :: "'h \<Rightarrow> string \<times> 'h"
  r_LoadCgroup :: "string \<Rightarrow> string \<Rightarrow> 'h \<Rightarrow> unit result \<times> 'h"
  r_NewCgroup :: "string \<Rightarrow> string \<Rightarrow> 'h \<Rightarrow> bool result \<times> 'h"
  r_EnsureSubtreeControllers :: "string \<Rightarrow> string \<Rightarrow> string list \<Rightarrow> 'h \<Rightarrow> string slice result \<times> 'h"
  r_EnableCellSubtreeControllers :: "string \<Rightarrow> string \<Rightarrow> string list \<Rightarrow> 'h \<Rightarrow> string slice result \<times> 'h"
  r_EnableCellAllSubtreeControllers :: "string \<Rightarrow> string \<Rightarrow> 'h \<Rightarrow> string slice result \<times> 'h"
  r_StartContainer :: "Cell \<Rightarrow> string \<Rightarrow> ('h, Cell result) proc"
  r_killCellLocked :: "Cell \<Rightarrow> ('h, Cell result) proc"
  r_deleteCellLocked :: "Cell \<Rightarrow> ('h, unit result) proc"

section \<open>Calls\<close>

definition on_host :: "('h \<Rightarrow> 'a \<times> 'h) \<Rightarrow> ('h, 'a) proc" where
  "on_host f = State (\<lambda>w. case f (w_host w) of (x, h) \<Rightarrow> (x, w\<lparr>w_host := h\<rparr>))"

definition on_fs :: "'a io \<Rightarrow> ('h, 'a result) proc" where
  "on_fs m = State (\<lambda>w. case m (w_fs w) of (fs, x) \<Rightarrow> (x, w\<lparr>w_fs := fs\<rparr>))"

text \<open>\<^verbatim>\<open>if err != nil { return wrap(err) }\<close> after a call, and the same for a plain value.\<close>

definition attempt :: "(goerror \<Rightarrow> goerror) \<Rightarrow> ('h, 'a result) proc \<Rightarrow> ('a \<Rightarrow> ('h, 'b result) proc) \<Rightarrow> ('h, 'b result) proc" where
  "attempt wrap m f = do {
     x \<leftarrow> m;
     case x of Inl e \<Rightarrow> State_Monad.return (Inl (wrap e)) | Inr y \<Rightarrow> f y }"

definition give :: "'a \<Rightarrow> ('h, 'a result) proc" where
  "give x = State_Monad.return (Inr x)"

definition raise :: "goerror \<Rightarrow> ('h, 'a result) proc" where
  "raise e = State_Monad.return (Inl e)"

definition nowUTC :: "'h Exec \<Rightarrow> ('h, gotime) proc" where
  "nowUTC r = on_host (r_nowUTC r)"

definition ensureClientConnected :: "'h Exec \<Rightarrow> ('h, unit result) proc" where
  "ensureClientConnected r = on_host (r_Connect r)"

text \<open>The connection check most operations begin with.\<close>

definition connected :: "'h Exec \<Rightarrow> ('h, 'a result) proc \<Rightarrow> ('h, 'a result) proc" where
  "connected r m = attempt (Wrapped ErrConnectContainerd) (ensureClientConnected r) (\<lambda>_. m)"

abbreviation ErrRealmNotFound :: goerror where "ErrRealmNotFound \<equiv> ErrNamed ''ErrRealmNotFound''"
abbreviation ErrSpaceNotFound :: goerror where "ErrSpaceNotFound \<equiv> ErrNamed ''ErrSpaceNotFound''"
abbreviation ErrStackNotFound :: goerror where "ErrStackNotFound \<equiv> ErrNamed ''ErrStackNotFound''"
abbreviation ErrGetSpace :: goerror where "ErrGetSpace \<equiv> ErrNamed ''ErrGetSpace''"
abbreviation ErrGetStack :: goerror where "ErrGetStack \<equiv> ErrNamed ''ErrGetStack''"
abbreviation ErrGetCell :: goerror where "ErrGetCell \<equiv> ErrNamed ''ErrGetCell''"
abbreviation ErrCellNameRequired :: goerror where "ErrCellNameRequired \<equiv> ErrNamed ''ErrCellNameRequired''"
abbreviation ErrNetworkNotFound :: goerror where "ErrNetworkNotFound \<equiv> ErrNamed ''ErrNetworkNotFound''"
abbreviation ErrCheckNetworkExists :: goerror where "ErrCheckNetworkExists \<equiv> ErrNamed ''ErrCheckNetworkExists''"

definition RealmNamespace :: "'h Exec \<Rightarrow> string \<Rightarrow> string" where
  "RealmNamespace r realm = realm @ r_RealmNamespaceSuffix r"

section \<open>Reading a document\<close>

text \<open>How a read error of a document is reported: missing, not convertible, or anything else.\<close>

definition get_error :: "goerror \<Rightarrow> goerror \<Rightarrow> goerror \<Rightarrow> goerror" where
  "get_error notFound getErr e =
     (if errors_Is e ErrMissingMetadataFile then notFound
      else if errors_Is e ErrConversionFailed then e
      else Wrapped getErr e)"

definition GetRealm :: "'h Exec \<Rightarrow> string \<Rightarrow> ('h, Realm result) proc" where
  "GetRealm r name =
     attempt (get_error ErrRealmNotFound ErrGetRealm) (on_fs (readRealmInternal (RealmMetadataPath (r_RunPath r) name))) give"

definition GetSpace :: "'h Exec \<Rightarrow> Space \<Rightarrow> ('h, Space result) proc" where
  "GetSpace r space =
     (let realmName = TrimSpace (spS_RealmName (sp_Spec space));
          spaceName = TrimSpace (spM_Name (sp_Metadata space)) in
      if realmName = '''' then raise ErrRealmNameRequired
      else if spaceName = '''' then raise ErrSpaceNameRequired
      else attempt (get_error ErrSpaceNotFound ErrGetSpace)
        (on_fs (readSpaceInternal (SpaceMetadataPath (r_RunPath r) realmName spaceName))) give)"

definition GetStack :: "'h Exec \<Rightarrow> Stack \<Rightarrow> ('h, Stack result) proc" where
  "GetStack r stack =
     (let realmName = TrimSpace (skS_RealmName (sk_Spec stack));
          spaceName = TrimSpace (skS_SpaceName (sk_Spec stack));
          stackName = TrimSpace (skM_Name (sk_Metadata stack)) in
      if realmName = '''' then raise ErrRealmNameRequired
      else if spaceName = '''' then raise ErrSpaceNameRequired
      else if stackName = '''' then raise ErrStackNameRequired
      else attempt (get_error ErrStackNotFound ErrGetStack)
        (on_fs (readStackInternal (StackMetadataPath (r_RunPath r) realmName spaceName stackName))) give)"

section \<open>Cgroup paths\<close>

text \<open>\<^verbatim>\<open>filepath.Clean\<close> and \<^verbatim>\<open>filepath.Join\<close> on strings.\<close>

fun clean_names :: "bool \<Rightarrow> string list \<Rightarrow> string list \<Rightarrow> string list" where
  "clean_names rooted acc [] = rev acc"
| "clean_names rooted acc (n # ns) =
     (if n = '''' \<or> n = ''.'' then clean_names rooted acc ns
      else if n = ''..'' then
        (if acc \<noteq> [] \<and> hd acc \<noteq> ''..'' then clean_names rooted (tl acc) ns
         else if rooted then clean_names rooted acc ns
         else clean_names rooted (n # acc) ns)
      else clean_names rooted (n # acc) ns)"

fun join_names :: "string list \<Rightarrow> string" where
  "join_names [] = ''''"
| "join_names [n] = n"
| "join_names (n # ns) = n @ ''/'' @ join_names ns"

definition HasSlash :: "string \<Rightarrow> bool" where
  "HasSlash s \<longleftrightarrow> s \<noteq> '''' \<and> hd s = CHR ''/''"

definition filepath_Clean :: "string \<Rightarrow> string" where
  "filepath_Clean s =
     (let body = join_names (clean_names (HasSlash s) [] (split_on (CHR ''/'') s)) in
      if HasSlash s then CHR ''/'' # body else if body = '''' then ''.'' else body)"

definition filepath_Join :: "string list \<Rightarrow> string" where
  "filepath_Join es =
     (let es = filter (\<lambda>e. e \<noteq> '''') es in if es = [] then '''' else filepath_Clean (join_names es))"

definition TrimSlash :: "string \<Rightarrow> string" where
  "TrimSlash s = (if HasSlash s then tl s else s)"

definition DefaultRealmSpec :: "Realm \<Rightarrow> string" where
  "DefaultRealmSpec realm = ''/'' @ reM_Name (re_Metadata realm)"

definition DefaultSpaceSpec :: "Space \<Rightarrow> string" where
  "DefaultSpaceSpec space = ''/'' @ spS_RealmName (sp_Spec space) @ ''/'' @ spM_Name (sp_Metadata space)"

definition DefaultStackSpec :: "Stack \<Rightarrow> string" where
  "DefaultStackSpec stack =
     ''/'' @ skS_RealmName (sk_Spec stack) @ ''/'' @ skS_SpaceName (sk_Spec stack) @ ''/'' @ skM_Name (sk_Metadata stack)"

definition DefaultCellSpec :: "Cell \<Rightarrow> string" where
  "DefaultCellSpec cell =
     ''/'' @ ceS_RealmName (ce_Spec cell) @ ''/'' @ ceS_SpaceName (ce_Spec cell) @ ''/'' @ ceS_StackName (ce_Spec cell)
       @ ''/'' @ ceM_Name (ce_Metadata cell)"

text \<open>A cgroup spec is its group; the resources are never set. The result is the group and the mountpoint.\<close>

definition combined_group :: "'h Exec \<Rightarrow> string \<Rightarrow> string" where
  "combined_group r grp =
     (let combinedPath = filepath_Join [r_KukeonCgroupRoot r, TrimSlash grp] in
      if \<not> HasSlash combinedPath then CHR ''/'' # combinedPath else combinedPath)"

definition buildCgroupPath :: "'h Exec \<Rightarrow> string \<Rightarrow> ('h, string \<times> string) proc" where
  "buildCgroupPath r grp = do {
     mountpoint \<leftarrow> on_host (r_GetCgroupMountpoint r);
     State_Monad.return (combined_group r grp, mountpoint) }"

section \<open>Existence checks\<close>

definition ExistsRealmContainerdNamespace :: "'h Exec \<Rightarrow> string \<Rightarrow> ('h, bool result) proc" where
  "ExistsRealmContainerdNamespace r namespace = do {
     w \<leftarrow> State_Monad.get;
     if Stat (w_fs w) (r_ContainerdSocket r) = Inl ErrNotExist then give False
     else connected r (on_host (r_ExistsNamespace r namespace)) }"

definition ListContainerdNamespaces :: "'h Exec \<Rightarrow> ('h, string slice result) proc" where
  "ListContainerdNamespaces r = do {
     w \<leftarrow> State_Monad.get;
     if Stat (w_fs w) (r_ContainerdSocket r) = Inl ErrNotExist then give None
     else connected r (on_host (r_ListNamespaces r)) }"

definition ExistsContainer :: "'h Exec \<Rightarrow> string \<Rightarrow> string \<Rightarrow> ('h, bool result) proc" where
  "ExistsContainer r namespace containerdID = connected r (on_host (r_ExistsContainer r namespace containerdID))"

datatype cgroup_doc = CgRealm Realm | CgSpace Space | CgStack Stack | CgCell Cell

fun cgroup_spec :: "cgroup_doc \<Rightarrow> string result" where
  "cgroup_spec (CgRealm d) = (if reM_Name (re_Metadata d) = '''' then Inl ErrRealmNotFound else Inr (DefaultRealmSpec d))"
| "cgroup_spec (CgSpace d) =
     (if spM_Name (sp_Metadata d) = '''' then Inl ErrSpaceNotFound
      else if spS_RealmName (sp_Spec d) = '''' then Inl ErrRealmNameRequired
      else Inr (DefaultSpaceSpec d))"
| "cgroup_spec (CgStack d) = (if skM_Name (sk_Metadata d) = '''' then Inl ErrStackNotFound else Inr (DefaultStackSpec d))"
| "cgroup_spec (CgCell d) = (if ceM_Name (ce_Metadata d) = '''' then Inl ErrCellNotFound else Inr (DefaultCellSpec d))"

definition ExistsCgroup :: "'h Exec \<Rightarrow> cgroup_doc \<Rightarrow> ('h, bool result) proc" where
  "ExistsCgroup r doc = connected r (
     case cgroup_spec doc of
       Inl e \<Rightarrow> raise e
     | Inr grp \<Rightarrow> do {
         (grp, mountpoint) \<leftarrow> buildCgroupPath r grp;
         x \<leftarrow> on_host (r_LoadCgroup r grp mountpoint);
         case x of
           Inl e \<Rightarrow>
             if e = ErrMsg (Msg ''cgroup path does not exist'') then give False
             else raise (errorfw ''failed to check if cgroup exists'' [] e)
         | Inr _ \<Rightarrow> give True })"

definition SpaceNetworkConfigPath :: "path \<Rightarrow> string \<Rightarrow> string \<Rightarrow> path result" where
  "SpaceNetworkConfigPath base realmName spaceName =
     (if TrimSpace spaceName = '''' then Inl (errorfw ''space name is required'' [] ErrConfig)
      else if TrimSpace realmName = '''' then Inl (errorfw ''realm name is required'' [] ErrConfig)
      else Inr (Join (RealmMetadataDir base realmName) [spaceName, ''network.conflist'']))"

definition ExistsNetworkConfig :: "string \<Rightarrow> path \<Rightarrow> fsys \<Rightarrow> bool result" where
  "ExistsNetworkConfig networkName configPath fs =
     (case ReadFile fs configPath of
        Inl e \<Rightarrow> Inl (if errors_Is e ErrNotExist then ErrNetworkNotFound else e)
      | Inr data \<Rightarrow>
          rbind (unmarshal (dec_obj Inr []) data) (\<lambda>raw.
            if map_of raw ''name'' = Some (JsStr networkName) then Inr True else Inl ErrNetworkNotFound))"

definition ExistsSpaceCNIConfig :: "'h Exec \<Rightarrow> Space \<Rightarrow> ('h, bool result) proc" where
  "ExistsSpaceCNIConfig r space =
     (let spaceName = TrimSpace (spM_Name (sp_Metadata space));
          realmName = TrimSpace (spS_RealmName (sp_Spec space)) in
      if spaceName = '''' then raise ErrSpaceNameRequired
      else if realmName = '''' then raise ErrRealmNameRequired
      else case SpaceNetworkConfigPath (r_RunPath r) realmName spaceName of
          Inl e \<Rightarrow> raise (Wrapped ErrCheckNetworkExists e)
        | Inr confPath \<Rightarrow>
            (case BuildSpaceNetworkName realmName spaceName of
               Inl e \<Rightarrow> raise (Wrapped ErrCheckNetworkExists e)
             | Inr networkName \<Rightarrow> do {
                 w \<leftarrow> State_Monad.get;
                 case ExistsNetworkConfig networkName confPath (w_fs w) of
                   Inl e \<Rightarrow> if errors_Is e ErrNetworkNotFound then give False else raise (Wrapped ErrCheckNetworkExists e)
                 | Inr b \<Rightarrow> give b }))"

section \<open>Observing a container\<close>

definition containerd_id :: "Cell \<Rightarrow> string \<Rightarrow> ContainerSpec \<Rightarrow> string result" where
  "containerd_id cell cellID spec =
     (if cs_ContainerdID spec \<noteq> '''' then Inr (cs_ContainerdID spec)
      else if cs_Root spec
      then BuildRootContainerdID (ceS_SpaceName (ce_Spec cell)) (ceS_StackName (ce_Spec cell)) cellID
      else BuildContainerdID (ceS_SpaceName (ce_Spec cell)) (ceS_StackName (ce_Spec cell)) cellID (cs_ID spec))"

text \<open>What containerd says of a container in a namespace.\<close>

definition observe_task :: "'h Exec \<Rightarrow> string \<Rightarrow> string \<Rightarrow> ('h, ContainerObservation result) proc" where
  "observe_task r namespace containerdID = do {
     found \<leftarrow> on_host (r_ExistsContainer r namespace containerdID);
     case found of
       Inl _ \<Rightarrow> give (unobserved ContainerStateUnknown)
     | Inr False \<Rightarrow> give (unobserved ContainerStateNotCreated)
     | Inr True \<Rightarrow> do {
         task \<leftarrow> on_host (r_TaskStatus r namespace containerdID);
         case task of
           Inr ts \<Rightarrow> give \<lparr>ob_State = ConvertContainerdStatusToContainerState ts,
               ob_ExitCode = uint (tk_ExitStatus ts), ob_ExitTime = tk_ExitTime ts\<rparr>
         | Inl e \<Rightarrow> if errors_Is e ErrTaskNotFound then give (unobserved ContainerStateStopped)
             else give (unobserved ContainerStateUnknown) } }"

definition GetContainerObservation :: "'h Exec \<Rightarrow> Cell \<Rightarrow> string \<Rightarrow> ('h, ContainerObservation result) proc" where
  "GetContainerObservation r cell containerID =
     (let containerID = TrimSpace containerID;
          cellName = TrimSpace (ceM_Name (ce_Metadata cell));
          realmName = TrimSpace (ceS_RealmName (ce_Spec cell)) in
      if containerID = '''' then raise (ErrMsg (Msg ''container ID is required''))
      else if cellName = '''' then raise ErrCellNotFound
      else if realmName = '''' then raise ErrRealmNameRequired
      else if TrimSpace (ceS_SpaceName (ce_Spec cell)) = '''' then raise ErrSpaceNameRequired
      else if TrimSpace (ceS_StackName (ce_Spec cell)) = '''' then raise ErrStackNameRequired
      else connected r (attempt (errorfw ''failed to get realm'' []) (GetRealm r realmName) (\<lambda>internalRealm.
        let namespace = (if reS_Namespace (re_Spec internalRealm) = '''' then RealmNamespace r realmName
              else reS_Namespace (re_Spec internalRealm)) in
        case find (\<lambda>s. cs_ID s = containerID) (ceS_Containers (ce_Spec cell)) of
          None \<Rightarrow> give (unobserved ContainerStateUnknown)
        | Some spec \<Rightarrow>
            let cellID = (if TrimSpace (ceS_ID (ce_Spec cell)) = '''' then cellName else TrimSpace (ceS_ID (ce_Spec cell))) in
            if cellID = '''' then raise ErrCellIDRequired
            else case containerd_id cell cellID spec of
                Inl e \<Rightarrow> raise (errorfw ''failed to build containerd ID'' [] e)
              | Inr containerdID \<Rightarrow> observe_task r namespace containerdID)))"

definition GetContainerState :: "'h Exec \<Rightarrow> Cell \<Rightarrow> string \<Rightarrow> ('h, ContainerState result) proc" where
  "GetContainerState r cell containerID =
     attempt (\<lambda>e. e) (GetContainerObservation r cell containerID) (\<lambda>obs. give (ob_State obs))"

section \<open>Populating the container statuses\<close>

definition setupStatuses ::
  "'h Exec \<Rightarrow> Cell \<Rightarrow> ContainerSpec \<Rightarrow> ContainerState \<Rightarrow> ('h, RepoStatus slice \<times> StageStatus slice) proc" where
  "setupStatuses r cell containerSpec state =
     (if \<not> cs_Attachable containerSpec \<or> state \<noteq> ContainerStateReady then State_Monad.return (None, None)
      else if elems (cs_Repos containerSpec) = [] \<and> \<not> hasCreateStages containerSpec then State_Monad.return (None, None)
      else do {
        reply \<leftarrow> on_host (r_pullSetupStatus r (ContainerSocketSymlinkPath (\<lambda>s. take 16 (r_sha256 r s)) (r_RunPath r)
          (ceS_RealmName (ce_Spec cell)) (ceS_SpaceName (ce_Spec cell)) (ceS_StackName (ce_Spec cell))
          (ceM_Name (ce_Metadata cell)) (cs_ID containerSpec)));
        State_Monad.return (case reply of
          Inl _ \<Rightarrow> (None, None)
        | Inr p \<Rightarrow> (repoStatusToInternal (wp_Repos p), stageStatusToInternal (wp_Stages p))) })"

text \<open>What an earlier status of the same container hands on; the zero status if there is none.\<close>

definition prior_status :: "ContainerStatus list \<Rightarrow> string \<Rightarrow> ContainerStatus" where
  "prior_status statuses containerID = map_get zeroContainerStatus (by_key st_ID statuses) containerID"

definition next_status ::
  "'h Exec \<Rightarrow> gotime \<Rightarrow> ContainerStatus \<Rightarrow> ContainerSpec \<Rightarrow> ContainerObservation \<Rightarrow>
   RepoStatus slice \<Rightarrow> StageStatus slice \<Rightarrow> ContainerStatus" where
  "next_status r now prior containerSpec obs repos liveStages =
     (let createdAt = (if IsZero (st_CreatedAt prior) then now else st_CreatedAt prior);
          startTime = (if IsZero (st_StartTime prior) \<and> ob_State obs = ContainerStateReady then now else st_StartTime prior);
          (finishTime, exitCode) =
            (if ob_State obs = ContainerStateReady then (0, 0)
             else if \<not> IsZero (ob_ExitTime obs) then (ob_ExitTime obs, ob_ExitCode obs)
             else (st_FinishTime prior, st_ExitCode prior)) in
      \<lparr>st_Name = cs_ID containerSpec, st_ID = cs_ID containerSpec, st_CreatedAt = createdAt, st_State = ob_State obs,
       st_RestartCount = st_RestartCount prior, st_RestartTime = st_RestartTime prior, st_StartTime = startTime,
       st_FinishTime = finishTime, st_ExitCode = exitCode, st_ExitSignal = exitSignalName (r_SignalName r) exitCode,
       st_Repos = repos, st_Stages = mergeStageStatuses (r_sha256 r) containerSpec (st_Stages prior) liveStages\<rparr>)"

definition populate_one :: "'h Exec \<Rightarrow> gotime \<Rightarrow> Cell \<Rightarrow> ContainerSpec \<Rightarrow> ('h, ContainerStatus) proc" where
  "populate_one r now cell containerSpec = do {
     o1 \<leftarrow> GetContainerObservation r cell (cs_ID containerSpec);
     let obs = (case o1 of Inl _ \<Rightarrow> unobserved ContainerStateUnknown | Inr obs \<Rightarrow> obs);
     (repos, liveStages) \<leftarrow> setupStatuses r cell containerSpec (ob_State obs);
     State_Monad.return (next_status r now (prior_status (ceT_Containers (ce_Status cell)) (cs_ID containerSpec))
       containerSpec obs repos liveStages) }"

abbreviation with_containers :: "ContainerStatus list \<Rightarrow> Cell \<Rightarrow> Cell" where
  "with_containers cs cell \<equiv> cell\<lparr>ce_Status := (ce_Status cell)\<lparr>ceT_Containers := cs\<rparr>\<rparr>"

text \<open>It never fails; the error it could return is always nil.\<close>

definition populateCellContainerStatuses :: "'h Exec \<Rightarrow> Cell \<Rightarrow> ('h, Cell) proc" where
  "populateCellContainerStatuses r cell =
     (if ceS_Containers (ce_Spec cell) = [] then State_Monad.return (with_containers [] cell)
      else do {
        now \<leftarrow> nowUTC r;
        statuses \<leftarrow> traverse_list (populate_one r now cell) (ceS_Containers (ce_Spec cell));
        State_Monad.return (with_containers statuses cell) })"

section \<open>Reading a cell\<close>

definition GetCell :: "'h Exec \<Rightarrow> Cell \<Rightarrow> ('h, Cell result) proc" where
  "GetCell r cell =
     (let realmName = TrimSpace (ceS_RealmName (ce_Spec cell));
          spaceName = TrimSpace (ceS_SpaceName (ce_Spec cell));
          stackName = TrimSpace (ceS_StackName (ce_Spec cell));
          cellName = TrimSpace (ceM_Name (ce_Metadata cell)) in
      if realmName = '''' then raise ErrRealmNameRequired
      else if spaceName = '''' then raise ErrSpaceNameRequired
      else if stackName = '''' then raise ErrStackNameRequired
      else if cellName = '''' then raise ErrCellNameRequired
      else attempt (get_error ErrCellNotFound ErrGetCell)
        (on_fs (readCellInternal (r_address r) (CellMetadataPath (r_RunPath r) realmName spaceName stackName cellName)))
        (\<lambda>internalCell. do { c \<leftarrow> populateCellContainerStatuses r internalCell; give c }))"

definition updateCellMetadata :: "'h Exec \<Rightarrow> Cell \<Rightarrow> ('h, unit result) proc" where
  "updateCellMetadata r cell = do {
     now \<leftarrow> nowUTC r;
     on_fs (UpdateCellMetadata (r_address r) (r_RunPath r) now cell) }"

definition PopulateAndPersistCellContainerStatuses :: "'h Exec \<Rightarrow> Cell \<Rightarrow> ('h, Cell \<times> unit result) proc" where
  "PopulateAndPersistCellContainerStatuses r cell = do {
     cell \<leftarrow> populateCellContainerStatuses r cell;
     e \<leftarrow> updateCellMetadata r cell;
     State_Monad.return (cell, e) }"

definition ExistsCellRootContainer :: "'h Exec \<Rightarrow> Cell \<Rightarrow> ('h, bool result) proc" where
  "ExistsCellRootContainer r cell =
     (let cellName = TrimSpace (ceM_Name (ce_Metadata cell));
          realmName = TrimSpace (ceS_RealmName (ce_Spec cell));
          spaceName = TrimSpace (ceS_SpaceName (ce_Spec cell));
          stackName = TrimSpace (ceS_StackName (ce_Spec cell)) in
      if cellName = '''' then raise ErrCellNameRequired
      else if realmName = '''' then raise ErrRealmNameRequired
      else if spaceName = '''' then raise ErrSpaceNameRequired
      else if stackName = '''' then raise ErrStackNameRequired
      else attempt (Wrapped ErrGetCell) (GetCell r cell) (\<lambda>internalCell.
        if ceS_ID (ce_Spec internalCell) = '''' then raise ErrCellIDRequired
        else connected r (attempt (errorfw ''failed to get realm'' []) (GetRealm r realmName) (\<lambda>internalRealm.
          if reS_Namespace (re_Spec internalRealm) = '''' then raise (errorf ''realm %q has no namespace'' [QStr realmName])
          else case BuildRootContainerdID spaceName stackName (ceS_ID (ce_Spec internalCell)) of
              Inl e \<Rightarrow> raise (errorfw ''failed to build root container containerd ID'' [] e)
            | Inr containerID \<Rightarrow>
                attempt (errorfw ''failed to check if root container exists'' [])
                  (on_host (r_ExistsContainer r (reS_Namespace (re_Spec internalRealm)) containerID)) give))))"

section \<open>Runs\<close>

lemma run_on_host [simp]: "run_state (on_host f) w = (case f (w_host w) of (x, h) \<Rightarrow> (x, w\<lparr>w_host := h\<rparr>))"
  by (simp add: on_host_def)

lemma run_on_fs [simp]: "run_state (on_fs m) w = (case m (w_fs w) of (fs, x) \<Rightarrow> (x, w\<lparr>w_fs := fs\<rparr>))"
  by (simp add: on_fs_def)

lemma run_attempt:
  "run_state (attempt wrap m f) w =
     (case run_state m w of (Inl e, w') \<Rightarrow> (Inl (wrap e), w') | (Inr x, w') \<Rightarrow> run_state (f x) w')"
  by (simp add: attempt_def split: prod.splits sum.splits)

lemma run_give_raise [simp]: "run_state (give x) w = (Inr x, w)" "run_state (raise e) w = (Inl e, w)"
  by (simp_all add: give_def raise_def)

lemma attempt_Inr:
  "run_state (attempt wrap m f) w = (Inr y, w') \<longleftrightarrow>
     (\<exists>x v. run_state m w = (Inr x, v) \<and> run_state (f x) v = (Inr y, w'))"
  by (auto simp: run_attempt split: prod.splits sum.splits)

lemma connected_Inr:
  "run_state (connected r m) w = (Inr y, w') \<longleftrightarrow>
     (\<exists>v. run_state (ensureClientConnected r) w = (Inr (), v) \<and> run_state m v = (Inr y, w'))"
  by (simp add: connected_def attempt_Inr)

lemma bind_run: "run_state (State_Monad.bind m f) w = (y, w') \<longleftrightarrow>
    (\<exists>x v. run_state m w = (x, v) \<and> run_state (f x) v = (y, w'))"
  by (auto split: prod.splits)

lemma traverse_run:
  "run_state (traverse_list f xs) w = (ys, w') \<Longrightarrow> list_all2 (\<lambda>x y. \<exists>v v'. run_state (f x) v = (y, v')) xs ys"
proof (induction xs arbitrary: w ys w')
  case (Cons x xs)
  from Cons.prems obtain y v ys1 where "run_state (f x) w = (y, v)" "run_state (traverse_list f xs) v = (ys1, w')" "ys = y # ys1"
    by (auto split: prod.splits)
  with Cons.IH show ?case by auto
qed simp

section \<open>The exit triple\<close>

text \<open>
  A status whose exit triple is consistent: without a finish time there is no exit code, the signal is the one of the
  code, and a container that runs has not finished.
\<close>

definition exit_ok :: "'h Exec \<Rightarrow> ContainerStatus \<Rightarrow> bool" where
  "exit_ok r s \<longleftrightarrow> (IsZero (st_FinishTime s) \<longrightarrow> st_ExitCode s = 0)
     \<and> st_ExitSignal s = exitSignalName (r_SignalName r) (st_ExitCode s)
     \<and> (st_State s = ContainerStateReady \<longrightarrow> IsZero (st_FinishTime s))"

lemma next_status_exit_ok:
  assumes "IsZero (st_FinishTime prior) \<longrightarrow> st_ExitCode prior = 0"
  shows "exit_ok r (next_status r now prior spec obs repos stages)"
  using assms by (auto simp: next_status_def exit_ok_def Let_def IsZero_def split: if_splits)

lemma prior_status_cases: "prior_status ss i \<in> set ss \<and> st_ID (prior_status ss i) = i \<or> prior_status ss i = zeroContainerStatus"
  using by_key_SomeD[of st_ID ss i] by (auto simp: prior_status_def map_get_def split: option.splits)

text \<open>What a populate pass writes for one container.\<close>

definition populated :: "'h Exec \<Rightarrow> ContainerStatus list \<Rightarrow> ContainerSpec \<Rightarrow> ContainerStatus \<Rightarrow> bool" where
  "populated r old spec s \<longleftrightarrow>
     (\<exists>now obs repos stages. s = next_status r now (prior_status old (cs_ID spec)) spec obs repos stages)"

lemma populate_statuses:
  assumes "run_state (populateCellContainerStatuses r cell) w = (cell', w')"
  obtains ss where "cell' = with_containers ss cell"
    "list_all2 (populated r (ceT_Containers (ce_Status cell))) (ceS_Containers (ce_Spec cell)) ss"
proof (cases "ceS_Containers (ce_Spec cell) = []")
  case True
  with assms have "cell' = with_containers [] cell" by (simp add: populateCellContainerStatuses_def)
  with True that show ?thesis by auto
next
  case False
  from assms False obtain now v ss where ss: "run_state (traverse_list (populate_one r now cell) (ceS_Containers (ce_Spec cell))) v = (ss, w')"
    and cell': "cell' = with_containers ss cell"
    by (auto simp: populateCellContainerStatuses_def bind_run simp del: run_state_bind)
  have "populated r (ceT_Containers (ce_Status cell)) spec s" if "run_state (populate_one r now cell spec) v = (s, v')" for spec s v v'
    using that by (auto simp: populate_one_def bind_run populated_def Let_def simp del: run_state_bind split: prod.splits)
  then have "list_all2 (populated r (ceT_Containers (ce_Status cell))) (ceS_Containers (ce_Spec cell)) ss"
    using traverse_run[OF ss] by (elim list_all2_mono) blast
  with cell' that show ?thesis by blast
qed

lemma populated_simps:
  assumes "populated r old spec s"
  shows "st_ID s = cs_ID spec" "st_Name s = cs_ID spec"
    "st_RestartCount s = st_RestartCount (prior_status old (cs_ID spec))"
    "st_RestartTime s = st_RestartTime (prior_status old (cs_ID spec))"
proof -
  from assms obtain now obs repos stages where s: "s = next_status r now (prior_status old (cs_ID spec)) spec obs repos stages"
    by (auto simp: populated_def)
  show "st_ID s = cs_ID spec" "st_Name s = cs_ID spec"
    "st_RestartCount s = st_RestartCount (prior_status old (cs_ID spec))"
    "st_RestartTime s = st_RestartTime (prior_status old (cs_ID spec))"
    unfolding s by (simp_all add: next_status_def Let_def split_beta)
qed

lemma populate_ids:
  assumes "run_state (populateCellContainerStatuses r cell) w = (cell', w')"
  shows "map st_ID (ceT_Containers (ce_Status cell')) = map cs_ID (ceS_Containers (ce_Spec cell'))"
    "ce_Spec cell' = ce_Spec cell" "ce_Metadata cell' = ce_Metadata cell"
proof -
  from assms obtain ss where "cell' = with_containers ss cell"
    "list_all2 (populated r (ceT_Containers (ce_Status cell))) (ceS_Containers (ce_Spec cell)) ss" by (rule populate_statuses)
  moreover from this have "map st_ID ss = map cs_ID (ceS_Containers (ce_Spec cell))"
    by (intro nth_equalityI) (auto simp: list_all2_conv_all_nth populated_simps)
  ultimately show "map st_ID (ceT_Containers (ce_Status cell')) = map cs_ID (ceS_Containers (ce_Spec cell'))"
    "ce_Spec cell' = ce_Spec cell" "ce_Metadata cell' = ce_Metadata cell" by simp_all
qed


section \<open>An example\<close>

text \<open>
  A host whose state is its clock, with every container known to containerd: a root that runs and
  any other container killed by signal 9 at time 50.
\<close>

definition demo_exec :: "gotime Exec" where
  "demo_exec = \<lparr>r_RunPath = [''run''], r_ContainerdSocket = [''sock''], r_RealmNamespaceSuffix = ''.kukeon.io'',
     r_KukeonCgroupRoot = ''/kukeon'', r_address = (\<lambda>_ _. 0), r_sha256 = (\<lambda>s. s),
     r_SignalName = (\<lambda>n. if n = 9 then ''SIGKILL'' else ''''), r_nowUTC = (\<lambda>h. (h, h + 1)),
     r_Connect = (\<lambda>h. (Inr (), h)), r_ExistsNamespace = (\<lambda>_ h. (Inr True, h)), r_CreateNamespace = (\<lambda>_ h. (Inr (), h)),
     r_ListNamespaces = (\<lambda>h. (Inr None, h)), r_ExistsContainer = (\<lambda>_ _ h. (Inr True, h)),
     r_TaskStatus = (\<lambda>_ i h. (Inr (if i = ''s_t_web_root'' then \<lparr>tk_Status = Running, tk_ExitStatus = 0, tk_ExitTime = 0\<rparr>
        else \<lparr>tk_Status = Stopped, tk_ExitStatus = 137, tk_ExitTime = 50\<rparr>), h)),
     r_pullSetupStatus = (\<lambda>_ h. (Inl ErrIO, h)), r_GetCgroupMountpoint = (\<lambda>h. (''/sys/fs/cgroup'', h)),
     r_LoadCgroup = (\<lambda>_ _ h. (Inr (), h)), r_NewCgroup = (\<lambda>_ _ h. (Inr True, h)),
     r_EnsureSubtreeControllers = (\<lambda>_ _ _ h. (Inr None, h)),
     r_EnableCellSubtreeControllers = (\<lambda>_ _ _ h. (Inr None, h)),
     r_EnableCellAllSubtreeControllers = (\<lambda>_ _ h. (Inr None, h)),
     r_StartContainer = (\<lambda>cell _. give cell), r_killCellLocked = give, r_deleteCellLocked = (\<lambda>_. give ())\<rparr>"

definition demo_realm :: Realm where
  "demo_realm = \<lparr>re_Metadata = \<lparr>reM_Name = ''r'', reM_Labels = [], reM_Generation = 0\<rparr>,
     re_Spec = \<lparr>reS_Namespace = '''', reS_RegistryCredentials = None\<rparr>,
     re_Status = \<lparr>reT_State = RealmStateReady, reT_CgroupPath = '''', reT_SubtreeControllers = None, reT_CreatedAt = 0,
       reT_UpdatedAt = 0, reT_ReadyAt = 0, reT_Reason = '''', reT_Message = '''', reT_CgroupReady = False,
       reT_ContainerdNamespaceReady = False, reT_ObservedGeneration = 0\<rparr>\<rparr>"

definition demo_world :: "gotime world" where
  "demo_world = \<lparr>w_fs = fst (UpdateRealmMetadata [''run''] 1 demo_realm empty_fs), w_restartStates = [], w_host = 100\<rparr>"

definition demo_live_cell :: "string \<Rightarrow> Cell" where
  "demo_live_cell policy = zeroCell\<lparr>ce_Metadata := (ce_Metadata zeroCell)\<lparr>ceM_Name := ''web'', ceM_Generation := 1\<rparr>,
     ce_Spec := (ce_Spec zeroCell)\<lparr>ceS_ID := ''web'', ceS_RealmName := ''r'', ceS_SpaceName := ''s'', ceS_StackName := ''t'',
       ceS_RootContainerID := ''root'',
       ceS_Containers := [zeroContainerSpec\<lparr>cs_ID := ''root'', cs_Root := True\<rparr>, demo_workload ''job'' policy]\<rparr>,
     ce_Status := zeroCellStatus\<lparr>ceT_State := CellStateReady, ceT_ReadyObserved := True\<rparr>\<rparr>"


end
