(* ===== verification/Cgroups.thy ===== *)
theory Cgroups
  imports Runner_World
begin

text \<open>
  The cgroups and namespaces of the hierarchy, from \<^verbatim>\<open>internal/controller/runner/provision.go\<close>: creating
  and ensuring the cgroup of a realm, a space, a stack and a cell, delegating controllers, the
  namespace of a realm, and the provisioning of a new realm and a new stack. The lemmas show what an ensure changes of
  its document, once for the four levels.
\<close>

section \<open>Errors and writes\<close>

abbreviation ErrCreateRealmCgroup :: goerror where "ErrCreateRealmCgroup \<equiv> ErrNamed ''ErrCreateRealmCgroup''"
abbreviation ErrCreateSpaceCgroup :: goerror where "ErrCreateSpaceCgroup \<equiv> ErrNamed ''ErrCreateSpaceCgroup''"
abbreviation ErrCreateStackCgroup :: goerror where "ErrCreateStackCgroup \<equiv> ErrNamed ''ErrCreateStackCgroup''"
abbreviation ErrCreateCellCgroup :: goerror where "ErrCreateCellCgroup \<equiv> ErrNamed ''ErrCreateCellCgroup''"
abbreviation ErrUpdateRealmMetadata :: goerror where "ErrUpdateRealmMetadata \<equiv> ErrNamed ''ErrUpdateRealmMetadata''"
abbreviation ErrUpdateSpaceMetadata :: goerror where "ErrUpdateSpaceMetadata \<equiv> ErrNamed ''ErrUpdateSpaceMetadata''"
abbreviation ErrUpdateStackMetadata :: goerror where "ErrUpdateStackMetadata \<equiv> ErrNamed ''ErrUpdateStackMetadata''"
abbreviation ErrUpdateCellMetadata :: goerror where "ErrUpdateCellMetadata \<equiv> ErrNamed ''ErrUpdateCellMetadata''"
abbreviation ErrCheckNamespaceExists :: goerror where "ErrCheckNamespaceExists \<equiv> ErrNamed ''ErrCheckNamespaceExists''"
abbreviation ErrNamespaceAlreadyExists :: goerror where "ErrNamespaceAlreadyExists \<equiv> ErrNamed ''ErrNamespaceAlreadyExists''"
abbreviation ErrCreateNamespace :: goerror where "ErrCreateNamespace \<equiv> ErrNamed ''ErrCreateNamespace''"
abbreviation ErrCreateRealmNamespace :: goerror where "ErrCreateRealmNamespace \<equiv> ErrNamed ''ErrCreateRealmNamespace''"

definition updateRealmMetadata :: "'h Exec \<Rightarrow> Realm \<Rightarrow> ('h, unit result) proc" where
  "updateRealmMetadata r realm = do {
     now \<leftarrow> nowUTC r;
     on_fs (UpdateRealmMetadata (r_RunPath r) now realm) }"

definition updateSpaceMetadata :: "'h Exec \<Rightarrow> Space \<Rightarrow> ('h, unit result) proc" where
  "updateSpaceMetadata r space = do {
     now \<leftarrow> nowUTC r;
     on_fs (UpdateSpaceMetadata (r_RunPath r) now space) }"

definition updateStackMetadata :: "'h Exec \<Rightarrow> Stack \<Rightarrow> ('h, unit result) proc" where
  "updateStackMetadata r stack = do {
     now \<leftarrow> nowUTC r;
     on_fs (UpdateStackMetadata (r_RunPath r) now stack) }"

section \<open>Controllers\<close>

definition CellResourceControllers :: "string list" where
  "CellResourceControllers = [''cpu'', ''memory'', ''io'', ''pids'']"

definition enableCellControllers :: "'h Exec \<Rightarrow> Cell \<Rightarrow> string \<Rightarrow> string \<Rightarrow> ('h, string slice result) proc" where
  "enableCellControllers r cell grp mountpoint =
     (if ceS_NestedCgroupRuntime (ce_Spec cell)
      then on_host (r_EnableCellAllSubtreeControllers r grp mountpoint)
      else on_host (r_EnableCellSubtreeControllers r grp mountpoint CellResourceControllers))"

definition enableAncestorSubtreeControllers :: "'h Exec \<Rightarrow> string \<Rightarrow> string \<Rightarrow> ('h, string slice result) proc" where
  "enableAncestorSubtreeControllers r grp mountpoint =
     on_host (r_EnsureSubtreeControllers r grp mountpoint CellResourceControllers)"

definition equalStringSlices :: "string slice \<Rightarrow> string slice \<Rightarrow> bool" where
  "equalStringSlices a b \<longleftrightarrow> elems a = elems b"

section \<open>Creating a cgroup\<close>

definition EnsureKukeonRootCgroup :: "'h Exec \<Rightarrow> ('h, (bool \<times> bool) result) proc" where
  "EnsureKukeonRootCgroup r = connected r (do {
     mountpoint \<leftarrow> on_host (r_GetCgroupMountpoint r);
     x \<leftarrow> on_host (r_LoadCgroup r (r_KukeonCgroupRoot r) mountpoint);
     case x of
       Inr _ \<Rightarrow> give (True, False)
     | Inl _ \<Rightarrow> attempt (Wrapped ErrCreateRealmCgroup) (on_host (r_NewCgroup r (r_KukeonCgroupRoot r) mountpoint))
         (\<lambda>_. give (False, True)) })"

definition createCgroupInternal :: "'h Exec \<Rightarrow> string \<Rightarrow> string \<Rightarrow> ('h, string result) proc" where
  "createCgroupInternal r grp mountpoint = connected r (
     attempt (\<lambda>e. e) (on_host (r_NewCgroup r grp mountpoint)) (\<lambda>_. give grp))"

text \<open>
  The common tail of the four \<^verbatim>\<open>create...Cgroup\<close> functions, after their checks: connect, build the
  path, create, delegate the controllers.
\<close>

definition create_cgroup ::
  "'h Exec \<Rightarrow> goerror \<Rightarrow> (string \<Rightarrow> string \<Rightarrow> ('h, string slice result) proc) \<Rightarrow> string \<Rightarrow> ('h, (string \<times> string slice) result) proc" where
  "create_cgroup r createErr enable grp = connected r (do {
     (grp, mountpoint) \<leftarrow> buildCgroupPath r grp;
     attempt (Wrapped createErr) (createCgroupInternal r grp mountpoint) (\<lambda>cgroupPath.
       attempt (Wrapped createErr) (enable grp mountpoint) (\<lambda>subtreeControllers.
         give (cgroupPath, subtreeControllers))) })"

definition createRealmCgroup :: "'h Exec \<Rightarrow> Realm \<Rightarrow> ('h, (string \<times> string slice) result) proc" where
  "createRealmCgroup r realm =
     create_cgroup r ErrCreateRealmCgroup (enableAncestorSubtreeControllers r) (DefaultRealmSpec realm)"

definition createSpaceCgroup :: "'h Exec \<Rightarrow> Space \<Rightarrow> ('h, (string \<times> string slice) result) proc" where
  "createSpaceCgroup r space =
     (if spS_RealmName (sp_Spec space) = '''' then raise ErrRealmNameRequired
      else attempt (\<lambda>e. e) (GetRealm r (spS_RealmName (sp_Spec space))) (\<lambda>_.
        create_cgroup r ErrCreateSpaceCgroup (enableAncestorSubtreeControllers r) (DefaultSpaceSpec space)))"

definition createStackCgroup :: "'h Exec \<Rightarrow> Stack \<Rightarrow> ('h, (string \<times> string slice) result) proc" where
  "createStackCgroup r stack =
     (if skS_RealmName (sk_Spec stack) = '''' then raise ErrRealmNameRequired
      else if skS_SpaceName (sk_Spec stack) = '''' then raise ErrSpaceNameRequired
      else create_cgroup r ErrCreateStackCgroup (enableAncestorSubtreeControllers r) (DefaultStackSpec stack))"

definition createCellCgroup :: "'h Exec \<Rightarrow> Cell \<Rightarrow> ('h, (string \<times> string slice) result) proc" where
  "createCellCgroup r cell =
     (if ceS_RealmName (ce_Spec cell) = '''' then raise ErrRealmNameRequired
      else if ceS_SpaceName (ce_Spec cell) = '''' then raise ErrSpaceNameRequired
      else if ceS_StackName (ce_Spec cell) = '''' then raise ErrStackNameRequired
      else create_cgroup r ErrCreateCellCgroup (enableCellControllers r cell) (DefaultCellSpec cell))"

section \<open>Ensuring a cgroup\<close>

text \<open>
  The pointer to the path of the document is threaded: the operation takes the path and returns the
  new one; \<^term>\<open>update\<close> persists the document with a path.
\<close>

definition ensureCgroupInternal ::
  "'h Exec \<Rightarrow> string \<Rightarrow> string \<Rightarrow> goerror \<Rightarrow> goerror \<Rightarrow> (string \<Rightarrow> ('h, unit result) proc) \<Rightarrow> ('h, string result) proc" where
  "ensureCgroupInternal r grp cgroupPath createErr updateErr update = do {
     (grp, mountpoint) \<leftarrow> buildCgroupPath r grp;
     x \<leftarrow> on_host (r_LoadCgroup r grp mountpoint);
     case x of
       Inl _ \<Rightarrow>
         attempt (Wrapped createErr) (on_host (r_NewCgroup r grp mountpoint)) (\<lambda>manager.
           if \<not> manager then raise (errorfw ''NewCgroup returned nil manager'' [] createErr)
           else attempt (Wrapped updateErr) (update grp) (\<lambda>_. give grp))
     | Inr _ \<Rightarrow>
         if cgroupPath = '''' then attempt (Wrapped updateErr) (update grp) (\<lambda>_. give grp)
         else give cgroupPath }"

text \<open>
  The common tail of the four \<^verbatim>\<open>ensure...Cgroup\<close> functions: write the document with its path, then
  delegate the controllers again and write the effective set when it changed.
\<close>

definition settle_cgroup ::
  "'h Exec \<Rightarrow> goerror \<Rightarrow> (string \<Rightarrow> string \<Rightarrow> ('h, string slice result) proc) \<Rightarrow> ('d \<Rightarrow> ('h, unit result) proc) \<Rightarrow>
   ('d \<Rightarrow> string slice) \<Rightarrow> (string slice \<Rightarrow> 'd \<Rightarrow> 'd) \<Rightarrow> string \<Rightarrow> 'd \<Rightarrow> ('h, 'd result) proc" where
  "settle_cgroup r updateErr enable update controllers setControllers cgroupPath d =
     (if cgroupPath = '''' then give d
      else attempt (Wrapped updateErr) (update d) (\<lambda>_. do {
        mountpoint \<leftarrow> on_host (r_GetCgroupMountpoint r);
        x \<leftarrow> enable cgroupPath mountpoint;
        case x of
          Inl _ \<Rightarrow> give d
        | Inr cs \<Rightarrow>
            if equalStringSlices (controllers d) cs then give d
            else attempt (Wrapped updateErr) (update (setControllers cs d)) (\<lambda>_. give (setControllers cs d)) }))"

definition ensureRealmCgroup :: "'h Exec \<Rightarrow> Realm \<Rightarrow> ('h, Realm result) proc" where
  "ensureRealmCgroup r realm = connected r (
     case BuildRealmExternalFromInternal realm APIVersionV1Beta1 of
       Inl e \<Rightarrow> raise (Wrapped ErrConversionFailed e)
     | Inr _ \<Rightarrow>
         let at = (\<lambda>p. realm\<lparr>re_Status := (re_Status realm)\<lparr>reT_CgroupPath := p\<rparr>\<rparr>) in
         attempt (\<lambda>e. e) (ensureCgroupInternal r (DefaultRealmSpec realm) (reT_CgroupPath (re_Status realm))
           ErrCreateRealmCgroup ErrUpdateRealmMetadata (\<lambda>p. updateRealmMetadata r (at p))) (\<lambda>p.
         settle_cgroup r ErrUpdateRealmMetadata (enableAncestorSubtreeControllers r) (updateRealmMetadata r)
           (\<lambda>d. reT_SubtreeControllers (re_Status d))
           (\<lambda>cs d. d\<lparr>re_Status := (re_Status d)\<lparr>reT_SubtreeControllers := cs\<rparr>\<rparr>) p (at p)))"

definition ensureSpaceCgroup :: "'h Exec \<Rightarrow> Space \<Rightarrow> ('h, Space result) proc" where
  "ensureSpaceCgroup r space =
     (if spS_RealmName (sp_Spec space) = '''' then raise ErrRealmNameRequired
      else connected r (
        case BuildSpaceExternalFromInternal space APIVersionV1Beta1 of
          Inl e \<Rightarrow> raise (Wrapped ErrConversionFailed e)
        | Inr _ \<Rightarrow>
            let at = (\<lambda>p. space\<lparr>sp_Status := (sp_Status space)\<lparr>spT_CgroupPath := p\<rparr>\<rparr>) in
            attempt (\<lambda>e. e) (ensureCgroupInternal r (DefaultSpaceSpec space) (spT_CgroupPath (sp_Status space))
              ErrCreateSpaceCgroup ErrUpdateSpaceMetadata (\<lambda>p. updateSpaceMetadata r (at p))) (\<lambda>p.
            settle_cgroup r ErrUpdateSpaceMetadata (enableAncestorSubtreeControllers r) (updateSpaceMetadata r)
              (\<lambda>d. spT_SubtreeControllers (sp_Status d))
              (\<lambda>cs d. d\<lparr>sp_Status := (sp_Status d)\<lparr>spT_SubtreeControllers := cs\<rparr>\<rparr>) p (at p))))"

definition ensureStackCgroup :: "'h Exec \<Rightarrow> Stack \<Rightarrow> ('h, Stack result) proc" where
  "ensureStackCgroup r stack =
     (if TrimSpace (skS_RealmName (sk_Spec stack)) = '''' then raise ErrRealmNameRequired
      else if TrimSpace (skS_SpaceName (sk_Spec stack)) = '''' then raise ErrSpaceNameRequired
      else case BuildStackExternalFromInternal stack APIVersionV1Beta1 of
          Inl e \<Rightarrow> raise (Wrapped ErrConversionFailed e)
        | Inr _ \<Rightarrow> connected r (
            let at = (\<lambda>p. stack\<lparr>sk_Status := (sk_Status stack)\<lparr>skT_CgroupPath := p\<rparr>\<rparr>) in
            attempt (\<lambda>e. e) (ensureCgroupInternal r (DefaultStackSpec stack) (skT_CgroupPath (sk_Status stack))
              ErrCreateStackCgroup ErrUpdateStackMetadata (\<lambda>p. updateStackMetadata r (at p))) (\<lambda>p.
            settle_cgroup r ErrUpdateStackMetadata (enableAncestorSubtreeControllers r) (updateStackMetadata r)
              (\<lambda>d. skT_SubtreeControllers (sk_Status d))
              (\<lambda>cs d. d\<lparr>sk_Status := (sk_Status d)\<lparr>skT_SubtreeControllers := cs\<rparr>\<rparr>) p (at p))))"

text \<open>The cell reports its failures with the errors of the stack, as the source does.\<close>

definition ensureCellCgroup :: "'h Exec \<Rightarrow> Cell \<Rightarrow> ('h, Cell result) proc" where
  "ensureCellCgroup r cell =
     (if TrimSpace (ceS_RealmName (ce_Spec cell)) = '''' then raise ErrRealmNameRequired
      else if TrimSpace (ceS_SpaceName (ce_Spec cell)) = '''' then raise ErrSpaceNameRequired
      else if TrimSpace (ceS_StackName (ce_Spec cell)) = '''' then raise ErrStackNameRequired
      else case BuildCellExternalFromInternal (r_address r) cell APIVersionV1Beta1 of
          Inl e \<Rightarrow> raise (Wrapped ErrConversionFailed e)
        | Inr _ \<Rightarrow> connected r (
            let at = (\<lambda>p. cell\<lparr>ce_Status := (ce_Status cell)\<lparr>ceT_CgroupPath := p\<rparr>\<rparr>) in
            attempt (\<lambda>e. e) (ensureCgroupInternal r (DefaultCellSpec cell) (ceT_CgroupPath (ce_Status cell))
              ErrCreateStackCgroup ErrUpdateStackMetadata (\<lambda>p. updateCellMetadata r (at p))) (\<lambda>p.
            settle_cgroup r ErrUpdateCellMetadata (enableCellControllers r cell) (updateCellMetadata r)
              (\<lambda>d. ceT_SubtreeControllers (ce_Status d))
              (\<lambda>cs d. d\<lparr>ce_Status := (ce_Status d)\<lparr>ceT_SubtreeControllers := cs\<rparr>\<rparr>) p (at p))))"

section \<open>Namespaces and new levels\<close>

definition createRealmContainerdNamespace :: "'h Exec \<Rightarrow> Realm \<Rightarrow> ('h, unit result) proc" where
  "createRealmContainerdNamespace r realm = connected r (
     attempt (Wrapped ErrCheckNamespaceExists) (on_host (r_ExistsNamespace r (reS_Namespace (re_Spec realm)))) (\<lambda>found.
       if found then raise ErrNamespaceAlreadyExists
       else attempt (Wrapped ErrCreateNamespace) (on_host (r_CreateNamespace r (reS_Namespace (re_Spec realm)))) give))"

definition ensureRealmContainerdNamespace :: "'h Exec \<Rightarrow> Realm \<Rightarrow> ('h, Realm result) proc" where
  "ensureRealmContainerdNamespace r realm = connected r (
     attempt (Wrapped ErrCheckNamespaceExists) (on_host (r_ExistsNamespace r (reS_Namespace (re_Spec realm)))) (\<lambda>found.
       if found then give realm
       else attempt (Wrapped ErrCreateNamespace) (on_host (r_CreateNamespace r (reS_Namespace (re_Spec realm)))) (\<lambda>_. give realm)))"

definition fail_realm :: "'h Exec \<Rightarrow> Realm \<Rightarrow> goerror \<Rightarrow> ('h, Realm result) proc" where
  "fail_realm r realm e = do {
     _ \<leftarrow> updateRealmMetadata r (realm\<lparr>re_Status := (re_Status realm)\<lparr>reT_State := RealmStateFailed\<rparr>\<rparr>);
     raise e }"

definition provision_realm_cgroup :: "'h Exec \<Rightarrow> Realm \<Rightarrow> ('h, Realm result) proc" where
  "provision_realm_cgroup r realm = do {
     x \<leftarrow> createRealmCgroup r realm;
     case x of
       Inl e \<Rightarrow> fail_realm r realm e
     | Inr (cgroupPath, subtreeControllers) \<Rightarrow>
         let ready = realm\<lparr>re_Status := (re_Status realm)\<lparr>reT_CgroupPath := cgroupPath,
               reT_SubtreeControllers := subtreeControllers, reT_State := RealmStateReady\<rparr>\<rparr> in
         attempt (Wrapped ErrUpdateRealmMetadata) (updateRealmMetadata r ready) (\<lambda>_. give ready) }"

definition provisionNewRealm :: "'h Exec \<Rightarrow> Realm \<Rightarrow> ('h, Realm result) proc" where
  "provisionNewRealm r realm0 =
     (let realm = (if TrimSpace (reS_Namespace (re_Spec realm0)) = ''''
           then realm0\<lparr>re_Spec := (re_Spec realm0)\<lparr>reS_Namespace := RealmNamespace r (TrimSpace (reM_Name (re_Metadata realm0)))\<rparr>\<rparr>
           else realm0) in
      attempt (Wrapped ErrUpdateRealmMetadata) (updateRealmMetadata r realm) (\<lambda>_. do {
        x \<leftarrow> createRealmContainerdNamespace r realm;
        case x of
          Inl e \<Rightarrow>
            if \<not> errors_Is e ErrNamespaceAlreadyExists then fail_realm r realm (Wrapped ErrCreateRealmNamespace e)
            else provision_realm_cgroup r realm
        | Inr _ \<Rightarrow> provision_realm_cgroup r realm }))"

definition provisionNewStack :: "'h Exec \<Rightarrow> Stack \<Rightarrow> ('h, Stack result) proc" where
  "provisionNewStack r stack =
     attempt (Wrapped ErrUpdateStackMetadata) (updateStackMetadata r stack) (\<lambda>_.
       attempt (\<lambda>e. e) (createStackCgroup r stack) (\<lambda>(cgroupPath, subtreeControllers).
         let ready = stack\<lparr>sk_Status := (sk_Status stack)\<lparr>skT_CgroupPath := cgroupPath,
               skT_SubtreeControllers := subtreeControllers, skT_State := StackStateReady\<rparr>\<rparr> in
         attempt (Wrapped ErrUpdateStackMetadata) (updateStackMetadata r ready) (\<lambda>_. give ready)))"

definition cellSpaceBridgeName :: "Cell \<Rightarrow> string result" where
  "cellSpaceBridgeName cell =
     rbind (BuildSpaceNetworkName (ceS_RealmName (ce_Spec cell)) (ceS_SpaceName (ce_Spec cell)))
       (\<lambda>networkName. Inr (SafeBridgeName networkName))"

section \<open>What the ensure operations change\<close>

lemma run_sum_case:
  "run_state (case x of Inl e \<Rightarrow> f e | Inr y \<Rightarrow> g y) w = R \<longleftrightarrow>
    (\<exists>e. x = Inl e \<and> run_state (f e) w = R) \<or> (\<exists>y. x = Inr y \<and> run_state (g y) w = R)"
  by (cases x) simp_all

lemmas runs = attempt_Inr connected_Inr bind_run run_sum_case

text \<open>
  A level of the hierarchy as the ensure operations see it: a document with a cgroup path and the
  controllers delegated to it.
\<close>

locale cgroup_level =
  fixes controllers :: "'d \<Rightarrow> string slice" and setControllers :: "string slice \<Rightarrow> 'd \<Rightarrow> 'd"
  assumes get_set: "controllers (setControllers cs d) = cs"
    and set_get: "setControllers (controllers d) d = d"
begin

lemma settled:
  assumes "run_state (settle_cgroup r e enable update controllers setControllers p d) w = (Inr d', w')"
  shows "d' = setControllers (controllers d') d"
  using assms
  by (auto simp: settle_cgroup_def runs get_set set_get simp del: run_state_bind split: if_splits)

text \<open>The document is written before the controllers are touched, and again when they changed.\<close>

lemma settled_written:
  assumes "run_state (settle_cgroup r e enable update controllers setControllers p d) w = (Inr d', w')" "p \<noteq> ''''"
  shows "\<exists>v v'. run_state (update d') v = (Inr (), v')"
  using assms
  by (auto simp: settle_cgroup_def runs simp del: run_state_bind split: if_splits)

end

interpretation realm_level: cgroup_level "\<lambda>d. reT_SubtreeControllers (re_Status d)"
    "\<lambda>cs d. d\<lparr>re_Status := (re_Status d)\<lparr>reT_SubtreeControllers := cs\<rparr>\<rparr>"
  by unfold_locales simp_all

interpretation space_level: cgroup_level "\<lambda>d. spT_SubtreeControllers (sp_Status d)"
    "\<lambda>cs d. d\<lparr>sp_Status := (sp_Status d)\<lparr>spT_SubtreeControllers := cs\<rparr>\<rparr>"
  by unfold_locales simp_all

interpretation stack_level: cgroup_level "\<lambda>d. skT_SubtreeControllers (sk_Status d)"
    "\<lambda>cs d. d\<lparr>sk_Status := (sk_Status d)\<lparr>skT_SubtreeControllers := cs\<rparr>\<rparr>"
  by unfold_locales simp_all

interpretation cell_level: cgroup_level "\<lambda>d. ceT_SubtreeControllers (ce_Status d)"
    "\<lambda>cs d. d\<lparr>ce_Status := (ce_Status d)\<lparr>ceT_SubtreeControllers := cs\<rparr>\<rparr>"
  by unfold_locales simp_all

lemma combined_group_nonempty: "combined_group r g \<noteq> ''''"
  by (simp add: combined_group_def Let_def HasSlash_def)

text \<open>The path an ensure settles on is the recorded one, or the group of the document when there was none or the cgroup was gone.\<close>

lemma ensured_path:
  assumes "run_state (ensureCgroupInternal r g p e1 e2 update) w = (Inr q, w')"
  shows "q = p \<or> q = combined_group r g" "q \<noteq> ''''"
  using assms
  by (auto simp: ensureCgroupInternal_def buildCgroupPath_def runs combined_group_nonempty
      simp del: run_state_bind split: if_splits prod.splits)

lemma ensured_cell:
  assumes "run_state (ensureCellCgroup r cell) w = (Inr c, w')"
  shows "c = cell\<lparr>ce_Status := (ce_Status cell)\<lparr>ceT_CgroupPath := ceT_CgroupPath (ce_Status c),
    ceT_SubtreeControllers := ceT_SubtreeControllers (ce_Status c)\<rparr>\<rparr>"
proof -
  from assms obtain p v where "run_state (settle_cgroup r ErrUpdateCellMetadata (enableCellControllers r cell) (updateCellMetadata r)
      (\<lambda>d. ceT_SubtreeControllers (ce_Status d)) (\<lambda>cs d. d\<lparr>ce_Status := (ce_Status d)\<lparr>ceT_SubtreeControllers := cs\<rparr>\<rparr>) p
      (cell\<lparr>ce_Status := (ce_Status cell)\<lparr>ceT_CgroupPath := p\<rparr>\<rparr>)) v = (Inr c, w')"
    by (auto simp: ensureCellCgroup_def runs Let_def split: if_splits)
  from cell_level.settled[OF this] obtain cs where c: "c = cell\<lparr>ce_Status := (ce_Status cell)\<lparr>ceT_CgroupPath := p,
      ceT_SubtreeControllers := cs\<rparr>\<rparr>" by simp
  show ?thesis unfolding c by simp
qed

end
