(* ===== verification/Cell_Reconcile.thy ===== *)
theory Cell_Reconcile
  imports Cgroups
begin

text \<open>
  The refresh of realms, spaces, stacks and cells and the reconciliation of a cell, from
  \<^verbatim>\<open>internal/controller/runner/refresh.go\<close>: the guarded writes of a status, the four refreshes, the
  restart pass with its bookkeeping, and the whole of \<^verbatim>\<open>ReconcileCell\<close>. The handler runs under the
  lock of the cell, which \<open>Cell_Lock\<close> models. Starting, killing and deleting a cell are parameters.
\<close>

section \<open>Persisting a status\<close>

text \<open>A rejected token is a benign skip; the first component says whether the status was written.\<close>

definition skip_stale :: "('h, unit result) proc \<Rightarrow> ('h, bool result) proc" where
  "skip_stale m = do {
     x \<leftarrow> m;
     case x of
       Inl e \<Rightarrow> if errors_Is e ErrStaleResource then give False else raise e
     | Inr _ \<Rightarrow> give True }"

definition persistCellStatusGuarded :: "'h Exec \<Rightarrow> Cell \<Rightarrow> ('h, bool result) proc" where
  "persistCellStatusGuarded r cell =
     skip_stale (updateCellMetadata r
       (cell\<lparr>ce_Status := (ce_Status cell)\<lparr>ceT_ObservedGeneration := ceM_Generation (ce_Metadata cell)\<rparr>\<rparr>))"

definition persistRealmStatusGuarded :: "'h Exec \<Rightarrow> Realm \<Rightarrow> ('h, bool result) proc" where
  "persistRealmStatusGuarded r realm = skip_stale (updateRealmMetadata r realm)"

definition persistSpaceStatusGuarded :: "'h Exec \<Rightarrow> Space \<Rightarrow> ('h, bool result) proc" where
  "persistSpaceStatusGuarded r space = skip_stale (updateSpaceMetadata r space)"

definition persistStackStatusGuarded :: "'h Exec \<Rightarrow> Stack \<Rightarrow> ('h, bool result) proc" where
  "persistStackStatusGuarded r stack = skip_stale (updateStackMetadata r stack)"

section \<open>Refreshing a realm, a space, a stack\<close>

text \<open>
  A refresh returns the document, whether it was updated, and the error if there is one. The zero
  statuses are those of a Go struct literal.
\<close>

definition zero_realm_status :: RealmStatus where
  "zero_realm_status = \<lparr>reT_State = RealmStatePending, reT_CgroupPath = '''', reT_SubtreeControllers = None,
     reT_CreatedAt = 0, reT_UpdatedAt = 0, reT_ReadyAt = 0, reT_Reason = '''', reT_Message = '''',
     reT_CgroupReady = False, reT_ContainerdNamespaceReady = False, reT_ObservedGeneration = 0\<rparr>"

definition zero_space_status :: SpaceStatus where
  "zero_space_status = \<lparr>spT_State = SpaceStatePending, spT_CgroupPath = '''', spT_SubtreeControllers = None,
     spT_CreatedAt = 0, spT_UpdatedAt = 0, spT_ReadyAt = 0, spT_Reason = '''', spT_Message = '''',
     spT_CgroupReady = False, spT_ObservedGeneration = 0\<rparr>"

definition zero_stack_status :: StackStatus where
  "zero_stack_status = \<lparr>skT_State = StackStatePending, skT_CgroupPath = '''', skT_SubtreeControllers = None,
     skT_CreatedAt = 0, skT_UpdatedAt = 0, skT_ReadyAt = 0, skT_Reason = '''', skT_Message = '''',
     skT_CgroupReady = False, skT_ObservedGeneration = 0\<rparr>"

definition carryRealmLifecycle :: "RealmStatus \<Rightarrow> RealmStatus \<Rightarrow> RealmStatus" where
  "carryRealmLifecycle orig next = next\<lparr>reT_CreatedAt := reT_CreatedAt orig, reT_ReadyAt := reT_ReadyAt orig,
     reT_Reason := reT_Reason orig, reT_Message := reT_Message orig\<rparr>"

definition carrySpaceLifecycle :: "SpaceStatus \<Rightarrow> SpaceStatus \<Rightarrow> SpaceStatus" where
  "carrySpaceLifecycle orig next = next\<lparr>spT_CreatedAt := spT_CreatedAt orig, spT_ReadyAt := spT_ReadyAt orig,
     spT_Reason := spT_Reason orig, spT_Message := spT_Message orig\<rparr>"

definition carryStackLifecycle :: "StackStatus \<Rightarrow> StackStatus \<Rightarrow> StackStatus" where
  "carryStackLifecycle orig next = next\<lparr>skT_CreatedAt := skT_CreatedAt orig, skT_ReadyAt := skT_ReadyAt orig,
     skT_Reason := skT_Reason orig, skT_Message := skT_Message orig\<rparr>"

definition carryCellLifecycle :: "CellStatus \<Rightarrow> CellStatus \<Rightarrow> CellStatus" where
  "carryCellLifecycle orig next = next\<lparr>ceT_CreatedAt := ceT_CreatedAt orig, ceT_ReadyAt := ceT_ReadyAt orig,
     ceT_Reason := ceT_Reason orig, ceT_Message := ceT_Message orig\<rparr>"

text \<open>The end of the three refreshes: write the new status when one of the derived fields differs.\<close>

definition refreshed ::
  "bool \<Rightarrow> string \<Rightarrow> ('d \<Rightarrow> ('h, bool result) proc) \<Rightarrow> 'd \<Rightarrow> 'd \<Rightarrow> ('h, 'd \<times> bool result) proc" where
  "refreshed changed msg persist orig next =
     (if \<not> changed then State_Monad.return (orig, Inr False)
      else do {
        x \<leftarrow> persist next;
        State_Monad.return (next, map_err (errorfw msg []) x) })"

text \<open>What the checks of a realm derive; the namespace is asked only when the cgroup check succeeded.\<close>

definition realm_observed :: "bool result \<Rightarrow> bool result \<Rightarrow> RealmStatus \<Rightarrow> RealmStatus" where
  "realm_observed cgroup namespace s =
     (case cgroup of
        Inl _ \<Rightarrow> s\<lparr>reT_State := RealmStateUnknown\<rparr>
      | Inr cgroupExists \<Rightarrow>
          let s = (if cgroupExists then s\<lparr>reT_State := RealmStateReady, reT_CgroupReady := True\<rparr>
                else s\<lparr>reT_State := RealmStateUnknown\<rparr>) in
          (case namespace of
             Inl _ \<Rightarrow> s\<lparr>reT_State := RealmStateUnknown\<rparr>
           | Inr namespaceExists \<Rightarrow>
               if namespaceExists \<and> reT_State s = RealmStateReady
               then s\<lparr>reT_State := RealmStateReady, reT_ContainerdNamespaceReady := True\<rparr>
               else if \<not> namespaceExists \<and> reT_State s = RealmStateReady then s\<lparr>reT_State := RealmStateUnknown\<rparr>
               else if namespaceExists then s\<lparr>reT_ContainerdNamespaceReady := True\<rparr>
               else s))"

definition RefreshRealm :: "'h Exec \<Rightarrow> Realm \<Rightarrow> ('h, Realm \<times> bool result) proc" where
  "RefreshRealm r realm = do {
     let originalStatus = re_Status realm;
     let newStatus = zero_realm_status\<lparr>reT_State := RealmStateUnknown, reT_CgroupPath := reT_CgroupPath originalStatus\<rparr>;
     cgroup \<leftarrow> ExistsCgroup r (CgRealm realm);
     namespace \<leftarrow> (case cgroup of
         Inl e \<Rightarrow> raise e
       | Inr _ \<Rightarrow> ExistsRealmContainerdNamespace r
           (if reS_Namespace (re_Spec realm) = '''' then reM_Name (re_Metadata realm) else reS_Namespace (re_Spec realm)));
     let newStatus = carryRealmLifecycle originalStatus (realm_observed cgroup namespace newStatus);
     refreshed (reT_State newStatus \<noteq> reT_State originalStatus \<or> reT_CgroupPath newStatus \<noteq> reT_CgroupPath originalStatus
         \<or> reT_CgroupReady newStatus \<noteq> reT_CgroupReady originalStatus
         \<or> reT_ContainerdNamespaceReady newStatus \<noteq> reT_ContainerdNamespaceReady originalStatus)
       ''failed to update realm metadata'' (persistRealmStatusGuarded r) realm (realm\<lparr>re_Status := newStatus\<rparr>) }"

definition space_observed :: "bool result \<Rightarrow> bool result \<Rightarrow> SpaceStatus \<Rightarrow> SpaceStatus" where
  "space_observed cni cgroup s =
     (case cni of
        Inl _ \<Rightarrow> s\<lparr>spT_State := SpaceStateUnknown\<rparr>
      | Inr cniExists \<Rightarrow>
          let s = (if cniExists then s\<lparr>spT_State := SpaceStateReady\<rparr> else s\<lparr>spT_State := SpaceStateUnknown\<rparr>) in
          (case cgroup of
             Inl _ \<Rightarrow> s\<lparr>spT_State := SpaceStateUnknown\<rparr>
           | Inr cgroupExists \<Rightarrow>
               if cgroupExists \<and> spT_State s = SpaceStateReady
               then s\<lparr>spT_State := SpaceStateReady, spT_CgroupReady := True\<rparr>
               else if \<not> cgroupExists \<and> spT_State s = SpaceStateReady then s\<lparr>spT_State := SpaceStateUnknown\<rparr>
               else if cgroupExists then s\<lparr>spT_CgroupReady := True\<rparr>
               else s))"

definition RefreshSpace :: "'h Exec \<Rightarrow> Space \<Rightarrow> ('h, Space \<times> bool result) proc" where
  "RefreshSpace r space = do {
     let originalStatus = sp_Status space;
     let newStatus = zero_space_status\<lparr>spT_State := SpaceStateUnknown, spT_CgroupPath := spT_CgroupPath originalStatus\<rparr>;
     cni \<leftarrow> ExistsSpaceCNIConfig r space;
     cgroup \<leftarrow> (case cni of Inl e \<Rightarrow> raise e | Inr _ \<Rightarrow> ExistsCgroup r (CgSpace space));
     let newStatus = carrySpaceLifecycle originalStatus (space_observed cni cgroup newStatus);
     refreshed (spT_State newStatus \<noteq> spT_State originalStatus \<or> spT_CgroupPath newStatus \<noteq> spT_CgroupPath originalStatus
         \<or> spT_CgroupReady newStatus \<noteq> spT_CgroupReady originalStatus)
       ''failed to update space metadata'' (persistSpaceStatusGuarded r) space (space\<lparr>sp_Status := newStatus\<rparr>) }"

definition stack_observed :: "bool result \<Rightarrow> StackStatus \<Rightarrow> StackStatus" where
  "stack_observed cgroup s =
     (case cgroup of
        Inl _ \<Rightarrow> s\<lparr>skT_State := StackStateUnknown\<rparr>
      | Inr cgroupExists \<Rightarrow>
          if cgroupExists then s\<lparr>skT_State := StackStateReady, skT_CgroupReady := True\<rparr>
          else s\<lparr>skT_State := StackStateUnknown\<rparr>)"

definition RefreshStack :: "'h Exec \<Rightarrow> Stack \<Rightarrow> ('h, Stack \<times> bool result) proc" where
  "RefreshStack r stack = do {
     let originalStatus = sk_Status stack;
     let newStatus = zero_stack_status\<lparr>skT_State := StackStateUnknown, skT_CgroupPath := skT_CgroupPath originalStatus\<rparr>;
     cgroup \<leftarrow> ExistsCgroup r (CgStack stack);
     let newStatus = carryStackLifecycle originalStatus (stack_observed cgroup newStatus);
     refreshed (skT_State newStatus \<noteq> skT_State originalStatus \<or> skT_CgroupPath newStatus \<noteq> skT_CgroupPath originalStatus
         \<or> skT_CgroupReady newStatus \<noteq> skT_CgroupReady originalStatus)
       ''failed to update stack metadata'' (persistStackStatusGuarded r) stack (stack\<lparr>sk_Status := newStatus\<rparr>) }"

section \<open>The state of a cell\<close>

definition deriveCellStateFromRootContainer :: "'h Exec \<Rightarrow> Cell \<Rightarrow> ('h, CellState) proc" where
  "deriveCellStateFromRootContainer r cell =
     (case findRootContainerSpec cell of
        None \<Rightarrow> State_Monad.return CellStateReady
      | Some rootSpec \<Rightarrow> do {
          x \<leftarrow> GetContainerState r cell (cs_ID rootSpec);
          State_Monad.return (case x of
            Inl _ \<Rightarrow> CellStateUnknown
          | Inr state \<Rightarrow>
              if containerStateIsActive state then CellStateReady
              else if containerStateIsTerminal state
              then (if rootContainerExitedNonZero (cs_ID rootSpec) (ceT_Containers (ce_Status cell))
                    then CellStateError else CellStateExited)
              else CellStateUnknown) })"

definition deriveCellState :: "'h Exec \<Rightarrow> Cell \<Rightarrow> ('h, CellState) proc" where
  "deriveCellState r cell =
     (if \<not> hasNonRootContainerSpec (ceS_Containers (ce_Spec cell)) then deriveCellStateFromRootContainer r cell
      else State_Monad.return (deriveCellStateFromNonRootContainerStatuses
        (ceS_Containers (ce_Spec cell)) (ceT_Containers (ce_Status cell))))"

section \<open>Refreshing a cell\<close>

text \<open>The new container spec and whether the ID was filled in. The queries to containerd are only logged.\<close>

definition refreshContainerStatus :: "'h Exec \<Rightarrow> Cell \<Rightarrow> ContainerSpec \<Rightarrow> ('h, (ContainerSpec \<times> bool) result) proc" where
  "refreshContainerStatus r cell containerSpec =
     attempt (errorfw ''failed to get realm'' []) (GetRealm r (ceS_RealmName (ce_Spec cell))) (\<lambda>internalRealm.
       let namespace = (if reS_Namespace (re_Spec internalRealm) = '''' then reM_Name (re_Metadata internalRealm)
             else reS_Namespace (re_Spec internalRealm)) in
       case containerd_id cell (ceS_ID (ce_Spec cell)) containerSpec of
         Inl e \<Rightarrow> raise (errorfw ''failed to build containerd ID'' [] e)
       | Inr containerdID \<Rightarrow> do {
           found \<leftarrow> ExistsContainer r namespace containerdID;
           _ \<leftarrow> (if found = Inr True then do {
                  t \<leftarrow> on_host (r_TaskStatus r namespace containerdID); State_Monad.return () }
                else State_Monad.return ());
           if cs_ContainerdID containerSpec = '''' \<and> containerdID \<noteq> ''''
           then give (containerSpec\<lparr>cs_ContainerdID := containerdID\<rparr>, True)
           else give (containerSpec, False) })"

definition refresh_one :: "'h Exec \<Rightarrow> Cell \<Rightarrow> ContainerSpec \<Rightarrow> ('h, ContainerSpec \<times> bool) proc" where
  "refresh_one r cell containerSpec = do {
     x \<leftarrow> refreshContainerStatus r cell containerSpec;
     State_Monad.return (case x of Inl _ \<Rightarrow> (containerSpec, False) | Inr y \<Rightarrow> y) }"

definition RefreshCell :: "'h Exec \<Rightarrow> Cell \<Rightarrow> ('h, Cell \<times> nat \<times> goerror option) proc" where
  "RefreshCell r cell = do {
     let originalStatus = ce_Status cell;
     cgroup \<leftarrow> ExistsCgroup r (CgCell cell);
     let newStatus = carryCellLifecycle originalStatus (zeroCellStatus\<lparr>ceT_State := CellStateUnknown,
           ceT_CgroupPath := ceT_CgroupPath originalStatus, ceT_CgroupReady := (cgroup = Inr True)\<rparr>);
     cell \<leftarrow> populateCellContainerStatuses r cell;
     state \<leftarrow> (case cgroup of Inl _ \<Rightarrow> State_Monad.return CellStateUnknown | Inr _ \<Rightarrow> deriveCellState r cell);
     let newStatus = newStatus\<lparr>ceT_Containers := ceT_Containers (ce_Status cell), ceT_State := state\<rparr>;
     let newStatus = (if state = CellStateError \<and> ceT_State originalStatus \<noteq> CellStateError
           then newStatus\<lparr>ceT_Reason := fst (cellFailureBreadcrumb cell), ceT_Message := snd (cellFailureBreadcrumb cell)\<rparr>
           else newStatus);
     let newStatus = newStatus\<lparr>ceT_ReadyObserved :=
           latchReadyObserved (ceT_ReadyObserved originalStatus) (ceT_State originalStatus) state\<rparr>;
     specs \<leftarrow> traverse_list (refresh_one r cell) (ceS_Containers (ce_Spec cell));
     let cell = cell\<lparr>ce_Spec := (ce_Spec cell)\<lparr>ceS_Containers := map fst specs\<rparr>\<rparr>;
     let sameContainers = containerStatusesEqual (ceT_Containers originalStatus) (ceT_Containers newStatus);
     let containersUpdated = length (filter snd specs)
           + (if sameContainers then 0
              else countContainerStatusChanges (ceT_Containers originalStatus) (ceT_Containers newStatus));
     let cellUpdated = (state \<noteq> ceT_State originalStatus \<or> ceT_CgroupPath newStatus \<noteq> ceT_CgroupPath originalStatus
           \<or> ceT_CgroupReady newStatus \<noteq> ceT_CgroupReady originalStatus
           \<or> ceT_ReadyObserved newStatus \<noteq> ceT_ReadyObserved originalStatus \<or> \<not> sameContainers);
     let cell = (if cellUpdated then cell\<lparr>ce_Status := newStatus\<rparr> else cell);
     if cellUpdated \<or> containersUpdated > 0 then do {
       x \<leftarrow> persistCellStatusGuarded r cell;
       State_Monad.return (case x of
         Inl e \<Rightarrow> (cell, containersUpdated, Some (errorfw ''failed to update cell metadata'' [] e))
       | Inr saved \<Rightarrow> (cell, if saved then containersUpdated else 0, None)) }
     else State_Monad.return (cell, containersUpdated, None) }"

section \<open>The restart pass\<close>

datatype restartPassResult = restartNone | restartFired | restartDeferred

definition restartStateKey :: "Cell \<Rightarrow> string \<Rightarrow> string" where
  "restartStateKey cell containerID =
     cellLockKey (ceS_RealmName (ce_Spec cell)) (ceS_SpaceName (ce_Spec cell)) (ceS_StackName (ce_Spec cell))
       (ceM_Name (ce_Metadata cell)) @ CHR 0x00 # containerID"

text \<open>The decision from the bookkeeping of a container; the clock is read only on the last test.\<close>

definition restart_decision :: "containerRestartState option \<Rightarrow> string \<Rightarrow> int \<Rightarrow> int \<Rightarrow> gotime \<Rightarrow> restartPassResult" where
  "restart_decision st policy backoff maxRetries now =
     (case st of
        None \<Rightarrow> restartFired
      | Some st \<Rightarrow>
          if policy = RestartPolicyOnFailure \<and> cr_attempts st \<ge> maxRetries then restartNone
          else if \<not> IsZero (cr_lastAttempt st) \<and> time_Sub now (cr_lastAttempt st) < backoff then restartDeferred
          else restartFired)"

definition restartDecisionFor :: "'h Exec \<Rightarrow> Cell \<Rightarrow> string \<Rightarrow> string \<Rightarrow> int \<Rightarrow> int \<Rightarrow> ('h, restartPassResult) proc" where
  "restartDecisionFor r cell containerID policy backoff maxRetries = do {
     w \<leftarrow> State_Monad.get;
     let st = map_of (w_restartStates w) (restartStateKey cell containerID);
     now \<leftarrow> (case st of
         None \<Rightarrow> State_Monad.return 0
       | Some s \<Rightarrow>
           if policy = RestartPolicyOnFailure \<and> cr_attempts s \<ge> maxRetries \<or> IsZero (cr_lastAttempt s)
           then State_Monad.return 0 else nowUTC r);
     State_Monad.return (restart_decision st policy backoff maxRetries now) }"

definition recordRestartAttempt :: "'h Exec \<Rightarrow> Cell \<Rightarrow> string \<Rightarrow> ('h, unit) proc" where
  "recordRestartAttempt r cell containerID = do {
     now \<leftarrow> nowUTC r;
     w \<leftarrow> State_Monad.get;
     let key = restartStateKey cell containerID;
     let st = (case map_of (w_restartStates w) key of Some s \<Rightarrow> s | None \<Rightarrow> \<lparr>cr_attempts = 0, cr_lastAttempt = 0\<rparr>);
     State_Monad.set (w\<lparr>w_restartStates :=
       map_put key \<lparr>cr_attempts = wrap64 (cr_attempts st + 1), cr_lastAttempt = now\<rparr> (w_restartStates w)\<rparr>) }"

definition clearRestartState :: "Cell \<Rightarrow> string \<Rightarrow> ('h, unit) proc" where
  "clearRestartState cell containerID = do {
     w \<leftarrow> State_Monad.get;
     State_Monad.set (w\<lparr>w_restartStates :=
       filter (\<lambda>(k, _). k \<noteq> restartStateKey cell containerID) (w_restartStates w)\<rparr>) }"

definition restartContainer :: "'h Exec \<Rightarrow> Cell \<Rightarrow> string \<Rightarrow> ('h, Cell result) proc" where
  "restartContainer r cell containerID = r_StartContainer r cell containerID"

text \<open>
  The loop of the pass over the indices of the container specs: the cell and the result so far, or
  the error that ends it. The range is that of the first cell, the specs are read from the current
  one, which a relaunch replaces; an index past its end is a run-time panic.
\<close>

type_synonym 'h pass = "('h, Cell \<times> restartPassResult \<times> goerror option) proc"

abbreviation panic_index :: goerror where "panic_index \<equiv> ErrNamed ''panic: index out of range''"

text \<open>A container whose exit requires a restart: relaunch it now, later, or not any more.\<close>

definition restart_owed :: "'h Exec \<Rightarrow> ContainerSpec \<Rightarrow> Cell \<Rightarrow> restartPassResult \<Rightarrow> 'h pass" where
  "restart_owed r spec cell result = do {
     d \<leftarrow> restartDecisionFor r cell (cs_ID spec) (cs_RestartPolicy spec)
           (effectiveRestartBackoff spec) (effectiveOnFailureMaxRestarts spec);
     case d of
       restartFired \<Rightarrow> do {
         x \<leftarrow> restartContainer r cell (cs_ID spec);
         _ \<leftarrow> recordRestartAttempt r cell (cs_ID spec);
         case x of
           Inl e \<Rightarrow> State_Monad.return (cell, result, Some (errorfw ''restart container %q'' [QStr (cs_ID spec)] e))
         | Inr started \<Rightarrow> do {
             now \<leftarrow> nowUTC r;
             State_Monad.return (stampContainerRestart started (cs_ID spec) now, restartFired, None) } }
     | restartDeferred \<Rightarrow>
         State_Monad.return (cell, if result = restartNone then restartDeferred else result, None)
     | restartNone \<Rightarrow> State_Monad.return (cell, result, None) }"

definition restart_one ::
  "'h Exec \<Rightarrow> (string, ContainerStatus) gomap \<Rightarrow> ContainerSpec \<Rightarrow> Cell \<Rightarrow> restartPassResult \<Rightarrow> 'h pass" where
  "restart_one r statusByID spec cell result =
     (if cs_Root spec then State_Monad.return (cell, result, None)
      else case map_of statusByID (cs_ID spec) of
          None \<Rightarrow> State_Monad.return (cell, result, None)
        | Some status \<Rightarrow>
            if \<not> containerStateIsTerminal (st_State status) then do {
              _ \<leftarrow> clearRestartState cell (cs_ID spec);
              State_Monad.return (cell, result, None) }
            else if \<not> restartPolicyRequiresRestart (cs_RestartPolicy spec) (st_ExitCode status)
            then State_Monad.return (cell, result, None)
            else restart_owed r spec cell result)"

fun restart_loop ::
  "'h Exec \<Rightarrow> (string, ContainerStatus) gomap \<Rightarrow> nat list \<Rightarrow> Cell \<Rightarrow> restartPassResult \<Rightarrow> 'h pass" where
  "restart_loop r statusByID [] cell result = State_Monad.return (cell, result, None)"
| "restart_loop r statusByID (i # is) cell result =
     (if i \<ge> length (ceS_Containers (ce_Spec cell)) then State_Monad.return (cell, result, Some panic_index)
      else do {
        (cell, result, e) \<leftarrow> restart_one r statusByID (ceS_Containers (ce_Spec cell) ! i) cell result;
        if e \<noteq> None then State_Monad.return (cell, result, e)
        else restart_loop r statusByID is cell result })"

definition maybeRestartExitedContainers :: "'h Exec \<Rightarrow> Cell \<Rightarrow> 'h pass" where
  "maybeRestartExitedContainers r cell =
     (if \<not> ceT_ReadyObserved (ce_Status cell) then State_Monad.return (cell, restartNone, None)
      else if (case findRootContainerSpec cell of
            Some rootSpec \<Rightarrow> \<not> rootContainerStillRunning (cs_ID rootSpec) (ceT_Containers (ce_Status cell))
          | None \<Rightarrow> False)
      then State_Monad.return (cell, restartNone, None)
      else restart_loop r (by_key st_ID (ceT_Containers (ce_Status cell))) [0..<length (ceS_Containers (ce_Spec cell))] cell restartNone)"

section \<open>Reconciling a cell\<close>

record ReconcileOutcome =
  oc_Updated :: bool
  oc_Deleted :: bool
  oc_Vanished :: bool

definition no_outcome :: ReconcileOutcome where
  "no_outcome = \<lparr>oc_Updated = False, oc_Deleted = False, oc_Vanished = False\<rparr>"

type_synonym 'h reconciled = "('h, Cell \<times> ReconcileOutcome \<times> goerror option) proc"

definition windDownCell :: "'h Exec \<Rightarrow> Cell \<Rightarrow> 'h reconciled" where
  "windDownCell r cell = do {
     x \<leftarrow> r_killCellLocked r cell;
     State_Monad.return (case x of
       Inl e \<Rightarrow> (cell, no_outcome, Some (errorfw ''wind-down: kill cell'' [] e))
     | Inr updatedCell \<Rightarrow> (updatedCell, no_outcome\<lparr>oc_Updated := True\<rparr>, None)) }"

definition autoDeleteCell :: "'h Exec \<Rightarrow> Cell \<Rightarrow> 'h reconciled" where
  "autoDeleteCell r cell = do {
     x \<leftarrow> r_killCellLocked r cell;
     case x of
       Inl e \<Rightarrow> State_Monad.return (cell, no_outcome, Some (errorfw ''auto-delete: kill cell'' [] e))
     | Inr _ \<Rightarrow> do {
         y \<leftarrow> r_deleteCellLocked r cell;
         State_Monad.return (case y of
           Inl e \<Rightarrow> (cell, no_outcome, Some (errorfw ''auto-delete: delete cell'' [] e))
         | Inr _ \<Rightarrow> (cell, no_outcome\<lparr>oc_Deleted := True\<rparr>, None)) } }"

text \<open>The write at the end of the paths that keep the cell.\<close>

definition persist_outcome :: "'h Exec \<Rightarrow> Cell \<Rightarrow> bool \<Rightarrow> 'h reconciled" where
  "persist_outcome r cell updated =
     (if \<not> updated then State_Monad.return (cell, no_outcome, None)
      else do {
        x \<leftarrow> persistCellStatusGuarded r cell;
        State_Monad.return (case x of
          Inl e \<Rightarrow> (cell, no_outcome, Some (errorfw ''failed to update cell metadata'' [] e))
        | Inr saved \<Rightarrow> (cell, no_outcome\<lparr>oc_Updated := saved\<rparr>, None)) })"

definition reconcile_sticky :: "'h Exec \<Rightarrow> Cell \<Rightarrow> 'h reconciled" where
  "reconcile_sticky r cell = do {
     let originalStatus = ce_Status cell;
     cell \<leftarrow> populateCellContainerStatuses r cell;
     persist_outcome r cell (\<not> containerStatusesEqual (ceT_Containers originalStatus) (ceT_Containers (ce_Status cell))
       \<or> observedGenerationBehind originalStatus (ceM_Generation (ce_Metadata cell))) }"

text \<open>The cgroup check with the healing of a cgroup that is gone, then the container statuses and the state.\<close>

definition heal_cgroup :: "'h Exec \<Rightarrow> Cell \<Rightarrow> bool result \<Rightarrow> ('h, Cell) proc" where
  "heal_cgroup r cell cgroup =
     (let cell = cell\<lparr>ce_Status := (ce_Status cell)\<lparr>ceT_CgroupReady := (cgroup = Inr True)\<rparr>\<rparr> in
      if cgroup = Inr False \<and> ceT_ReadyObserved (ce_Status cell) then do {
        x \<leftarrow> ensureCellCgroup r cell;
        State_Monad.return (case x of
          Inl _ \<Rightarrow> cell
        | Inr healedCell \<Rightarrow> healedCell\<lparr>ce_Status := (ce_Status healedCell)\<lparr>ceT_CgroupReady := True\<rparr>\<rparr>) }
      else State_Monad.return cell)"

definition record_state :: "CellStatus \<Rightarrow> CellState \<Rightarrow> Cell \<Rightarrow> Cell" where
  "record_state originalStatus newState cell =
     (let cell = cell\<lparr>ce_Status := (ce_Status cell)\<lparr>ceT_State := newState, ceT_ReadyObserved :=
            latchReadyObserved (ceT_ReadyObserved originalStatus) (ceT_State originalStatus) newState\<rparr>\<rparr>
      in if newState = CellStateError \<and> ceT_State originalStatus \<noteq> CellStateError
         then stampCellFailure cell else cell)"

definition reconcile_observe :: "'h Exec \<Rightarrow> Cell \<Rightarrow> ('h, Cell \<times> CellState) proc" where
  "reconcile_observe r cell = do {
     let originalStatus = ce_Status cell;
     cgroup \<leftarrow> ExistsCgroup r (CgCell cell);
     cell \<leftarrow> heal_cgroup r cell cgroup;
     cell \<leftarrow> populateCellContainerStatuses r cell;
     newState \<leftarrow> (case cgroup of Inl _ \<Rightarrow> State_Monad.return CellStateUnknown | Inr _ \<Rightarrow> deriveCellState r cell);
     State_Monad.return (record_state originalStatus newState cell, newState) }"

text \<open>The cell held at Degraded while a restart is owed.\<close>

definition hold_degraded :: "CellStatus \<Rightarrow> Cell \<Rightarrow> Cell" where
  "hold_degraded originalStatus cell =
     cell\<lparr>ce_Status := (ce_Status cell)\<lparr>ceT_State := CellStateDegraded, ceT_Reason := ceT_Reason originalStatus,
       ceT_Message := ceT_Message originalStatus\<rparr>\<rparr>"

definition status_changed :: "CellStatus \<Rightarrow> Cell \<Rightarrow> bool" where
  "status_changed originalStatus cell \<longleftrightarrow>
     ceT_State originalStatus \<noteq> ceT_State (ce_Status cell)
     \<or> ceT_ReadyObserved originalStatus \<noteq> ceT_ReadyObserved (ce_Status cell)
     \<or> ceT_CgroupReady originalStatus \<noteq> ceT_CgroupReady (ce_Status cell)
     \<or> \<not> containerStatusesEqual (ceT_Containers originalStatus) (ceT_Containers (ce_Status cell))
     \<or> observedGenerationBehind originalStatus (ceM_Generation (ce_Metadata cell))"

definition reconcile_live :: "'h Exec \<Rightarrow> Cell \<Rightarrow> 'h reconciled" where
  "reconcile_live r cell = do {
     let originalStatus = ce_Status cell;
     (cell, newState) \<leftarrow> reconcile_observe r cell;
     (cell, restartResult, restartErr) \<leftarrow> maybeRestartExitedContainers r cell;
     case restartErr of
       Some e \<Rightarrow> State_Monad.return (cell, no_outcome, Some e)
     | None \<Rightarrow>
         (case restartResult of
            restartFired \<Rightarrow> persist_outcome r (hold_degraded originalStatus cell) True
          | restartDeferred \<Rightarrow>
              let cell = hold_degraded originalStatus cell;
                  cell = cell\<lparr>ce_Status := (ce_Status cell)\<lparr>ceT_ReadyObserved := ceT_ReadyObserved originalStatus\<rparr>\<rparr>
              in persist_outcome r cell (status_changed originalStatus cell)
          | restartNone \<Rightarrow>
              if shouldAutoDeleteCell (ceS_AutoDelete (ce_Spec cell)) newState (ceT_ReadyObserved (ce_Status cell))
              then autoDeleteCell r cell
              else if restartPolicyPermitsCellReap cell \<and> shouldWindDownCell cell newState
              then windDownCell r cell
              else persist_outcome r cell (status_changed originalStatus cell)) }"

definition ReconcileCell :: "'h Exec \<Rightarrow> Cell \<Rightarrow> 'h reconciled" where
  "ReconcileCell r cell = do {
     x \<leftarrow> GetCell r cell;
     if (case x of Inl e \<Rightarrow> errors_Is e ErrCellNotFound | Inr _ \<Rightarrow> False)
     then State_Monad.return (cell, no_outcome\<lparr>oc_Vanished := True\<rparr>, None)
     else if cellStateIsSticky (ceT_State (ce_Status cell)) then reconcile_sticky r cell
     else reconcile_live r cell }"

end
