(* ===== verification/Reconcile_Safety.thy ===== *)
theory Reconcile_Safety
  imports Cell_Reconcile
begin

text \<open>
  What the reconcile loop may do to a cell (\<^verbatim>\<open>internal/controller/runner/refresh.go\<close>): which cells a pass may kill or
  delete, in which state a deleted cell was, and how often a crashing container is launched again. The
  first part shows that no operation but the auto-delete reaches the kill and delete operations of the
  runner, the second follows the restart pass branch by branch, and the last one counts launches over
  any number of passes.
\<close>

section \<open>Operations that do not kill or delete\<close>

text \<open>
  The runner with other kill and delete operations. An operation that is the same under the two
  never calls them.
\<close>

abbreviation other_reaper :: "(Cell \<Rightarrow> ('h, Cell result) proc) \<Rightarrow> (Cell \<Rightarrow> ('h, unit result) proc) \<Rightarrow> 'h Exec \<Rightarrow> 'h Exec" where
  "other_reaper k d r \<equiv> r\<lparr>r_killCellLocked := k, r_deleteCellLocked := d\<rparr>"

named_theorems no_reap \<open>operations that neither kill nor delete\<close>

lemma no_reap_fields [no_reap]:
  "r_RunPath (other_reaper k d r) = r_RunPath r"
  "r_ContainerdSocket (other_reaper k d r) = r_ContainerdSocket r"
  "r_RealmNamespaceSuffix (other_reaper k d r) = r_RealmNamespaceSuffix r"
  "r_KukeonCgroupRoot (other_reaper k d r) = r_KukeonCgroupRoot r"
  "r_address (other_reaper k d r) = r_address r"
  "r_sha256 (other_reaper k d r) = r_sha256 r"
  "r_SignalName (other_reaper k d r) = r_SignalName r"
  "r_nowUTC (other_reaper k d r) = r_nowUTC r"
  "r_Connect (other_reaper k d r) = r_Connect r"
  "r_ExistsNamespace (other_reaper k d r) = r_ExistsNamespace r"
  "r_CreateNamespace (other_reaper k d r) = r_CreateNamespace r"
  "r_ListNamespaces (other_reaper k d r) = r_ListNamespaces r"
  "r_ExistsContainer (other_reaper k d r) = r_ExistsContainer r"
  "r_TaskStatus (other_reaper k d r) = r_TaskStatus r"
  "r_pullSetupStatus (other_reaper k d r) = r_pullSetupStatus r"
  "r_GetCgroupMountpoint (other_reaper k d r) = r_GetCgroupMountpoint r"
  "r_LoadCgroup (other_reaper k d r) = r_LoadCgroup r"
  "r_NewCgroup (other_reaper k d r) = r_NewCgroup r"
  "r_EnsureSubtreeControllers (other_reaper k d r) = r_EnsureSubtreeControllers r"
  "r_EnableCellSubtreeControllers (other_reaper k d r) = r_EnableCellSubtreeControllers r"
  "r_EnableCellAllSubtreeControllers (other_reaper k d r) = r_EnableCellAllSubtreeControllers r"
  "r_StartContainer (other_reaper k d r) = r_StartContainer r"
  by simp_all

lemma no_reap_world [no_reap]:
  "nowUTC (other_reaper k d r) = nowUTC r" "ensureClientConnected (other_reaper k d r) = ensureClientConnected r"
  "RealmNamespace (other_reaper k d r) = RealmNamespace r" "combined_group (other_reaper k d r) = combined_group r"
  "next_status (other_reaper k d r) = next_status r" "enableCellControllers (other_reaper k d r) = enableCellControllers r"
  "restartContainer (other_reaper k d r) = restartContainer r"
  unfolding fun_eq_iff nowUTC_def ensureClientConnected_def RealmNamespace_def combined_group_def next_status_def enableCellControllers_def restartContainer_def no_reap by simp_all

lemma no_reap_connected [no_reap]: "connected (other_reaper k d r) m = connected r m"
  unfolding connected_def no_reap by simp

lemma no_reap_reads [no_reap]:
  "GetRealm (other_reaper k d r) = GetRealm r" "buildCgroupPath (other_reaper k d r) = buildCgroupPath r"
  "observe_task (other_reaper k d r) = observe_task r" "setupStatuses (other_reaper k d r) = setupStatuses r"
  "updateCellMetadata (other_reaper k d r) = updateCellMetadata r"
  unfolding fun_eq_iff GetRealm_def buildCgroupPath_def observe_task_def setupStatuses_def updateCellMetadata_def no_reap by simp_all

lemma no_reap_observe [no_reap]:
  "ExistsCgroup (other_reaper k d r) = ExistsCgroup r"
  "GetContainerObservation (other_reaper k d r) = GetContainerObservation r"
  unfolding fun_eq_iff ExistsCgroup_def GetContainerObservation_def no_reap by simp_all

lemma no_reap_populate [no_reap]:
  "GetContainerState (other_reaper k d r) = GetContainerState r" "populate_one (other_reaper k d r) = populate_one r"
  "persistCellStatusGuarded (other_reaper k d r) = persistCellStatusGuarded r"
  unfolding fun_eq_iff GetContainerState_def populate_one_def persistCellStatusGuarded_def no_reap by simp_all

lemma no_reap_statuses [no_reap]:
  "populateCellContainerStatuses (other_reaper k d r) = populateCellContainerStatuses r"
  unfolding fun_eq_iff populateCellContainerStatuses_def no_reap by simp_all

lemma no_reap_cgroup [no_reap]:
  "ensureCgroupInternal (other_reaper k d r) = ensureCgroupInternal r"
  "settle_cgroup (other_reaper k d r) e = settle_cgroup r e"
  unfolding fun_eq_iff ensureCgroupInternal_def settle_cgroup_def no_reap by simp_all

lemma no_reap_cell [no_reap]:
  "GetCell (other_reaper k d r) = GetCell r" "ensureCellCgroup (other_reaper k d r) = ensureCellCgroup r"
  "deriveCellState (other_reaper k d r) = deriveCellState r"
  unfolding fun_eq_iff GetCell_def ensureCellCgroup_def deriveCellState_def deriveCellStateFromRootContainer_def no_reap by simp_all

lemma no_reap_restart_one [no_reap]: "restart_one (other_reaper k d r) = restart_one r"
  unfolding fun_eq_iff restart_one_def restart_owed_def restartDecisionFor_def recordRestartAttempt_def no_reap by simp_all

lemma no_reap_restart_loop [no_reap]: "restart_loop (other_reaper k d r) m is cell x = restart_loop r m is cell x"
proof (induction "is" arbitrary: cell x)
  case (Cons i js)
  then have ih: "restart_loop (other_reaper k d r) m js = restart_loop r m js" by (intro ext)
  show ?case unfolding restart_loop.simps no_reap ih ..
qed simp

lemma no_reap_heal_cgroup [no_reap]: "heal_cgroup (other_reaper k d r) = heal_cgroup r"
  unfolding fun_eq_iff heal_cgroup_def no_reap by simp

lemma no_reap_reconcile [no_reap]:
  "maybeRestartExitedContainers (other_reaper k d r) = maybeRestartExitedContainers r"
  "persist_outcome (other_reaper k d r) = persist_outcome r" "reconcile_sticky (other_reaper k d r) = reconcile_sticky r"
  "reconcile_observe (other_reaper k d r) = reconcile_observe r"
  unfolding fun_eq_iff maybeRestartExitedContainers_def persist_outcome_def reconcile_sticky_def reconcile_observe_def no_reap by simp_all

section \<open>When the restart pass does nothing\<close>

text \<open>A container the pass leaves alone: the exit needs no restart, or the retries are used up.\<close>

definition left_alone :: "(string, ContainerStatus) gomap \<Rightarrow> ContainerSpec \<Rightarrow> bool" where
  "left_alone statusByID spec \<longleftrightarrow> cs_Root spec
     \<or> (case map_of statusByID (cs_ID spec) of
          None \<Rightarrow> True
        | Some st \<Rightarrow> \<not> containerStateIsTerminal (st_State st)
            \<or> \<not> restartPolicyRequiresRestart (cs_RestartPolicy spec) (st_ExitCode st)
            \<or> cs_RestartPolicy spec = RestartPolicyOnFailure)"

lemma run_if: "run_state (if b then m else n) w = R \<longleftrightarrow> (if b then run_state m w = R else run_state n w = R)"
  by simp

lemma decision_none: "restart_decision st policy b mx now = restartNone \<Longrightarrow> policy = RestartPolicyOnFailure"
  by (auto simp: restart_decision_def split: option.splits if_splits)

lemma restartDecisionFor_run:
  assumes "run_state (restartDecisionFor r cell i policy b mx) w = (d, v)"
  obtains now where "d = restart_decision (map_of (w_restartStates w) (restartStateKey cell i)) policy b mx now"
    "w_restartStates v = w_restartStates w"
  using assms
  by (auto simp: restartDecisionFor_def nowUTC_def Let_def split: option.splits if_splits prod.splits)

lemma restart_one_cases:
  fixes st :: ContainerStatus
  shows "cs_Root spec \<Longrightarrow> restart_one r m spec cell x = State_Monad.return (cell, x, None)"
    "map_of m (cs_ID spec) = None \<Longrightarrow> restart_one r m spec cell x = State_Monad.return (cell, x, None)"
    "\<not> cs_Root spec \<Longrightarrow> map_of m (cs_ID spec) = Some st \<Longrightarrow> \<not> containerStateIsTerminal (st_State st) \<Longrightarrow>
       restart_one r m spec cell x = do { _ \<leftarrow> clearRestartState cell (cs_ID spec); State_Monad.return (cell, x, None) }"
    "map_of m (cs_ID spec) = Some st \<Longrightarrow> containerStateIsTerminal (st_State st) \<Longrightarrow>
       \<not> restartPolicyRequiresRestart (cs_RestartPolicy spec) (st_ExitCode st) \<Longrightarrow>
       restart_one r m spec cell x = State_Monad.return (cell, x, None)"
    "\<not> cs_Root spec \<Longrightarrow> map_of m (cs_ID spec) = Some st \<Longrightarrow> containerStateIsTerminal (st_State st) \<Longrightarrow>
       restartPolicyRequiresRestart (cs_RestartPolicy spec) (st_ExitCode st) \<Longrightarrow>
       restart_one r m spec cell x = restart_owed r spec cell x"
  by (auto simp: restart_one_def split: option.split)

lemma restart_owed_none:
  assumes "run_state (restart_owed r spec cell x) w = ((c, restartNone, None), w')"
  shows "x = restartNone \<and> c = cell \<and> cs_RestartPolicy spec = RestartPolicyOnFailure"
proof -
  obtain d v where d: "run_state (restartDecisionFor r cell (cs_ID spec) (cs_RestartPolicy spec)
        (effectiveRestartBackoff spec) (effectiveOnFailureMaxRestarts spec)) w = (d, v)" by fastforce
  from assms have out: "d = restartNone \<and> x = restartNone \<and> c = cell"
    unfolding restart_owed_def bind_run d
    by (cases d) (auto simp: bind_run run_sum_case simp del: run_state_bind split: if_splits sum.splits prod.splits)
  from d have "cs_RestartPolicy spec = RestartPolicyOnFailure"
    by (rule restartDecisionFor_run) (use out decision_none in metis)
  with out show ?thesis by simp
qed

lemma restart_one_none:
  assumes run: "run_state (restart_one r m spec cell x) w = ((c, restartNone, None), w')"
  shows "x = restartNone \<and> c = cell \<and> left_alone m spec"
proof (cases "cs_Root spec \<or> map_of m (cs_ID spec) = None")
  case True
  with run show ?thesis by (auto simp: restart_one_cases left_alone_def)
next
  case False
  then obtain st where st: "\<not> cs_Root spec" "map_of m (cs_ID spec) = Some st" by auto
  consider "\<not> containerStateIsTerminal (st_State st)"
    | "containerStateIsTerminal (st_State st)" "\<not> restartPolicyRequiresRestart (cs_RestartPolicy spec) (st_ExitCode st)"
    | "containerStateIsTerminal (st_State st)" "restartPolicyRequiresRestart (cs_RestartPolicy spec) (st_ExitCode st)" by blast
  then show ?thesis
  proof cases
    case 1
    with run st show ?thesis by (auto simp: restart_one_cases(3)[OF st] left_alone_def clearRestartState_def Let_def)
  next
    case 2
    with run st show ?thesis by (auto simp: restart_one_cases(4)[OF st(2)] left_alone_def)
  next
    case 3
    from restart_owed_none[OF run[unfolded restart_one_cases(5)[OF st 3]]] st show ?thesis by (simp add: left_alone_def)
  qed
qed

lemma restart_loop_none:
  assumes "run_state (restart_loop r m js cell x) w = ((c, restartNone, None), w')"
  shows "x = restartNone \<and> c = cell \<and> (\<forall>i\<in>set js. i < length (ceS_Containers (ce_Spec cell)) \<and> left_alone m (ceS_Containers (ce_Spec cell) ! i))"
  using assms
proof (induction js arbitrary: cell x w)
  case (Cons i js)
  from Cons.prems obtain c1 x1 v where one: "run_state (restart_one r m (ceS_Containers (ce_Spec cell) ! i) cell x) w = ((c1, x1, None), v)"
    and rest: "run_state (restart_loop r m js c1 x1) v = ((c, restartNone, None), w')" and i: "i < length (ceS_Containers (ce_Spec cell))"
    by (auto simp: bind_run simp del: run_state_bind split: if_splits)
  from Cons.IH[OF rest] have x1: "x1 = restartNone" "c = c1"
    "\<forall>i\<in>set js. i < length (ceS_Containers (ce_Spec c1)) \<and> left_alone m (ceS_Containers (ce_Spec c1) ! i)" by blast+
  from restart_one_none[OF one[unfolded x1(1)]] x1 i show ?case by auto
qed simp

lemma restart_pass_none:
  assumes "run_state (maybeRestartExitedContainers r cell) w = ((c, restartNone, None), w')"
  shows "c = cell"
    and "ceT_ReadyObserved (ce_Status cell) \<Longrightarrow> findRootContainerSpec cell = Some root \<Longrightarrow>
      rootContainerStillRunning (cs_ID root) (ceT_Containers (ce_Status cell)) \<Longrightarrow> spec \<in> set (ceS_Containers (ce_Spec cell)) \<Longrightarrow>
      left_alone (by_key st_ID (ceT_Containers (ce_Status cell))) spec"
proof -
  note none = restart_loop_none[of r "by_key st_ID (ceT_Containers (ce_Status cell))"]
  show "c = cell"
    using assms none by (auto simp: maybeRestartExitedContainers_def split: if_splits option.splits)
  assume *: "ceT_ReadyObserved (ce_Status cell)" "findRootContainerSpec cell = Some root"
      "rootContainerStillRunning (cs_ID root) (ceT_Containers (ce_Status cell))" "spec \<in> set (ceS_Containers (ce_Spec cell))"
  with assms have "run_state (restart_loop r (by_key st_ID (ceT_Containers (ce_Status cell))) [0..<length (ceS_Containers (ce_Spec cell))]
      cell restartNone) w = ((c, restartNone, None), w')"
    by (simp add: maybeRestartExitedContainers_def)
  from none[OF this] *(4) show "left_alone (by_key st_ID (ceT_Containers (ce_Status cell))) spec"
    by (auto simp: in_set_conv_nth)
qed

section \<open>No cell is wound down\<close>

lemma derived_exited:
  assumes "deriveCellStateFromNonRootContainerStatuses specs statuses = CellStateExited"
    and "c \<in> set specs" "\<not> cs_Root c" "s \<in> set statuses" "st_ID s = cs_ID c"
  shows "containerStateIsTerminal (st_State s)" "st_ExitCode s = 0" "\<not> containerExitedNonZero s"
proof -
  let ?m = "by_key cs_ID (filter (\<lambda>s. \<not> cs_Root s) specs)"
  have "s \<in> set (known_statuses ?m statuses)"
    using assms(2-5) by_key_None_iff[of cs_ID "filter (\<lambda>s. \<not> cs_Root s) specs" "st_ID s"] by (auto simp: known_statuses_def)
  then show t: "containerStateIsTerminal (st_State s)" and nz: "\<not> containerExitedNonZero s"
    using assms(1) unfolding derive_alt by (auto simp: terminal_not_active split: if_splits)
  then show "st_ExitCode s = 0" by (simp add: containerExitedNonZero_def)
qed

lemma derived_exited_some:
  assumes "deriveCellStateFromNonRootContainerStatuses specs statuses = CellStateExited" "hasNonRootContainerSpec specs"
  obtains c s where "c \<in> set specs" "\<not> cs_Root c" "s \<in> set statuses" "st_ID s = cs_ID c"
proof -
  let ?N = "filter (\<lambda>s. \<not> cs_Root s) specs"
  have "set ?N \<noteq> {}" using assms(2) by (auto simp: hasNonRootContainerSpec_def list_ex_iff)
  then have "0 < card (cs_ID ` set ?N)" by (auto simp only: card_gt_0_iff image_is_empty finite_imageI finite_set)
  have "known_statuses (by_key cs_ID ?N) statuses \<noteq> []"
  proof
    assume "known_statuses (by_key cs_ID ?N) statuses = []"
    then have "deriveCellStateFromNonRootContainerStatuses specs statuses = CellStateUnknown"
      unfolding derive_alt using \<open>0 < card _\<close> by (simp only: list.size if_True)
    with assms(1) show False by simp
  qed
  then obtain s where s: "s \<in> set statuses" "map_of (by_key cs_ID ?N) (st_ID s) \<noteq> None"
    unfolding known_statuses_def filter_empty_conv by blast
  then obtain c where "map_of (by_key cs_ID ?N) (st_ID s) = Some c" by blast
  from by_key_SomeD[OF this] s(1) show ?thesis using that[of c s] by simp
qed

lemma reap_is_restart: "restartPolicyPermitsContainerReap p e = restartPolicyRequiresRestart p e"
  by (simp only: restartPolicyPermitsContainerReap_def restartPolicyRequiresRestart_def)

lemma on_failure_clean: "\<not> restartPolicyRequiresRestart RestartPolicyOnFailure 0"
  by (simp add: restartPolicyRequiresRestart_def restart_policy_defs)

lemma shouldWindDownCellD:
  assumes "shouldWindDownCell cell newState"
  obtains root where "newState = CellStateExited" "ceT_ReadyObserved (ce_Status cell)"
    "hasNonRootContainerSpec (ceS_Containers (ce_Spec cell))" "findRootContainerSpec cell = Some root"
    "rootContainerStillRunning (cs_ID root) (ceT_Containers (ce_Status cell))"
  using assms by (simp add: shouldWindDownCell_def cellStateAutoDeleteTriggers_def split: if_splits option.splits)

text \<open>A workload that exited cleanly and is left alone by the restart pass has a policy that does not permit the reap.\<close>

lemma left_alone_no_reap:
  assumes "left_alone m c" "\<not> cs_Root c" "map_of m (cs_ID c) = Some st" "containerStateIsTerminal (st_State st)" "st_ExitCode st = 0"
  shows "\<not> restartPolicyPermitsContainerReap (cs_RestartPolicy c) (st_ExitCode st)"
  using assms on_failure_clean by (auto simp: left_alone_def reap_is_restart)

lemma permits_reapD:
  assumes "restartPolicyPermitsCellReap cell" "c \<in> set (ceS_Containers (ce_Spec cell))" "\<not> cs_Root c"
    "map_of (by_key st_ID (ceT_Containers (ce_Status cell))) (cs_ID c) = Some st" "containerStateIsTerminal (st_State st)"
  shows "restartPolicyPermitsContainerReap (cs_RestartPolicy c) (st_ExitCode st)"
  using assms unfolding restartPolicyPermitsCellReap_def Let_def list_all_iff by fastforce

lemma wind_down_dead:
  assumes pass: "run_state (maybeRestartExitedContainers r cell) w = ((cell, restartNone, None), w')"
    and exited: "newState = CellStateExited \<Longrightarrow> hasNonRootContainerSpec (ceS_Containers (ce_Spec cell)) \<Longrightarrow>
      deriveCellStateFromNonRootContainerStatuses (ceS_Containers (ce_Spec cell)) (ceT_Containers (ce_Status cell)) = CellStateExited"
    and permits: "restartPolicyPermitsCellReap cell" and wind: "shouldWindDownCell cell newState"
  shows False
proof -
  let ?T = "ceT_Containers (ce_Status cell)"
  from wind obtain root where root: "newState = CellStateExited" "ceT_ReadyObserved (ce_Status cell)"
    "hasNonRootContainerSpec (ceS_Containers (ce_Spec cell))" "findRootContainerSpec cell = Some root"
    "rootContainerStillRunning (cs_ID root) ?T" by (rule shouldWindDownCellD)
  note d = exited[OF root(1,3)]
  obtain c s where c: "c \<in> set (ceS_Containers (ce_Spec cell))" "\<not> cs_Root c" "s \<in> set ?T" "st_ID s = cs_ID c"
    using derived_exited_some[OF d root(3)] .
  from c(3,4) have "cs_ID c \<in> st_ID ` set ?T" by (metis image_eqI)
  then obtain st where st: "map_of (by_key st_ID ?T) (cs_ID c) = Some st"
    using by_key_None_iff[of st_ID ?T "cs_ID c"] by blast
  from by_key_SomeD[OF st] have t: "containerStateIsTerminal (st_State st)" "st_ExitCode st = 0"
    using derived_exited(1,2)[OF d c(1,2)] by blast+
  from left_alone_no_reap[OF restart_pass_none(2)[OF pass root(2,4,5) c(1)] c(2) st t]
    permits_reapD[OF permits c(1,2) st t(1)] show False by blast
qed

section \<open>What a reconcile pass observes\<close>

lemma stamped [simp]:
  "ce_Spec (stampCellFailure c) = ce_Spec c" "ceT_State (ce_Status (stampCellFailure c)) = ceT_State (ce_Status c)"
  "ceT_ReadyObserved (ce_Status (stampCellFailure c)) = ceT_ReadyObserved (ce_Status c)"
  "ceT_Containers (ce_Status (stampCellFailure c)) = ceT_Containers (ce_Status c)"
  by (simp_all add: stampCellFailure_def split_beta Let_def)

lemma recorded:
  "ce_Spec (record_state o' ns c) = ce_Spec c" "ceT_State (ce_Status (record_state o' ns c)) = ns"
  "ceT_Containers (ce_Status (record_state o' ns c)) = ceT_Containers (ce_Status c)"
  "ceT_ReadyObserved (ce_Status (record_state o' ns c)) = latchReadyObserved (ceT_ReadyObserved o') (ceT_State o') ns"
  by (simp_all add: record_state_def Let_def)

lemma healed_spec:
  assumes "run_state (heal_cgroup r cell g) w = (c, w')"
  shows "ce_Spec c = ce_Spec cell"
proof -
  let ?cell = "cell\<lparr>ce_Status := (ce_Status cell)\<lparr>ceT_CgroupReady := (g = Inr True)\<rparr>\<rparr>"
  obtain x v where x: "run_state (ensureCellCgroup r ?cell) w = (x, v)" by fastforce
  have ensured: "ce_Spec d = ce_Spec cell" if "x = Inr d" for d
    using arg_cong[OF ensured_cell[OF x[unfolded that]], of ce_Spec] by simp
  from assms x ensured show ?thesis
    by (cases x) (auto simp: heal_cgroup_def Let_def split: if_splits)
qed

lemma observed:
  assumes "run_state (reconcile_observe r cell) w = ((c, ns), v)"
  shows "ce_Spec c = ce_Spec cell" "ceT_State (ce_Status c) = ns"
    "ceT_ReadyObserved (ce_Status c) = latchReadyObserved (ceT_ReadyObserved (ce_Status cell)) (ceT_State (ce_Status cell)) ns"
    "map st_ID (ceT_Containers (ce_Status c)) = map cs_ID (ceS_Containers (ce_Spec cell))"
    "ns = CellStateExited \<Longrightarrow> hasNonRootContainerSpec (ceS_Containers (ce_Spec cell)) \<Longrightarrow>
       deriveCellStateFromNonRootContainerStatuses (ceS_Containers (ce_Spec cell)) (ceT_Containers (ce_Status c)) = CellStateExited"
proof -
  from assms obtain g v1 c2 v2 c3 v3 where heal: "run_state (heal_cgroup r cell g) v1 = (c2, v2)"
    and pop: "run_state (populateCellContainerStatuses r c2) v2 = (c3, v3)"
    and der: "run_state (case g of Inl _ \<Rightarrow> State_Monad.return CellStateUnknown | Inr _ \<Rightarrow> deriveCellState r c3) v3 = (ns, v)"
    and c: "c = record_state (ce_Status cell) ns c3"
    by (auto simp: reconcile_observe_def Let_def bind_run simp del: run_state_bind)
  note facts = healed_spec[OF heal] populate_ids[OF pop]
  from facts show "ce_Spec c = ce_Spec cell" "ceT_State (ce_Status c) = ns"
    "ceT_ReadyObserved (ce_Status c) = latchReadyObserved (ceT_ReadyObserved (ce_Status cell)) (ceT_State (ce_Status cell)) ns"
    "map st_ID (ceT_Containers (ce_Status c)) = map cs_ID (ceS_Containers (ce_Spec cell))"
    by (simp_all add: c recorded)
  assume "ns = CellStateExited" "hasNonRootContainerSpec (ceS_Containers (ce_Spec cell))"
  with der facts show "deriveCellStateFromNonRootContainerStatuses (ceS_Containers (ce_Spec cell)) (ceT_Containers (ce_Status c)) = CellStateExited"
    by (cases g) (simp_all add: c recorded deriveCellState_def)
qed

section \<open>Which cells a reconcile pass reaps\<close>

lemma live_run:
  assumes "run_state (reconcile_observe r cell) w = ((c, ns), v)"
    and "run_state (maybeRestartExitedContainers r c) v = ((c', res, err), v')"
  shows "run_state (reconcile_live r cell) w = run_state
    (case err of
       Some e \<Rightarrow> State_Monad.return (c', no_outcome, Some e)
     | None \<Rightarrow>
         (case res of
            restartFired \<Rightarrow> persist_outcome r (hold_degraded (ce_Status cell) c') True
          | restartDeferred \<Rightarrow>
              let c2 = hold_degraded (ce_Status cell) c';
                  c3 = c2\<lparr>ce_Status := (ce_Status c2)\<lparr>ceT_ReadyObserved := ceT_ReadyObserved (ce_Status cell)\<rparr>\<rparr>
              in persist_outcome r c3 (status_changed (ce_Status cell) c3)
          | restartNone \<Rightarrow>
              if shouldAutoDeleteCell (ceS_AutoDelete (ce_Spec c')) ns (ceT_ReadyObserved (ce_Status c'))
              then autoDeleteCell r c'
              else if restartPolicyPermitsCellReap c' \<and> shouldWindDownCell c' ns
              then windDownCell r c'
              else persist_outcome r c' (status_changed (ce_Status cell) c'))) v'"
  using assms by (simp add: reconcile_live_def Let_def)

text \<open>When the restart pass owes nothing, the cell of the decision is the observed one and no wind-down is due.\<close>

lemma live_none:
  assumes obs: "run_state (reconcile_observe r cell) w = ((c, ns), v)"
    and pass: "run_state (maybeRestartExitedContainers r c) v = ((c', restartNone, None), v')"
  shows "c' = c" "\<not> (restartPolicyPermitsCellReap c \<and> shouldWindDownCell c ns)"
proof -
  from restart_pass_none(1)[OF pass] show eq: "c' = c" .
  show "\<not> (restartPolicyPermitsCellReap c \<and> shouldWindDownCell c ns)"
    using wind_down_dead[OF pass[unfolded eq]] observed(5)[OF obs] unfolding observed(1)[OF obs] by blast
qed

lemma no_reap_live:
  assumes "\<not> ceS_AutoDelete (ce_Spec cell)"
  shows "run_state (reconcile_live (other_reaper k d r) cell) w = run_state (reconcile_live r cell) w"
proof -
  obtain c ns v where obs: "run_state (reconcile_observe r cell) w = ((c, ns), v)" by (metis surj_pair)
  obtain c' res err v' where pass: "run_state (maybeRestartExitedContainers r c) v = ((c', res, err), v')" by (metis surj_pair)
  note run = live_run[of "other_reaper k d r" cell w, unfolded no_reap, OF obs pass] live_run[OF obs pass]
  show ?thesis
  proof (cases "err = None \<and> res = restartNone")
    case True
    then have none: "run_state (maybeRestartExitedContainers r c) v = ((c', restartNone, None), v')" using pass by simp
    have "\<not> shouldAutoDeleteCell (ceS_AutoDelete (ce_Spec c)) ns (ceT_ReadyObserved (ce_Status c))"
      using assms observed(1)[OF obs] by (simp add: shouldAutoDeleteCell_def)
    with True live_none(2)[OF obs none] show ?thesis unfolding run live_none(1)[OF obs none] by auto
  next
    case False
    then show ?thesis unfolding run by (cases err; cases res) simp_all
  qed
qed


text \<open>A cell on disk whose job exited: with the given policy and exit code.\<close>

definition demo_job_exec :: "32 word \<Rightarrow> gotime Exec" where
  "demo_job_exec code = demo_exec\<lparr>r_TaskStatus := (\<lambda>_ i h. (Inr
     (if i = ''s_t_web_root'' then \<lparr>tk_Status = Running, tk_ExitStatus = 0, tk_ExitTime = 0\<rparr>
      else \<lparr>tk_Status = Stopped, tk_ExitStatus = code, tk_ExitTime = 50\<rparr>), h))\<rparr>"

definition demo_stored :: "Cell \<Rightarrow> gotime world" where
  "demo_stored cell = demo_world\<lparr>w_fs := fst (UpdateCellMetadata (\<lambda>_ _. 0) [''run''] 1 cell (w_fs demo_world))\<rparr>"


section \<open>Deletion\<close>

text \<open>The workloads of a cell have all exited cleanly, and while the root container runs none of them is to be restarted.\<close>

definition workloads_done :: "Cell \<Rightarrow> bool" where
  "workloads_done c \<longleftrightarrow>
     list_all2 (\<lambda>spec st. st_ID st = cs_ID spec
       \<and> (cs_Root spec
          \<or> containerStateIsTerminal (st_State st) \<and> st_ExitCode st = 0
            \<and> (case findRootContainerSpec c of
                 Some root \<Rightarrow> rootContainerStillRunning (cs_ID root) (ceT_Containers (ce_Status c))
                   \<longrightarrow> \<not> restartPolicyRequiresRestart (cs_RestartPolicy spec) 0
               | None \<Rightarrow> True)))
       (ceS_Containers (ce_Spec c)) (ceT_Containers (ce_Status c))"

lemma latched_exited: "latchReadyObserved b s CellStateExited \<longleftrightarrow> b \<or> s \<in> {CellStateReady, CellStateDegraded}"
  by (auto simp: latchReadyObserved_def)

lemma exited_workloads_done:
  assumes obs: "run_state (reconcile_observe r cell) w = ((c, CellStateExited), v)"
    and pass: "run_state (maybeRestartExitedContainers r c) v = ((c', restartNone, None), v')"
    and latched: "ceT_ReadyObserved (ce_Status c)"
  shows "workloads_done c"
proof -
  let ?S = "ceS_Containers (ce_Spec c)" and ?T = "ceT_Containers (ce_Status c)"
  note c = observed(1)[OF obs]
  have ids: "map st_ID ?T = map cs_ID ?S" using observed(4)[OF obs] c by simp
  have clean: "containerStateIsTerminal (st_State s) \<and> st_ExitCode s = 0"
    if "spec \<in> set ?S" "\<not> cs_Root spec" "s \<in> set ?T" "st_ID s = cs_ID spec" for spec s
  proof -
    have "hasNonRootContainerSpec (ceS_Containers (ce_Spec cell))" using that c by (auto simp: hasNonRootContainerSpec_def list_ex_iff)
    from observed(5)[OF obs refl this] derived_exited that c show ?thesis by metis
  qed
  have quiet: "\<not> restartPolicyRequiresRestart (cs_RestartPolicy spec) 0"
    if spec: "spec \<in> set ?S" "\<not> cs_Root spec" "s \<in> set ?T" "st_ID s = cs_ID spec"
      and root: "findRootContainerSpec c = Some root" "rootContainerStillRunning (cs_ID root) ?T" for spec s root
  proof -
    from spec obtain st where st: "map_of (by_key st_ID ?T) (cs_ID spec) = Some st"
      using by_key_None_iff[of st_ID ?T "cs_ID spec"] by (metis image_eqI not_Some_eq)
    from clean[OF spec(1,2)] by_key_SomeD[OF st] have t: "containerStateIsTerminal (st_State st)" "st_ExitCode st = 0" by blast+
    from left_alone_no_reap[OF restart_pass_none(2)[OF pass latched root spec(1)] spec(2) st t]
    show ?thesis by (simp add: reap_is_restart t)
  qed
  show ?thesis unfolding workloads_done_def list_all2_conv_all_nth
  proof (intro conjI allI impI)
    show len: "length ?S = length ?T" using arg_cong[OF ids, of length] by simp
    fix i assume i: "i < length ?S"
    with len ids show id: "st_ID (?T ! i) = cs_ID (?S ! i)" by (metis nth_map)
    have m: "?S ! i \<in> set ?S" "?T ! i \<in> set ?T" using i len by simp_all
    show "cs_Root (?S ! i) \<or> containerStateIsTerminal (st_State (?T ! i)) \<and> st_ExitCode (?T ! i) = 0 \<and>
       (case findRootContainerSpec c of
          Some root \<Rightarrow> rootContainerStillRunning (cs_ID root) ?T \<longrightarrow> \<not> restartPolicyRequiresRestart (cs_RestartPolicy (?S ! i)) 0
        | None \<Rightarrow> True)"
      using clean[OF m(1) _ m(2) id] quiet[OF m(1) _ m(2) id] by (auto split: option.split)
  qed
qed

lemma persist_never_deletes: "run_state (persist_outcome r c u) w = ((c', oc, e), w') \<Longrightarrow> \<not> oc_Deleted oc"
  by (auto simp: persist_outcome_def no_outcome_def split: if_splits prod.splits sum.splits)

lemma autoDelete_cell: "run_state (autoDeleteCell r c) w = ((c', oc, e), w') \<Longrightarrow> c' = c"
  by (auto simp: autoDeleteCell_def split: prod.splits sum.splits)

lemma live_deleted:
  assumes run: "run_state (reconcile_live r cell) w = ((c, oc, e), w')" and del: "oc_Deleted oc"
  obtains v v' where "run_state (reconcile_observe r cell) w = ((c, CellStateExited), v)"
    "run_state (maybeRestartExitedContainers r c) v = ((c, restartNone, None), v')"
    "ceS_AutoDelete (ce_Spec c)" "ceT_ReadyObserved (ce_Status c)"
proof -
  obtain c1 ns v where obs: "run_state (reconcile_observe r cell) w = ((c1, ns), v)" by (metis surj_pair)
  obtain c' res err v' where pass: "run_state (maybeRestartExitedContainers r c1) v = ((c', res, err), v')" by (metis surj_pair)
  note run = run[unfolded live_run[OF obs pass]]
  have kept: "err = None \<and> res = restartNone"
    using run del by (cases err; cases res) (auto simp: no_outcome_def Let_def dest: persist_never_deletes)
  then have none: "run_state (maybeRestartExitedContainers r c1) v = ((c', restartNone, None), v')" using pass by simp
  note c' = live_none(1)[OF obs none]
  have auto: "shouldAutoDeleteCell (ceS_AutoDelete (ce_Spec c1)) ns (ceT_ReadyObserved (ce_Status c1))"
    using run kept del live_none(2)[OF obs none] unfolding c' by (auto split: if_splits dest: persist_never_deletes)
  with run kept have "run_state (autoDeleteCell r c1) v' = ((c, oc, e), w')" by (simp add: c')
  from autoDelete_cell[OF this] auto obs none c' that show ?thesis
    by (auto simp: shouldAutoDeleteCell_def cellStateAutoDeleteTriggers_def)
qed

lemma sticky_keeps:
  assumes "run_state (reconcile_sticky r cell) w = ((c, oc, e), w')"
  shows "\<not> oc_Deleted oc"
  using assms by (auto simp: reconcile_sticky_def Let_def split: prod.splits dest: persist_never_deletes)

text \<open>C35. When a reconcile pass reports the cell deleted, the cell asked for auto-deletion, was not in one of the sticky
  states Failed and Error, and had been ready or degraded before; it is now Exited,
  each of its workloads is observed to have exited with code 0, and, as long as the root container runs, none of
  them has a restart policy that would have it started again.\<close>

theorem reconcile_deletes_only_finished_cells:
  assumes "run_state (ReconcileCell r cell) w = ((c, oc, e), w')" "oc_Deleted oc"
  shows "ceS_AutoDelete (ce_Spec cell) \<and> \<not> cellStateIsSticky (ceT_State (ce_Status cell))
    \<and> (ceT_ReadyObserved (ce_Status cell) \<or> ceT_State (ce_Status cell) \<in> {CellStateReady, CellStateDegraded})
    \<and> ce_Spec c = ce_Spec cell \<and> ceT_State (ce_Status c) = CellStateExited \<and> workloads_done c"
proof -
  from assms obtain v where nsticky: "\<not> cellStateIsSticky (ceT_State (ce_Status cell))"
    and live: "run_state (reconcile_live r cell) v = ((c, oc, e), w')"
    by (auto simp: ReconcileCell_def no_outcome_def split: prod.splits if_splits dest: sticky_keeps)
  from live assms(2) obtain v1 v' where obs: "run_state (reconcile_observe r cell) v = ((c, CellStateExited), v1)"
    and pass: "run_state (maybeRestartExitedContainers r c) v1 = ((c, restartNone, None), v')"
    and auto: "ceS_AutoDelete (ce_Spec c)" "ceT_ReadyObserved (ce_Status c)" by (rule live_deleted)
  show ?thesis
    using nsticky auto observed(1-3)[OF obs] exited_workloads_done[OF obs pass auto(2)] by (simp add: latched_exited)
qed

definition demo_once_cell :: Cell where
  "demo_once_cell = (let cell = demo_live_cell ''never'' in cell\<lparr>ce_Spec := (ce_Spec cell)\<lparr>ceS_AutoDelete := True\<rparr>\<rparr>)"

theorem reconcile_deletes_only_finished_cells_witness:
  "oc_Deleted (fst (snd (fst (run_state (ReconcileCell (demo_job_exec 0) demo_once_cell) (demo_stored demo_once_cell)))))
   \<and> workloads_done (fst (fst (run_state (ReconcileCell (demo_job_exec 0) demo_once_cell) (demo_stored demo_once_cell))))"
proof
  show del: "oc_Deleted (fst (snd (fst (run_state (ReconcileCell (demo_job_exec 0) demo_once_cell) (demo_stored demo_once_cell)))))"
    by code_simp
  obtain c oc e w where run: "run_state (ReconcileCell (demo_job_exec 0) demo_once_cell) (demo_stored demo_once_cell) = ((c, oc, e), w)"
    by (metis surj_pair)
  from reconcile_deletes_only_finished_cells[OF run] del
  show "workloads_done (fst (fst (run_state (ReconcileCell (demo_job_exec 0) demo_once_cell) (demo_stored demo_once_cell))))"
    by (simp add: run)
qed

section \<open>How often a container is restarted\<close>

text \<open>
  What the restart pass reads of a cell, and what is assumed of the operations it calls: reading the clock
  launches nothing, and starting a container is one launch that leaves the bookkeeping of the pass and the
  part of the cell that the pass reads alone. \<open>launches h k\<close> counts the starts of the
  container with the key \<open>k\<close> on the host \<open>h\<close>.
\<close>

definition restart_view :: "Cell \<Rightarrow> string \<times> (string \<times> bool \<times> string \<times> int) list" where
  "restart_view cell =
     (cellLockKey (ceS_RealmName (ce_Spec cell)) (ceS_SpaceName (ce_Spec cell)) (ceS_StackName (ce_Spec cell)) (ceM_Name (ce_Metadata cell)),
      map (\<lambda>s. (cs_ID s, cs_Root s, cs_RestartPolicy s, effectiveOnFailureMaxRestarts s)) (ceS_Containers (ce_Spec cell)))"

definition counts_starts :: "('h \<Rightarrow> string \<Rightarrow> nat) \<Rightarrow> 'h Exec \<Rightarrow> bool" where
  "counts_starts launches r \<longleftrightarrow>
     (\<forall>h. launches (snd (r_nowUTC r h)) = launches h)
     \<and> (\<forall>cell i w x w'. run_state (r_StartContainer r cell i) w = (x, w') \<longrightarrow>
          w_restartStates w' = w_restartStates w
          \<and> launches (w_host w') = (launches (w_host w))(restartStateKey cell i := launches (w_host w) (restartStateKey cell i) + 1)
          \<and> (\<forall>c. x = Inr c \<longrightarrow> restart_view c = restart_view cell))"

lemma view_key: "restart_view c = restart_view cell \<Longrightarrow> restartStateKey c i = restartStateKey cell i"
  by (simp add: restart_view_def restartStateKey_def)

lemma key_eq_iff [simp]: "restartStateKey cell i = restartStateKey cell j \<longleftrightarrow> i = j"
  by (simp add: restartStateKey_def)

lemma view_stamp [simp]: "restart_view (stampContainerRestart c i now) = restart_view c"
  by (simp add: restart_view_def stampContainerRestart_def)

lemma view_nth:
  assumes "restart_view c = restart_view cell" "j < length (ceS_Containers (ce_Spec c))"
  obtains s where "s \<in> set (ceS_Containers (ce_Spec cell))" "cs_ID (ceS_Containers (ce_Spec c) ! j) = cs_ID s"
    "cs_RestartPolicy (ceS_Containers (ce_Spec c) ! j) = cs_RestartPolicy s"
    "effectiveOnFailureMaxRestarts (ceS_Containers (ce_Spec c) ! j) = effectiveOnFailureMaxRestarts s"
proof -
  let ?f = "\<lambda>s. (cs_ID s, cs_Root s, cs_RestartPolicy s, effectiveOnFailureMaxRestarts s)"
  have eq: "map ?f (ceS_Containers (ce_Spec c)) = map ?f (ceS_Containers (ce_Spec cell))" using assms(1) by (simp add: restart_view_def)
  have "length (ceS_Containers (ce_Spec c)) = length (ceS_Containers (ce_Spec cell))" using arg_cong[OF eq, of length] by simp
  with arg_cong[OF eq, of "\<lambda>xs. xs ! j"] assms(2) show ?thesis by (intro that[of "ceS_Containers (ce_Spec cell) ! j"]) simp_all
qed

lemma clock_run:
  assumes "counts_starts launches r" "run_state (nowUTC r) w = (t, w')"
  shows "w_restartStates w' = w_restartStates w" "launches (w_host w') = launches (w_host w)"
proof -
  obtain h where w': "r_nowUTC r (w_host w) = (t, h)" "w' = w\<lparr>w_host := h\<rparr>"
    using assms(2) by (auto simp: nowUTC_def split: prod.splits)
  from assms(1) have "launches (snd (r_nowUTC r (w_host w))) = launches (w_host w)" unfolding counts_starts_def by blast
  with w' show "w_restartStates w' = w_restartStates w" "launches (w_host w') = launches (w_host w)" by simp_all
qed

lemma start_run:
  assumes "counts_starts launches r" "run_state (restartContainer r cell i) w = (x, w')"
  shows "w_restartStates w' = w_restartStates w"
    "launches (w_host w') = (launches (w_host w))(restartStateKey cell i := launches (w_host w) (restartStateKey cell i) + 1)"
    "x = Inr c \<Longrightarrow> restart_view c = restart_view cell"
  using assms unfolding counts_starts_def restartContainer_def by blast+

lemma decision_run:
  assumes "counts_starts launches r" "run_state (restartDecisionFor r cell i policy b mx) w = (d, v)"
  obtains now where "d = restart_decision (map_of (w_restartStates w) (restartStateKey cell i)) policy b mx now"
    "w_restartStates v = w_restartStates w" "launches (w_host v) = launches (w_host w)"
proof -
  from assms(2) obtain now where "d = restart_decision (map_of (w_restartStates w) (restartStateKey cell i)) policy b mx now"
      "w_restartStates v = w_restartStates w" by (rule restartDecisionFor_run)
  moreover from assms(2) have "v = w \<or> (\<exists>t. run_state (nowUTC r) w = (t, v))"
    by (auto simp: restartDecisionFor_def Let_def split: option.splits if_splits prod.splits)
  with clock_run(2)[OF assms(1)] have "launches (w_host v) = launches (w_host w)" by auto
  ultimately show ?thesis by (rule that)
qed

lemma record_run:
  assumes "counts_starts launches r" "run_state (recordRestartAttempt r cell i) w = (u, w')"
  obtains now where "w_restartStates w' = map_put (restartStateKey cell i) \<lparr>cr_attempts =
      wrap64 ((case map_of (w_restartStates w) (restartStateKey cell i) of Some s \<Rightarrow> cr_attempts s | None \<Rightarrow> 0) + 1),
      cr_lastAttempt = now\<rparr> (w_restartStates w)"
    "launches (w_host w') = launches (w_host w)"
proof -
  obtain t v where t: "run_state (nowUTC r) w = (t, v)" by fastforce
  note clock = clock_run[OF assms(1) t]
  from assms(2) t clock show ?thesis
    by (intro that[of t]) (auto simp: recordRestartAttempt_def Let_def split: option.splits)
qed

lemma owed_run:
  fixes cell :: Cell and spec :: ContainerSpec
  defines "k \<equiv> restartStateKey cell (cs_ID spec)"
  assumes cs: "counts_starts launches r" and run: "run_state (restart_owed r spec cell x) w = ((c, x', e), w')"
  shows "restart_view c = restart_view cell"
    and "w_restartStates w' = w_restartStates w \<and> launches (w_host w') = launches (w_host w)
      \<or> (\<exists>now now'. restart_decision (map_of (w_restartStates w) k) (cs_RestartPolicy spec) (effectiveRestartBackoff spec)
            (effectiveOnFailureMaxRestarts spec) now = restartFired
          \<and> w_restartStates w' = map_put k \<lparr>cr_attempts = wrap64 ((case map_of (w_restartStates w) k of
              Some s \<Rightarrow> cr_attempts s | None \<Rightarrow> 0) + 1), cr_lastAttempt = now'\<rparr> (w_restartStates w)
          \<and> launches (w_host w') = (launches (w_host w))(k := launches (w_host w) k + 1))"
proof -
  obtain d v where d: "run_state (restartDecisionFor r cell (cs_ID spec) (cs_RestartPolicy spec)
      (effectiveRestartBackoff spec) (effectiveOnFailureMaxRestarts spec)) w = (d, v)" by fastforce
  obtain now where now: "d = restart_decision (map_of (w_restartStates w) k) (cs_RestartPolicy spec)
      (effectiveRestartBackoff spec) (effectiveOnFailureMaxRestarts spec) now"
    and v: "w_restartStates v = w_restartStates w" "launches (w_host v) = launches (w_host w)"
    using decision_run[OF cs d] unfolding k_def by blast
  have "restart_view c = restart_view cell \<and> (w_restartStates w' = w_restartStates w \<and> launches (w_host w') = launches (w_host w)
      \<or> (\<exists>now'. d = restartFired \<and> w_restartStates w' = map_put k \<lparr>cr_attempts = wrap64 ((case map_of (w_restartStates w) k of
              Some s \<Rightarrow> cr_attempts s | None \<Rightarrow> 0) + 1), cr_lastAttempt = now'\<rparr> (w_restartStates w)
          \<and> launches (w_host w') = (launches (w_host w))(k := launches (w_host w) k + 1)))"
  proof (cases "d = restartFired")
    case False
    with run d have "c = cell \<and> w' = v" unfolding restart_owed_def by (cases d) auto
    with v show ?thesis by simp
  next
    case True
    obtain y v1 where y: "run_state (restartContainer r cell (cs_ID spec)) v = (y, v1)" by fastforce
    obtain u v2 where u: "run_state (recordRestartAttempt r cell (cs_ID spec)) v1 = (u, v2)" by (metis surj_pair)
    note start = start_run[OF cs y, folded k_def]
    obtain now' where rec: "w_restartStates v2 = map_put k \<lparr>cr_attempts = wrap64 ((case map_of (w_restartStates v1) k of
              Some s \<Rightarrow> cr_attempts s | None \<Rightarrow> 0) + 1), cr_lastAttempt = now'\<rparr> (w_restartStates v1)"
      "launches (w_host v2) = launches (w_host v1)" using record_run[OF cs u] unfolding k_def by blast
    obtain t v3 where t: "run_state (nowUTC r) v2 = (t, v3)" by fastforce
    note clock = clock_run[OF cs t]
    have fin: "w_restartStates w' = w_restartStates v2 \<and> launches (w_host w') = launches (w_host v2) \<and> restart_view c = restart_view cell"
      using run d True y u t clock start(3) unfolding restart_owed_def by (cases y) auto
    show ?thesis using fin rec start(1,2) v True by auto
  qed
  with now show "restart_view c = restart_view cell" "w_restartStates w' = w_restartStates w \<and> launches (w_host w') = launches (w_host w)
      \<or> (\<exists>now now'. restart_decision (map_of (w_restartStates w) k) (cs_RestartPolicy spec) (effectiveRestartBackoff spec)
            (effectiveOnFailureMaxRestarts spec) now = restartFired
          \<and> w_restartStates w' = map_put k \<lparr>cr_attempts = wrap64 ((case map_of (w_restartStates w) k of
              Some s \<Rightarrow> cr_attempts s | None \<Rightarrow> 0) + 1), cr_lastAttempt = now'\<rparr> (w_restartStates w)
          \<and> launches (w_host w') = (launches (w_host w))(k := launches (w_host w) k + 1))" by metis+
qed

text \<open>The bookkeeping of a container counts its launches since it was last seen running, up to the cap.\<close>

definition retried :: "('h \<Rightarrow> string \<Rightarrow> nat) \<Rightarrow> string \<Rightarrow> nat \<Rightarrow> int \<Rightarrow> 'h world \<Rightarrow> bool" where
  "retried launches k base n w \<longleftrightarrow>
     (case map_of (w_restartStates w) k of
        None \<Rightarrow> launches (w_host w) k = base
      | Some st \<Rightarrow> 1 \<le> cr_attempts st \<and> cr_attempts st \<le> n \<and> int (launches (w_host w) k) = int base + cr_attempts st)"

lemma retried_bound: "retried launches k base n w \<Longrightarrow> 1 \<le> n \<Longrightarrow> int (launches (w_host w) k) \<le> int base + n"
  by (auto simp: retried_def split: option.splits)

lemma retried_cong:
  assumes "map_of (w_restartStates w') k = map_of (w_restartStates w) k" "launches (w_host w') k = launches (w_host w) k"
  shows "retried launches k base n w' = retried launches k base n w"
  unfolding retried_def assms ..

lemma retried_owed:
  assumes cs: "counts_starts launches r" and run: "run_state (restart_owed r spec cell x) w = ((c, x', e), w')"
    and inv: "retried launches (restartStateKey cell i) base n w" and n: "1 \<le> n" "n < 2 ^ 63"
    and spec: "cs_ID spec = i \<Longrightarrow> cs_RestartPolicy spec = RestartPolicyOnFailure \<and> effectiveOnFailureMaxRestarts spec = n"
  shows "retried launches (restartStateKey cell i) base n w'"
proof (cases "cs_ID spec = i")
  case False
  then show ?thesis using owed_run(2)[OF cs run] inv by (subst retried_cong[of w' _ w]) auto
next
  case True
  then have key: "restartStateKey cell (cs_ID spec) = restartStateKey cell i" by simp
  from owed_run(2)[OF cs run, unfolded key] show ?thesis
  proof (elim disjE exE conjE)
    assume "w_restartStates w' = w_restartStates w" "launches (w_host w') = launches (w_host w)"
    with inv show ?thesis by (subst retried_cong[of w' _ w]) simp_all
  next
    fix now now'
    assume "restart_decision (map_of (w_restartStates w) (restartStateKey cell i)) (cs_RestartPolicy spec) (effectiveRestartBackoff spec)
        (effectiveOnFailureMaxRestarts spec) now = restartFired"
      and "w_restartStates w' = map_put (restartStateKey cell i) \<lparr>cr_attempts = wrap64 ((case map_of (w_restartStates w) (restartStateKey cell i) of
              Some s \<Rightarrow> cr_attempts s | None \<Rightarrow> 0) + 1), cr_lastAttempt = now'\<rparr> (w_restartStates w)"
      and "launches (w_host w') = (launches (w_host w))(restartStateKey cell i := launches (w_host w) (restartStateKey cell i) + 1)"
    with inv n spec[OF True] show ?thesis
      by (cases "map_of (w_restartStates w) (restartStateKey cell i)")
        (auto simp: retried_def restart_decision_def wrap64_id split: if_splits)
  qed
qed

lemma map_of_without: "map_of (filter (\<lambda>(k', _). k' \<noteq> k) m) = (map_of m)(k := None)"
  by (induction m) (auto simp: fun_eq_iff)

lemma clear_run:
  "run_state (clearRestartState cell j) w = ((), w') \<Longrightarrow> w_host w' = w_host w
     \<and> map_of (w_restartStates w') = (map_of (w_restartStates w))(restartStateKey cell j := None)"
  by (auto simp: clearRestartState_def map_of_without)

lemma retried_one:
  assumes cs: "counts_starts launches r" and run: "run_state (restart_one r m spec cell x) w = ((c, x', e), w')"
    and inv: "retried launches (restartStateKey cell i) base n w" and n: "1 \<le> n" "n < 2 ^ 63"
    and spec: "cs_ID spec = i \<Longrightarrow> cs_RestartPolicy spec = RestartPolicyOnFailure \<and> effectiveOnFailureMaxRestarts spec = n"
    and down: "\<And>st. map_of m i = Some st \<Longrightarrow> containerStateIsTerminal (st_State st)"
  shows "retried launches (restartStateKey cell i) base n w' \<and> restart_view c = restart_view cell"
proof -
  let ?owed = "\<lambda>st. \<not> cs_Root spec \<and> map_of m (cs_ID spec) = Some st \<and> containerStateIsTerminal (st_State st)
    \<and> restartPolicyRequiresRestart (cs_RestartPolicy spec) (st_ExitCode st)"
  consider (owed) st where "?owed st"
    | (running) st where "\<not> cs_Root spec" "map_of m (cs_ID spec) = Some st" "\<not> containerStateIsTerminal (st_State st)"
    | (idle) "restart_one r m spec cell x = State_Monad.return (cell, x, None)"
    using restart_one_cases(1)[of spec r m cell x] restart_one_cases(2)[of m spec r cell x] restart_one_cases(4)[of m spec _ r cell x] by (metis (no_types) option.exhaust)
  then show ?thesis
  proof cases
    case owed
    then have "run_state (restart_owed r spec cell x) w = ((c, x', e), w')" using run restart_one_cases(5) by metis
    from retried_owed[OF cs this inv n spec] owed_run(1)[OF cs this] show ?thesis by blast
  next
    case running
    then have "cs_ID spec \<noteq> i" using down by blast
    moreover have "run_state (clearRestartState cell (cs_ID spec)) w = ((), w') \<and> c = cell"
      using run unfolding restart_one_cases(3)[OF running] by (auto split: prod.splits)
    ultimately show ?thesis using clear_run[of cell "cs_ID spec" w w'] inv by (simp add: retried_cong[of w' _ w])
  next
    case idle
    with run inv show ?thesis by simp
  qed
qed

lemma retried_loop:
  assumes cs: "counts_starts launches r" and n: "1 \<le> n" "n < 2 ^ 63"
    and specs: "\<forall>spec\<in>set (ceS_Containers (ce_Spec cell)). cs_ID spec = i \<longrightarrow>
      cs_RestartPolicy spec = RestartPolicyOnFailure \<and> effectiveOnFailureMaxRestarts spec = n"
    and down: "\<And>st. map_of m i = Some st \<Longrightarrow> containerStateIsTerminal (st_State st)"
  shows "run_state (restart_loop r m js c x) w = ((c', x', e), w') \<Longrightarrow> restart_view c = restart_view cell \<Longrightarrow>
    retried launches (restartStateKey cell i) base n w \<Longrightarrow> retried launches (restartStateKey cell i) base n w'"
proof (induction js arbitrary: c x w)
  case (Cons j js)
  show ?case
  proof (cases "j < length (ceS_Containers (ce_Spec c))")
    case False
    with Cons.prems(1,3) show ?thesis by simp
  next
    case True
    let ?s = "ceS_Containers (ce_Spec c) ! j"
    obtain c1 x1 e1 v where one: "run_state (restart_one r m ?s c x) w = ((c1, x1, e1), v)" by (metis surj_pair)
    have key: "restartStateKey c i = restartStateKey cell i" using Cons.prems(2) by (rule view_key)
    have "cs_ID ?s = i \<Longrightarrow> cs_RestartPolicy ?s = RestartPolicyOnFailure \<and> effectiveOnFailureMaxRestarts ?s = n"
      using specs by (rule_tac view_nth[OF Cons.prems(2) True]) auto
    from retried_one[OF cs one Cons.prems(3)[folded key] n this down]
    have v: "retried launches (restartStateKey cell i) base n v" "restart_view c1 = restart_view cell"
      using key Cons.prems(2) by simp_all
    show ?thesis
    proof (cases e1)
      case None
      with Cons.prems(1) one True have "run_state (restart_loop r m js c1 x1) v = ((c', x', e), w')" by simp
      from Cons.IH[OF this v(2,1)] show ?thesis .
    next
      case (Some a)
      with Cons.prems(1) one True v show ?thesis by simp
    qed
  qed
qed simp

lemma retried_pass:
  assumes "counts_starts launches r" "1 \<le> n" "n < 2 ^ 63"
    and specs: "\<forall>spec\<in>set (ceS_Containers (ce_Spec cell)). cs_ID spec = i \<longrightarrow>
      cs_RestartPolicy spec = RestartPolicyOnFailure \<and> effectiveOnFailureMaxRestarts spec = n"
    and down: "\<forall>st\<in>set (ceT_Containers (ce_Status cell)). st_ID st = i \<longrightarrow> containerStateIsTerminal (st_State st)"
    and run: "run_state (maybeRestartExitedContainers r cell) w = (out, w')"
    and inv: "retried launches (restartStateKey cell i) base n w"
  shows "retried launches (restartStateKey cell i) base n w'"
proof -
  obtain c x e where out: "out = (c, x, e)" by (metis surj_pair)
  let ?m = "by_key st_ID (ceT_Containers (ce_Status cell))"
  have "\<And>st. map_of ?m i = Some st \<Longrightarrow> containerStateIsTerminal (st_State st)" using down by_key_SomeD by metis
  from retried_loop[OF assms(1-4) this] run inv show ?thesis
    unfolding out maybeRestartExitedContainers_def by (auto split: if_splits)
qed

text \<open>
  A run of restart passes over a cell, as the reconcile loop makes them: the statuses may differ from pass to pass,
  but container \<open>i\<close> is never seen running. Between two passes anything may happen that neither
  launches the container nor touches its bookkeeping.
\<close>

inductive crash_loop :: "('h \<Rightarrow> string \<Rightarrow> nat) \<Rightarrow> 'h Exec \<Rightarrow> Cell \<Rightarrow> string \<Rightarrow> 'h world \<Rightarrow> 'h world \<Rightarrow> bool"
  for launches r cell i w where
  crash_start: "crash_loop launches r cell i w w"
| crash_pass: "crash_loop launches r cell i w v \<Longrightarrow>
    list_all (\<lambda>st. st_ID st \<noteq> i \<or> containerStateIsTerminal (st_State st)) (ceT_Containers status) \<Longrightarrow>
    crash_loop launches r cell i w (snd (run_state (maybeRestartExitedContainers r (cell\<lparr>ce_Status := status\<rparr>)) v))"
| crash_else: "crash_loop launches r cell i w v \<Longrightarrow> launches (w_host v') = launches (w_host v) \<Longrightarrow>
    w_restartStates v' = w_restartStates v \<Longrightarrow> crash_loop launches r cell i w v'"

lemma crash_retried:
  assumes "counts_starts launches r" "1 \<le> n" "n < 2 ^ 63"
    and specs: "\<forall>spec\<in>set (ceS_Containers (ce_Spec cell)). cs_ID spec = i \<longrightarrow>
      cs_RestartPolicy spec = RestartPolicyOnFailure \<and> effectiveOnFailureMaxRestarts spec = n"
    and "crash_loop launches r cell i w v" and start: "retried launches (restartStateKey cell i) base n w"
  shows "retried launches (restartStateKey cell i) base n v"
  using assms(5)
proof induction
  case (crash_pass v status)
  let ?cell = "cell\<lparr>ce_Status := status\<rparr>"
  have key: "restartStateKey ?cell i = restartStateKey cell i" by (simp add: restartStateKey_def)
  have "\<forall>st\<in>set (ceT_Containers (ce_Status ?cell)). st_ID st = i \<longrightarrow> containerStateIsTerminal (st_State st)"
    using crash_pass(2) by (auto simp: list_all_iff)
  from retried_pass[OF assms(1-3) _ this surjective_pairing, unfolded key] specs crash_pass(3) show ?case by simp
next
  case (crash_else v v')
  then show ?case by (subst retried_cong[of v' _ v]) simp_all
qed (rule start)


text \<open>A host that keeps the clock and the list of the launches.\<close>

definition demo_counter :: "(gotime \<times> string list) Exec" where
  "demo_counter = \<lparr>r_RunPath = [''run''], r_ContainerdSocket = [''sock''], r_RealmNamespaceSuffix = ''.kukeon.io'',
     r_KukeonCgroupRoot = ''/kukeon'', r_address = (\<lambda>_ _. 0), r_sha256 = (\<lambda>s. s),
     r_SignalName = (\<lambda>_. ''''), r_nowUTC = (\<lambda>(t, l). (t, (t + 60 * time_Second, l))),
     r_Connect = (\<lambda>h. (Inr (), h)), r_ExistsNamespace = (\<lambda>_ h. (Inr True, h)), r_CreateNamespace = (\<lambda>_ h. (Inr (), h)),
     r_ListNamespaces = (\<lambda>h. (Inr None, h)), r_ExistsContainer = (\<lambda>_ _ h. (Inr True, h)),
     r_TaskStatus = (\<lambda>_ _ h. (Inr \<lparr>tk_Status = Stopped, tk_ExitStatus = 1, tk_ExitTime = 50\<rparr>, h)),
     r_pullSetupStatus = (\<lambda>_ h. (Inl ErrIO, h)), r_GetCgroupMountpoint = (\<lambda>h. (''/sys/fs/cgroup'', h)),
     r_LoadCgroup = (\<lambda>_ _ h. (Inr (), h)), r_NewCgroup = (\<lambda>_ _ h. (Inr True, h)),
     r_EnsureSubtreeControllers = (\<lambda>_ _ _ h. (Inr None, h)),
     r_EnableCellSubtreeControllers = (\<lambda>_ _ _ h. (Inr None, h)),
     r_EnableCellAllSubtreeControllers = (\<lambda>_ _ h. (Inr None, h)),
     r_StartContainer = (\<lambda>cell i. do {
       w \<leftarrow> State_Monad.get;
       _ \<leftarrow> State_Monad.set (w\<lparr>w_host := (fst (w_host w), restartStateKey cell i # snd (w_host w))\<rparr>);
       give cell }),
     r_killCellLocked = give, r_deleteCellLocked = (\<lambda>_. give ())\<rparr>"

definition demo_launches :: "gotime \<times> string list \<Rightarrow> string \<Rightarrow> nat" where
  "demo_launches h k = length (filter (\<lambda>k'. k' = k) (snd h))"

lemma demo_counts: "counts_starts demo_launches demo_counter"
  by (auto simp: counts_starts_def demo_counter_def demo_launches_def give_def fun_eq_iff split: prod.splits)

definition demo_crasher :: Cell where
  "demo_crasher = (let cell = demo_live_cell ''on-failure'' in
     cell\<lparr>ce_Spec := (ce_Spec cell)\<lparr>ceS_Containers := [zeroContainerSpec\<lparr>cs_ID := ''root'', cs_Root := True\<rparr>,
       (demo_workload ''job'' ''on-failure'')\<lparr>cs_RestartMaxRetries := Some 2\<rparr>]\<rparr>\<rparr>)"

definition demo_crashed :: CellStatus where
  "demo_crashed = zeroCellStatus\<lparr>ceT_State := CellStateDegraded, ceT_ReadyObserved := True,
     ceT_Containers := [demo_status ''root'' ContainerStateReady 0, demo_status ''job'' ContainerStateError 1]\<rparr>"

fun demo_passes :: "nat \<Rightarrow> (gotime \<times> string list) world" where
  "demo_passes 0 = \<lparr>w_fs = empty_fs, w_restartStates = [], w_host = (100, [])\<rparr>"
| "demo_passes (Suc n) = snd (run_state (maybeRestartExitedContainers demo_counter (demo_crasher\<lparr>ce_Status := demo_crashed\<rparr>)) (demo_passes n))"


end
