(* ===== verification/Spec2Isabelle.thy ===== *)
theory Spec2Isabelle
  imports Subnet State_Labels Naming Apply_Diff Spec_Hash Cell_Lock Api_Scheme Api_Json Volume_Reclaim Reconcile_Safety
begin

text \<open>
  A verification library for kukeon, a daemon that runs cells (groups of containers on containerd)
  inside a hierarchy of realms, spaces and stacks.
\<close>

end
